(* ===== verification/Prelude.thy ===== *)
theory Prelude
  imports Main "HOL-Library.Sublist" "HOL-Library.Word" "HOL-Library.Monad_Syntax"
begin

text \<open>
  Vocabulary shared by every component: the outcome of a Go call (a value, an error value, or a
  panic), two's-complement wrap-around of \<open>int64\<close> arithmetic, the functions of the Go packages
  \<open>strings\<close> and \<open>strconv\<close> the sources call, and the lemma collections the component
  proofs share.

  Strings are byte lists, as in Go. Times are integers (nanoseconds); the zero
  \<open>time.Time\<close> is represented by \<open>None\<close> where the code tests \<open>IsZero\<close>.
\<close>

named_theorems go_defs \<open>definitions of the string and integer vocabulary\<close>
named_theorems lock_simps \<open>one-step behaviour of the locks\<close>
named_theorems keeps_intros \<open>operations that keep a property of the state\<close>
named_theorems frame_simps \<open>fields an operation leaves alone\<close>

section \<open>Outcomes\<close>

datatype ('e, 'a) outcome = Ok 'a | Err 'e | Panic

definition is_ok :: "('e, 'a) outcome \<Rightarrow> bool" where
  "is_ok r \<longleftrightarrow> (case r of Ok _ \<Rightarrow> True | _ \<Rightarrow> False)"

lemma is_ok_simps [simp]: "is_ok (Ok a)" "\<not> is_ok (Err e)" "\<not> is_ok Panic"
  by (simp_all add: is_ok_def)

lemma outcome_case_distrib: "h (case r of Ok a \<Rightarrow> f a | Err e \<Rightarrow> g e | Panic \<Rightarrow> p) =
    (case r of Ok a \<Rightarrow> h (f a) | Err e \<Rightarrow> h (g e) | Panic \<Rightarrow> h p)"
  by (cases r) simp_all

section \<open>Signed 64-bit integers\<close>

text \<open>An \<open>int64\<close> is an integer of the range below; \<open>+\<close>, \<open>-\<close> and \<open>*\<close> wrap around.\<close>

definition in_i64 :: "int \<Rightarrow> bool" where
  "in_i64 x \<longleftrightarrow> - (2 ^ 63) \<le> x \<and> x < 2 ^ 63"

definition wrap64 :: "int \<Rightarrow> int" where
  "wrap64 x = (x + 2 ^ 63) mod 2 ^ 64 - 2 ^ 63"

lemma wrap64_id [simp]: "in_i64 x \<Longrightarrow> wrap64 x = x"
  by (simp add: in_i64_def wrap64_def)

lemma in_i64_wrap64 [simp]: "in_i64 (wrap64 x)"
proof -
  have "0 \<le> (x + 2 ^ 63) mod 2 ^ 64" "(x + 2 ^ 63) mod 2 ^ 64 < 2 ^ 64"
    by simp_all
  then show ?thesis
    by (simp add: in_i64_def wrap64_def)
qed

lemma in_i64_nonneg: "0 \<le> x \<Longrightarrow> x < 2 ^ 63 \<Longrightarrow> in_i64 x"
  by (simp add: in_i64_def)

lemma wrap64_mono_nonneg: "0 \<le> x \<Longrightarrow> x < 2 ^ 63 \<Longrightarrow> wrap64 x = x"
  by (simp add: in_i64_nonneg)

lemma wrap64_overflow:
  assumes "2 ^ 63 \<le> x" "x < 2 ^ 64"
  shows "wrap64 x = x - 2 ^ 64"
proof -
  have "(x + 2 ^ 63) mod 2 ^ 64 = x + 2 ^ 63 - 2 ^ 64"
    using assms by (subst minus_mod_self2 [symmetric]) simp
  then show ?thesis
    by (simp add: wrap64_def)
qed

section \<open>Package strings\<close>

abbreviation HasPrefix :: "string \<Rightarrow> string \<Rightarrow> bool" where
  "HasPrefix s p \<equiv> prefix p s"

abbreviation HasSuffix :: "string \<Rightarrow> string \<Rightarrow> bool" where
  "HasSuffix s p \<equiv> suffix p s"

definition TrimPrefix :: "string \<Rightarrow> string \<Rightarrow> string" where
  [go_defs]: "TrimPrefix s p = (if HasPrefix s p then drop (length p) s else s)"

definition TrimSuffix :: "string \<Rightarrow> string \<Rightarrow> string" where
  [go_defs]: "TrimSuffix s p = (if HasSuffix s p then take (length s - length p) s else s)"

lemma TrimPrefix_append [simp]: "TrimPrefix (p @ s) p = s"
  by (simp add: TrimPrefix_def)

lemma TrimSuffix_append [simp]: "TrimSuffix (s @ p) p = s"
  by (simp add: TrimSuffix_def suffix_def)

lemma TrimSuffix_idle: "\<not> HasSuffix s p \<Longrightarrow> TrimSuffix s p = s"
  by (simp add: TrimSuffix_def)

lemma TrimPrefix_idle: "\<not> HasPrefix s p \<Longrightarrow> TrimPrefix s p = s"
  by (simp add: TrimPrefix_def)

text \<open>\<open>strings.Split\<close> on a one-byte separator, and \<open>strings.Join\<close>.\<close>

fun split_on :: "char \<Rightarrow> string \<Rightarrow> string list" where
  "split_on c [] = [[]]"
| "split_on c (x # xs) =
     (if x = c then [] # split_on c xs
      else (case split_on c xs of [] \<Rightarrow> [[x]] | w # ws \<Rightarrow> (x # w) # ws))"

fun join_with :: "string \<Rightarrow> string list \<Rightarrow> string" where
  "join_with s [] = []"
| "join_with s [w] = w"
| "join_with s (w # v # ws) = w @ s @ join_with s (v # ws)"

lemma split_on_not_Nil [simp]: "split_on c xs \<noteq> []"
  by (induction xs) (auto split: list.splits)

lemma split_on_no_sep: "w \<in> set (split_on c xs) \<Longrightarrow> c \<notin> set w"
  by (induction xs arbitrary: w) (auto split: list.splits if_splits)

lemma split_on_single: "c \<notin> set xs \<Longrightarrow> split_on c xs = [xs]"
  by (induction xs) auto

lemma split_on_append_sep: "c \<notin> set w \<Longrightarrow> split_on c (w @ c # xs) = w # split_on c xs"
  by (induction w) auto

lemma join_split: "join_with [c] (split_on c xs) = xs"
proof (induction xs)
  case (Cons x xs)
  then show ?case
    by (cases "split_on c xs"; cases "tl (split_on c xs)") auto
qed simp

lemma split_join:
  "ws \<noteq> [] \<Longrightarrow> \<forall>w \<in> set ws. c \<notin> set w \<Longrightarrow> split_on c (join_with [c] ws) = ws"
  by (induction "[c]" ws rule: join_with.induct) (auto simp: split_on_single split_on_append_sep)

text \<open>\<open>strings.SplitN\<close> with a one-byte separator and at most two parts.\<close>

definition SplitN2 :: "char \<Rightarrow> string \<Rightarrow> string list" where
  "SplitN2 c s =
     (if c \<in> set s then [takeWhile (\<lambda>x. x \<noteq> c) s, tl (dropWhile (\<lambda>x. x \<noteq> c) s)] else [s])"

lemma SplitN2_join: "c \<in> set s \<Longrightarrow> SplitN2 c s = [a, b] \<Longrightarrow> s = a @ c # b"
  by (auto simp: SplitN2_def)
     (metis (mono_tags, lifting) dropWhile_eq_Nil_conv hd_dropWhile list.collapse takeWhile_dropWhile_id)

text \<open>Decimal rendering of non-negative and signed integers (\<open>strconv.Itoa\<close>).\<close>

definition digit_char :: "nat \<Rightarrow> char" where
  "digit_char d = char_of (48 + d)"

fun nat_digits :: "nat \<Rightarrow> string" where
  "nat_digits n = (if n < 10 then [digit_char n] else nat_digits (n div 10) @ [digit_char (n mod 10)])"

declare nat_digits.simps [simp del]

definition Itoa :: "int \<Rightarrow> string" where
  "Itoa i = (if i < 0 then CHR ''-'' # nat_digits (nat (- i)) else nat_digits (nat i))"

lemma nat_digits_not_Nil [simp]: "nat_digits n \<noteq> []"
  by (subst nat_digits.simps) simp

lemma digit_char_inj: "a < 10 \<Longrightarrow> b < 10 \<Longrightarrow> digit_char a = digit_char b \<Longrightarrow> a = b"
  by (simp add: digit_char_def char_of_eq_iff take_bit_nat_eq_self)

lemma nat_digits_not_Nil' [simp]: "[] \<noteq> nat_digits n"
  by (metis nat_digits_not_Nil)

lemma nat_digits_inj: "nat_digits m = nat_digits n \<Longrightarrow> m = n"
proof (induction m arbitrary: n rule: nat_digits.induct)
  case (1 m)
  show ?case
  proof (cases "m < 10"; cases "n < 10")
    assume "m < 10" "n < 10"
    with "1.prems" show ?thesis
      by (simp add: nat_digits.simps [of m] nat_digits.simps [of n] digit_char_inj)
  next
    assume "m < 10" "\<not> n < 10"
    with "1.prems" show ?thesis
      by (simp add: nat_digits.simps [of m] nat_digits.simps [of n])
  next
    assume "\<not> m < 10" "n < 10"
    with "1.prems" show ?thesis
      by (simp add: nat_digits.simps [of m] nat_digits.simps [of n])
  next
    assume big: "\<not> m < 10" "\<not> n < 10"
    with "1.prems" have "nat_digits (m div 10) = nat_digits (n div 10)"
      and "digit_char (m mod 10) = digit_char (n mod 10)"
      by (simp_all add: nat_digits.simps [of m] nat_digits.simps [of n])
    with "1.IH" big have "m div 10 = n div 10" "m mod 10 = n mod 10"
      by (auto intro: digit_char_inj)
    then show ?thesis by (metis div_mult_mod_eq)
  qed
qed

section \<open>Lists\<close>

definition remove_at :: "nat \<Rightarrow> 'a list \<Rightarrow> 'a list" where
  "remove_at i xs = take i xs @ drop (Suc i) xs"

lemma map_filter_id: "(\<And>x. x \<in> set xs \<Longrightarrow> P x) \<Longrightarrow> filter P xs = xs"
  by (induction xs) auto

lemma filter_out_absent [simp]: "x \<notin> set xs \<Longrightarrow> filter (\<lambda>c. c \<noteq> x) xs = xs"
  by (induction xs) auto

lemma distinct_filter_filter: "distinct (filter P xs) \<Longrightarrow> distinct (filter P (filter Q xs))"
  by (induction xs) auto

lemma takeWhile_to_sep: "c \<notin> set t \<Longrightarrow> takeWhile (\<lambda>x. x \<noteq> c) (t @ c # ns) = t"
  by (induction t) auto

lemma dropWhile_to_sep: "c \<notin> set t \<Longrightarrow> dropWhile (\<lambda>x. x \<noteq> c) (t @ c # ns) = c # ns"
  by (induction t) auto

lemma remove1_id: "x \<notin> set xs \<Longrightarrow> remove1 x xs = xs"
  by (induction xs) auto

end
