(* ===== verification/Locks.thy ===== *)
theory Locks
  imports Prelude
begin

text \<open>
  The locks of \<open>wings/system\<close>: the channel-based \<open>Locker\<close> that guards power actions, the
  \<open>AtomicBool\<close> whose \<open>SwapIf\<close> guards cron jobs and installations, the fixed-window
  \<open>Rate\<close> limiter, and the \<open>ConsoleThrottle\<close> of \<open>wings/server/console.go\<close> built from a
  \<open>Rate\<close> and a \<open>Locker\<close>. The locale \<open>try_lock\<close> states what their users rely on.
\<close>

section \<open>Locker\<close>

text \<open>
  The Go \<open>Locker\<close> is a channel of capacity one: \<open>lk_len\<close> is \<open>len(l.ch)\<close>, \<open>lk_closed\<close> whether
  \<open>Destroy\<close> closed it. Sending on a closed channel panics, and so does closing it twice.
\<close>

datatype lock_err = ErrLockerLocked

record locker =
  lk_len :: nat
  lk_closed :: bool

definition NewLocker :: locker where
  "NewLocker = \<lparr>lk_len = 0, lk_closed = False\<rparr>"

definition IsLocked :: "locker \<Rightarrow> bool" where
  "IsLocked l \<longleftrightarrow> lk_len l = 1"

definition Acquire :: "locker \<Rightarrow> (lock_err, unit) outcome \<times> locker" where
  "Acquire l =
     (if lk_closed l then (Panic, l)
      else if lk_len l < 1 then (Ok (), l\<lparr>lk_len := lk_len l + 1\<rparr>)
      else (Err ErrLockerLocked, l))"

definition Release :: "locker \<Rightarrow> locker" where
  "Release l = (if 0 < lk_len l then l\<lparr>lk_len := lk_len l - 1\<rparr> else l)"

definition Destroy :: "locker \<Rightarrow> (lock_err, unit) outcome \<times> locker" where
  "Destroy l =
     (let l' = (if 0 < lk_len l then l\<lparr>lk_len := lk_len l - 1\<rparr> else l)
      in if lk_closed l' then (Panic, l') else (Ok (), l'\<lparr>lk_closed := True\<rparr>))"

text \<open>
  \<open>TryAcquire\<close> selects between the send and \<open>ctx.Done()\<close>. Which of two ready cases Go takes is
  not determined, so it is a relation; the first argument is \<open>ctx.Err()\<close> once \<open>Done\<close> fires.
\<close>

datatype ctx_err = DeadlineExceeded | Canceled | OtherCtxErr

inductive TryAcquire ::
  "ctx_err option \<Rightarrow> locker \<Rightarrow> (lock_err, unit) outcome \<Rightarrow> locker \<Rightarrow> bool" where
  sent: "\<not> lk_closed l \<Longrightarrow> lk_len l < 1 \<Longrightarrow>
    TryAcquire e l (Ok ()) (l\<lparr>lk_len := lk_len l + 1\<rparr>)"
| closed: "lk_closed l \<Longrightarrow> TryAcquire e l Panic l"
| expired: "e = Some DeadlineExceeded \<or> e = Some Canceled \<Longrightarrow>
    TryAcquire e l (Err ErrLockerLocked) l"
| done_other: "e \<noteq> Some DeadlineExceeded \<Longrightarrow> e \<noteq> Some Canceled \<Longrightarrow> TryAcquire e l (Ok ()) l"

code_pred (modes: i \<Rightarrow> i \<Rightarrow> o \<Rightarrow> o \<Rightarrow> bool) TryAcquire .

inductive_cases TryAcquire_okE: "TryAcquire e l (Ok u) l'"
inductive_cases TryAcquire_errE: "TryAcquire e l (Err x) l'"
inductive_cases TryAcquire_E: "TryAcquire e l r l'"

text \<open>The states a locker can be in before it is destroyed.\<close>

definition locker_ok :: "locker \<Rightarrow> bool" where
  "locker_ok l \<longleftrightarrow> lk_len l \<le> 1 \<and> \<not> lk_closed l"

lemma locker_ok_New [simp]: "locker_ok NewLocker" "\<not> IsLocked NewLocker"
  by (simp_all add: locker_ok_def NewLocker_def IsLocked_def)

lemma Acquire_free [lock_simps]:
  "locker_ok l \<Longrightarrow> \<not> IsLocked l \<Longrightarrow> Acquire l = (Ok (), l\<lparr>lk_len := Suc 0\<rparr>)"
  by (auto simp: Acquire_def locker_ok_def IsLocked_def)

lemma Acquire_held [lock_simps]:
  "locker_ok l \<Longrightarrow> IsLocked l \<Longrightarrow> Acquire l = (Err ErrLockerLocked, l)"
  by (simp add: Acquire_def locker_ok_def IsLocked_def)

lemma locker_ok_set_len [simp]: "locker_ok l \<Longrightarrow> locker_ok (l\<lparr>lk_len := Suc 0\<rparr>)"
  by (simp add: locker_ok_def)

lemma IsLocked_set_len [simp]: "IsLocked (l\<lparr>lk_len := Suc 0\<rparr>)"
  by (simp add: IsLocked_def)

lemma Release_unlocks [simp]: "locker_ok l \<Longrightarrow> \<not> IsLocked (Release l)"
  by (auto simp: Release_def locker_ok_def IsLocked_def)

lemma locker_ok_Release [simp]: "locker_ok l \<Longrightarrow> locker_ok (Release l)"
  by (auto simp: Release_def locker_ok_def)

lemma Release_idle: "locker_ok l \<Longrightarrow> \<not> IsLocked l \<Longrightarrow> Release l = l"
  by (auto simp: Release_def locker_ok_def IsLocked_def)

lemma Release_set_len [simp]:
  "locker_ok l \<Longrightarrow> \<not> IsLocked l \<Longrightarrow> Release (l\<lparr>lk_len := Suc 0\<rparr>) = l"
  by (cases l) (auto simp: Release_def locker_ok_def IsLocked_def)

lemma TryAcquire_acquires:
  assumes "TryAcquire e l (Ok u) l'" "e = Some DeadlineExceeded \<or> e = Some Canceled" "locker_ok l"
  shows "\<not> IsLocked l \<and> IsLocked l' \<and> l' = l\<lparr>lk_len := Suc 0\<rparr>"
  using assms by (auto elim!: TryAcquire_okE simp: IsLocked_def)

section \<open>AtomicBool\<close>

definition SwapIf :: "bool \<Rightarrow> bool \<Rightarrow> bool \<times> bool" where
  "SwapIf v ab = (if ab \<noteq> v then (True, v) else (False, ab))"

definition Store :: "bool \<Rightarrow> bool \<Rightarrow> bool" where
  "Store v ab = v"

definition Load :: "bool \<Rightarrow> bool" where
  "Load ab = ab"

section \<open>The contract of a try-lock\<close>

text \<open>
  What the code relies on when it guards a section with a non-blocking lock: an attempt on a free
  lock takes it, an attempt on a held lock fails and changes nothing, a release frees it.
\<close>

locale try_lock =
  fixes usable :: "'s \<Rightarrow> bool"
    and held :: "'s \<Rightarrow> bool"
    and attempt :: "'s \<Rightarrow> bool \<times> 's"
    and unlock :: "'s \<Rightarrow> 's"
  assumes attempt_free: "usable s \<Longrightarrow> \<not> held s \<Longrightarrow> fst (attempt s) \<and> held (snd (attempt s))"
    and attempt_held: "usable s \<Longrightarrow> held s \<Longrightarrow> attempt s = (False, s)"
    and usable_attempt: "usable s \<Longrightarrow> usable (snd (attempt s))"
    and usable_unlock: "usable s \<Longrightarrow> usable (unlock s)"
    and unlock_frees: "usable s \<Longrightarrow> \<not> held (unlock s)"

text \<open>
  The workers that compete for such a lock: \<open>TryBy i\<close> is one attempt of worker \<open>i\<close>, \<open>DoneBy i\<close> the
  deferred release of a worker that succeeded. The second component is the set of workers inside.
\<close>

datatype lock_op = TryBy nat | DoneBy nat

fun lock_step :: "('s \<Rightarrow> bool \<times> 's) \<Rightarrow> ('s \<Rightarrow> 's) \<Rightarrow> lock_op \<Rightarrow> 's \<times> nat list \<Rightarrow> 's \<times> nat list" where
  "lock_step acq rel (TryBy i) (s, inside) =
     (case acq s of (ok, s') \<Rightarrow> (s', if ok then i # inside else inside))"
| "lock_step acq rel (DoneBy i) (s, inside) =
     (if i \<in> set inside then (rel s, remove1 i inside) else (s, inside))"

definition lock_run :: "('s \<Rightarrow> bool \<times> 's) \<Rightarrow> ('s \<Rightarrow> 's) \<Rightarrow> lock_op list \<Rightarrow> 's \<times> nat list \<Rightarrow> 's \<times> nat list" where
  "lock_run acq rel ops st = fold (lock_step acq rel) ops st"

context try_lock begin

definition agree :: "'s \<times> nat list \<Rightarrow> bool" where
  "agree st \<longleftrightarrow> usable (fst st) \<and> length (snd st) \<le> 1 \<and> (held (fst st) \<longleftrightarrow> snd st \<noteq> [])"

lemma agree_step: "agree st \<Longrightarrow> agree (lock_step attempt unlock x st)"
proof (cases x; cases st)
  fix i s inside
  assume "agree st" "x = TryBy i" "st = (s, inside)"
  then show ?thesis
    using attempt_free [of s] attempt_held [of s] usable_attempt [of s]
    by (cases "held s") (auto simp: agree_def split: prod.splits)
next
  fix i s inside
  assume "agree st" "x = DoneBy i" "st = (s, inside)"
  then show ?thesis
    using usable_unlock [of s] unlock_frees [of s]
    by (cases inside) (auto simp: agree_def)
qed

lemma agree_run: "agree st \<Longrightarrow> agree (lock_run attempt unlock ops st)"
  unfolding lock_run_def by (induction ops arbitrary: st) (simp_all add: agree_step)

lemma exclusive:
  assumes "usable s" "\<not> held s"
  shows "length (snd (lock_run attempt unlock ops (s, []))) \<le> 1"
  using agree_run [of "(s, [])" ops] assms by (simp add: agree_def)

lemma free_again:
  assumes "usable s" "\<not> held s" "snd (lock_run attempt unlock ops (s, [])) = []"
  shows "fst (attempt (fst (lock_run attempt unlock ops (s, []))))"
  using agree_run [of "(s, [])" ops] assms by (simp add: agree_def attempt_free)

end

definition locker_try :: "locker \<Rightarrow> bool \<times> locker" where
  "locker_try l = (case Acquire l of (r, l') \<Rightarrow> (is_ok r, l'))"

interpretation power_lock: try_lock locker_ok IsLocked locker_try Release
  by unfold_locales (auto simp: locker_try_def lock_simps locker_ok_def IsLocked_def Acquire_def Release_def)

interpretation flag_lock: try_lock "\<lambda>_. True" Load "SwapIf True" "Store False"
  by unfold_locales (auto simp: SwapIf_def Store_def Load_def)


text \<open>C26: Once every caller that got the power lock has released it, the next \<open>Acquire\<close> succeeds: no
  interleaving of attempts and releases leaves the lock stuck.\<close>

theorem locker_never_stuck:
  "snd (lock_run locker_try Release ops (NewLocker, [])) = [] \<Longrightarrow>
    fst (Acquire (fst (lock_run locker_try Release ops (NewLocker, [])))) = Ok ()"
  using power_lock.free_again [of NewLocker ops]
  by (auto simp: locker_try_def is_ok_def split: prod.splits outcome.splits)

theorem locker_never_stuck_witness:
  "fst (Acquire (fst (lock_run locker_try Release [TryBy 1, TryBy 2, DoneBy 1] (NewLocker, [])))) = Ok ()"
  by (rule locker_never_stuck) (simp add: lock_run_def locker_try_def Acquire_def Release_def NewLocker_def)

end
