(* ===== verification/Throttle.thy ===== *)
theory Throttle
  imports Locks
begin

text \<open>
  The fixed-window limiter \<open>Rate\<close> of \<open>wings/system/rate.go\<close> and the console throttle of
  \<open>wings/server/console.go\<close>. Counters are \<open>uint64\<close>, so they are 64-bit words; the clock reading of
  \<open>time.Now\<close> is an argument.
\<close>

section \<open>Rate\<close>

record rate =
  rt_limit :: "64 word"
  rt_duration :: int
  rt_count :: "64 word"
  rt_last :: int

definition NewRate :: "int \<Rightarrow> 64 word \<Rightarrow> int \<Rightarrow> rate" where
  "NewRate now limit duration = \<lparr>rt_limit = limit, rt_duration = duration, rt_count = 0, rt_last = now\<rparr>"

definition Try :: "int \<Rightarrow> rate \<Rightarrow> bool \<times> rate" where
  "Try now r =
     (let r = (if now - rt_last r > rt_duration r then r\<lparr>rt_count := 0, rt_last := now\<rparr> else r)
      in if rt_count r + 1 > rt_limit r then (False, r)
         else (True, r\<lparr>rt_count := rt_count r + 1\<rparr>))"

definition rate_Reset :: "int \<Rightarrow> rate \<Rightarrow> rate" where
  "rate_Reset now r = r\<lparr>rt_count := 0, rt_last := now\<rparr>"

fun try_each :: "int list \<Rightarrow> rate \<Rightarrow> bool list \<times> rate" where
  "try_each [] r = ([], r)"
| "try_each (t # ts) r =
     (case Try t r of (ok, r') \<Rightarrow> (case try_each ts r' of (oks, r'') \<Rightarrow> (ok # oks, r'')))"

definition rate_ok :: "rate \<Rightarrow> bool" where
  "rate_ok r \<longleftrightarrow> rt_count r \<le> rt_limit r \<and> Suc (unat (rt_limit r)) < 2 ^ 64"

lemma rate_ok_New: "Suc (unat limit) < 2 ^ 64 \<Longrightarrow> rate_ok (NewRate now limit d)"
  by (simp add: rate_ok_def NewRate_def)

lemma unat_count_Suc: "rate_ok r \<Longrightarrow> unat (rt_count r + 1) = Suc (unat (rt_count r))"
  by (simp add: rate_ok_def word_le_nat_alt unat_word_ariths)

lemma Try_in_window:
  assumes "rate_ok r" "t - rt_last r \<le> rt_duration r"
  shows "Try t r = (if unat (rt_count r) < unat (rt_limit r)
    then (True, r\<lparr>rt_count := rt_count r + 1\<rparr>) else (False, r))"
  using assms unat_count_Suc [of r] by (auto simp: Try_def Let_def word_less_nat_alt)

lemma rate_ok_bump:
  "rate_ok r \<Longrightarrow> unat (rt_count r) < unat (rt_limit r) \<Longrightarrow> rate_ok (r\<lparr>rt_count := rt_count r + 1\<rparr>)"
  using unat_count_Suc [of r] by (auto simp: rate_ok_def word_le_nat_alt)

text \<open>Within one window the limiter grants exactly the remaining allowance, in order.\<close>

lemma try_each_in_window:
  assumes "rate_ok r" "\<forall>t \<in> set ts. t - rt_last r \<le> rt_duration r"
  shows "fst (try_each ts r) =
    map (\<lambda>i. i < unat (rt_limit r) - unat (rt_count r)) [0..<length ts]"
  using assms
proof (induction ts arbitrary: r)
  case (Cons t ts)
  show ?case
  proof (cases "unat (rt_count r) < unat (rt_limit r)")
    case True
    let ?r = "r\<lparr>rt_count := rt_count r + 1\<rparr>"
    have "fst (try_each ts ?r) = map (\<lambda>i. i < unat (rt_limit r) - Suc (unat (rt_count r))) [0..<length ts]"
      using Cons.IH [of ?r] Cons.prems True rate_ok_bump [of r] unat_count_Suc [of r] by simp
    moreover have "[0..<length (t # ts)] = 0 # map Suc [0..<length ts]"
      by (simp add: upt_conv_Cons map_Suc_upt del: upt_Suc)
    ultimately show ?thesis
      using Cons.prems True
      by (auto simp: Try_in_window split: prod.splits)
  next
    case False
    with Cons.prems Cons.IH [of r] show ?thesis
      by (auto simp: Try_in_window map_replicate_const replicate_append_same split: prod.splits)
  qed
qed simp

text \<open>In any run of calls whose clock readings fall in the limiter's current window, \<open>Try\<close> lets
  through the first \<open>limit - count\<close> calls and refuses every later one, for every limit below the
  maximal \<open>uint64\<close>.\<close>

theorem rate_window_exact:
  assumes "rate_ok r" "\<forall>t \<in> set ts. t - rt_last r \<le> rt_duration r"
  shows "length (filter id (fst (try_each ts r))) =
    min (length ts) (unat (rt_limit r) - unat (rt_count r))"
proof -
  have "length (filter (\<lambda>i. i < m) [0..<n]) = min n m" for m n :: nat
    by (induction n) auto
  then show ?thesis
    by (simp add: try_each_in_window [OF assms] filter_map comp_def)
qed

theorem rate_window_exact_witness:
  "length (filter id (fst (try_each [3, 4, 5, 6] (NewRate 0 2 10)))) = 2"
proof -
  have "rate_ok (NewRate 0 2 10)"
    by (simp add: rate_ok_def NewRate_def)
  then show ?thesis
    using rate_window_exact [of "NewRate 0 2 10" "[3, 4, 5, 6]"] by (simp add: NewRate_def)
qed

section \<open>ConsoleThrottle\<close>

text \<open>\<open>th_strike\<close> says whether the \<open>strike\<close> callback is set; a call to it is the second result.\<close>

record throttle =
  th_limit :: rate
  th_lock :: locker
  th_strike :: bool

definition newConsoleThrottle :: "int \<Rightarrow> 64 word \<Rightarrow> int \<Rightarrow> throttle" where
  "newConsoleThrottle now lines period =
     \<lparr>th_limit = NewRate now lines period, th_lock = NewLocker, th_strike = False\<rparr>"

definition Allow :: "int \<Rightarrow> throttle \<Rightarrow> bool \<times> bool \<times> throttle" where
  "Allow now ct =
     (case Try now (th_limit ct) of (ok, r) \<Rightarrow>
        let ct = ct\<lparr>th_limit := r\<rparr>
        in if \<not> ok then
             (case Acquire (th_lock ct) of (e, l) \<Rightarrow>
                (False, is_ok e \<and> th_strike ct, ct\<lparr>th_lock := l\<rparr>))
           else (True, False, ct\<lparr>th_lock := Release (th_lock ct)\<rparr>))"

definition throttle_Reset :: "int \<Rightarrow> throttle \<Rightarrow> throttle" where
  "throttle_Reset now ct = ct\<lparr>th_limit := rate_Reset now (th_limit ct)\<rparr>"

text \<open>\<open>Server.Throttler\<close> sets the callback once, when it creates the throttle.\<close>

definition Throttler :: "int \<Rightarrow> 64 word \<Rightarrow> int \<Rightarrow> throttle option \<Rightarrow> throttle" where
  "Throttler now lines period cur =
     (case cur of Some ct \<Rightarrow> ct
      | None \<Rightarrow> (newConsoleThrottle now lines (period * 1000000))\<lparr>th_strike := True\<rparr>)"

fun allow_each :: "int list \<Rightarrow> throttle \<Rightarrow> (bool \<times> bool) list" where
  "allow_each [] ct = []"
| "allow_each (t # ts) ct = (case Allow t ct of (ok, struck, ct') \<Rightarrow> (ok, struck) # allow_each ts ct')"

lemma Allow_granted:
  "Try t (th_limit ct) = (True, r) \<Longrightarrow>
    Allow t ct = (True, False, ct\<lparr>th_limit := r, th_lock := Release (th_lock ct)\<rparr>)"
  by (simp add: Allow_def)

lemma Allow_refused:
  "Try t (th_limit ct) = (False, r) \<Longrightarrow> locker_ok (th_lock ct) \<Longrightarrow>
    Allow t ct = (False, \<not> IsLocked (th_lock ct) \<and> th_strike ct,
      ct\<lparr>th_limit := r, th_lock := (th_lock ct)\<lparr>lk_len := Suc 0\<rparr>\<rparr>)"
  by (cases "IsLocked (th_lock ct)"; cases "th_lock ct")
     (simp_all add: Allow_def Acquire_def IsLocked_def locker_ok_def)

lemma Allow_cases:
  assumes "locker_ok (th_lock ct)" "Allow t ct = (ok, struck, ct')"
  shows "locker_ok (th_lock ct') \<and> th_strike ct' = th_strike ct \<and>
    (IsLocked (th_lock ct') \<longleftrightarrow> \<not> ok) \<and> (struck \<longleftrightarrow> \<not> ok \<and> \<not> IsLocked (th_lock ct) \<and> th_strike ct)"
proof (cases "Try t (th_limit ct)")
  case (Pair b r)
  with assms show ?thesis
    by (cases b) (auto simp: Allow_granted Allow_refused)
qed

text \<open>The strikes of a run, told from the verdicts alone: one per stretch of refusals.\<close>

fun strikes_of :: "bool \<Rightarrow> bool list \<Rightarrow> bool list" where
  "strikes_of refusing [] = []"
| "strikes_of refusing (ok # oks) = (\<not> ok \<and> \<not> refusing) # strikes_of (\<not> ok) oks"

text \<open>The throttle announces the overrun exactly once per stretch of refused lines: a line is
  announced when it is refused and the one before it was not, and a granted line re-arms it.\<close>

theorem throttle_strikes_once:
  assumes "locker_ok (th_lock ct)" "th_strike ct"
  shows "map snd (allow_each ts ct) = strikes_of (IsLocked (th_lock ct)) (map fst (allow_each ts ct))"
  using assms
proof (induction ts arbitrary: ct)
  case (Cons t ts)
  obtain ok struck ct' where a: "Allow t ct = (ok, struck, ct')"
    by (metis prod_cases3)
  note facts = Allow_cases [OF Cons.prems(1) a]
  from Cons.IH [of ct'] facts Cons.prems a show ?case
    by auto
qed simp

theorem throttle_strikes_once_witness:
  "map snd (allow_each [1, 2, 3, 99] (Throttler 0 1 0 None)) =
    strikes_of (IsLocked (th_lock (Throttler 0 1 0 None))) (map fst (allow_each [1, 2, 3, 99] (Throttler 0 1 0 None)))"
proof (rule throttle_strikes_once)
  show "locker_ok (th_lock (Throttler 0 1 0 None))"
    by (simp add: Throttler_def newConsoleThrottle_def)
  show "th_strike (Throttler 0 1 0 None)"
    by (simp add: Throttler_def)
qed

end
