(* ===== verification/Sinks.thy ===== *)
theory Sinks
  imports Prelude
begin

text \<open>
  \<open>wings/system/sink_pool.go\<close> and \<open>wings/events/events.go\<close>: the pools of channels through which a
  server's console output and events reach the websockets, and the event bus on top of them.

  Channels are shared between a pool and its readers, so they live in a store indexed by channel
  identity; a pool is a slice of identities, \<open>None\<close> being a nil channel. A push is modelled while no
  reader drains the channels: the readers' turns are separate steps.
\<close>

section \<open>Channels\<close>

record chan =
  ch_buf :: "string list"
  ch_cap :: nat
  ch_closed :: bool

type_synonym chans = "nat \<Rightarrow> chan"

definition close_chan :: "nat \<Rightarrow> chans \<Rightarrow> (unit, chans) outcome" where
  "close_chan i cs = (if ch_closed (cs i) then Panic else Ok (cs(i := (cs i)\<lparr>ch_closed := True\<rparr>)))"

section \<open>SinkPool\<close>

record sink_pool =
  sp_sinks :: "nat option list"

definition NewSinkPool :: sink_pool where
  "NewSinkPool = \<lparr>sp_sinks = []\<rparr>"

definition On :: "nat option \<Rightarrow> sink_pool \<Rightarrow> sink_pool" where
  "On c p = p\<lparr>sp_sinks := sp_sinks p @ [c]\<rparr>"

text \<open>The loop of \<open>Off\<close>: the slice without the first occurrence of \<open>c\<close>, the rest shifted left.\<close>

fun off_shift :: "nat option \<Rightarrow> nat option list \<Rightarrow> nat option list option" where
  "off_shift c [] = None"
| "off_shift c (sink # sinks) =
     (if c \<noteq> sink then map_option ((#) sink) (off_shift c sinks) else Some sinks)"

definition Off :: "nat option \<Rightarrow> chans \<Rightarrow> sink_pool \<Rightarrow> (unit, chans \<times> sink_pool) outcome" where
  "Off c cs p =
     (case off_shift c (sp_sinks p) of
        None \<Rightarrow> Ok (cs, p)
      | Some sinks \<Rightarrow>
          (let p = p\<lparr>sp_sinks := sinks\<rparr>
           in case c of None \<Rightarrow> Ok (cs, p)
              | Some i \<Rightarrow> (case close_chan i cs of Ok cs \<Rightarrow> Ok (cs, p) | _ \<Rightarrow> Panic)))"

fun close_each :: "nat option list \<Rightarrow> chans \<Rightarrow> (unit, chans) outcome" where
  "close_each [] cs = Ok cs"
| "close_each (None # sinks) cs = close_each sinks cs"
| "close_each (Some i # sinks) cs =
     (case close_chan i cs of Ok cs \<Rightarrow> close_each sinks cs | _ \<Rightarrow> Panic)"

definition pool_Destroy :: "chans \<Rightarrow> sink_pool \<Rightarrow> (unit, chans \<times> sink_pool) outcome" where
  "pool_Destroy cs p =
     (case close_each (sp_sinks p) cs of
        Ok cs \<Rightarrow> Ok (cs, p\<lparr>sp_sinks := []\<rparr>)
      | _ \<Rightarrow> Panic)"

text \<open>
  One goroutine of \<open>Push\<close>: send if there is room; after the timeout, give up on an empty (or nil)
  channel, otherwise drop the oldest message and send.
\<close>

definition push_one :: "string \<Rightarrow> nat option \<Rightarrow> chans \<Rightarrow> (unit, chans) outcome" where
  "push_one data c cs =
     (case c of
        None \<Rightarrow> Ok cs
      | Some i \<Rightarrow>
          (let ch = cs i
           in if ch_closed ch then Panic
              else if length (ch_buf ch) < ch_cap ch
                then Ok (cs(i := ch\<lparr>ch_buf := ch_buf ch @ [data]\<rparr>))
              else if length (ch_buf ch) = 0 then Ok cs
              else Ok (cs(i := ch\<lparr>ch_buf := tl (ch_buf ch) @ [data]\<rparr>))))"

fun push_each :: "string \<Rightarrow> nat option list \<Rightarrow> chans \<Rightarrow> (unit, chans) outcome" where
  "push_each data [] cs = Ok cs"
| "push_each data (c # sinks) cs =
     (case push_one data c cs of Ok cs \<Rightarrow> push_each data sinks cs | _ \<Rightarrow> Panic)"

definition Push :: "string \<Rightarrow> chans \<Rightarrow> sink_pool \<Rightarrow> (unit, chans) outcome" where
  "Push data cs p = push_each data (sp_sinks p) cs"

section \<open>The pool invariant\<close>

definition pool_ok :: "chans \<Rightarrow> sink_pool \<Rightarrow> bool" where
  "pool_ok cs p \<longleftrightarrow> distinct (filter (\<lambda>c. c \<noteq> None) (sp_sinks p)) \<and>
     (\<forall>i. Some i \<in> set (sp_sinks p) \<longrightarrow>
        \<not> ch_closed (cs i) \<and> 0 < ch_cap (cs i) \<and> length (ch_buf (cs i)) \<le> ch_cap (cs i))"

lemma pool_ok_New [simp]: "pool_ok cs NewSinkPool"
  by (simp add: pool_ok_def NewSinkPool_def)

lemma off_shift_remove1:
  "off_shift c sinks = (if c \<in> set sinks then Some (remove1 c sinks) else None)"
  by (induction sinks) auto

lemma pool_ok_On:
  assumes "pool_ok cs p" "Some i \<notin> set (sp_sinks p)"
    "\<not> ch_closed (cs i)" "0 < ch_cap (cs i)" "length (ch_buf (cs i)) \<le> ch_cap (cs i)"
  shows "pool_ok cs (On (Some i) p)"
  using assms by (auto simp: pool_ok_def On_def)

lemma filter_remove1: "P c \<Longrightarrow> filter P (remove1 c xs) = remove1 c (filter P xs)"
  by (induction xs) auto

lemma remove1_some_filter:
  "distinct (filter (\<lambda>c. c \<noteq> None) xs) \<Longrightarrow> remove1 (Some i) xs = filter (\<lambda>c. c \<noteq> Some i) xs"
proof (induction xs)
  case (Cons c xs)
  then show ?case by (auto split: if_splits)
qed simp

lemma pool_ok_Off:
  assumes "pool_ok cs p" "Off (Some i) cs p = Ok (cs', p')"
  shows "pool_ok cs' p'"
proof (cases "Some i \<in> set (sp_sinks p)")
  case False
  with assms show ?thesis by (simp add: Off_def off_shift_remove1)
next
  case True
  with assms have eqs: "sp_sinks p' = remove1 (Some i) (sp_sinks p)"
    "cs' = cs(i := (cs i)\<lparr>ch_closed := True\<rparr>)"
    by (auto simp: Off_def off_shift_remove1 close_chan_def pool_ok_def split: if_splits)
  have "distinct (filter (\<lambda>c. c \<noteq> None) (sp_sinks p))"
    using assms by (simp add: pool_ok_def)
  then have "Some i \<notin> set (sp_sinks p')" "distinct (filter (\<lambda>c. c \<noteq> None) (sp_sinks p'))"
    by (simp_all only: eqs remove1_some_filter distinct_filter_filter) simp
  then show ?thesis
    using assms(1) by (auto simp: pool_ok_def eqs dest: notin_set_remove1)
qed

lemma Off_total: "pool_ok cs p \<Longrightarrow> \<exists>st. Off c cs p = Ok st"
  by (cases c) (auto simp: Off_def off_shift_remove1 close_chan_def pool_ok_def)

text \<open>What one push does to the buffer of an open channel with room for at least one message.\<close>

definition ring_add :: "nat \<Rightarrow> 'a list \<Rightarrow> 'a \<Rightarrow> 'a list" where
  "ring_add n buf x = (if length buf < n then buf @ [x] else tl buf @ [x])"

definition window :: "nat \<Rightarrow> 'a list \<Rightarrow> 'a list" where
  "window n xs = drop (length xs - n) xs"

lemma ring_add_window: "0 < n \<Longrightarrow> ring_add n (window n xs) x = window n (xs @ [x])"
proof -
  assume n: "0 < n"
  show ?thesis
  proof (cases "length xs < n")
    case True
    then show ?thesis by (simp add: ring_add_def window_def)
  next
    case False
    then have "tl (drop (length xs - n) xs) = drop (Suc (length xs) - n) xs"
      by (simp add: tl_drop drop_Suc Suc_diff_le flip: drop_Suc)
    with False n show ?thesis by (simp add: ring_add_def window_def)
  qed
qed

lemma window_whole: "length xs \<le> n \<Longrightarrow> window n xs = xs"
  by (simp add: window_def)

lemma length_window [simp]: "length (window n xs) = min n (length xs)"
  by (auto simp: window_def)

lemma foldl_ring_add: "0 < n \<Longrightarrow> foldl (ring_add n) (window n xs) ys = window n (xs @ ys)"
  by (induction ys arbitrary: xs) (simp_all add: ring_add_window)

lemma push_one_ring:
  assumes "\<not> ch_closed (cs i)" "0 < ch_cap (cs i)" "length (ch_buf (cs i)) \<le> ch_cap (cs i)"
  shows "push_one data (Some i) cs =
    Ok (cs(i := (cs i)\<lparr>ch_buf := ring_add (ch_cap (cs i)) (ch_buf (cs i)) data\<rparr>))"
  using assms by (auto simp: push_one_def ring_add_def Let_def)

definition ring_store :: "string \<Rightarrow> nat option list \<Rightarrow> chans \<Rightarrow> chans" where
  "ring_store data sinks cs = (\<lambda>i. if Some i \<in> set sinks
     then (cs i)\<lparr>ch_buf := ring_add (ch_cap (cs i)) (ch_buf (cs i)) data\<rparr> else cs i)"

lemma push_each_ring:
  assumes "distinct (filter (\<lambda>c. c \<noteq> None) sinks)"
    "\<forall>i. Some i \<in> set sinks \<longrightarrow> \<not> ch_closed (cs i) \<and> 0 < ch_cap (cs i) \<and> length (ch_buf (cs i)) \<le> ch_cap (cs i)"
  shows "push_each data sinks cs = Ok (ring_store data sinks cs)"
  using assms
proof (induction sinks arbitrary: cs)
  case Nil
  then show ?case by (simp add: ring_store_def)
next
  case (Cons c sinks)
  show ?case
  proof (cases c)
    case None
    with Cons show ?thesis by (simp add: push_one_def ring_store_def)
  next
    case (Some i)
    let ?cs = "cs(i := (cs i)\<lparr>ch_buf := ring_add (ch_cap (cs i)) (ch_buf (cs i)) data\<rparr>)"
    from Cons.prems Some have i: "Some i \<notin> set sinks"
      by auto
    have "push_each data sinks ?cs = Ok (ring_store data sinks ?cs)"
      using Cons.prems Some i by (intro Cons.IH) auto
    moreover have "ring_store data sinks ?cs = ring_store data (c # sinks) cs"
      using i Some by (auto simp: ring_store_def fun_eq_iff)
    ultimately show ?thesis
      using Cons.prems Some by (simp add: push_one_ring)
  qed
qed

lemma Push_ring: "pool_ok cs p \<Longrightarrow> Push data cs p = Ok (ring_store data (sp_sinks p) cs)"
  by (simp add: Push_def push_each_ring pool_ok_def)

lemma pool_ok_Push: "pool_ok cs p \<Longrightarrow> pool_ok (ring_store data (sp_sinks p) cs) p"
  by (auto simp: pool_ok_def ring_store_def ring_add_def)

fun push_all :: "string list \<Rightarrow> chans \<Rightarrow> sink_pool \<Rightarrow> (unit, chans) outcome" where
  "push_all [] cs p = Ok cs"
| "push_all (m # ms) cs p = (case Push m cs p of Ok cs \<Rightarrow> push_all ms cs p | _ \<Rightarrow> Panic)"

lemma push_all_buf:
  assumes "pool_ok cs p"
  shows "\<exists>cs'. push_all ms cs p = Ok cs' \<and> pool_ok cs' p \<and>
    (\<forall>i. Some i \<in> set (sp_sinks p) \<longrightarrow> ch_cap (cs' i) = ch_cap (cs i) \<and>
       ch_buf (cs' i) = foldl (ring_add (ch_cap (cs i))) (ch_buf (cs i)) ms)"
  using assms
proof (induction ms arbitrary: cs)
  case (Cons m ms)
  let ?cs = "ring_store m (sp_sinks p) cs"
  from Cons.IH [of ?cs] Cons.prems obtain cs' where "push_all ms ?cs p = Ok cs'" "pool_ok cs' p"
    "\<forall>i. Some i \<in> set (sp_sinks p) \<longrightarrow> ch_cap (cs' i) = ch_cap (?cs i) \<and>
       ch_buf (cs' i) = foldl (ring_add (ch_cap (?cs i))) (ch_buf (?cs i)) ms"
    using pool_ok_Push by blast
  with Cons.prems show ?case
    by (auto simp: Push_ring ring_store_def)
qed auto

text \<open>C27: Pushing any sequence of messages to a well-formed pool never panics, keeps the pool well-formed,
  and leaves in every registered channel exactly the newest messages that fit its capacity, in order:
  the channel is a rolling window over everything sent to it.\<close>

theorem push_rolling_window:
  assumes "pool_ok cs p"
  shows "\<exists>cs'. push_all ms cs p = Ok cs' \<and> pool_ok cs' p \<and>
    (\<forall>i. Some i \<in> set (sp_sinks p) \<longrightarrow> ch_buf (cs' i) = window (ch_cap (cs i)) (ch_buf (cs i) @ ms))"
proof -
  obtain cs' where cs': "push_all ms cs p = Ok cs'" "pool_ok cs' p"
    "\<forall>i. Some i \<in> set (sp_sinks p) \<longrightarrow> ch_buf (cs' i) = foldl (ring_add (ch_cap (cs i))) (ch_buf (cs i)) ms"
    using push_all_buf [OF assms] by blast
  have "foldl (ring_add (ch_cap (cs i))) (ch_buf (cs i)) ms = window (ch_cap (cs i)) (ch_buf (cs i) @ ms)"
    if "Some i \<in> set (sp_sinks p)" for i
    using foldl_ring_add [of "ch_cap (cs i)" "ch_buf (cs i)" ms] that assms
    by (auto simp: pool_ok_def window_whole)
  with cs' show ?thesis by auto
qed

definition demo_chans :: chans where
  "demo_chans = (\<lambda>i. \<lparr>ch_buf = [], ch_cap = 2, ch_closed = False\<rparr>)"

theorem push_rolling_window_witness:
  "\<exists>cs'. push_all [''a'', ''b'', ''c''] demo_chans (On (Some 7) NewSinkPool) = Ok cs' \<and>
    ch_buf (cs' 7) = [''b'', ''c'']"
proof -
  have "pool_ok demo_chans (On (Some 7) NewSinkPool)"
    by (simp add: pool_ok_def On_def NewSinkPool_def demo_chans_def)
  from push_rolling_window [OF this, of "[''a'', ''b'', ''c'']"] show ?thesis
    by (auto simp: On_def NewSinkPool_def demo_chans_def window_def)
qed

text \<open>Unregistering a channel from a well-formed pool never panics: it closes that channel and no
  other, removes it from the pool, and keeps the remaining sinks in their order.\<close>

theorem off_removes_and_closes:
  assumes "pool_ok cs p"
  shows "\<exists>cs' p'. Off (Some i) cs p = Ok (cs', p') \<and> pool_ok cs' p' \<and>
    sp_sinks p' = filter (\<lambda>c. c \<noteq> Some i) (sp_sinks p) \<and>
    (Some i \<in> set (sp_sinks p) \<longrightarrow> ch_closed (cs' i)) \<and> (\<forall>j. j \<noteq> i \<longrightarrow> cs' j = cs j)"
proof -
  obtain cs' p' where off: "Off (Some i) cs p = Ok (cs', p')"
    using Off_total [OF assms] by force
  have "remove1 (Some i) (sp_sinks p) = filter (\<lambda>c. c \<noteq> Some i) (sp_sinks p)"
    using assms by (simp add: pool_ok_def remove1_some_filter)
  with off assms have "sp_sinks p' = filter (\<lambda>c. c \<noteq> Some i) (sp_sinks p) \<and>
    (Some i \<in> set (sp_sinks p) \<longrightarrow> ch_closed (cs' i)) \<and> (\<forall>j. j \<noteq> i \<longrightarrow> cs' j = cs j)"
    by (auto simp: Off_def off_shift_remove1 close_chan_def split: if_splits)
  with off pool_ok_Off [OF assms off] show ?thesis by blast
qed

theorem off_removes_and_closes_witness:
  "\<exists>cs' p'. Off (Some 3) demo_chans \<lparr>sp_sinks = [Some 1, Some 3, Some 2]\<rparr> = Ok (cs', p') \<and>
    sp_sinks p' = [Some 1, Some 2] \<and> ch_closed (cs' 3)"
proof -
  have "pool_ok demo_chans \<lparr>sp_sinks = [Some 1, Some 3, Some 2]\<rparr>"
    by (auto simp: pool_ok_def demo_chans_def)
  from off_removes_and_closes [OF this, of 3] show ?thesis
    by auto
qed

section \<open>Bus\<close>

text \<open>
  \<open>Publish\<close> strips a namespace such as the identifier of \<open>backup completed:1234\<close> from the topic and
  pushes the encoded event. The JSON encoder is not part of the program: \<open>marshal\<close> is a parameter,
  \<open>None\<close> its error, on which the code panics.
\<close>

definition publish_topic :: "string \<Rightarrow> string" where
  "publish_topic topic =
     (if CHR '':'' \<in> set topic then
        (let parts = SplitN2 (CHR '':'') topic
         in if length parts = 2 then parts ! 0 else topic)
      else topic)"

definition Publish :: "(string \<Rightarrow> 'd \<Rightarrow> string option) \<Rightarrow> string \<Rightarrow> 'd \<Rightarrow> chans \<Rightarrow> sink_pool \<Rightarrow> (unit, chans) outcome" where
  "Publish marshal topic data cs b =
     (case marshal (publish_topic topic) data of None \<Rightarrow> Panic | Some enc \<Rightarrow> Push enc cs b)"

lemma publish_topic_plain: "CHR '':'' \<notin> set t \<Longrightarrow> publish_topic t = t"
  by (simp add: publish_topic_def)

lemma publish_topic_namespace: "CHR '':'' \<notin> set t \<Longrightarrow> publish_topic (t @ CHR '':'' # ns) = t"
  by (simp add: takeWhile_to_sep publish_topic_def SplitN2_def Let_def)

lemma publish_topic_idem: "publish_topic (publish_topic t) = publish_topic t"
  by (auto simp: publish_topic_def SplitN2_def Let_def dest: set_takeWhileD)

end
