(* ===== verification/Bags.thy ===== *)
theory Bags
  imports Prelude "HOL-Library.AList"
begin

text \<open>
  The two registries of cancel functions of a server: \<open>wings/system/context_bag.go\<close>, which hands out one
  shared context per key, and \<open>wings/server/websockets.go\<close>, which tracks the open websockets. A Go map is an
  association list with distinct keys; contexts (and their cancel functions) are numbered.
\<close>

section \<open>The contract\<close>

text \<open>
  What both registries promise: dropping a key leaves the other keys alone, clearing cancels exactly what is
  registered and leaves nothing behind.
\<close>

locale cancel_bag =
  fixes inv :: "'b \<Rightarrow> bool"
    and look :: "'b \<Rightarrow> 'k \<Rightarrow> nat option"
    and drop_key :: "'k \<Rightarrow> 'b \<Rightarrow> 'b"
    and clear :: "'b \<Rightarrow> nat list \<times> 'b"
  assumes drop_look: "inv b \<Longrightarrow> look (drop_key k b) j = (if j = k then None else look b j)"
    and drop_inv: "inv b \<Longrightarrow> inv (drop_key k b)"
    and clear_all: "inv b \<Longrightarrow> set (fst (clear b)) = {c. \<exists>k. look b k = Some c}"
    and clear_empty: "inv b \<Longrightarrow> look (snd (clear b)) k = None"
    and clear_inv: "inv b \<Longrightarrow> inv (snd (clear b))"
begin

lemma clear_twice: "inv b \<Longrightarrow> fst (clear (snd (clear b))) = []"
proof -
  assume b: "inv b"
  then have "set (fst (clear (snd (clear b)))) = {}"
    by (subst clear_all) (simp_all add: clear_inv clear_empty)
  then show ?thesis by simp
qed

lemma drop_all_keys: "inv b \<Longrightarrow> inv (fold drop_key ks b) \<and>
    look (fold drop_key ks b) j = (if j \<in> set ks then None else look b j)"
  by (induction ks arbitrary: b) (auto simp: drop_look drop_inv)

lemma clear_after_drops:
  "inv b \<Longrightarrow> set (fst (clear (fold drop_key ks b))) = {c. \<exists>k. k \<notin> set ks \<and> look b k = Some c}"
  by (subst clear_all) (auto simp: drop_all_keys split: if_splits)

end

section \<open>ContextBag\<close>

text \<open>
  \<open>cb_next\<close> numbers the contexts \<open>context.WithCancel\<close> has made so far, \<open>cb_cancelled\<close> lists those whose cancel
  function has run.
\<close>

record context_bag =
  cb_items :: "(string \<times> nat) list"
  cb_next :: nat
  cb_cancelled :: "nat list"

definition NewContextBag :: context_bag where
  "NewContextBag = \<lparr>cb_items = [], cb_next = 0, cb_cancelled = []\<rparr>"

definition Context :: "string \<Rightarrow> context_bag \<Rightarrow> nat \<times> context_bag" where
  "Context key cb =
     (case map_of (cb_items cb) key of
        None \<Rightarrow> (cb_next cb, cb\<lparr>cb_items := AList.update key (cb_next cb) (cb_items cb), cb_next := Suc (cb_next cb)\<rparr>)
      | Some ctx \<Rightarrow> (ctx, cb))"

definition Cancel :: "string \<Rightarrow> context_bag \<Rightarrow> context_bag" where
  "Cancel key cb =
     (case map_of (cb_items cb) key of
        None \<Rightarrow> cb
      | Some v \<Rightarrow> cb\<lparr>cb_cancelled := v # cb_cancelled cb, cb_items := AList.delete key (cb_items cb)\<rparr>)"

definition CancelAll :: "context_bag \<Rightarrow> context_bag" where
  "CancelAll cb = cb\<lparr>cb_cancelled := map snd (cb_items cb) @ cb_cancelled cb, cb_items := []\<rparr>"

definition bag_ok :: "context_bag \<Rightarrow> bool" where
  "bag_ok cb \<longleftrightarrow> distinct (map fst (cb_items cb)) \<and> distinct (map snd (cb_items cb)) \<and>
     (\<forall>c \<in> set (map snd (cb_items cb)). c < cb_next cb \<and> c \<notin> set (cb_cancelled cb)) \<and>
     (\<forall>c \<in> set (cb_cancelled cb). c < cb_next cb)"

lemma bag_ok_New [simp]: "bag_ok NewContextBag"
  by (simp add: bag_ok_def NewContextBag_def)

lemma set_delete_iff: "(k', v) \<in> set (AList.delete k xs) \<longleftrightarrow> k' \<noteq> k \<and> (k', v) \<in> set xs"
  by (auto simp: AList.delete_eq)

lemma distinct_snd_delete: "distinct (map snd xs) \<Longrightarrow> distinct (map snd (AList.delete k xs))"
  by (simp add: AList.delete_eq distinct_map inj_on_def)

lemma delete_not_in:
  assumes "distinct (map snd xs)" "map_of xs k = Some v"
  shows "(k', v) \<notin> set (AList.delete k xs)"
  using assms by (fastforce simp: set_delete_iff distinct_map inj_on_def dest!: map_of_SomeD)

lemma update_absent: "map_of xs k = None \<Longrightarrow> AList.update k v xs = xs @ [(k, v)]"
  by (induction xs) (auto split: if_splits)

lemma bag_ok_Context: "bag_ok cb \<Longrightarrow> bag_ok (snd (Context key cb))"
  by (auto simp: bag_ok_def Context_def update_absent map_of_eq_None_iff split: option.splits)

lemma bag_ok_Cancel: "bag_ok cb \<Longrightarrow> bag_ok (Cancel key cb)"
proof (cases "map_of (cb_items cb) key")
  case (Some v)
  assume ok: "bag_ok cb"
  let ?del = "AList.delete key (cb_items cb)"
  have "\<forall>c \<in> set (map snd ?del). c < cb_next cb \<and> c \<notin> set (v # cb_cancelled cb)"
  proof
    fix c
    assume "c \<in> set (map snd ?del)"
    then obtain k' where k': "(k', c) \<in> set ?del" by auto
    then have "c \<noteq> v"
      using delete_not_in [OF _ Some, of k'] ok by (auto simp: bag_ok_def)
    moreover have "c \<in> set (map snd (cb_items cb))"
      using k' imageI [of "(k', c)" "set (cb_items cb)" snd] by (simp add: set_delete_iff)
    ultimately show "c < cb_next cb \<and> c \<notin> set (v # cb_cancelled cb)"
      using ok by (auto simp: bag_ok_def)
  qed
  moreover have "v < cb_next cb"
    using ok map_of_SomeD [OF Some] by (auto simp: bag_ok_def)
  ultimately show ?thesis
    using ok Some by (simp add: bag_ok_def Cancel_def distinct_snd_delete AList.distinct_delete)
qed (simp add: Cancel_def)

lemma bag_ok_CancelAll: "bag_ok cb \<Longrightarrow> bag_ok (CancelAll cb)"
  by (auto simp: bag_ok_def CancelAll_def)

definition bag_look :: "context_bag \<Rightarrow> string \<Rightarrow> nat option" where
  "bag_look cb = map_of (cb_items cb)"

lemma bag_look_Context: "bag_look (snd (Context key cb)) key = Some (fst (Context key cb))"
  by (auto simp: bag_look_def Context_def update_conv split: option.splits)

lemma bag_look_Context_other: "j \<noteq> key \<Longrightarrow> bag_look (snd (Context key cb)) j = bag_look cb j"
  by (auto simp: bag_look_def Context_def update_conv split: option.splits)

lemma bag_look_Cancel: "bag_look (Cancel key cb) j = (if j = key then None else bag_look cb j)"
  by (auto simp: bag_look_def Cancel_def delete_conv split: option.splits)

lemma Context_hit: "bag_look cb key = Some c \<Longrightarrow> Context key cb = (c, cb)"
  by (simp add: bag_look_def Context_def)

interpretation ctx_bag: cancel_bag bag_ok bag_look Cancel "\<lambda>cb. (map snd (cb_items cb), CancelAll cb)"
proof unfold_locales
  fix b :: context_bag
  assume "bag_ok b"
  then show "set (fst (map snd (cb_items b), CancelAll b)) = {c. \<exists>k. bag_look b k = Some c}"
    by (force simp: bag_look_def bag_ok_def map_of_eq_Some_iff)
next
  show "bag_look (snd (map snd (cb_items b), CancelAll b)) k = None" for b k
    by (simp add: bag_look_def CancelAll_def)
qed (simp_all add: bag_look_Cancel bag_ok_Cancel bag_ok_CancelAll)

datatype bag_op = GetCtx string | CancelKey string | CancelEvery

fun bag_step :: "bag_op \<Rightarrow> context_bag \<Rightarrow> context_bag" where
  "bag_step (GetCtx k) cb = snd (Context k cb)"
| "bag_step (CancelKey k) cb = Cancel k cb"
| "bag_step CancelEvery cb = CancelAll cb"

lemma bag_ok_step: "bag_ok cb \<Longrightarrow> bag_ok (bag_step op cb)"
  by (cases op) (simp_all add: bag_ok_Context bag_ok_Cancel bag_ok_CancelAll)

lemma bag_look_step:
  "op \<noteq> CancelKey k \<Longrightarrow> op \<noteq> CancelEvery \<Longrightarrow> bag_look cb k = Some c \<Longrightarrow> bag_look (bag_step op cb) k = Some c"
proof (cases op)
  case (GetCtx j)
  assume "bag_look cb k = Some c"
  with GetCtx show ?thesis
    by (cases "j = k") (simp_all add: Context_hit bag_look_Context_other)
qed (simp_all add: bag_look_Cancel)

lemma bag_look_run:
  assumes "bag_ok cb" "bag_look cb k = Some c" "CancelKey k \<notin> set ops" "CancelEvery \<notin> set ops"
  shows "bag_ok (fold bag_step ops cb) \<and> bag_look (fold bag_step ops cb) k = Some c"
  using assms by (induction ops arbitrary: cb) (auto simp: bag_ok_step bag_look_step)

lemma bag_live: "bag_ok cb \<Longrightarrow> bag_look cb k = Some c \<Longrightarrow> c \<notin> set (cb_cancelled cb)"
  by (force simp: bag_ok_def bag_look_def dest: map_of_SomeD)

text \<open>The context handed out for a key is shared by every later caller, and stays uncancelled, whatever
  happens to the other keys, until that key or the whole bag is cancelled.\<close>

theorem context_shared_until_cancel:
  assumes "bag_ok cb" "Context k cb = (c, cb')" "CancelKey k \<notin> set ops" "CancelEvery \<notin> set ops"
  shows "fst (Context k (fold bag_step ops cb')) = c \<and> c \<notin> set (cb_cancelled (fold bag_step ops cb'))"
proof -
  have "bag_ok cb'" "bag_look cb' k = Some c"
    using assms(1,2) bag_ok_Context [of cb k] bag_look_Context [of k cb] by simp_all
  from bag_look_run [OF this assms(3,4)] show ?thesis
    using bag_live Context_hit by (metis fst_conv)
qed

theorem context_shared_until_cancel_witness:
  "fst (Context ''a'' (fold bag_step [GetCtx ''b'', CancelKey ''b'', GetCtx ''a''] (snd (Context ''a'' NewContextBag)))) = 0"
proof -
  have "Context ''a'' NewContextBag = (0, snd (Context ''a'' NewContextBag))"
    by (simp add: Context_def NewContextBag_def)
  from context_shared_until_cancel [OF bag_ok_New this, of "[GetCtx ''b'', CancelKey ''b'', GetCtx ''a'']"]
  show ?thesis by simp
qed

text \<open>After cancelling a key (or the whole bag) the next context for it is a fresh one that is not
  cancelled, while the old one is.\<close>

theorem context_fresh_after_cancel:
  assumes "bag_ok cb" "bag_look cb k = Some c" "cb' = Cancel k cb \<or> cb' = CancelAll cb"
  shows "c \<in> set (cb_cancelled cb') \<and> fst (Context k cb') \<noteq> c \<and>
    fst (Context k cb') \<notin> set (cb_cancelled (snd (Context k cb')))"
proof -
  have ok: "bag_ok cb'"
    using assms bag_ok_Cancel bag_ok_CancelAll by blast
  have mem: "(k, c) \<in> set (cb_items cb)"
    using assms(2) by (simp add: bag_look_def map_of_SomeD)
  have c: "c \<in> set (cb_cancelled cb')"
    using assms(2,3) mem by (force simp: Cancel_def CancelAll_def bag_look_def)
  have "fst (Context k cb') \<notin> set (cb_cancelled (snd (Context k cb')))"
    using bag_live [OF bag_ok_Context [OF ok, of k] bag_look_Context] .
  moreover have "cb_cancelled (snd (Context k cb')) = cb_cancelled cb'"
    by (simp add: Context_def split: option.splits)
  ultimately show ?thesis using c by auto
qed

theorem context_fresh_after_cancel_witness:
  "fst (Context ''a'' (CancelAll (snd (Context ''a'' NewContextBag)))) \<noteq> 0"
  using context_fresh_after_cancel [of "snd (Context ''a'' NewContextBag)" "''a''" 0
      "CancelAll (snd (Context ''a'' NewContextBag))"] bag_ok_Context [OF bag_ok_New]
  by (simp add: bag_look_def Context_def NewContextBag_def)

section \<open>WebsocketBag\<close>

record ws_bag =
  ws_conns :: "(nat \<times> nat) list option"

definition Websockets :: "ws_bag option \<Rightarrow> ws_bag" where
  "Websockets b = (case b of None \<Rightarrow> \<lparr>ws_conns = None\<rparr> | Some b \<Rightarrow> b)"

definition ws_list :: "ws_bag \<Rightarrow> (nat \<times> nat) list" where
  "ws_list w = (case ws_conns w of None \<Rightarrow> [] | Some cs \<Rightarrow> cs)"

definition ws_Len :: "ws_bag \<Rightarrow> nat" where
  "ws_Len w = length (ws_list w)"

definition ws_Push :: "nat \<Rightarrow> nat \<Rightarrow> ws_bag \<Rightarrow> ws_bag" where
  "ws_Push u cancel w = w\<lparr>ws_conns := Some (AList.update u cancel (ws_list w))\<rparr>"

definition ws_Remove :: "nat \<Rightarrow> ws_bag \<Rightarrow> ws_bag" where
  "ws_Remove u w = w\<lparr>ws_conns := map_option (AList.delete u) (ws_conns w)\<rparr>"

definition ws_CancelAll :: "ws_bag \<Rightarrow> nat list \<times> ws_bag" where
  "ws_CancelAll w = (map snd (ws_list w), w\<lparr>ws_conns := Some []\<rparr>)"

definition ws_ok :: "ws_bag \<Rightarrow> bool" where
  "ws_ok w \<longleftrightarrow> distinct (map fst (ws_list w))"

definition ws_look :: "ws_bag \<Rightarrow> nat \<Rightarrow> nat option" where
  "ws_look w = map_of (ws_list w)"

lemmas ws_defs = ws_ok_def ws_look_def ws_list_def ws_Push_def ws_Remove_def ws_CancelAll_def ws_Len_def

lemma ws_ok_Push: "ws_ok w \<Longrightarrow> ws_ok (ws_Push u c w)"
  by (simp add: ws_defs distinct_update split: option.splits)

lemma ws_look_Push: "ws_look (ws_Push u c w) = (ws_look w)(u \<mapsto> c)"
  by (simp add: ws_defs update_conv' split: option.splits)

interpretation socket_bag: cancel_bag ws_ok ws_look ws_Remove ws_CancelAll
proof unfold_locales
  fix b :: ws_bag
  assume "ws_ok b"
  then show "set (fst (ws_CancelAll b)) = {c. \<exists>k. ws_look b k = Some c}"
    by (force simp: ws_CancelAll_def ws_look_def ws_ok_def map_of_eq_Some_iff)
qed (auto simp: ws_defs delete_conv AList.distinct_delete split: option.splits)

text \<open>Cancelling every websocket of a server cancels exactly the connections pushed and not removed
  since, and a second call cancels nothing.\<close>

theorem ws_cancel_all_exact:
  assumes "ws_ok w"
  shows "set (fst (ws_CancelAll (fold ws_Remove us (ws_Push u c w)))) =
      {d. \<exists>v. v \<notin> set us \<and> ((ws_look w)(u \<mapsto> c)) v = Some d} \<and>
    fst (ws_CancelAll (snd (ws_CancelAll w))) = []"
  using socket_bag.clear_after_drops [OF ws_ok_Push [OF assms]] socket_bag.clear_twice [OF assms]
  by (simp add: ws_look_Push)

theorem ws_cancel_all_exact_witness:
  "set (fst (ws_CancelAll (fold ws_Remove [1] (ws_Push 2 20 (ws_Push 1 10 (Websockets None)))))) = {20}"
proof -
  have "ws_ok (ws_Push 1 10 (Websockets None))"
    by (simp add: ws_defs Websockets_def)
  from ws_cancel_all_exact [OF this, of "[1]" 2 20] show ?thesis
    by (simp add: ws_defs Websockets_def)
qed

end
