(* ===== verification/UfsErrors.thy ===== *)
theory UfsErrors
  imports Prelude
begin

text \<open>
  Error values of the sandboxed filesystem (\<open>wings/internal/ufs/error.go\<close>): the sentinel errors, the errno
  values of the kernel, and the conversions that turn what the kernel reports into a \<open>PathError\<close> with
  one of the sentinels.

  A Go error is one of the constructors below; \<open>Wrapped\<close> stands for any error that only annotates another
  one and unwraps to it. A missing error (\<open>nil\<close>) is \<open>None\<close>.
\<close>

datatype errno = ENOTEMPTY | EEXIST | EISDIR | ENOTDIR | ENOENT | EPERM | EXDEV | ELOOP
  | EINTR | EAGAIN | ENOSYS | EINVAL | EACCES | OtherErrno nat

datatype sentinel = ErrIsDirectory | ErrNotDirectory | ErrBadPathResolution | ErrNotRegular
  | ErrClosed | ErrInvalid | ErrExist | ErrNotExist | ErrPermission | EOF | SkipDir | SkipAll

datatype err =
    Sentinel sentinel
  | Errno errno
  | PathError string string err
  | Wrapped string err
  | OpaqueErr string

text \<open>\<open>errors.As\<close> for a \<open>PathError\<close> and for an errno: the first match along the chain of causes.\<close>

fun as_path_error :: "err \<Rightarrow> (string \<times> string \<times> err) option" where
  "as_path_error (PathError op path e) = Some (op, path, e)"
| "as_path_error (Wrapped _ e) = as_path_error e"
| "as_path_error _ = None"

fun as_errno :: "err \<Rightarrow> errno option" where
  "as_errno (Errno n) = Some n"
| "as_errno (PathError _ _ e) = as_errno e"
| "as_errno (Wrapped _ e) = as_errno e"
| "as_errno _ = None"

text \<open>\<open>errors.Is\<close> for a sentinel; an errno of package \<open>syscall\<close> answers for the sentinels it stands for.\<close>

fun is_sentinel :: "sentinel \<Rightarrow> err \<Rightarrow> bool" where
  "is_sentinel s (Sentinel t) \<longleftrightarrow> s = t"
| "is_sentinel s (PathError _ _ e) \<longleftrightarrow> is_sentinel s e"
| "is_sentinel s (Wrapped _ e) \<longleftrightarrow> is_sentinel s e"
| "is_sentinel s (Errno n) \<longleftrightarrow> (s = ErrNotExist \<and> n = ENOENT) \<or> (s = ErrExist \<and> (n = EEXIST \<or> n = ENOTEMPTY)) \<or>
     (s = ErrPermission \<and> (n = EACCES \<or> n = EPERM))"
| "is_sentinel s (OpaqueErr _) \<longleftrightarrow> False"

definition errnoToPathError :: "errno \<Rightarrow> string \<Rightarrow> string \<Rightarrow> err" where
  "errnoToPathError e op path =
     (case e of
        EEXIST \<Rightarrow> PathError op path (Sentinel ErrExist)
      | EISDIR \<Rightarrow> PathError op path (Sentinel ErrIsDirectory)
      | ENOTDIR \<Rightarrow> PathError op path (Sentinel ErrNotDirectory)
      | ENOENT \<Rightarrow> PathError op path (Sentinel ErrNotExist)
      | EPERM \<Rightarrow> PathError op path (Sentinel ErrPermission)
      | EXDEV \<Rightarrow> PathError op path (Sentinel ErrBadPathResolution)
      | ELOOP \<Rightarrow> PathError op path (Sentinel ErrBadPathResolution)
      | _ \<Rightarrow> PathError op path (Errno e))"

definition convertErrorType :: "err option \<Rightarrow> err option" where
  "convertErrorType e =
     (case e of
        None \<Rightarrow> None
      | Some e \<Rightarrow>
          (case as_path_error e of
             Some (op, path, c) \<Rightarrow>
               (case c of Errno n \<Rightarrow> Some (errnoToPathError n op path) | _ \<Rightarrow> Some (PathError op path c))
           | None \<Rightarrow>
               (case as_errno e of
                  Some _ \<Rightarrow> Some (PathError ''!(UNKNOWN)'' ''!(UNKNOWN)'' e)
                | None \<Rightarrow> Some e)))"

definition ensurePathError :: "err option \<Rightarrow> string \<Rightarrow> string \<Rightarrow> err option" where
  "ensurePathError e op path =
     (case e of
        None \<Rightarrow> None
      | Some e \<Rightarrow>
          (case as_path_error e of
             Some (op', path', c) \<Rightarrow>
               (case c of Errno n \<Rightarrow> Some (errnoToPathError n op' path') | _ \<Rightarrow> Some (PathError op' path' c))
           | None \<Rightarrow>
               (case as_errno e of
                  Some n \<Rightarrow> Some (errnoToPathError n op path)
                | None \<Rightarrow> Some (PathError op path e))))"

text \<open>The errnos that must not reach a caller raw, and the sentinel each of them stands for.\<close>

fun meaning :: "errno \<Rightarrow> sentinel option" where
  "meaning EEXIST = Some ErrExist"
| "meaning EISDIR = Some ErrIsDirectory"
| "meaning ENOTDIR = Some ErrNotDirectory"
| "meaning ENOENT = Some ErrNotExist"
| "meaning EPERM = Some ErrPermission"
| "meaning EXDEV = Some ErrBadPathResolution"
| "meaning ELOOP = Some ErrBadPathResolution"
| "meaning _ = None"

lemma errnoToPathError_meaning:
  "errnoToPathError n op path =
     PathError op path (case meaning n of Some s \<Rightarrow> Sentinel s | None \<Rightarrow> Errno n)"
  by (cases n) (simp_all add: errnoToPathError_def)

definition clean_error :: "err \<Rightarrow> bool" where
  "clean_error e \<longleftrightarrow>
     (case e of PathError _ _ c \<Rightarrow> (case c of Errno n \<Rightarrow> meaning n = None | _ \<Rightarrow> True) | _ \<Rightarrow> False)"

lemma clean_error_path: "clean_error (PathError op path c) \<longleftrightarrow> (\<forall>n. c = Errno n \<longrightarrow> meaning n = None)"
  by (simp add: clean_error_def split: err.splits)

lemma clean_errnoToPathError [simp]: "clean_error (errnoToPathError n op path)"
  by (cases "meaning n") (simp_all add: clean_error_def errnoToPathError_meaning)

lemma ensurePathError_None [simp]: "ensurePathError None op path = None"
  by (simp add: ensurePathError_def)

lemma ensurePathError_eq_None [simp]: "ensurePathError e op path = None \<longleftrightarrow> e = None"
  by (auto simp: ensurePathError_def split: option.splits err.splits)

lemma ensurePathError_path:
  "ensurePathError (Some (PathError op' path' c)) op path =
     (case c of Errno n \<Rightarrow> Some (errnoToPathError n op' path') | _ \<Rightarrow> Some (PathError op' path' c))"
  by (simp add: ensurePathError_def)

lemma ensurePathError_clean_id:
  "clean_error e \<Longrightarrow> ensurePathError (Some e) op path = Some e"
proof (cases e)
  case (PathError op' path' c)
  assume "clean_error e"
  with PathError show ?thesis
    by (cases c) (simp_all add: ensurePathError_path clean_error_def errnoToPathError_meaning)
qed (simp_all add: clean_error_def)

lemma ensurePathError_clean: "ensurePathError e op path = Some e' \<Longrightarrow> clean_error e'"
  by (auto simp: ensurePathError_def clean_error_path split: option.splits err.splits)

text \<open>Whatever an operation reports, \<open>ensurePathError\<close> hands the caller no error for no error, and
  otherwise a path error whose cause is never one of the errnos that have a sentinel: an error that carries
  no path error of its own is reported under the operation and path given, with the sentinel its errno stands
  for. Applying it again, under any name, changes nothing, and \<open>convertErrorType\<close> keeps its results.\<close>

theorem path_error_normal_form:
  "(e = None \<and> ensurePathError e op path = None) \<or>
   (\<exists>e'. ensurePathError e op path = Some e' \<and> clean_error e' \<and>
      (\<forall>op' path'. ensurePathError (Some e') op' path' = Some e') \<and> convertErrorType (Some e') = Some e' \<and>
      (\<exists>a. e = Some a \<and> (as_path_error a \<noteq> None \<or>
         e' = PathError op path (case as_errno a of
            None \<Rightarrow> a | Some n \<Rightarrow> (case meaning n of Some s \<Rightarrow> Sentinel s | None \<Rightarrow> Errno n)))))"
proof (cases e)
  case (Some a)
  then obtain e' where e': "ensurePathError e op path = Some e'"
    by (cases "ensurePathError e op path") auto
  then have clean: "clean_error e'"
    by (rule ensurePathError_clean)
  then have "\<forall>op' path'. ensurePathError (Some e') op' path' = Some e'"
    by (simp add: ensurePathError_clean_id)
  moreover from clean have "convertErrorType (Some e') = ensurePathError (Some e') op path"
    by (cases e') (auto simp: convertErrorType_def ensurePathError_def clean_error_def)
  moreover have "as_path_error a \<noteq> None \<or>
         e' = PathError op path (case as_errno a of
            None \<Rightarrow> a | Some n \<Rightarrow> (case meaning n of Some s \<Rightarrow> Sentinel s | None \<Rightarrow> Errno n))"
    using e' Some by (auto simp: ensurePathError_def errnoToPathError_meaning split: option.splits)
  ultimately show ?thesis
    using e' clean Some by simp
qed simp

theorem path_error_normal_form_witness:
  "\<exists>e'. ensurePathError (Some (Errno EXDEV)) ''openat'' ''x'' = Some e' \<and> clean_error e' \<and>
     e' = PathError ''openat'' ''x'' (Sentinel ErrBadPathResolution)"
  using path_error_normal_form [of "Some (Errno EXDEV)" "''openat''" "''x''"] by simp

end
