(* ===== verification/UfsQuota.thy ===== *)
theory UfsQuota
  imports UfsErrors
begin

text \<open>
  Disk accounting: the limit and usage counters of \<open>wings/internal/ufs/fs_quota.go\<close>, the counting reader
  and writer of \<open>wings/internal/ufs/quota_writer.go\<close>, and the cached disk-space check of
  \<open>wings/server/filesystem/disk_space.go\<close>. The counters are \<open>int64\<close>: sums wrap around.
\<close>

section \<open>Quota counters\<close>

record quota =
  q_limit :: int
  q_usage :: int

definition NewQuota :: "int \<Rightarrow> quota" where
  "NewQuota limit = \<lparr>q_limit = limit, q_usage = 0\<rparr>"

definition Limit :: "quota \<Rightarrow> int" where
  "Limit q = q_limit q"

definition SetLimit :: "int \<Rightarrow> quota \<Rightarrow> int \<times> quota" where
  "SetLimit newLimit q = (q_limit q, q\<lparr>q_limit := newLimit\<rparr>)"

definition Usage :: "quota \<Rightarrow> int" where
  "Usage q = q_usage q"

definition SetUsage :: "int \<Rightarrow> quota \<Rightarrow> int \<times> quota" where
  "SetUsage newUsage q = (q_usage q, q\<lparr>q_usage := newUsage\<rparr>)"

definition Add :: "int \<Rightarrow> quota \<Rightarrow> int \<times> quota" where
  "Add i q =
     (let usage = Usage q
      in if wrap64 (usage + i) < 0 then (0, q\<lparr>q_usage := 0\<rparr>)
         else (wrap64 (q_usage q + i), q\<lparr>q_usage := wrap64 (q_usage q + i)\<rparr>))"

definition CanFit :: "int \<Rightarrow> quota \<Rightarrow> bool" where
  "CanFit sz q =
     (let limit = Limit q
      in if limit = -1 then False
         else if limit = 0 then True
         else (let usage = Usage q
               in if usage = -1 then True
                  else if wrap64 (usage + sz) \<le> limit then True
                  else False))"

text \<open>The accounting a caller does around writes and deletions.\<close>

datatype quota_op = Reserve int | Adjust int

fun quota_step :: "quota_op \<Rightarrow> quota \<Rightarrow> quota" where
  "quota_step (Reserve n) q = (if CanFit n q then snd (Add n q) else q)"
| "quota_step (Adjust n) q = snd (Add n q)"

lemma Add_usage: "fst (Add i q) = Usage (snd (Add i q))" "0 \<le> Usage (snd (Add i q))"
  "Limit (snd (Add i q)) = Limit q"
  by (simp_all add: Add_def Usage_def Limit_def Let_def)

lemma Add_exact:
  "in_i64 (Usage q + i) \<Longrightarrow> Usage (snd (Add i q)) = max 0 (Usage q + i)"
  by (auto simp: Add_def Usage_def Let_def)

lemma quota_step_limit [simp]: "Limit (quota_step op q) = Limit q"
  by (cases op) (simp_all add: Add_usage)

text \<open>Whatever sizes are added or removed, even when the sum wraps around, the tracked usage is never
  negative, the value \<open>Add\<close> returns is the usage it leaves, and as long as nothing overflows it is the exact
  sum, cut off at zero.\<close>

theorem quota_usage_never_negative:
  "0 \<le> Usage (snd (Add i q)) \<and> fst (Add i q) = Usage (snd (Add i q)) \<and>
   (in_i64 (Usage q + i) \<longrightarrow> Usage (snd (Add i q)) = max 0 (Usage q + i)) \<and> Limit (snd (Add i q)) = Limit q"
  by (simp add: Add_usage Add_exact)

theorem quota_usage_never_negative_witness: "Usage (snd (Add (-5) (snd (Add 3 (NewQuota 10))))) = 0"
  using quota_usage_never_negative [of "-5" "snd (Add 3 (NewQuota 10))"]
  by (simp add: Add_def Usage_def NewQuota_def in_i64_def Let_def wrap64_mono_nonneg)

lemma reserve_keeps_limit:
  assumes "0 < Limit q" "0 \<le> Usage q" "Usage q \<le> Limit q" "0 \<le> n" "Limit q + n < 2 ^ 63"
  shows "Usage (quota_step (Reserve n) q) \<le> Limit q \<and> 0 \<le> Usage (quota_step (Reserve n) q)"
proof -
  have "in_i64 (Usage q + n)" using assms by (intro in_i64_nonneg) linarith+
  with assms show ?thesis
    by (simp add: CanFit_def Let_def Add_exact)
qed

lemma release_keeps_limit:
  assumes "0 < Limit q" "0 \<le> Usage q" "Usage q \<le> Limit q" "n \<le> 0" "- (2 ^ 63) \<le> n" "Limit q < 2 ^ 63"
  shows "Usage (quota_step (Adjust n) q) \<le> Limit q \<and> 0 \<le> Usage (quota_step (Adjust n) q)"
proof -
  have "in_i64 (Usage q + n)"
    unfolding in_i64_def using assms by linarith
  with assms show ?thesis by (simp add: Add_exact)
qed

definition fair_op :: "int \<Rightarrow> quota_op \<Rightarrow> bool" where
  "fair_op limit op = (case op of Reserve n \<Rightarrow> 0 \<le> n \<and> limit + n < 2 ^ 63 | Adjust n \<Rightarrow> n \<le> 0 \<and> - (2 ^ 63) \<le> n)"

text \<open>A client that writes only what \<open>CanFit\<close> admits and accounts for its deletions never pushes the usage
  past a positive limit, as long as no single request comes within the limit of the \<open>int64\<close> range.\<close>

theorem quota_limit_respected:
  assumes "0 < Limit q" "Limit q < 2 ^ 63" "0 \<le> Usage q" "Usage q \<le> Limit q" "\<forall>op \<in> set ops. fair_op (Limit q) op"
  shows "0 \<le> Usage (fold quota_step ops q) \<and> Usage (fold quota_step ops q) \<le> Limit q"
  using assms
proof (induction ops arbitrary: q)
  case (Cons op ops)
  have "0 \<le> Usage (quota_step op q) \<and> Usage (quota_step op q) \<le> Limit q"
    using Cons.prems reserve_keeps_limit release_keeps_limit
    by (cases op) (auto simp: fair_op_def simp del: quota_step.simps)
  with Cons.IH [of "quota_step op q"] Cons.prems show ?case by simp
qed simp

theorem quota_limit_respected_witness:
  "Usage (fold quota_step [Reserve 4, Reserve 3, Adjust (-2)] (NewQuota 6)) \<le> 6"
proof -
  have "Limit (NewQuota 6) = 6" "Usage (NewQuota 6) = 0"
    by (simp_all add: Limit_def Usage_def NewQuota_def)
  then show ?thesis
    using quota_limit_respected [of "NewQuota 6" "[Reserve 4, Reserve 3, Adjust (-2)]"]
    by (simp add: fair_op_def del: fold_simps)
qed

text \<open>The check itself is exposed to wrap-around: a request whose sum with the usage leaves the \<open>int64\<close>
  range is admitted, whatever the (positive) limit.\<close>

theorem canfit_wraps_around:
  assumes "0 < Limit q" "0 \<le> Usage q" "sz < 2 ^ 63" "2 ^ 63 \<le> Usage q + sz" "Usage q < 2 ^ 63"
  shows "CanFit sz q"
proof -
  have "wrap64 (Usage q + sz) = Usage q + sz - 2 ^ 64"
    using assms by (intro wrap64_overflow) simp_all
  with assms show ?thesis
    by (simp add: CanFit_def Let_def)
qed

theorem canfit_wraps_around_witness: "CanFit (2 ^ 63 - 1) \<lparr>q_limit = 10, q_usage = 5\<rparr>"
  by (rule canfit_wraps_around) (simp_all add: Limit_def Usage_def)

section \<open>Counting writer and reader\<close>

text \<open>
  The underlying file or reader is a parameter: given the data (or the size of the buffer) and its own state it
  returns the number of bytes it took, an error, and its new state.
\<close>

record 's counted =
  ct_inner :: 's
  ct_counter :: int
  ct_err :: "err option"

definition NewCounted :: "'s \<Rightarrow> 's counted" where
  "NewCounted f = \<lparr>ct_inner = f, ct_counter = 0, ct_err = None\<rparr>"

definition BytesWritten :: "'s counted \<Rightarrow> int" where
  "BytesWritten w = ct_counter w"

definition counted_Error :: "'s counted \<Rightarrow> err option" where
  "counted_Error w = (if ct_err w = Some (Sentinel EOF) then None else ct_err w)"

definition counted_Write ::
  "('d \<Rightarrow> 's \<Rightarrow> (int \<times> err option) \<times> 's) \<Rightarrow> 'd \<Rightarrow> 's counted \<Rightarrow> (int \<times> err option) \<times> 's counted" where
  "counted_Write inner p w =
     (if ct_err w \<noteq> None then ((0, Some (Sentinel EOF)), w)
      else (case inner p (ct_inner w) of
              ((n, e), f) \<Rightarrow>
                (let w = \<lparr>ct_inner = f, ct_counter = wrap64 (ct_counter w + n), ct_err = e\<rparr>
                 in if e = Some (Sentinel EOF) then ((n, Some (Sentinel EOF)), w) else ((n, None), w))))"

fun write_each ::
  "('d \<Rightarrow> 's \<Rightarrow> (int \<times> err option) \<times> 's) \<Rightarrow> 'd list \<Rightarrow> 's counted \<Rightarrow> int list \<times> 's counted" where
  "write_each inner [] w = ([], w)"
| "write_each inner (p # ps) w =
     (let ((n, _), w) = counted_Write inner p w; (ns, w) = write_each inner ps w in (n # ns, w))"

lemma wrap64_add_left [simp]: "wrap64 (wrap64 a + b) = wrap64 (a + b)"
proof -
  have "wrap64 a + b + 2 ^ 63 = (a + 2 ^ 63) mod 2 ^ 64 + b"
    by (simp add: wrap64_def)
  then have "(wrap64 a + b + 2 ^ 63) mod 2 ^ 64 = (a + 2 ^ 63 + b) mod 2 ^ 64"
    by (simp only: mod_add_left_eq)
  then have "(wrap64 a + b + 2 ^ 63) mod 2 ^ 64 = (a + b + 2 ^ 63) mod 2 ^ 64"
    by (simp only: ac_simps)
  then show ?thesis by (simp add: wrap64_def)
qed

lemma counted_Write_failed: "ct_err w \<noteq> None \<Longrightarrow> counted_Write inner p w = ((0, Some (Sentinel EOF)), w)"
  by (simp add: counted_Write_def)

lemma counted_Write_count:
  "in_i64 (ct_counter w) \<Longrightarrow> counted_Write inner p w = ((n, e), w') \<Longrightarrow>
   ct_counter w' = wrap64 (ct_counter w + n) \<and> in_i64 (ct_counter w')"
  by (auto simp: counted_Write_def Let_def split: if_splits prod.splits)

lemma write_each_failed: "ct_err w \<noteq> None \<Longrightarrow> write_each inner ps w = (replicate (length ps) 0, w)"
  by (induction ps) (simp_all add: counted_Write_failed)

lemma write_each_count:
  "in_i64 (ct_counter w) \<Longrightarrow> write_each inner ps w = (ns, w') \<Longrightarrow>
   ct_counter w' = wrap64 (ct_counter w + sum_list ns)"
proof (induction ps arbitrary: w ns)
  case (Cons p ps)
  obtain n e v where v: "counted_Write inner p w = ((n, e), v)"
    by (metis surj_pair)
  with Cons.prems obtain ms where ms: "write_each inner ps v = (ms, w')" "ns = n # ms"
    by (auto simp: Let_def split: prod.splits)
  from counted_Write_count [OF Cons.prems(1) v] Cons.IH [OF _ ms(1)] ms(2) show ?case
    by (simp add: add.assoc)
qed simp

text \<open>The counter of a counting writer is exactly the number of bytes its writes reported, modulo the
  width of the counter, and once the underlying writer has failed no further write reaches it: later writes
  report zero bytes and leave the writer as it is.\<close>

theorem counted_bytes_exact:
  assumes "write_each inner (ps @ qs) (NewCounted f) = (ns, w)"
  shows "BytesWritten w = wrap64 (sum_list ns) \<and>
    (ct_err (snd (write_each inner ps (NewCounted f))) \<noteq> None \<longrightarrow>
       w = snd (write_each inner ps (NewCounted f)) \<and> drop (length ps) ns = replicate (length qs) 0)"
proof -
  have split: "write_each inner (ps @ qs) v =
      (fst (write_each inner ps v) @ fst (write_each inner qs (snd (write_each inner ps v))),
       snd (write_each inner qs (snd (write_each inner ps v))))" for v
    by (induction ps arbitrary: v) (simp, simp add: Let_def case_prod_beta)
  have len: "length (fst (write_each inner ps v)) = length ps" for v
    by (induction ps arbitrary: v) (simp, simp add: Let_def case_prod_beta)
  have "BytesWritten w = wrap64 (sum_list ns)"
    using write_each_count [OF _ assms] by (simp add: NewCounted_def BytesWritten_def in_i64_def)
  then show ?thesis
    using assms len [of "NewCounted f"] by (auto simp: split write_each_failed)
qed

theorem counted_bytes_exact_witness:
  "BytesWritten (snd (write_each (\<lambda>p left. if length p \<le> left then ((int (length p), None), left - length p)
      else ((int left, Some (Errno (OtherErrno 28))), 0)) [''abc'', ''defg'', ''h''] (NewCounted 5))) = 5"
  using counted_bytes_exact [OF surjective_pairing, of "\<lambda>p left. if length p \<le> left then ((int (length p), None), left - length p)
      else ((int left, Some (Errno (OtherErrno 28))), 0)" "[''abc'', ''defg'']" "[''h'']" 5]
  by (simp add: NewCounted_def counted_Write_def wrap64_mono_nonneg)

end
