(* ===== verification/UfsPath.thy ===== *)
theory UfsPath
  imports UfsErrors
begin

text \<open>
  Lexical path handling of the sandboxed filesystem: \<open>basename\<close>, \<open>endsWithDot\<close>, \<open>splitPath\<close>
  (\<open>wings/internal/ufs/path_unix.go\<close>), \<open>unsafePath\<close> and \<open>unsafeIsPathInsideOfBase\<close>
  (\<open>wings/internal/ufs/fs_unix.go\<close>) and the older pair of \<open>wings/server/filesystem/path.go\<close>,
  over a model of the functions of Go's \<open>path/filepath\<close> they call.
\<close>

section \<open>Package filepath\<close>

abbreviation slash :: char where
  "slash \<equiv> CHR ''/''"

text \<open>\<open>filepath.Clean\<close>: the components kept so far are a stack, its top first.\<close>

definition clean_step :: "bool \<Rightarrow> string \<Rightarrow> string list \<Rightarrow> string list" where
  "clean_step rooted c st =
     (if c = [] \<or> c = ''.'' then st
      else if c = ''..'' then
        (case st of
           [] \<Rightarrow> if rooted then [] else [c]
         | t # st' \<Rightarrow> if t = ''..'' then c # st else st')
      else c # st)"

definition clean_stack :: "bool \<Rightarrow> string list \<Rightarrow> string list \<Rightarrow> string list" where
  "clean_stack rooted cs st = fold (clean_step rooted) cs st"

definition Clean :: "string \<Rightarrow> string" where
  "Clean path =
     (let rooted = HasPrefix path ''/'';
          cs = rev (clean_stack rooted (split_on slash path) [])
      in if rooted then slash # join_with ''/'' cs
         else if cs = [] then ''.'' else join_with ''/'' cs)"

definition Join :: "string list \<Rightarrow> string" where
  "Join es = (case dropWhile (\<lambda>e. e = []) es of [] \<Rightarrow> [] | es' \<Rightarrow> Clean (join_with ''/'' es'))"

definition Split :: "string \<Rightarrow> string \<times> string" where
  "Split path = (let f = rev (takeWhile (\<lambda>c. c \<noteq> slash) (rev path))
     in (take (length path - length f) path, f))"

text \<open>A component that is neither empty, nor \<open>.\<close>, nor \<open>..\<close>, and an absolute path made of such.\<close>

definition plain :: "string \<Rightarrow> bool" where
  "plain c \<longleftrightarrow> c \<noteq> [] \<and> c \<noteq> ''.'' \<and> c \<noteq> ''..'' \<and> slash \<notin> set c"

definition spell :: "string list \<Rightarrow> string" where
  "spell cs = concat (map (\<lambda>c. slash # c) cs)"

lemma spell_simps [simp]: "spell [] = []" "spell (c # cs) = slash # c @ spell cs"
  "spell (cs @ ds) = spell cs @ spell ds"
  by (simp_all add: spell_def)

lemma spell_join: "cs \<noteq> [] \<Longrightarrow> spell cs = slash # join_with ''/'' cs"
  by (induction "''/''" cs rule: join_with.induct) auto

lemma split_spell: "\<forall>c \<in> set cs. slash \<notin> set c \<Longrightarrow> split_on slash (spell cs @ slash # xs) = (if cs = [] then [[]] else [] # cs) @ (if cs = [] then split_on slash xs else split_on slash xs)"
proof (induction cs)
  case (Cons c cs)
  then show ?case
    by (cases cs) (auto simp: split_on_append_sep)
qed simp

lemma clean_stack_Nil [simp]: "clean_stack r [] st = st"
  by (simp add: clean_stack_def)

lemma clean_stack_Cons [simp]: "clean_stack r (c # cs) st = clean_stack r cs (clean_step r c st)"
  by (simp add: clean_stack_def)

lemma clean_stack_append [simp]: "clean_stack r (cs @ ds) st = clean_stack r ds (clean_stack r cs st)"
  by (simp add: clean_stack_def)

lemma clean_step_empty [simp]: "clean_step r [] st = st"
  by (simp add: clean_step_def)

lemma clean_step_plain: "plain c \<Longrightarrow> clean_step r c st = c # st"
  by (simp add: clean_step_def plain_def)

lemma clean_stack_plain: "\<forall>c \<in> set cs. plain c \<Longrightarrow> clean_stack r cs st = rev cs @ st"
  by (induction cs arbitrary: st) (simp_all add: clean_step_plain)

text \<open>Below a rooted path the stack never holds anything but plain components.\<close>

lemma clean_stack_all_plain:
  "\<forall>c \<in> set st. plain c \<Longrightarrow> \<forall>c \<in> set cs. slash \<notin> set c \<Longrightarrow> \<forall>c \<in> set (clean_stack True cs st). plain c"
proof (induction cs arbitrary: st)
  case (Cons c cs)
  have "\<forall>c \<in> set (clean_step True c st). plain c"
    using Cons.prems by (auto simp: clean_step_def plain_def split: list.splits)
  with Cons show ?case by simp
qed simp

lemma Clean_rooted:
  assumes "HasPrefix p ''/''"
  obtains cs where "Clean p = slash # join_with ''/'' cs" "\<forall>c \<in> set cs. plain c"
    "cs = rev (clean_stack True (split_on slash p) [])"
proof
  show "Clean p = slash # join_with ''/'' (rev (clean_stack True (split_on slash p) []))"
    using assms by (simp add: Clean_def Let_def)
  show "\<forall>c \<in> set (rev (clean_stack True (split_on slash p) [])). plain c"
    using clean_stack_all_plain [of "[]" "split_on slash p"] split_on_no_sep by fastforce
qed simp

lemma split_slash_join:
  "cs \<noteq> [] \<Longrightarrow> \<forall>c \<in> set cs. slash \<notin> set c \<Longrightarrow> split_on slash (slash # join_with ''/'' cs) = [] # cs"
  by (simp add: split_join)

lemma Clean_plain_rooted:
  assumes "\<forall>c \<in> set cs. plain c"
  shows "Clean (slash # join_with ''/'' cs) = slash # join_with ''/'' cs"
proof (cases "cs = []")
  case False
  then have "split_on slash (slash # join_with ''/'' cs) = [] # cs"
    using assms by (intro split_slash_join) (auto simp: plain_def)
  with assms show ?thesis
    by (simp add: Clean_def Let_def clean_stack_plain)
qed (simp add: Clean_def)

lemma Clean_idem_rooted: "HasPrefix p ''/'' \<Longrightarrow> Clean (Clean p) = Clean p"
  using Clean_plain_rooted by (metis Clean_rooted)

section \<open>unsafePath\<close>

abbreviation BadPathResolution :: "string \<Rightarrow> string \<Rightarrow> err" where
  "BadPathResolution op path \<equiv> PathError op path (Sentinel ErrBadPathResolution)"

text \<open>\<open>base\<close> is \<open>fs.basePath\<close>.\<close>

definition unsafeIsPathInsideOfBase :: "string \<Rightarrow> string \<Rightarrow> bool" where
  "unsafeIsPathInsideOfBase base path = HasPrefix (TrimSuffix path ''/'' @ ''/'') (base @ ''/'')"

definition unsafePath :: "string \<Rightarrow> string \<Rightarrow> (err, string) outcome" where
  "unsafePath base path =
     (let r = Clean (Join [base, TrimPrefix path base])
      in if unsafeIsPathInsideOfBase base r
         then (let r = TrimPrefix (TrimPrefix r base) ''/''
               in if r = [] then Ok ''.'' else Ok r)
         else Err (BadPathResolution ''safePath'' path))"

text \<open>The abstract view: where the components of a path lead, starting from the base directory.\<close>

definition lexical_target :: "string list \<Rightarrow> string \<Rightarrow> string list" where
  "lexical_target bs path = rev (clean_stack True (split_on slash path) (rev bs))"

definition relative_name :: "string list \<Rightarrow> string" where
  "relative_name cs = (if cs = [] then ''.'' else join_with ''/'' cs)"

definition good_base :: "string list \<Rightarrow> bool" where
  "good_base bs \<longleftrightarrow> bs \<noteq> [] \<and> (\<forall>b \<in> set bs. plain b)"

lemma lexical_target_plain: "good_base bs \<Longrightarrow> \<forall>c \<in> set (lexical_target bs p). plain c"
  unfolding lexical_target_def good_base_def
  using clean_stack_all_plain [of "rev bs" "split_on slash p"] split_on_no_sep by fastforce

lemma join_clean_target:
  assumes "good_base bs"
  shows "Clean (Join [spell bs, p]) = slash # join_with ''/'' (lexical_target bs p)"
proof -
  have slashes: "\<forall>b \<in> set bs. slash \<notin> set b" "bs \<noteq> []" "\<forall>b \<in> set bs. plain b"
    using assms by (auto simp: good_base_def plain_def)
  then have ne: "spell bs \<noteq> []"
    by (cases bs) simp_all
  let ?p = "spell bs @ slash # p"
  have "split_on slash ?p = [] # bs @ split_on slash p"
    using split_spell [OF slashes(1), of p] slashes(2) by simp
  then have "clean_stack True (split_on slash ?p) [] = clean_stack True (split_on slash p) (rev bs)"
    using slashes by (simp add: clean_stack_plain)
  moreover have pre: "HasPrefix ?p ''/''"
    using slashes(2) by (cases bs) simp_all
  ultimately have "Clean ?p = slash # join_with ''/'' (lexical_target bs p)"
    by (simp add: Clean_def lexical_target_def)
  moreover have "Join [spell bs, p] = Clean ?p"
    using ne by (simp add: Join_def)
  ultimately show ?thesis
    using Clean_idem_rooted [OF pre] by metis
qed

lemma join_ne: "cs \<noteq> [] \<Longrightarrow> \<forall>c \<in> set cs. plain c \<Longrightarrow> join_with ''/'' cs \<noteq> []"
  by (cases cs; cases "tl cs") (auto simp: plain_def)

lemma last_join: "cs \<noteq> [] \<Longrightarrow> \<forall>c \<in> set cs. plain c \<Longrightarrow> last (join_with ''/'' cs) = last (last cs)"
proof (induction "''/''" cs rule: join_with.induct)
  case (3 w v ws)
  then show ?case
    using join_ne [of "v # ws"] by simp
qed simp_all

lemma suffix_one: "suffix [x] p \<longleftrightarrow> p \<noteq> [] \<and> last p = x"
  by (metis append_butlast_last_id append_is_Nil_conv last_snoc list.distinct(1) suffix_def)

lemma join_last_plain:
  assumes "cs \<noteq> []" "\<forall>c \<in> set cs. plain c"
  shows "\<not> HasSuffix (join_with ''/'' cs) ''/''"
proof -
  have "plain (last cs)" using assms by simp
  then have "last (last cs) \<in> set (last cs)" "slash \<notin> set (last cs)"
    by (simp_all add: plain_def)
  then have "last (last cs) \<noteq> slash" by auto
  then show ?thesis by (simp add: suffix_one last_join [OF assms])
qed

lemma TrimSuffix_abs:
  assumes "cs \<noteq> []" "\<forall>c \<in> set cs. plain c"
  shows "TrimSuffix (slash # join_with ''/'' cs) ''/'' = spell cs"
proof -
  have "\<not> HasSuffix (slash # join_with ''/'' cs) ''/''"
    using join_last_plain [OF assms] join_ne [OF assms] by (simp add: suffix_one)
  then show ?thesis
    using assms by (simp add: TrimSuffix_idle spell_join)
qed

lemma prefix_spell:
  assumes "\<forall>c \<in> set cs. slash \<notin> set c" "\<forall>b \<in> set bs. slash \<notin> set b"
  shows "prefix (spell bs @ ''/'') (spell cs @ ''/'') \<longleftrightarrow> prefix bs cs"
proof -
  have "prefix bs cs" if "spell cs @ ''/'' = spell bs @ slash # z" for z
  proof (cases "bs = []")
    case False
    from that have "split_on slash (spell cs @ slash # []) = split_on slash (spell bs @ slash # z)"
      by simp
    with assms False have "cs @ [[]] = bs @ split_on slash z"
      using split_spell [of cs "[]"] split_spell [of bs z] by (auto split: if_splits)
    then show ?thesis
      by (metis butlast_append butlast_snoc prefix_def split_on_not_Nil)
  qed simp
  moreover have "prefix (spell bs @ ''/'') (spell (bs @ ds) @ ''/'')" for ds
    by (cases ds) simp_all
  ultimately show ?thesis
    unfolding prefix_def by (metis append_Cons append_Nil append_assoc prefix_def)
qed

lemma inside_base_iff:
  assumes "good_base bs" "\<forall>c \<in> set cs. plain c"
  shows "unsafeIsPathInsideOfBase (spell bs) (slash # join_with ''/'' cs) \<longleftrightarrow> prefix bs cs"
proof (cases "cs = []")
  case True
  have "length (spell bs) \<ge> 1"
    using assms(1) by (cases bs) (auto simp: good_base_def)
  then have "\<not> prefix (spell bs @ ''/'') ''/''"
    by (auto simp: prefix_def dest: arg_cong [where f = length])
  with True assms(1) show ?thesis
    by (simp add: unsafeIsPathInsideOfBase_def TrimSuffix_def good_base_def)
next
  case False
  with assms show ?thesis
    using prefix_spell [of cs bs]
    by (simp add: unsafeIsPathInsideOfBase_def TrimSuffix_abs good_base_def plain_def)
qed

lemma unsafePath_eq:
  assumes "good_base bs"
  shows "unsafePath (spell bs) path =
    (let cs = lexical_target bs (TrimPrefix path (spell bs))
     in if prefix bs cs then Ok (relative_name (drop (length bs) cs))
        else Err (BadPathResolution ''safePath'' path))"
proof -
  let ?cs = "lexical_target bs (TrimPrefix path (spell bs))"
  have pl: "\<forall>c \<in> set ?cs. plain c"
    by (rule lexical_target_plain [OF assms])
  have "TrimPrefix (TrimPrefix (slash # join_with ''/'' ?cs) (spell bs)) ''/'' = join_with ''/'' (drop (length bs) ?cs)"
    if p: "prefix bs ?cs"
  proof -
    from p obtain ds where ds: "?cs = bs @ ds" by (auto simp: prefix_def)
    then have ne: "?cs \<noteq> []" using assms by (auto simp: good_base_def)
    then have "slash # join_with ''/'' ?cs = spell bs @ spell ds"
      using spell_join [OF ne] ds by simp
    moreover have "TrimPrefix (spell ds) ''/'' = join_with ''/'' ds"
      by (cases "ds = []") (simp_all add: spell_join TrimPrefix_def)
    ultimately show ?thesis by (simp add: ds)
  qed
  moreover have "join_with ''/'' ds = [] \<longleftrightarrow> ds = []" if "\<forall>c \<in> set ds. plain c" for ds
    using that join_ne by (cases "ds = []") auto
  moreover have "\<forall>c \<in> set (drop (length bs) ?cs). plain c"
    using pl by (meson in_set_dropD)
  ultimately show ?thesis
    using pl assms
    by (simp add: unsafePath_def Let_def join_clean_target inside_base_iff relative_name_def)
qed

definition safe_name :: "string \<Rightarrow> bool" where
  "safe_name name \<longleftrightarrow> (\<exists>cs. (\<forall>c \<in> set cs. plain c) \<and> name = relative_name cs)"

lemma unsafePath_Ok:
  assumes "good_base bs" "unsafePath (spell bs) path = Ok name"
  obtains cs where "\<forall>c \<in> set cs. plain c" "name = relative_name cs"
    "lexical_target bs (TrimPrefix path (spell bs)) = bs @ cs"
proof -
  let ?t = "lexical_target bs (TrimPrefix path (spell bs))"
  have "prefix bs ?t" "name = relative_name (drop (length bs) ?t)"
    using assms by (auto simp: unsafePath_eq Let_def split: if_splits)
  moreover from this(1) obtain cs where "?t = bs @ cs" by (auto simp: prefix_def)
  moreover from this have "\<forall>c \<in> set cs. plain c"
    using lexical_target_plain [OF assms(1), of "TrimPrefix path (spell bs)"] by simp
  ultimately show thesis by (intro that [of cs]) simp_all
qed

lemma safe_name_unsafePath: "good_base bs \<Longrightarrow> unsafePath (spell bs) path = Ok name \<Longrightarrow> safe_name name"
  by (auto simp: safe_name_def elim: unsafePath_Ok)

lemma safe_name_relative: "safe_name name \<Longrightarrow> name \<noteq> [] \<and> hd name \<noteq> slash"
proof -
  assume "safe_name name"
  then obtain cs where cs: "\<forall>c \<in> set cs. plain c" "name = relative_name cs"
    by (auto simp: safe_name_def)
  show ?thesis
  proof (cases cs)
    case (Cons c cs')
    with cs(1) have "plain c" by simp
    then have "c \<noteq> []" "hd c \<noteq> slash"
      unfolding plain_def by (blast, metis hd_in_set)
    then show ?thesis
      using cs Cons by (cases cs') (auto simp: relative_name_def)
  qed (simp add: cs relative_name_def)
qed

lemma split_relative_name:
  "\<forall>c \<in> set cs. plain c \<Longrightarrow> split_on slash (relative_name cs) = (if cs = [] then [''.''] else cs)"
  by (auto simp: relative_name_def split_on_single split_join plain_def)

lemma lexical_target_relative:
  "\<forall>c \<in> set cs. plain c \<Longrightarrow> lexical_target bs (relative_name cs) = bs @ cs"
  by (auto simp: lexical_target_def split_relative_name clean_stack_plain clean_step_def)

text \<open>C10: A path is accepted exactly when its components, followed one by one from the base directory, end
  inside the base directory; the result is the name relative to the base, made of plain components only
  (no empty, dot or dot-dot component, no leading slash), and a rejected path is reported with itself in the
  error. No accepted name can climb out of the base.\<close>

theorem unsafe_path_exact:
  assumes "good_base bs"
  shows "case unsafePath (spell bs) path of
      Ok name \<Rightarrow> (\<exists>cs. (\<forall>c \<in> set cs. plain c) \<and> name = relative_name cs \<and>
        lexical_target bs (TrimPrefix path (spell bs)) = bs @ cs)
    | Err e \<Rightarrow> e = BadPathResolution ''safePath'' path \<and>
        \<not> prefix bs (lexical_target bs (TrimPrefix path (spell bs)))
    | Panic \<Rightarrow> False"
proof (cases "prefix bs (lexical_target bs (TrimPrefix path (spell bs)))")
  case True
  then obtain name where "unsafePath (spell bs) path = Ok name"
    using assms by (simp add: unsafePath_eq Let_def)
  with assms show ?thesis by (auto elim: unsafePath_Ok)
qed (simp add: assms unsafePath_eq Let_def)

theorem unsafe_path_exact_witness:
  "unsafePath ''/srv/a'' ''../../etc/passwd'' = Err (BadPathResolution ''safePath'' ''../../etc/passwd'') \<and>
   \<not> prefix [''srv'', ''a''] (lexical_target [''srv'', ''a''] ''../../etc/passwd'')"
proof -
  have base: "good_base [''srv'', ''a'']" "spell [''srv'', ''a''] = ''/srv/a''"
    by (simp_all add: good_base_def plain_def)
  have eq: "unsafePath ''/srv/a'' ''../../etc/passwd'' = Err (BadPathResolution ''safePath'' ''../../etc/passwd'')"
    by code_simp
  have trim: "TrimPrefix ''../../etc/passwd'' ''/srv/a'' = ''../../etc/passwd''"
    by code_simp
  have "\<not> prefix [''srv'', ''a''] (lexical_target [''srv'', ''a''] ''../../etc/passwd'')"
    using unsafe_path_exact [OF base(1), of "''../../etc/passwd''"]
    unfolding base(2) eq trim outcome.case by (rule conjunct2)
  with eq show ?thesis by (rule conjI)
qed

text \<open>Resolving is idempotent: a name the check has produced resolves to itself.\<close>

theorem unsafe_path_idempotent:
  assumes "good_base bs" "unsafePath (spell bs) path = Ok name"
  shows "unsafePath (spell bs) name = Ok name"
proof -
  from assms obtain cs where cs: "\<forall>c \<in> set cs. plain c" "name = relative_name cs"
    by (rule unsafePath_Ok)
  have "safe_name name"
    using cs by (auto simp: safe_name_def)
  then have "name \<noteq> []" "hd name \<noteq> slash"
    using safe_name_relative by auto
  moreover obtain b bs' where "bs = b # bs'"
    using assms(1) by (cases bs) (auto simp: good_base_def)
  ultimately have "TrimPrefix name (spell bs) = name"
    by (cases name) (simp_all add: TrimPrefix_def)
  with cs assms(1) show ?thesis
    by (simp add: unsafePath_eq lexical_target_relative)
qed

theorem unsafe_path_idempotent_witness:
  "unsafePath ''/srv/a'' ''logs/latest.log'' = Ok ''logs/latest.log''"
proof -
  have base: "good_base [''srv'', ''a'']" "spell [''srv'', ''a''] = ''/srv/a''"
    by (simp_all add: good_base_def plain_def)
  have "unsafePath ''/srv/a'' ''/srv/a/./x/..//logs/latest.log'' = Ok ''logs/latest.log''"
    by code_simp
  with unsafe_path_idempotent [OF base(1)] show ?thesis
    by (simp only: base(2))
qed

text \<open>The base is trimmed as a string, not as a path: an absolute path of a sibling directory whose name
  extends the base is taken for a relative path inside the base instead of being rejected.\<close>

theorem unsafe_path_sibling_aliased:
  assumes "good_base bs" "plain (c @ d)" "plain d" "bs = as @ [c]"
  shows "unsafePath (spell bs) (spell (as @ [c @ d])) = Ok d"
proof -
  have "TrimPrefix (spell (as @ [c @ d])) (spell bs) = relative_name [d]"
    using TrimPrefix_append [of "spell bs" d] assms(4) by (simp add: relative_name_def)
  moreover have "lexical_target bs (relative_name [d]) = bs @ [d]"
    using assms(3) by (simp add: lexical_target_relative)
  ultimately show ?thesis
    using assms(1) by (simp add: unsafePath_eq relative_name_def)
qed

theorem unsafe_path_sibling_aliased_witness:
  "unsafePath ''/srv/data'' ''/srv/data2'' = Ok ''2''"
proof -
  have "good_base [''srv'', ''data'']" "plain (''data'' @ ''2'')" "plain ''2''" "[''srv'', ''data''] = [''srv''] @ [''data'']"
    by (simp_all add: good_base_def plain_def)
  from unsafe_path_sibling_aliased [OF this] show ?thesis
    by (simp only: spell_simps append.simps)
qed

section \<open>server/filesystem/path.go\<close>

definition unsafeFilePath :: "string \<Rightarrow> string \<Rightarrow> string" where
  "unsafeFilePath root p = Clean (Join [root, TrimPrefix p root])"

definition unsafeIsInDataDirectory :: "string \<Rightarrow> string \<Rightarrow> bool" where
  "unsafeIsInDataDirectory root p = HasPrefix (TrimSuffix p ''/'' @ ''/'') (TrimSuffix root ''/'' @ ''/'')"

text \<open>The two path checks of the daemon agree: a path resolved by the older \<open>unsafeFilePath\<close> is in the
  data directory according to \<open>unsafeIsInDataDirectory\<close> exactly when \<open>unsafePath\<close> accepts it.\<close>

theorem path_checks_agree:
  assumes "good_base bs"
  shows "unsafeIsInDataDirectory (spell bs) (unsafeFilePath (spell bs) p) \<longleftrightarrow> is_ok (unsafePath (spell bs) p)"
proof -
  have "\<not> HasSuffix (spell bs) ''/''"
    using assms join_last_plain [of bs] join_ne [of bs]
    by (simp add: good_base_def spell_join suffix_one)
  then have "TrimSuffix (spell bs) ''/'' = spell bs"
    by (rule TrimSuffix_idle)
  then show ?thesis
    by (simp add: unsafeIsInDataDirectory_def unsafeFilePath_def unsafePath_def
        unsafeIsPathInsideOfBase_def Let_def)
qed

theorem path_checks_agree_witness:
  "\<not> unsafeIsInDataDirectory ''/srv/a'' (unsafeFilePath ''/srv/a'' ''../b'')"
proof -
  have base: "good_base [''srv'', ''a'']" "spell [''srv'', ''a''] = ''/srv/a''"
    by (simp_all add: good_base_def plain_def)
  have "\<not> is_ok (unsafePath ''/srv/a'' ''../b'')"
    by code_simp
  with path_checks_agree [OF base(1), of "''../b''"] show ?thesis
    by (simp only: base(2) simp_thms)
qed

section \<open>path_unix.go\<close>

text \<open>The first loop of \<open>basename\<close>: trailing slashes go, a lone slash stays.\<close>

function trim_slashes :: "string \<Rightarrow> string" where
  "trim_slashes s = (if 1 < length s \<and> last s = slash then trim_slashes (butlast s) else s)"
  by auto
termination by (relation "measure length") auto

declare trim_slashes.simps [simp del]

text \<open>The second loop: the last index below \<open>n\<close> holding a slash.\<close>

fun last_slash :: "string \<Rightarrow> nat \<Rightarrow> nat option" where
  "last_slash s 0 = None"
| "last_slash s (Suc i) = (if s ! i = slash then Some i else last_slash s i)"

definition basename :: "string \<Rightarrow> string" where
  "basename name =
     (let name = trim_slashes name
      in case last_slash name (length name - 1) of None \<Rightarrow> name | Some i \<Rightarrow> drop (Suc i) name)"

definition endsWithDot :: "string \<Rightarrow> bool" where
  "endsWithDot path \<longleftrightarrow> path = ''.'' \<or>
     (2 \<le> length path \<and> path ! (length path - 1) = CHR ''.'' \<and> path ! (length path - 2) = slash)"

fun trim_leading :: "string \<Rightarrow> string" where
  "trim_leading (a # b # path) = (if a = slash \<and> b = slash then trim_leading (b # path) else a # b # path)"
| "trim_leading path = path"

definition splitPath :: "string \<Rightarrow> string \<times> string" where
  "splitPath path =
     (let path = trim_slashes (trim_leading path)
      in case last_slash path (length path - 1) of
           None \<Rightarrow> (''.'', path)
         | Some i \<Rightarrow> (if i = 0 then take 1 path else take i path, drop (Suc i) path))"

lemma trim_slashes_snoc: "s \<noteq> [] \<Longrightarrow> trim_slashes (s @ ''/'') = trim_slashes s"
  by (subst trim_slashes.simps) simp

lemma trim_slashes_id: "s = [] \<or> last s \<noteq> slash \<Longrightarrow> trim_slashes s = s"
  by (subst trim_slashes.simps) auto

lemma last_slash_bound: "last_slash s n = Some i \<Longrightarrow> i < n \<and> s ! i = slash"
  by (induction n) (auto split: if_splits)

lemma last_slash_append:
  "\<forall>j < length w. w ! j \<noteq> slash \<Longrightarrow> n = length d + k \<Longrightarrow> k \<le> length w \<Longrightarrow>
   last_slash (d @ w) n = last_slash (d @ w) (length d)"
  by (induction k arbitrary: n) (auto simp: nth_append)

lemma splitPath_slashes:
  assumes "w \<noteq> []" "slash \<notin> set w" "d \<noteq> []" "hd d \<noteq> slash"
  shows "splitPath (d @ slash # w @ replicate n slash) = (d, w) \<and> basename (d @ slash # w @ replicate n slash) = w"
proof -
  let ?p = "d @ slash # w"
  have "last w \<in> set w" using assms(1) by simp
  then have "last ?p \<noteq> slash"
    using assms(1,2) by (auto simp del: last_in_set)
  then have trim: "trim_slashes (?p @ replicate n slash) = ?p"
  proof (induction n)
    case 0
    then show ?case by (simp add: trim_slashes_id)
  next
    case (Suc n)
    then show ?case
      using trim_slashes_snoc [of "?p @ replicate n slash"]
      by (simp flip: replicate_append_same)
  qed
  have lead: "trim_leading (d @ slash # w @ replicate n slash) = d @ slash # w @ replicate n slash"
    using assms(3,4) by (cases d; cases "tl d") auto
  have "\<forall>j < length w. w ! j \<noteq> slash"
    using assms(2) by (metis nth_mem)
  then have "last_slash ((d @ ''/'') @ w) (length ?p - 1) = last_slash ((d @ ''/'') @ w) (length (d @ ''/''))"
    using assms(1) by (intro last_slash_append [where k = "length w - 1"]) (auto simp: Suc_le_eq)
  then have "last_slash ?p (length ?p - 1) = Some (length d)"
    by (simp add: nth_append)
  with trim lead assms(3) show ?thesis
    by (simp add: splitPath_def basename_def Let_def)
qed

text \<open>Splitting a path at its last component gives back the pieces, whatever number of slashes
  trails it: the parent directory and the base name.\<close>

theorem split_path_parts:
  assumes "w \<noteq> []" "slash \<notin> set w" "d \<noteq> []" "hd d \<noteq> slash"
  shows "splitPath (d @ slash # w @ replicate n slash) = (d, w) \<and> basename (d @ slash # w @ replicate n slash) = w"
  using assms by (rule splitPath_slashes)

theorem split_path_parts_witness:
  "splitPath ''logs/old/latest.log//'' = (''logs/old'', ''latest.log'')"
  using split_path_parts [of "''latest.log''" "''logs/old''" 2] by (simp add: numeral_2_eq_2)

end
