(* ===== verification/UfsKernel.thy ===== *)
theory UfsKernel
  imports UfsPath "HOL-Library.Word"
begin

unbundle bit_operations_syntax

text \<open>
  The system calls the sandboxed filesystem makes (package \<open>golang.org/x/sys/unix\<close>, not part of the
  program), as a record of functions over an arbitrary state of the operating system, and the retry loop
  \<open>ignoringEINTR\<close> of \<open>wings/internal/ufs/file_posix.go\<close>. Also the mode bits of
  \<open>wings/internal/ufs/stat_unix.go\<close>.

  An operation of the filesystem is a function from the state to \<open>None\<close>, if it does not return, or to its
  result and the new state. The locale at the end is the interface every operation relies on: a property of
  the state kept by every call whose names are confined. It is interpreted on the kernel that records the
  calls made to an arbitrary kernel.
\<close>

section \<open>Flags and modes\<close>

type_synonym flags = "64 word"
type_synonym file_mode = "32 word"

definition O_RDONLY :: flags where "O_RDONLY = 0"
definition O_WRONLY :: flags where "O_WRONLY = 1"
definition O_RDWR :: flags where "O_RDWR = 2"
definition O_CREATE :: flags where "O_CREATE = 0x40"
definition O_TRUNC :: flags where "O_TRUNC = 0x200"
definition O_LARGEFILE :: flags where "O_LARGEFILE = 0"
definition O_DIRECTORY :: flags where "O_DIRECTORY = 0x10000"
definition O_NOFOLLOW :: flags where "O_NOFOLLOW = 0x20000"
definition O_CLOEXEC :: flags where "O_CLOEXEC = 0x80000"

definition AT_SYMLINK_NOFOLLOW :: int where "AT_SYMLINK_NOFOLLOW = 0x100"
definition AT_REMOVEDIR :: int where "AT_REMOVEDIR = 0x200"
definition AT_EMPTY_PATH :: int where "AT_EMPTY_PATH = 0x1000"

definition ModeDir :: file_mode where "ModeDir = push_bit 31 1"
definition ModeSymlink :: file_mode where "ModeSymlink = push_bit 27 1"
definition ModeDevice :: file_mode where "ModeDevice = push_bit 26 1"
definition ModeNamedPipe :: file_mode where "ModeNamedPipe = push_bit 25 1"
definition ModeSocket :: file_mode where "ModeSocket = push_bit 24 1"
definition ModeSetuid :: file_mode where "ModeSetuid = push_bit 23 1"
definition ModeSetgid :: file_mode where "ModeSetgid = push_bit 22 1"
definition ModeCharDevice :: file_mode where "ModeCharDevice = push_bit 21 1"
definition ModeSticky :: file_mode where "ModeSticky = push_bit 20 1"
definition ModePerm :: file_mode where "ModePerm = 0x1FF"

definition ModeType :: file_mode where
  "ModeType = ModeDir OR ModeSymlink OR ModeNamedPipe OR ModeSocket OR ModeDevice OR ModeCharDevice OR push_bit 19 1"

definition S_IFMT :: "32 word" where "S_IFMT = 0xF000"
definition S_IFSOCK :: "32 word" where "S_IFSOCK = 0xC000"
definition S_IFLNK :: "32 word" where "S_IFLNK = 0xA000"
definition S_IFREG :: "32 word" where "S_IFREG = 0x8000"
definition S_IFBLK :: "32 word" where "S_IFBLK = 0x6000"
definition S_IFDIR :: "32 word" where "S_IFDIR = 0x4000"
definition S_IFCHR :: "32 word" where "S_IFCHR = 0x2000"
definition S_IFIFO :: "32 word" where "S_IFIFO = 0x1000"
definition S_ISUID :: "32 word" where "S_ISUID = 0x800"
definition S_ISGID :: "32 word" where "S_ISGID = 0x400"
definition S_ISVTX :: "32 word" where "S_ISVTX = 0x200"

lemmas mode_defs = ModeDir_def ModeSymlink_def ModeDevice_def ModeNamedPipe_def ModeSocket_def
  ModeSetuid_def ModeSetgid_def ModeCharDevice_def ModeSticky_def ModePerm_def
  S_IFMT_def S_IFSOCK_def S_IFLNK_def S_IFREG_def S_IFBLK_def S_IFDIR_def S_IFCHR_def S_IFIFO_def
  S_ISUID_def S_ISGID_def S_ISVTX_def

lemmas flag_defs = O_RDONLY_def O_WRONLY_def O_RDWR_def O_CREATE_def O_TRUNC_def O_LARGEFILE_def
  O_DIRECTORY_def O_NOFOLLOW_def O_CLOEXEC_def

definition syscallMode :: "file_mode \<Rightarrow> 32 word" where
  "syscallMode i =
     (i AND ModePerm) OR
     (if i AND ModeSetuid \<noteq> 0 then S_ISUID else 0) OR
     (if i AND ModeSetgid \<noteq> 0 then S_ISGID else 0) OR
     (if i AND ModeSticky \<noteq> 0 then S_ISVTX else 0)"

record sys_stat =
  st_mode :: "32 word"
  st_size :: int
  st_mtime :: int
  st_ino :: nat
  st_nlink :: nat

record file_stat =
  fi_name :: string
  fi_size :: int
  fi_mode :: file_mode
  fi_modTime :: int
  fi_sys :: sys_stat

definition type_bits :: "32 word \<Rightarrow> file_mode" where
  "type_bits t =
     (if t = S_IFBLK then ModeDevice
      else if t = S_IFCHR then ModeDevice OR ModeCharDevice
      else if t = S_IFDIR then ModeDir
      else if t = S_IFIFO then ModeNamedPipe
      else if t = S_IFLNK then ModeSymlink
      else if t = S_IFREG then 0
      else if t = S_IFSOCK then ModeSocket
      else 0)"

definition mode_from_sys :: "32 word \<Rightarrow> file_mode" where
  "mode_from_sys m =
     (m AND 0x1FF) OR type_bits (m AND S_IFMT) OR
     (if m AND S_ISGID \<noteq> 0 then ModeSetgid else 0) OR
     (if m AND S_ISUID \<noteq> 0 then ModeSetuid else 0) OR
     (if m AND S_ISVTX \<noteq> 0 then ModeSticky else 0)"

definition fillFileStatFromSys :: "sys_stat \<Rightarrow> string \<Rightarrow> file_stat" where
  "fillFileStatFromSys st name =
     \<lparr>fi_name = basename name, fi_size = st_size st, fi_mode = mode_from_sys (st_mode st),
      fi_modTime = st_mtime st, fi_sys = st\<rparr>"

definition fi_IsDir :: "file_stat \<Rightarrow> bool" where
  "fi_IsDir s \<longleftrightarrow> fi_mode s AND ModeDir \<noteq> 0"

definition fi_IsRegular :: "file_stat \<Rightarrow> bool" where
  "fi_IsRegular s \<longleftrightarrow> fi_mode s AND ModeType = 0"

section \<open>The kernel\<close>

record sys_dirent =
  d_ino :: nat
  d_name :: string
  d_type :: nat

text \<open>
  \<open>k_evalsymlinks fd\<close> is \<open>filepath.EvalSymlinks\<close> of the entry of \<open>fd\<close> under \<open>/proc/self/fd\<close>, \<open>k_getdents\<close>
  returns the parsed entries of one call (none at the end), \<open>k_readdirnames\<close> is \<open>File.Readdirnames(1024)\<close>.
\<close>

record 'w kernel =
  k_openat :: "int \<Rightarrow> string \<Rightarrow> flags \<Rightarrow> 32 word \<Rightarrow> 'w \<Rightarrow> (errno + int) \<times> 'w"
  k_openat2 :: "int \<Rightarrow> string \<Rightarrow> flags \<Rightarrow> 32 word \<Rightarrow> 'w \<Rightarrow> (errno + int) \<times> 'w"
  k_evalsymlinks :: "int \<Rightarrow> 'w \<Rightarrow> (err + string) \<times> 'w"
  k_close :: "int \<Rightarrow> 'w \<Rightarrow> 'w"
  k_fchmodat :: "int \<Rightarrow> string \<Rightarrow> 32 word \<Rightarrow> 'w \<Rightarrow> (errno + unit) \<times> 'w"
  k_fchownat :: "int \<Rightarrow> string \<Rightarrow> int \<Rightarrow> int \<Rightarrow> int \<Rightarrow> 'w \<Rightarrow> (errno + unit) \<times> 'w"
  k_utimensat :: "int \<Rightarrow> string \<Rightarrow> int option \<Rightarrow> int option \<Rightarrow> 'w \<Rightarrow> (errno + unit) \<times> 'w"
  k_mkdirat :: "int \<Rightarrow> string \<Rightarrow> 32 word \<Rightarrow> 'w \<Rightarrow> (errno + unit) \<times> 'w"
  k_unlinkat :: "int \<Rightarrow> string \<Rightarrow> int \<Rightarrow> 'w \<Rightarrow> (errno + unit) \<times> 'w"
  k_renameat :: "int \<Rightarrow> string \<Rightarrow> int \<Rightarrow> string \<Rightarrow> 'w \<Rightarrow> (errno + unit) \<times> 'w"
  k_symlinkat :: "string \<Rightarrow> int \<Rightarrow> string \<Rightarrow> 'w \<Rightarrow> (errno + unit) \<times> 'w"
  k_fstatat :: "int \<Rightarrow> string \<Rightarrow> int \<Rightarrow> 'w \<Rightarrow> (errno + sys_stat) \<times> 'w"
  k_getdents :: "int \<Rightarrow> 'w \<Rightarrow> (errno + sys_dirent list) \<times> 'w"
  k_readdirnames :: "int \<Rightarrow> 'w \<Rightarrow> (string list \<times> err option) \<times> 'w"

type_synonym ('a, 'w) fsop = "'w \<Rightarrow> ('a \<times> 'w) option"

partial_function (option) ignoringEINTR :: "('w \<Rightarrow> (errno + 'a) \<times> 'w) \<Rightarrow> 'w \<Rightarrow> ((errno + 'a) \<times> 'w) option" where
  "ignoringEINTR fn w = (case fn w of (r, w') \<Rightarrow> if r = Inl EINTR then ignoringEINTR fn w' else Some (r, w'))"

lemma ignoringEINTR_done: "fst (fn w) \<noteq> Inl EINTR \<Longrightarrow> ignoringEINTR fn w = Some (fn w)"
  by (subst ignoringEINTR.simps) (auto split: prod.splits)

definition errno_err :: "errno + 'a \<Rightarrow> err option" where
  "errno_err r = (case r of Inl e \<Rightarrow> Some (Errno e) | Inr _ \<Rightarrow> None)"

definition close_all :: "'w kernel \<Rightarrow> int list \<Rightarrow> 'w \<Rightarrow> 'w" where
  "close_all K fds w = fold (k_close K) fds w"

section \<open>Mode bits\<close>

lemma perm_mask: "(0x1FF :: 32 word) = mask 9"
  by (simp add: mask_eq_exp_minus_1)

lemma single_bits: "(0x800 :: 32 word) = push_bit 11 1" "(0x400 :: 32 word) = push_bit 10 1"
  "(0x200 :: 32 word) = push_bit 9 1"
  by (simp_all add: push_bit_eq_mult)

lemma and_single_bit: "(m AND push_bit n 1 \<noteq> 0) = bit m n" for m :: "32 word"
  by (simp add: bit_iff_and_push_bit_not_eq_0)


lemma bit_if_word: "bit (if b then push_bit k 1 else 0 :: 32 word) n \<longleftrightarrow> b \<and> k < 32 \<and> n = k"
  by (auto simp: bit_simps)

lemma mode_roundtrip_core:
  fixes m T :: "32 word"
  assumes "\<And>n. bit T n \<Longrightarrow> n \<ge> 9 \<and> n \<noteq> 20 \<and> n \<noteq> 22 \<and> n \<noteq> 23"
  shows "syscallMode ((m AND 0x1FF) OR T OR (if bit m 10 then ModeSetgid else 0) OR (if bit m 11 then ModeSetuid else 0) OR
     (if bit m 9 then ModeSticky else 0)) = m AND mask 12"
proof (rule bit_word_eqI)
  fix n assume "n < LENGTH(32)"
  have T: "\<not> bit T 20" "\<not> bit T 22" "\<not> bit T 23" "n < 9 \<Longrightarrow> \<not> bit T n"
    using assms by fastforce+
  then show "bit (syscallMode ((m AND 0x1FF) OR T OR (if bit m 10 then ModeSetgid else 0) OR (if bit m 11 then ModeSetuid else 0) OR
     (if bit m 9 then ModeSticky else 0))) n = bit (m AND mask 12) n"
    using \<open>n < LENGTH(32)\<close>
    unfolding syscallMode_def mode_defs perm_mask single_bits and_single_bit
    apply (simp only: bit_or_iff bit_and_iff bit_if_word bit_mask_iff)
    apply (cases "n < 9")
    apply (simp add: T)
    apply (cases "n = 9"; cases "n = 10"; cases "n=11")
    apply (auto simp add: T)
    done
qed

lemma bit_single: "bit (push_bit k 1 :: 32 word) n \<longleftrightarrow> k < 32 \<and> n = k"
  by (auto simp: bit_simps)

lemma type_bits_range: "bit (type_bits t) n \<Longrightarrow> n = 31 \<or> n = 27 \<or> n = 26 \<or> n = 25 \<or> n = 24 \<or> n = 21"
  unfolding type_bits_def ModeDir_def ModeSymlink_def ModeDevice_def ModeNamedPipe_def ModeSocket_def ModeCharDevice_def
  by (auto simp only: bit_single bit_or_iff bit_0_eq bot_apply bot_bool_def split: if_splits)

text \<open>Translating the kernel's mode word to a \<open>FileMode\<close> and back keeps the permission bits and the
  set-user, set-group and sticky bits, and drops everything else.\<close>

theorem mode_roundtrip: "syscallMode (mode_from_sys m) = m AND 0xFFF"
proof -
  have "(0xFFF :: 32 word) = mask 12"
    by (simp add: mask_eq_exp_minus_1)
  moreover have "mode_from_sys m = (m AND 0x1FF) OR type_bits (m AND S_IFMT) OR
     (if bit m 10 then ModeSetgid else 0) OR (if bit m 11 then ModeSetuid else 0) OR
     (if bit m 9 then ModeSticky else 0)"
    by (simp only: mode_from_sys_def S_ISUID_def S_ISGID_def S_ISVTX_def single_bits and_single_bit)
  ultimately show ?thesis
    using mode_roundtrip_core [of "type_bits (m AND S_IFMT)" m] type_bits_range by fastforce
qed

lemma type_bits_iff:
  "bit (type_bits t) 31 \<longleftrightarrow> t = S_IFDIR" "bit (type_bits t) 27 \<longleftrightarrow> t = S_IFLNK"
  by (simp_all add: type_bits_def mode_defs bit_single bit_or_iff)

lemma mode_from_sys_bit:
  "n \<in> {31, 27} \<Longrightarrow> bit (mode_from_sys m) n \<longleftrightarrow> bit (type_bits (m AND S_IFMT)) n"
  unfolding mode_from_sys_def ModeSetgid_def ModeSetuid_def ModeSticky_def S_ISUID_def S_ISGID_def S_ISVTX_def
    perm_mask single_bits and_single_bit
  by (auto simp only: bit_or_iff bit_and_iff bit_mask_iff bit_if_word)

lemma mode_type_exact:
  "(mode_from_sys m AND ModeDir \<noteq> 0) = (m AND S_IFMT = S_IFDIR) \<and>
   (mode_from_sys m AND ModeSymlink \<noteq> 0) = (m AND S_IFMT = S_IFLNK)"
  by (simp only: ModeDir_def ModeSymlink_def and_single_bit mode_from_sys_bit type_bits_iff insert_iff simp_thms)

section \<open>Sequencing\<close>

definition sys :: "('w \<Rightarrow> 'a \<times> 'w) \<Rightarrow> ('a, 'w) fsop" where
  "sys call w = Some (call w)"

definition do_close :: "'w kernel \<Rightarrow> int list \<Rightarrow> (unit, 'w) fsop" where
  "do_close K fds w = Some ((), close_all K fds w)"

section \<open>The guarded kernel\<close>

text \<open>
  \<open>P\<close> is kept by every system call whose name is confined: the base directory itself, opened as a directory,
  a name of plain components not following a final link when opened, or a name the kernel itself has listed
  (\<open>N\<close>) in a directory.
\<close>

definition name_ok :: "string set \<Rightarrow> string \<Rightarrow> bool" where
  "name_ok known n \<longleftrightarrow> safe_name n \<or> n \<in> known"

definition open_ok :: "string \<Rightarrow> string set \<Rightarrow> string \<Rightarrow> flags \<Rightarrow> bool" where
  "open_ok base known n f \<longleftrightarrow> (n = base \<and> f AND O_DIRECTORY \<noteq> 0) \<or> (name_ok known n \<and> f AND O_NOFOLLOW \<noteq> 0)"

locale guarded_kernel =
  fixes K :: "'w kernel" and base :: string and P :: "'w \<Rightarrow> bool" and N :: "'w \<Rightarrow> string set"
  assumes openat: "P w \<Longrightarrow> open_ok base (N w) n f \<Longrightarrow> k_openat K d n f m w = (r, w') \<Longrightarrow> P w' \<and> N w \<subseteq> N w'"
    and openat2: "P w \<Longrightarrow> open_ok base (N w) n f \<Longrightarrow> k_openat2 K d n f m w = (r2, w') \<Longrightarrow> P w' \<and> N w \<subseteq> N w'"
    and evalsymlinks: "P w \<Longrightarrow> k_evalsymlinks K d w = (r3, w') \<Longrightarrow> P w' \<and> N w \<subseteq> N w'"
    and close: "P w \<Longrightarrow> P (k_close K d w) \<and> N w \<subseteq> N (k_close K d w)"
    and fchmodat: "P w \<Longrightarrow> name_ok (N w) n \<Longrightarrow> k_fchmodat K d n m w = (u, w') \<Longrightarrow> P w' \<and> N w \<subseteq> N w'"
    and fchownat: "P w \<Longrightarrow> name_ok (N w) n \<Longrightarrow> k_fchownat K d n i j l w = (u, w') \<Longrightarrow> P w' \<and> N w \<subseteq> N w'"
    and utimensat: "P w \<Longrightarrow> name_ok (N w) n \<Longrightarrow> k_utimensat K d n a b w = (u, w') \<Longrightarrow> P w' \<and> N w \<subseteq> N w'"
    and mkdirat: "P w \<Longrightarrow> name_ok (N w) n \<Longrightarrow> k_mkdirat K d n m w = (u, w') \<Longrightarrow> P w' \<and> N w \<subseteq> N w'"
    and unlinkat: "P w \<Longrightarrow> name_ok (N w) n \<Longrightarrow> k_unlinkat K d n l w = (u, w') \<Longrightarrow> P w' \<and> N w \<subseteq> N w'"
    and renameat: "P w \<Longrightarrow> name_ok (N w) n \<Longrightarrow> name_ok (N w) n' \<Longrightarrow> k_renameat K d n d' n' w = (u, w') \<Longrightarrow> P w' \<and> N w \<subseteq> N w'"
    and symlinkat: "P w \<Longrightarrow> name_ok (N w) n \<Longrightarrow> k_symlinkat K t d n w = (u, w') \<Longrightarrow> P w' \<and> N w \<subseteq> N w'"
    and fstatat: "P w \<Longrightarrow> name_ok (N w) n \<Longrightarrow> k_fstatat K d n l w = (s, w') \<Longrightarrow> P w' \<and> N w \<subseteq> N w'"
    and getdents: "P w \<Longrightarrow> k_getdents K d w = (g, w') \<Longrightarrow>
      P w' \<and> N w \<subseteq> N w' \<and> (\<forall>des. g = Inr des \<longrightarrow> d_name ` set des \<subseteq> N w')"
    and readdirnames: "P w \<Longrightarrow> k_readdirnames K d w = ((ns, e), w') \<Longrightarrow> P w' \<and> N w \<subseteq> N w' \<and> set ns \<subseteq> N w'"
begin

definition keeps :: "string set \<Rightarrow> ('a, 'w) fsop \<Rightarrow> bool" where
  "keeps ns m \<longleftrightarrow> (\<forall>w r w'. P w \<longrightarrow> ns \<subseteq> N w \<longrightarrow> m w = Some (r, w') \<longrightarrow> P w' \<and> N w \<subseteq> N w')"

lemma keepsI: "(\<And>w r w'. P w \<Longrightarrow> ns \<subseteq> N w \<Longrightarrow> m w = Some (r, w') \<Longrightarrow> P w' \<and> N w \<subseteq> N w') \<Longrightarrow> keeps ns m"
  by (auto simp: keeps_def)

lemma keepsD: "keeps ns m \<Longrightarrow> P w \<Longrightarrow> ns \<subseteq> N w \<Longrightarrow> m w = Some (r, w') \<Longrightarrow> P w' \<and> N w \<subseteq> N w'"
  by (auto simp: keeps_def)

lemma keeps_mono: "keeps ns m \<Longrightarrow> ns \<subseteq> ms \<Longrightarrow> keeps ms m"
  unfolding keeps_def by blast

lemma keeps_bind [keeps_intros]:
  assumes "keeps ns m" "\<And>r. keeps ns (f r)"
  shows "keeps ns (\<lambda>w. Option.bind (m w) (\<lambda>(r, w). f r w))"
proof (rule keepsI)
  fix w r w''
  assume "P w" "ns \<subseteq> N w" "Option.bind (m w) (\<lambda>(r, w). f r w) = Some (r, w'')"
  moreover from this(3) obtain s w' where "m w = Some (s, w')" "f s w' = Some (r, w'')"
    by (auto simp: Option.bind_eq_Some_conv)
  ultimately show "P w'' \<and> N w \<subseteq> N w''"
    using keepsD [OF assms(1)] keepsD [OF assms(2)] by (meson subset_trans)
qed

lemma keeps_return [keeps_intros]: "keeps ns (\<lambda>w. Some (r, w))"
  by (simp add: keeps_def)

lemma keeps_None [keeps_intros]: "keeps ns (\<lambda>w. None)"
  by (simp add: keeps_def)

lemma keeps_if [keeps_intros]:
  "(b \<Longrightarrow> keeps ns f) \<Longrightarrow> (\<not> b \<Longrightarrow> keeps ns g) \<Longrightarrow> keeps ns (\<lambda>w. if b then f w else g w)"
  by (cases b) simp_all

lemma keeps_if_op [keeps_intros]:
  "(b \<Longrightarrow> keeps ns f) \<Longrightarrow> (\<not> b \<Longrightarrow> keeps ns g) \<Longrightarrow> keeps ns (if b then f else g)"
  by (cases b) simp_all

lemma keeps_case_option [keeps_intros]:
  "(v = None \<Longrightarrow> keeps ns f) \<Longrightarrow> (\<And>x. v = Some x \<Longrightarrow> keeps ns (g x)) \<Longrightarrow>
   keeps ns (\<lambda>w. case v of None \<Rightarrow> f w | Some x \<Rightarrow> g x w)"
  by (cases v) simp_all

lemma keeps_case_sum [keeps_intros]:
  "(\<And>x. v = Inl x \<Longrightarrow> keeps ns (f x)) \<Longrightarrow> (\<And>x. v = Inr x \<Longrightarrow> keeps ns (g x)) \<Longrightarrow>
   keeps ns (\<lambda>w. case v of Inl x \<Rightarrow> f x w | Inr x \<Rightarrow> g x w)"
  by (cases v) simp_all

lemma keeps_case_outcome [keeps_intros]:
  "(\<And>x. v = Ok x \<Longrightarrow> keeps ns (f x)) \<Longrightarrow> (\<And>x. v = Err x \<Longrightarrow> keeps ns (g x)) \<Longrightarrow> (v = Panic \<Longrightarrow> keeps ns h) \<Longrightarrow>
   keeps ns (\<lambda>w. case v of Ok x \<Rightarrow> f x w | Err x \<Rightarrow> g x w | Panic \<Rightarrow> h w)"
  by (cases v) simp_all

lemma keeps_case_prod [keeps_intros]:
  "(\<And>x y. v = (x, y) \<Longrightarrow> keeps ns (f x y)) \<Longrightarrow> keeps ns (\<lambda>w. case v of (x, y) \<Rightarrow> f x y w)"
  by (cases v) simp

lemma keeps_sys: "(\<And>w r w'. P w \<Longrightarrow> ns \<subseteq> N w \<Longrightarrow> c w = (r, w') \<Longrightarrow> P w' \<and> N w \<subseteq> N w') \<Longrightarrow> keeps ns (sys c)"
  by (auto simp: keeps_def sys_def)

lemma keeps_close_all: "P w \<Longrightarrow> P (close_all K fds w) \<and> N w \<subseteq> N (close_all K fds w)"
proof (induction fds arbitrary: w)
  case (Cons fd fds)
  from close [OF Cons.prems, of fd] Cons.IH [of "k_close K fd w"] show ?case
    by (auto simp: close_all_def)
qed (simp add: close_all_def)

lemma keeps_do_close [keeps_intros]: "keeps ns (do_close K fds)"
  by (auto simp: keeps_def do_close_def keeps_close_all dest: keeps_close_all)

lemma keeps_ignoringEINTR:
  assumes "keeps ns (sys fn)"
  shows "keeps ns (ignoringEINTR fn)"
proof (rule keepsI)
  fix w r w'
  assume run: "P w" "ns \<subseteq> N w" "ignoringEINTR fn w = Some (r, w')"
  have "keeps ns (sys fn) \<longrightarrow> P w \<longrightarrow> ns \<subseteq> N w \<longrightarrow> P (snd (r, w')) \<and> N w \<subseteq> N (snd (r, w'))"
    using run(3)
  proof (rule ignoringEINTR.raw_induct [where P =
      "\<lambda>fn w y. keeps ns (sys fn) \<longrightarrow> P w \<longrightarrow> ns \<subseteq> N w \<longrightarrow> P (snd y) \<and> N w \<subseteq> N (snd y)", rotated])
    fix go :: "('w \<Rightarrow> (errno + 'a) \<times> 'w) \<Rightarrow> 'w \<Rightarrow> ((errno + 'a) \<times> 'w) option"
      and fn :: "'w \<Rightarrow> (errno + 'a) \<times> 'w" and w y
    assume IH: "\<And>fn w y. go fn w = Some y \<Longrightarrow>
        keeps ns (sys fn) \<longrightarrow> P w \<longrightarrow> ns \<subseteq> N w \<longrightarrow> P (snd y) \<and> N w \<subseteq> N (snd y)"
      and eq: "(case fn w of (r, w') \<Rightarrow> if r = Inl EINTR then go fn w' else Some (r, w')) = Some y"
    show "keeps ns (sys fn) \<longrightarrow> P w \<longrightarrow> ns \<subseteq> N w \<longrightarrow> P (snd y) \<and> N w \<subseteq> N (snd y)"
    proof (intro impI)
      assume k: "keeps ns (sys fn)" and w: "P w" "ns \<subseteq> N w"
      obtain s v where v: "fn w = (s, v)" by (cases "fn w")
      have kv: "P v \<and> N w \<subseteq> N v"
        using keepsD [OF k w, of s v] v by (simp add: sys_def)
      show "P (snd y) \<and> N w \<subseteq> N (snd y)"
      proof (cases "s = Inl EINTR")
        case True
        with eq v have "go fn v = Some y" by simp
        from IH [OF this] k w kv show ?thesis by (meson subset_trans)
      next
        case False
        with eq v kv show ?thesis by auto
      qed
    qed
  qed
  then show "P w' \<and> N w \<subseteq> N w'"
    using assms run by simp
qed

lemma name_ok_safe: "safe_name n \<Longrightarrow> name_ok (N w) n"
  by (simp add: name_ok_def)

lemma name_ok_known: "n \<in> ns \<Longrightarrow> ns \<subseteq> N w \<Longrightarrow> name_ok (N w) n"
  by (auto simp: name_ok_def)

end

section \<open>Recording the calls\<close>

text \<open>
  A kernel that behaves like \<open>K\<close> and keeps the list of the calls made to it, the newest first. A
  \<open>CallOpen\<close> carries the descriptor it returned, if any.
\<close>

datatype call =
    CallOpen int string flags "int option"
  | CallAt int string
  | CallRename int string int string
  | CallClose int
  | CallFd int
  | CallListed "string list"

definition record_call :: "('r \<Rightarrow> call) \<Rightarrow> ('w \<Rightarrow> 'r \<times> 'w) \<Rightarrow> 'w \<times> call list \<Rightarrow> 'r \<times> 'w \<times> call list" where
  "record_call c f = (\<lambda>(w, l). case f w of (r, w) \<Rightarrow> (r, w, c r # l))"

definition opened :: "errno + int \<Rightarrow> int option" where
  "opened r = (case r of Inl _ \<Rightarrow> None | Inr fd \<Rightarrow> Some fd)"

definition traced :: "'w kernel \<Rightarrow> ('w \<times> call list) kernel" where
  "traced K = \<lparr>
     k_openat = (\<lambda>d n f m. record_call (\<lambda>r. CallOpen d n f (opened r)) (k_openat K d n f m)),
     k_openat2 = (\<lambda>d n f m. record_call (\<lambda>r. CallOpen d n f (opened r)) (k_openat2 K d n f m)),
     k_evalsymlinks = (\<lambda>d. record_call (\<lambda>_. CallFd d) (k_evalsymlinks K d)),
     k_close = (\<lambda>d (w, l). (k_close K d w, CallClose d # l)),
     k_fchmodat = (\<lambda>d n m. record_call (\<lambda>_. CallAt d n) (k_fchmodat K d n m)),
     k_fchownat = (\<lambda>d n i j f. record_call (\<lambda>_. CallAt d n) (k_fchownat K d n i j f)),
     k_utimensat = (\<lambda>d n a b. record_call (\<lambda>_. CallAt d n) (k_utimensat K d n a b)),
     k_mkdirat = (\<lambda>d n m. record_call (\<lambda>_. CallAt d n) (k_mkdirat K d n m)),
     k_unlinkat = (\<lambda>d n f. record_call (\<lambda>_. CallAt d n) (k_unlinkat K d n f)),
     k_renameat = (\<lambda>d n d' n'. record_call (\<lambda>_. CallRename d n d' n') (k_renameat K d n d' n')),
     k_symlinkat = (\<lambda>t d n. record_call (\<lambda>_. CallAt d n) (k_symlinkat K t d n)),
     k_fstatat = (\<lambda>d n f. record_call (\<lambda>_. CallAt d n) (k_fstatat K d n f)),
     k_getdents = (\<lambda>d. record_call
        (\<lambda>r. CallListed (case r of Inl _ \<Rightarrow> [] | Inr des \<Rightarrow> map d_name des)) (k_getdents K d)),
     k_readdirnames = (\<lambda>d. record_call (\<lambda>(ns, _). CallListed ns) (k_readdirnames K d))\<rparr>"

fun listed :: "call list \<Rightarrow> string set" where
  "listed [] = {}"
| "listed (CallListed ns # l) = set ns \<union> listed l"
| "listed (_ # l) = listed l"

fun call_ok :: "string \<Rightarrow> string set \<Rightarrow> call \<Rightarrow> bool" where
  "call_ok base known (CallOpen d n f _) \<longleftrightarrow> open_ok base known n f"
| "call_ok base known (CallAt d n) \<longleftrightarrow> name_ok known n"
| "call_ok base known (CallRename d n d' n') \<longleftrightarrow> name_ok known n \<and> name_ok known n'"
| "call_ok base known _ \<longleftrightarrow> True"

fun log_ok :: "string \<Rightarrow> call list \<Rightarrow> bool" where
  "log_ok base [] \<longleftrightarrow> True"
| "log_ok base (c # l) \<longleftrightarrow> call_ok base (listed l) c \<and> log_ok base l"

interpretation traced: guarded_kernel "traced K" base "\<lambda>(w, l). log_ok base l" "\<lambda>(w, l). listed l"
  by unfold_locales
     (auto simp: traced_def record_call_def open_ok_def name_ok_def split: prod.splits sum.splits)

end
