(* ===== verification/UfsFs.thy ===== *)
theory UfsFs
  imports UfsKernel
begin

text \<open>
  The sandboxed filesystem itself (\<open>wings/internal/ufs/fs_unix.go\<close>, \<open>mkdir_unix.go\<close>): every operation
  resolves its path lexically, opens the parent directory below the base directory, and works on the last
  component relative to that descriptor, which it closes again on every path.

  An operation takes the kernel \<open>K\<close>, the filesystem and its arguments, and is a function on the state of the
  operating system; \<open>None\<close> means that it does not return (the kernel interrupts a retried call forever).
\<close>

record unix_fs =
  basePath :: string
  useOpenat2 :: bool

definition NewUnixFS :: "string \<Rightarrow> bool \<Rightarrow> unix_fs" where
  "NewUnixFS base openat2 = \<lparr>basePath = TrimSuffix base ''/'', useOpenat2 = openat2\<rparr>"

section \<open>Opening\<close>

definition raw_openat :: "'w kernel \<Rightarrow> int \<Rightarrow> string \<Rightarrow> flags \<Rightarrow> 32 word \<Rightarrow> (int \<times> err option, 'w) fsop" where
  "raw_openat K dirfd name flag mode w = do {
     let flag = (if flag AND O_CLOEXEC = 0 then flag OR O_CLOEXEC else flag);
     (r, w) \<leftarrow> sys (k_openat K dirfd name flag mode) w;
     case r of
       Inr fd \<Rightarrow> Some ((fd, None), w)
     | Inl e \<Rightarrow>
         if e = EINTR then Some ((-1, Some (Errno e)), w)
         else if e = EAGAIN then Some ((-1, Some (Errno e)), w)
         else Some ((-1, ensurePathError (Some (Errno e)) ''openat'' name), w) }"

definition raw_openat2 :: "'w kernel \<Rightarrow> int \<Rightarrow> string \<Rightarrow> flags \<Rightarrow> 32 word \<Rightarrow> (int \<times> err option, 'w) fsop" where
  "raw_openat2 K dirfd name flag mode w = do {
     let flag = (if flag AND O_CLOEXEC = 0 then flag OR O_CLOEXEC else flag);
     let flag = (if flag AND O_LARGEFILE = 0 then flag OR O_LARGEFILE else flag);
     (r, w) \<leftarrow> sys (k_openat2 K dirfd name flag mode) w;
     case r of
       Inr fd \<Rightarrow> Some ((fd, None), w)
     | Inl e \<Rightarrow>
         if e = EINTR then Some ((-1, Some (Errno e)), w)
         else if e = EAGAIN then Some ((-1, Some (Errno e)), w)
         else Some ((-1, ensurePathError (Some (Errno e)) ''openat2'' name), w) }"

text \<open>The retry loop of \<open>openat\<close>.\<close>

partial_function (option) open_loop :: "(int \<times> err option, 'w) fsop \<Rightarrow> 'w \<Rightarrow> ((int \<times> err option) \<times> 'w) option" where
  "open_loop attempt w = do {
     ((fd, e), w) \<leftarrow> attempt w;
     case e of
       None \<Rightarrow> Some ((fd, None), w)
     | Some e \<Rightarrow> if e = Errno EINTR then open_loop attempt w else Some ((0, Some e), w) }"

definition check_opened :: "unix_fs \<Rightarrow> int \<Rightarrow> string \<Rightarrow> string \<Rightarrow> err option \<Rightarrow> int \<times> err option" where
  "check_opened fs fd name finalPath e =
     (if \<not> unsafeIsPathInsideOfBase (basePath fs) finalPath
      then (fd, Some (BadPathResolution (if useOpenat2 fs then ''openat2'' else ''openat'') name))
      else (fd, e))"

definition openat :: "'w kernel \<Rightarrow> unix_fs \<Rightarrow> int \<Rightarrow> string \<Rightarrow> flags \<Rightarrow> file_mode \<Rightarrow> (int \<times> err option, 'w) fsop" where
  "openat K fs dirfd name flag mode w = do {
     let flag = (if flag AND O_NOFOLLOW = 0 then flag OR O_NOFOLLOW else flag);
     ((fd, e), w) \<leftarrow> open_loop
        (if useOpenat2 fs then raw_openat2 K dirfd name flag (syscallMode mode)
         else raw_openat K dirfd name flag (syscallMode mode)) w;
     case e of
       Some e \<Rightarrow> Some ((0, Some e), w)
     | None \<Rightarrow>
         if useOpenat2 fs then Some ((fd, None), w)
         else do {
           (r, w) \<leftarrow> sys (k_evalsymlinks K fd) w;
           case r of
             Inr finalPath \<Rightarrow> Some (check_opened fs fd name finalPath None, w)
           | Inl e \<Rightarrow>
               if \<not> is_sentinel ErrNotExist e
               then Some ((fd, map_option (Wrapped ''failed to evaluate symlink'') (convertErrorType (Some e))), w)
               else case as_path_error e of
                 None \<Rightarrow> Some ((fd, map_option (Wrapped ''failed to evaluate symlink'') (convertErrorType (Some e))), w)
               | Some (_, p, _) \<Rightarrow> Some (check_opened fs fd name p (convertErrorType (Some e)), w) } }"

text \<open>
  \<open>safePath\<close> returns the descriptor of the parent directory, the name below it, the descriptors its
  \<open>closeFd\<close> will close, and the error.
\<close>

definition safePath :: "'w kernel \<Rightarrow> unix_fs \<Rightarrow> string \<Rightarrow> (int \<times> string \<times> int list \<times> err option, 'w) fsop" where
  "safePath K fs path w =
     (case unsafePath (basePath fs) path of
        Err e \<Rightarrow> Some ((0, [], [], Some e), w)
      | Panic \<Rightarrow> None
      | Ok name \<Rightarrow> do {
          ((fsDirfd, e), w) \<leftarrow> raw_openat K AT_EMPTY_PATH (basePath fs) (O_DIRECTORY OR O_RDONLY) 0 w;
          case e of
            Some e \<Rightarrow> Some ((0, [], [], Some e), w)
          | None \<Rightarrow> (case Split name of (dir, file) \<Rightarrow>
              if dir = [] then Some ((fsDirfd, file, [fsDirfd], None), w)
              else do {
                ((dirfd, e), w) \<leftarrow> openat K fs fsDirfd (TrimSuffix dir ''/'') (O_DIRECTORY OR O_RDONLY) 0 w;
                case e of
                  Some e \<Rightarrow> Some ((dirfd, file, [fsDirfd], Some e), w)
                | None \<Rightarrow> Some ((dirfd, file, [dirfd, fsDirfd], None), w) }) })"

text \<open>
  The shape the operations share: resolve, defer \<open>closeFd\<close>, return the error of \<open>safePath\<close> if there is one,
  otherwise run the body.
\<close>

definition with_path ::
  "'w kernel \<Rightarrow> unix_fs \<Rightarrow> string \<Rightarrow> (err \<Rightarrow> 'r) \<Rightarrow> (int \<Rightarrow> string \<Rightarrow> ('r, 'w) fsop) \<Rightarrow> ('r, 'w) fsop" where
  "with_path K fs path fail body w = do {
     ((dirfd, name, closeFd, e), w) \<leftarrow> safePath K fs path w;
     (r, w) \<leftarrow> (case e of Some e \<Rightarrow> Some (fail e, w) | None \<Rightarrow> body dirfd name w);
     (_, w) \<leftarrow> do_close K closeFd w;
     Some (r, w) }"

section \<open>Attributes\<close>

definition fchmodat :: "'w kernel \<Rightarrow> string \<Rightarrow> int \<Rightarrow> string \<Rightarrow> file_mode \<Rightarrow> (err option, 'w) fsop" where
  "fchmodat K op dirfd name mode w = do {
     (r, w) \<leftarrow> sys (k_fchmodat K dirfd name mode) w;
     Some (ensurePathError (errno_err r) op name, w) }"

definition Chmod :: "'w kernel \<Rightarrow> unix_fs \<Rightarrow> string \<Rightarrow> file_mode \<Rightarrow> (err option, 'w) fsop" where
  "Chmod K fs name mode = with_path K fs name Some (\<lambda>dirfd name. fchmodat K ''chmod'' dirfd name mode)"

definition Chmodat :: "'w kernel \<Rightarrow> int \<Rightarrow> string \<Rightarrow> file_mode \<Rightarrow> (err option, 'w) fsop" where
  "Chmodat K dirfd name mode = fchmodat K ''chmodat'' dirfd name mode"

definition fchown :: "'w kernel \<Rightarrow> unix_fs \<Rightarrow> string \<Rightarrow> int \<Rightarrow> int \<Rightarrow> int \<Rightarrow> (err option, 'w) fsop" where
  "fchown K fs name uid gid fl = with_path K fs name Some (\<lambda>dirfd name w. do {
     (r, w) \<leftarrow> sys (k_fchownat K dirfd name uid gid fl) w;
     Some (errno_err r, w) })"

definition Chown :: "'w kernel \<Rightarrow> unix_fs \<Rightarrow> string \<Rightarrow> int \<Rightarrow> int \<Rightarrow> (err option, 'w) fsop" where
  "Chown K fs name uid gid w = do {
     (e, w) \<leftarrow> fchown K fs name uid gid 0 w;
     Some (ensurePathError e ''chown'' name, w) }"

definition Lchown :: "'w kernel \<Rightarrow> unix_fs \<Rightarrow> string \<Rightarrow> int \<Rightarrow> int \<Rightarrow> (err option, 'w) fsop" where
  "Lchown K fs name uid gid w = do {
     (e, w) \<leftarrow> fchown K fs name uid gid AT_SYMLINK_NOFOLLOW w;
     Some (ensurePathError e ''lchown'' name, w) }"

definition Chownat :: "'w kernel \<Rightarrow> int \<Rightarrow> string \<Rightarrow> int \<Rightarrow> int \<Rightarrow> (err option, 'w) fsop" where
  "Chownat K dirfd name uid gid w = do {
     (r, w) \<leftarrow> sys (k_fchownat K dirfd name uid gid 0) w;
     Some (ensurePathError (errno_err r) ''chownat'' name, w) }"

definition Lchownat :: "'w kernel \<Rightarrow> int \<Rightarrow> string \<Rightarrow> int \<Rightarrow> int \<Rightarrow> (err option, 'w) fsop" where
  "Lchownat K dirfd name uid gid w = do {
     (r, w) \<leftarrow> sys (k_fchownat K dirfd name uid gid AT_SYMLINK_NOFOLLOW) w;
     Some (ensurePathError (errno_err r) ''lchownat'' name, w) }"

text \<open>A zero time (\<open>None\<close>) is passed on as \<open>UTIME_OMIT\<close>, here again \<open>None\<close>.\<close>

definition Chtimesat :: "'w kernel \<Rightarrow> int \<Rightarrow> string \<Rightarrow> int option \<Rightarrow> int option \<Rightarrow> (err option, 'w) fsop" where
  "Chtimesat K dirfd name atime mtime w = do {
     (r, w) \<leftarrow> sys (k_utimensat K dirfd name atime mtime) w;
     Some (ensurePathError (errno_err r) ''chtimes'' name, w) }"

definition Chtimes :: "'w kernel \<Rightarrow> unix_fs \<Rightarrow> string \<Rightarrow> int option \<Rightarrow> int option \<Rightarrow> (err option, 'w) fsop" where
  "Chtimes K fs name atime mtime = with_path K fs name Some (\<lambda>dirfd name. Chtimesat K dirfd name atime mtime)"

definition do_fstatat :: "'w kernel \<Rightarrow> string \<Rightarrow> int \<Rightarrow> string \<Rightarrow> int \<Rightarrow> (err + file_stat, 'w) fsop" where
  "do_fstatat K op dirfd name fl w = do {
     (r, w) \<leftarrow> ignoringEINTR (k_fstatat K dirfd name fl) w;
     case r of
       Inl e \<Rightarrow> Some (Inl (the (ensurePathError (Some (Errno e)) op name)), w)
     | Inr st \<Rightarrow> Some (Inr (fillFileStatFromSys st name), w) }"

definition do_fstat :: "'w kernel \<Rightarrow> unix_fs \<Rightarrow> string \<Rightarrow> string \<Rightarrow> int \<Rightarrow> (err + file_stat, 'w) fsop" where
  "do_fstat K fs op name fl = with_path K fs name Inl (\<lambda>dirfd name. do_fstatat K op dirfd name fl)"

definition Stat :: "'w kernel \<Rightarrow> unix_fs \<Rightarrow> string \<Rightarrow> (err + file_stat, 'w) fsop" where
  "Stat K fs name = do_fstat K fs ''stat'' name 0"

definition Statat :: "'w kernel \<Rightarrow> int \<Rightarrow> string \<Rightarrow> (err + file_stat, 'w) fsop" where
  "Statat K dirfd name = do_fstatat K ''statat'' dirfd name 0"

definition Lstat :: "'w kernel \<Rightarrow> unix_fs \<Rightarrow> string \<Rightarrow> (err + file_stat, 'w) fsop" where
  "Lstat K fs name = do_fstat K fs ''lstat'' name AT_SYMLINK_NOFOLLOW"

definition Lstatat :: "'w kernel \<Rightarrow> int \<Rightarrow> string \<Rightarrow> (err + file_stat, 'w) fsop" where
  "Lstatat K dirfd name = do_fstatat K ''lstatat'' dirfd name AT_SYMLINK_NOFOLLOW"

section \<open>Directories and files\<close>

definition mkdirat :: "'w kernel \<Rightarrow> string \<Rightarrow> int \<Rightarrow> string \<Rightarrow> file_mode \<Rightarrow> (err option, 'w) fsop" where
  "mkdirat K op dirfd name mode w = do {
     (r, w) \<leftarrow> sys (k_mkdirat K dirfd name mode) w;
     Some (ensurePathError (errno_err r) op name, w) }"

definition Mkdir :: "'w kernel \<Rightarrow> unix_fs \<Rightarrow> string \<Rightarrow> file_mode \<Rightarrow> (err option, 'w) fsop" where
  "Mkdir K fs name mode = with_path K fs name Some (\<lambda>dirfd name. mkdirat K ''mkdir'' dirfd name mode)"

definition Mkdirat :: "'w kernel \<Rightarrow> int \<Rightarrow> string \<Rightarrow> file_mode \<Rightarrow> (err option, 'w) fsop" where
  "Mkdirat K dirfd name mode = mkdirat K ''mkdirat'' dirfd name mode"

text \<open>The two scans of \<open>mkdirAll\<close>: back over trailing separators, then back over the last element.\<close>

fun skip_separators :: "string \<Rightarrow> nat \<Rightarrow> nat" where
  "skip_separators name 0 = 0"
| "skip_separators name (Suc i) = (if name ! i = slash then skip_separators name i else Suc i)"

fun scan_element :: "string \<Rightarrow> nat \<Rightarrow> nat" where
  "scan_element name 0 = 0"
| "scan_element name (Suc j) = (if name ! j \<noteq> slash then scan_element name j else Suc j)"

lemma skip_separators_le: "skip_separators name i \<le> i"
  by (induction i) auto

lemma scan_element_le: "scan_element name j \<le> j"
  by (induction j) auto

definition parent_end :: "string \<Rightarrow> nat" where
  "parent_end name = scan_element name (skip_separators name (length name))"

lemma parent_end_le: "parent_end name \<le> length name"
  unfolding parent_end_def by (meson le_trans scan_element_le skip_separators_le)

function mkdirAll :: "'w kernel \<Rightarrow> unix_fs \<Rightarrow> string \<Rightarrow> file_mode \<Rightarrow> (err option, 'w) fsop" where
  "mkdirAll K fs name mode w = do {
     (r, w) \<leftarrow> Lstat K fs name w;
     case r of
       Inr dir \<Rightarrow> do {
         (r, w) \<leftarrow> (if fi_mode dir AND ModeSymlink \<noteq> 0 then Stat K fs name w else Some (Inr dir, w));
         case r of
           Inl e \<Rightarrow> Some (Some e, w)
         | Inr dir \<Rightarrow>
             if fi_IsDir dir then Some (None, w)
             else Some (Some (PathError ''mkdir'' name (Sentinel ErrNotDirectory)), w) }
     | Inl _ \<Rightarrow> do {
         let j = parent_end name;
         (e, w) \<leftarrow> (if 1 < j then mkdirAll K fs (take (j - 1) name) mode w else Some (None, w));
         case e of
           Some e \<Rightarrow> Some (Some e, w)
         | None \<Rightarrow> do {
             (e, w) \<leftarrow> Mkdir K fs name mode w;
             case e of
               None \<Rightarrow> Some (None, w)
             | Some e \<Rightarrow> do {
                 (r, w) \<leftarrow> Lstat K fs name w;
                 case r of
                   Inr dir \<Rightarrow> if fi_IsDir dir then Some (None, w) else Some (Some e, w)
                 | Inl _ \<Rightarrow> Some (Some e, w) } } } }"
  by pat_completeness auto
termination
proof (relation "measure (\<lambda>(K, fs, name, mode, w). length name)")
  fix name :: string and j
  assume "j = parent_end name" "1 < j"
  with parent_end_le [of name] show "((K, fs, take (j - 1) name, mode, w'), K, fs, name, mode, w)
      \<in> measure (\<lambda>(K, fs, name, mode, w). length name)" for K fs mode w w'
    by simp
qed simp

declare mkdirAll.simps [simp del]

definition MkdirAll :: "'w kernel \<Rightarrow> unix_fs \<Rightarrow> string \<Rightarrow> file_mode \<Rightarrow> (err option, 'w) fsop" where
  "MkdirAll K fs name mode w =
     (case unsafePath (basePath fs) name of
        Err e \<Rightarrow> Some (Some e, w)
      | Panic \<Rightarrow> None
      | Ok name \<Rightarrow> mkdirAll K fs name mode w)"

definition openFile :: "'w kernel \<Rightarrow> unix_fs \<Rightarrow> string \<Rightarrow> flags \<Rightarrow> file_mode \<Rightarrow> (int \<times> err option, 'w) fsop" where
  "openFile K fs name flag mode =
     with_path K fs name (\<lambda>e. (0, Some e)) (\<lambda>dirfd name. openat K fs dirfd name flag mode)"

definition OpenFile :: "'w kernel \<Rightarrow> unix_fs \<Rightarrow> string \<Rightarrow> flags \<Rightarrow> file_mode \<Rightarrow> (err + int, 'w) fsop" where
  "OpenFile K fs name flag mode w = do {
     ((fd, e), w) \<leftarrow> openFile K fs name flag mode w;
     case e of Some e \<Rightarrow> Some (Inl e, w) | None \<Rightarrow> Some (Inr fd, w) }"

definition OpenFileat :: "'w kernel \<Rightarrow> unix_fs \<Rightarrow> int \<Rightarrow> string \<Rightarrow> flags \<Rightarrow> file_mode \<Rightarrow> (err + int, 'w) fsop" where
  "OpenFileat K fs dirfd name flag mode w = do {
     ((fd, e), w) \<leftarrow> openat K fs dirfd name flag mode w;
     case e of Some e \<Rightarrow> Some (Inl e, w) | None \<Rightarrow> Some (Inr fd, w) }"

definition Open :: "'w kernel \<Rightarrow> unix_fs \<Rightarrow> string \<Rightarrow> (err + int, 'w) fsop" where
  "Open K fs name = OpenFile K fs name O_RDONLY 0"

definition Create :: "'w kernel \<Rightarrow> unix_fs \<Rightarrow> string \<Rightarrow> (err + int, 'w) fsop" where
  "Create K fs name = OpenFile K fs name (O_CREATE OR O_WRONLY OR O_TRUNC) 0x1A4"

section \<open>Every name is confined\<close>

lemma Split_snoc:
  assumes "slash \<notin> set f" "d = [] \<or> last d = slash"
  shows "Split (d @ f) = (d, f)"
proof -
  have "takeWhile (\<lambda>c. c \<noteq> slash) (rev d) = []"
    using assms(2) by (cases d rule: rev_cases) auto
  moreover have "takeWhile (\<lambda>c. c \<noteq> slash) (rev f @ rev d) = rev f @ takeWhile (\<lambda>c. c \<noteq> slash) (rev d)"
    using assms(1) by (intro takeWhile_append2) auto
  ultimately show ?thesis
    by (simp add: Split_def)
qed

lemma join_snoc: "cs \<noteq> [] \<Longrightarrow> join_with s (cs @ [c]) = join_with s cs @ s @ c"
  by (induction s cs rule: join_with.induct) auto

lemma Split_safe_name:
  assumes "safe_name name" "Split name = (dir, file)"
  shows "safe_name file \<and> (dir \<noteq> [] \<longrightarrow> safe_name (TrimSuffix dir ''/''))"
proof -
  from assms(1) obtain cs where cs: "\<forall>c \<in> set cs. plain c" "name = relative_name cs"
    by (auto simp: safe_name_def)
  show ?thesis
  proof (cases cs rule: rev_cases)
    case Nil
    then have "Split name = ([], ''.'')"
      using Split_snoc [of "''.''" "[]"] cs by (simp add: relative_name_def)
    with assms(2) show ?thesis
      by (auto simp: safe_name_def relative_name_def intro: exI [of _ "[]"])
  next
    case (snoc cs' c)
    let ?d = "if cs' = [] then [] else join_with ''/'' cs' @ ''/''"
    have "name = ?d @ c" "slash \<notin> set c"
      using cs snoc by (auto simp: relative_name_def join_snoc plain_def)
    then have "dir = ?d" "file = c"
      using Split_snoc [of c ?d] assms(2) by auto
    moreover have "safe_name c"
      using cs snoc by (auto simp: safe_name_def relative_name_def intro!: exI [of _ "[c]"])
    moreover have "safe_name (join_with ''/'' cs')" if "cs' \<noteq> []"
      using cs snoc that by (auto simp: safe_name_def relative_name_def intro!: exI [of _ cs'])
    ultimately show ?thesis by auto
  qed
qed

lemma nofollow_set: "(if f AND O_NOFOLLOW = 0 then f OR O_NOFOLLOW else f) AND O_NOFOLLOW \<noteq> 0"
  for f :: flags
proof -
  have "O_NOFOLLOW \<noteq> 0" by (simp add: O_NOFOLLOW_def)
  then show ?thesis by (auto simp: bit.conj_disj_distrib2)
qed

lemma or_keeps: "f AND b \<noteq> 0 \<Longrightarrow> (f OR g) AND b \<noteq> 0" for f :: flags
  by (simp add: bit.conj_disj_distrib2 or_eq_0_iff)

lemma directory_set: "(O_DIRECTORY OR O_RDONLY) AND O_DIRECTORY \<noteq> 0"
  by (simp add: flag_defs)

context guarded_kernel
begin

lemma keeps_pair_case [keeps_intros]:
  "(\<And>x y. keeps ns (f x y)) \<Longrightarrow> keeps ns (case v of (x, y) \<Rightarrow> f x y)"
  by (cases v) simp

lemma keeps_raw_openat:
  assumes "name = base \<and> flag AND O_DIRECTORY \<noteq> 0 \<or> (safe_name name \<or> name \<in> ns) \<and> flag AND O_NOFOLLOW \<noteq> 0"
  shows "keeps ns (raw_openat K dirfd name flag mode)"
proof -
  let ?f = "if flag AND O_CLOEXEC = 0 then flag OR O_CLOEXEC else flag"
  have "open_ok base (N w) name ?f" if "ns \<subseteq> N w" for w
    using assms that or_keeps by (auto simp: open_ok_def name_ok_def)
  then have "keeps ns (sys (k_openat K dirfd name ?f mode))"
    using openat by (intro keeps_sys) blast
  then show ?thesis
    unfolding raw_openat_def Let_def by (intro keeps_intros) simp_all
qed

lemma keeps_raw_openat2:
  assumes "(safe_name name \<or> name \<in> ns) \<and> flag AND O_NOFOLLOW \<noteq> 0"
  shows "keeps ns (raw_openat2 K dirfd name flag mode)"
proof -
  let ?f = "if flag AND O_CLOEXEC = 0 then flag OR O_CLOEXEC else flag"
  let ?g = "if ?f AND O_LARGEFILE = 0 then ?f OR O_LARGEFILE else ?f"
  have "open_ok base (N w) name ?g" if "ns \<subseteq> N w" for w
    using assms that or_keeps by (auto simp: open_ok_def name_ok_def)
  then have "keeps ns (sys (k_openat2 K dirfd name ?g mode))"
    using openat2 by (intro keeps_sys) blast
  then show ?thesis
    unfolding raw_openat2_def Let_def by (intro keeps_intros) simp_all
qed

lemma keeps_open_loop:
  assumes "keeps ns attempt"
  shows "keeps ns (open_loop attempt)"
proof (rule keepsI)
  fix w r w'
  assume run: "P w" "ns \<subseteq> N w" "open_loop attempt w = Some (r, w')"
  have "keeps ns attempt \<longrightarrow> P w \<longrightarrow> ns \<subseteq> N w \<longrightarrow> P (snd (r, w')) \<and> N w \<subseteq> N (snd (r, w'))"
    using run(3)
  proof (rule open_loop.raw_induct [where P =
      "\<lambda>attempt w y. keeps ns attempt \<longrightarrow> P w \<longrightarrow> ns \<subseteq> N w \<longrightarrow> P (snd y) \<and> N w \<subseteq> N (snd y)", rotated])
    fix go :: "(int \<times> err option, 'w) fsop \<Rightarrow> 'w \<Rightarrow> ((int \<times> err option) \<times> 'w) option"
      and attempt :: "(int \<times> err option, 'w) fsop" and w y
    assume IH: "\<And>attempt w y. go attempt w = Some y \<Longrightarrow>
        keeps ns attempt \<longrightarrow> P w \<longrightarrow> ns \<subseteq> N w \<longrightarrow> P (snd y) \<and> N w \<subseteq> N (snd y)"
      and eq: "(do { ((fd, e), w) \<leftarrow> attempt w;
        case e of None \<Rightarrow> Some ((fd, None), w)
        | Some e \<Rightarrow> if e = Errno EINTR then go attempt w else Some ((0, Some e), w) }) = Some y"
    show "keeps ns attempt \<longrightarrow> P w \<longrightarrow> ns \<subseteq> N w \<longrightarrow> P (snd y) \<and> N w \<subseteq> N (snd y)"
    proof (intro impI)
      assume k: "keeps ns attempt" and w: "P w" "ns \<subseteq> N w"
      from eq obtain fd e v where v: "attempt w = Some ((fd, e), v)"
        by (auto simp: Option.bind_eq_Some_conv)
      have kv: "P v \<and> N w \<subseteq> N v"
        by (rule keepsD [OF k w v])
      show "P (snd y) \<and> N w \<subseteq> N (snd y)"
      proof (cases "e = Some (Errno EINTR)")
        case True
        with eq v have "go attempt v = Some y" by simp
        from IH [OF this] k w kv show ?thesis by (meson subset_trans)
      next
        case False
        with eq v kv show ?thesis by (auto split: option.splits)
      qed
    qed
  qed
  then show "P w' \<and> N w \<subseteq> N w'"
    using assms run by simp
qed

lemma keeps_evalsymlinks [keeps_intros]: "keeps ns (sys (k_evalsymlinks K d))"
  using evalsymlinks by (intro keeps_sys) blast

lemma keeps_openat:
  assumes "safe_name name \<or> name \<in> ns"
  shows "keeps ns (openat K fs dirfd name flag mode)"
  using assms nofollow_set [of flag] unfolding openat_def Let_def
  by (intro keeps_intros keeps_open_loop keeps_raw_openat keeps_raw_openat2) simp_all

lemma keeps_safePath:
  assumes "basePath fs = base" "base = spell bs" "good_base bs"
  shows "keeps ns (safePath K fs path)"
  unfolding safePath_def
proof (intro keeps_intros)
  fix name
  assume "unsafePath (basePath fs) path = Ok name"
  then have name: "safe_name name"
    using assms safe_name_unsafePath by simp
  show "keeps ns (raw_openat K AT_EMPTY_PATH (basePath fs) (O_DIRECTORY OR O_RDONLY) 0)"
    using assms directory_set by (intro keeps_raw_openat) simp
  fix dir f
  assume "Split name = (dir, f)" "dir \<noteq> []"
  with Split_safe_name [OF name] show
    "keeps ns (openat K fs x (TrimSuffix dir ''/'') (O_DIRECTORY OR O_RDONLY) 0)" for x
    by (intro keeps_openat) simp
qed

end

text \<open>The operations above on a filesystem whose base is the guarded one.\<close>

context guarded_kernel
begin

definition on_base :: "unix_fs \<Rightarrow> bool" where
  "on_base fs \<longleftrightarrow> basePath fs = base \<and> (\<exists>bs. good_base bs \<and> base = spell bs)"

lemma safePath_name:
  assumes "on_base fs" "safePath K fs path w = Some ((dirfd, name, fds, None), w')"
  shows "safe_name name"
proof -
  from assms(1) obtain bs where bs: "good_base bs" "basePath fs = spell bs"
    by (auto simp: on_base_def)
  from assms(2) obtain n dir where n: "unsafePath (basePath fs) path = Ok n" "Split n = (dir, name)"
    unfolding safePath_def
    by (auto simp: Option.bind_eq_Some_conv split: outcome.splits option.splits prod.splits if_splits)
  then show ?thesis
    using Split_safe_name [OF safe_name_unsafePath [OF bs(1)] n(2)] bs by simp
qed

definition nameable :: "string set \<Rightarrow> string \<Rightarrow> bool" where
  "nameable ns n \<longleftrightarrow> safe_name n \<or> n \<in> ns"

lemma nameable_ok: "nameable ns n \<Longrightarrow> ns \<subseteq> N w \<Longrightarrow> name_ok (N w) n"
  by (auto simp: nameable_def name_ok_def)

lemma nameable_safe: "safe_name n \<Longrightarrow> nameable ns n"
  by (simp add: nameable_def)

lemma nameable_in: "n \<in> ns \<Longrightarrow> nameable ns n"
  by (simp add: nameable_def)

lemma keeps_with_path [keeps_intros]:
  assumes "on_base fs" "\<And>d n. nameable ns n \<Longrightarrow> keeps ns (body d n)"
  shows "keeps ns (with_path K fs path fail body)"
proof (rule keepsI)
  fix w r w'
  assume w: "P w" "ns \<subseteq> N w" "with_path K fs path fail body w = Some (r, w')"
  then obtain dirfd name fds e v u where
    v: "safePath K fs path w = Some ((dirfd, name, fds, e), v)"
    and u: "(case e of Some e \<Rightarrow> Some (fail e, v) | None \<Rightarrow> body dirfd name v) = Some (r, u)"
    and w': "w' = close_all K fds u"
    by (auto simp: with_path_def Option.bind_eq_Some_conv do_close_def)
  from assms(1) obtain bs where "basePath fs = base" "base = spell bs" "good_base bs"
    by (auto simp: on_base_def)
  then have "keeps ns (safePath K fs path)"
    by (rule keeps_safePath)
  from keepsD [OF this w(1,2) v] have pv: "P v" "ns \<subseteq> N v" "N w \<subseteq> N v"
    using w(2) by auto
  have "P u \<and> N v \<subseteq> N u"
  proof (cases e)
    case None
    with u v have "body dirfd name v = Some (r, u)" "nameable ns name"
      using safePath_name [OF assms(1)] by (simp_all add: nameable_def)
    with keepsD [OF assms(2) pv(1,2)] show ?thesis by simp
  qed (use u pv in simp)
  with pv keeps_close_all [of u fds] show "P w' \<and> N w \<subseteq> N w'"
    unfolding w' by auto
qed

lemma keeps_openat' [keeps_intros]: "nameable ns n \<Longrightarrow> keeps ns (openat K fs d n f m)"
  by (rule keeps_openat) (simp add: nameable_def)

lemma keeps_fchmodat [keeps_intros]: "nameable ns n \<Longrightarrow> keeps ns (sys (k_fchmodat K d n m))"
  using fchmodat nameable_ok by (intro keeps_sys) blast

lemma keeps_fchownat [keeps_intros]: "nameable ns n \<Longrightarrow> keeps ns (sys (k_fchownat K d n i j l))"
  using fchownat nameable_ok by (intro keeps_sys) blast

lemma keeps_utimensat [keeps_intros]: "nameable ns n \<Longrightarrow> keeps ns (sys (k_utimensat K d n a b))"
  using utimensat nameable_ok by (intro keeps_sys) blast

lemma keeps_mkdirat [keeps_intros]: "nameable ns n \<Longrightarrow> keeps ns (sys (k_mkdirat K d n m))"
  using mkdirat nameable_ok by (intro keeps_sys) blast

lemma keeps_unlinkat [keeps_intros]: "nameable ns n \<Longrightarrow> keeps ns (ignoringEINTR (k_unlinkat K d n l))"
  using unlinkat nameable_ok by (intro keeps_ignoringEINTR keeps_sys) blast

lemma keeps_renameat [keeps_intros]:
  "nameable ns n \<Longrightarrow> nameable ns n' \<Longrightarrow> keeps ns (sys (k_renameat K d n d' n'))"
  using renameat nameable_ok by (intro keeps_sys) blast

lemma keeps_symlinkat [keeps_intros]: "nameable ns n \<Longrightarrow> keeps ns (ignoringEINTR (k_symlinkat K t d n))"
  using symlinkat nameable_ok by (intro keeps_ignoringEINTR keeps_sys) blast

lemma keeps_fstatat [keeps_intros]: "nameable ns n \<Longrightarrow> keeps ns (ignoringEINTR (k_fstatat K d n l))"
  using fstatat nameable_ok by (intro keeps_ignoringEINTR keeps_sys) blast

lemma keeps_do_fstatat [keeps_intros]: "nameable ns n \<Longrightarrow> keeps ns (do_fstatat K op d n l)"
  unfolding do_fstatat_def by (auto intro!: keeps_intros)

lemma keeps_Lstatat [keeps_intros]: "nameable ns n \<Longrightarrow> keeps ns (Lstatat K d n)"
  unfolding Lstatat_def by (rule keeps_do_fstatat)

lemma keeps_attributes [keeps_intros]:
  assumes "on_base fs"
  shows "keeps ns (Chmod K fs n m)" "keeps ns (Chown K fs n i j)" "keeps ns (Lchown K fs n i j)"
    "keeps ns (Chtimes K fs n a b)" "keeps ns (Stat K fs n)" "keeps ns (Lstat K fs n)" "keeps ns (Mkdir K fs n m)"
  unfolding Chmod_def UfsFs.fchmodat_def Chown_def Lchown_def fchown_def Chtimes_def Chtimesat_def
    Stat_def Lstat_def do_fstat_def Mkdir_def UfsFs.mkdirat_def
  using assms by (auto intro!: keeps_intros)

lemma keeps_OpenFileat [keeps_intros]: "nameable ns n \<Longrightarrow> keeps ns (OpenFileat K fs d n f m)"
  unfolding OpenFileat_def by (auto intro!: keeps_intros)

lemma keeps_opens [keeps_intros]:
  assumes "on_base fs"
  shows "keeps ns (OpenFile K fs n f m)" "keeps ns (Open K fs n)" "keeps ns (Create K fs n)"
  unfolding Open_def Create_def OpenFile_def openFile_def
  using assms by (auto intro!: keeps_intros)

lemma keeps_mkdirAll:
  assumes "on_base fs"
  shows "keeps ns (mkdirAll K fs name m)"
proof (induction name rule: length_induct)
  case (1 name)
  have "length (take (parent_end name - 1) name) < length name" if "1 < parent_end name"
    using that parent_end_le [of name] by simp
  with 1 have IH: "1 < parent_end name \<Longrightarrow> keeps ns (mkdirAll K fs (take (parent_end name - 1) name) m)"
    by blast
  have "mkdirAll K fs name m = (\<lambda>w. mkdirAll K fs name m w)" by simp
  then show ?case
    unfolding mkdirAll.simps [of K fs name m] Let_def
    using assms IH by (auto intro!: keeps_intros)
qed

lemma keeps_MkdirAll [keeps_intros]: "on_base fs \<Longrightarrow> keeps ns (MkdirAll K fs name m)"
  unfolding MkdirAll_def by (auto intro!: keeps_intros keeps_mkdirAll)

end

end
