(* ===== verification/UfsRemove.thy ===== *)
theory UfsRemove
  imports UfsFs
begin

text \<open>
  The operations of the sandboxed filesystem that remove, rename, link and create names
  (\<open>wings/internal/ufs/fs_unix.go\<close>), and the recursive removal of \<open>wings/internal/ufs/removeall_unix.go\<close>.

  The recursive functions carry fuel: a bound on the depth of the directory tree together with the number of
  times a directory is read again. Running out of fuel is \<open>None\<close>, as is a call that does not return.
\<close>

section \<open>Removing one name\<close>

definition unlinkat :: "'w kernel \<Rightarrow> int \<Rightarrow> string \<Rightarrow> int \<Rightarrow> (errno + unit, 'w) fsop" where
  "unlinkat K dirfd name fl = ignoringEINTR (k_unlinkat K dirfd name fl)"

definition RemoveStat :: "'w kernel \<Rightarrow> unix_fs \<Rightarrow> string \<Rightarrow> (file_stat option \<times> err option, 'w) fsop" where
  "RemoveStat K fs name = with_path K fs name (\<lambda>e. (None, Some e)) (\<lambda>dirfd name w. do {
     (r, w) \<leftarrow> Lstatat K dirfd name w;
     case r of
       Inl e \<Rightarrow> Some ((None, Some e), w)
     | Inr s \<Rightarrow> do {
         (u, w) \<leftarrow> unlinkat K dirfd name (if fi_IsDir s then AT_REMOVEDIR else 0) w;
         case u of
           Inl e \<Rightarrow> Some ((Some s, ensurePathError (Some (Errno e)) ''rename'' name), w)
         | Inr _ \<Rightarrow> Some ((Some s, None), w) } })"

definition Remove :: "'w kernel \<Rightarrow> unix_fs \<Rightarrow> string \<Rightarrow> (err option, 'w) fsop" where
  "Remove K fs name = with_path K fs name Some (\<lambda>dirfd name w.
     if name = ''.'' then Some (Some (BadPathResolution ''remove'' name), w)
     else do {
       (u, w) \<leftarrow> unlinkat K dirfd name 0 w;
       case u of
         Inr _ \<Rightarrow> Some (None, w)
       | Inl e \<Rightarrow> do {
           (u1, w) \<leftarrow> unlinkat K dirfd name AT_REMOVEDIR w;
           case u1 of
             Inr _ \<Rightarrow> Some (None, w)
           | Inl e1 \<Rightarrow>
               Some (ensurePathError (Some (Errno (if e1 \<noteq> ENOTDIR then e1 else e))) ''remove'' name, w) } })"

section \<open>Recursive removal\<close>

text \<open>\<open>openFdAt\<close> retries the interrupted call; the descriptor follows no final link.\<close>

definition openFdAt :: "'w kernel \<Rightarrow> int \<Rightarrow> string \<Rightarrow> (errno + int, 'w) fsop" where
  "openFdAt K dirfd name = ignoringEINTR (k_openat K dirfd name (O_RDONLY OR O_CLOEXEC OR O_NOFOLLOW) 0)"

type_synonym 'w unlink_op = "int \<Rightarrow> string \<Rightarrow> int \<Rightarrow> (errno + unit, 'w) fsop"

definition in_dir :: "string \<Rightarrow> err \<Rightarrow> err" where
  "in_dir dir e = (case e of PathError op p c \<Rightarrow> PathError op (dir @ ''/'' @ p) c | _ \<Rightarrow> e)"

text \<open>
  The loop over the names of one batch: \<open>remove\<close> is \<open>removeAllFrom\<close> on the open directory; the state is the
  number of failed removals and the first error.
\<close>

fun remove_names ::
  "(string \<Rightarrow> (err option, 'w) fsop) \<Rightarrow> string \<Rightarrow> string list \<Rightarrow> nat \<times> err option \<Rightarrow> (nat \<times> err option, 'w) fsop" where
  "remove_names remove base [] (numErr, recurseErr) w = Some ((numErr, recurseErr), w)"
| "remove_names remove base (name # names) (numErr, recurseErr) w = do {
     (e, w) \<leftarrow> remove name w;
     case e of
       None \<Rightarrow> remove_names remove base names (numErr, recurseErr) w
     | Some e \<Rightarrow> remove_names remove base names
         (Suc numErr, case recurseErr of None \<Rightarrow> Some (in_dir base e) | Some r \<Rightarrow> Some r) w }"

definition reqSize :: nat where "reqSize = 1024"

text \<open>
  The inner loop of \<open>removeContentsFrom\<close>: \<open>Inl r\<close> when the function returns \<open>r\<close> from inside the loop (the
  directory is closed then), otherwise the size of the last batch and the first error so far.
\<close>

fun read_batches ::
  "'w kernel \<Rightarrow> (string \<Rightarrow> (err option, 'w) fsop) \<Rightarrow> nat \<Rightarrow> int \<Rightarrow> string \<Rightarrow> err option \<Rightarrow>
   (err option + nat \<times> err option, 'w) fsop" where
  "read_batches K remove 0 fd base recurseErr w = None"
| "read_batches K remove (Suc n) fd base recurseErr w = do {
     ((names, readErr), w) \<leftarrow> sys (k_readdirnames K fd) w;
     case (case readErr of Some e \<Rightarrow> if e \<noteq> Sentinel EOF then Some e else None | None \<Rightarrow> None) of
       Some e \<Rightarrow> do {
         (_, w) \<leftarrow> do_close K [fd] w;
         if is_sentinel ErrNotExist e then Some (Inl None, w)
         else Some (Inl (Some (PathError ''readdirnames'' base e)), w) }
     | None \<Rightarrow> do {
         ((numErr, recurseErr), w) \<leftarrow> remove_names remove base names (0, recurseErr) w;
         if numErr \<noteq> reqSize then Some (Inr (length names, recurseErr), w)
         else read_batches K remove n fd base recurseErr w } }"

fun removeAllFrom :: "'w kernel \<Rightarrow> 'w unlink_op \<Rightarrow> nat \<Rightarrow> int \<Rightarrow> string \<Rightarrow> (err option, 'w) fsop"
  and removeContentsFrom :: "'w kernel \<Rightarrow> 'w unlink_op \<Rightarrow> nat \<Rightarrow> int \<Rightarrow> string \<Rightarrow> err option \<Rightarrow> (err option, 'w) fsop" where
  "removeAllFrom K ul 0 parentFd base w = None"
| "removeAllFrom K ul (Suc n) parentFd base w = do {
     (u, w) \<leftarrow> ul parentFd base 0 w;
     case u of
       Inr _ \<Rightarrow> Some (None, w)
     | Inl e \<Rightarrow>
         if e = ENOENT then Some (None, w)
         else if e \<noteq> EISDIR \<and> e \<noteq> EPERM \<and> e \<noteq> EACCES
         then Some (Some (PathError ''unlinkat'' base (Errno e)), w)
         else do {
           (s, w) \<leftarrow> ignoringEINTR (k_fstatat K parentFd base AT_SYMLINK_NOFOLLOW) w;
           case s of
             Inl se \<Rightarrow>
               if se = ENOENT then Some (None, w) else Some (Some (PathError ''fstatat'' base (Errno se)), w)
           | Inr st \<Rightarrow>
               if st_mode st AND S_IFMT \<noteq> S_IFDIR then Some (Some (PathError ''unlinkat'' base (Errno e)), w)
               else do {
                 (recurseErr, w) \<leftarrow> removeContentsFrom K ul n parentFd base None w;
                 (u, w) \<leftarrow> ul parentFd base AT_REMOVEDIR w;
                 case u of
                   Inr _ \<Rightarrow> Some (None, w)
                 | Inl ue \<Rightarrow>
                     if ue = ENOENT then Some (None, w)
                     else case recurseErr of
                       Some r \<Rightarrow> Some (Some r, w)
                     | None \<Rightarrow> Some (ensurePathError (Some (Errno e)) ''unlinkat'' base, w) } } }"
| "removeContentsFrom K ul 0 parentFd base recurseErr w = None"
| "removeContentsFrom K ul (Suc n) parentFd base recurseErr w = do {
     (f, w) \<leftarrow> openFdAt K parentFd base w;
     case f of
       Inl e \<Rightarrow> Some (None, w)
     | Inr fd \<Rightarrow> do {
         (r, w) \<leftarrow> read_batches K (removeAllFrom K ul n fd) n fd base recurseErr w;
         case r of
           Inl r \<Rightarrow> Some (r, w)
         | Inr (respSize, recurseErr) \<Rightarrow> do {
             (_, w) \<leftarrow> do_close K [fd] w;
             if respSize < reqSize then Some (None, w)
             else removeContentsFrom K ul n parentFd base recurseErr w } } }"

text \<open>
  \<open>removeAll\<close> and \<open>removeContents\<close> work on the interface \<open>unixFS\<close>: the three operations of it are arguments.
\<close>

definition removeAll ::
  "'w kernel \<Rightarrow> (string \<Rightarrow> (err + int, 'w) fsop) \<Rightarrow> (string \<Rightarrow> (err option, 'w) fsop) \<Rightarrow> 'w unlink_op \<Rightarrow>
   nat \<Rightarrow> string \<Rightarrow> (err option, 'w) fsop" where
  "removeAll K open_fn remove_fn ul n path w =
     (if path = [] then Some (None, w)
      else if endsWithDot path then Some (Some (PathError ''removeall'' path (Errno EINVAL)), w)
      else do {
        (e, w) \<leftarrow> remove_fn path w;
        if (case e of None \<Rightarrow> True | Some e \<Rightarrow> is_sentinel ErrNotExist e) then Some (None, w)
        else case splitPath path of (parentDir, base) \<Rightarrow> do {
          (p, w) \<leftarrow> open_fn parentDir w;
          case p of
            Inl e \<Rightarrow> if \<not> is_sentinel ErrNotExist e then Some (Some e, w) else Some (None, w)
          | Inr parent \<Rightarrow> do {
              (e, w) \<leftarrow> removeAllFrom K ul n parent base w;
              (_, w) \<leftarrow> do_close K [parent] w;
              case e of
                None \<Rightarrow> Some (None, w)
              | Some e \<Rightarrow>
                  (case e of
                     PathError _ _ _ \<Rightarrow> Some (convertErrorType (Some (in_dir parentDir e)), w)
                   | _ \<Rightarrow> Some (ensurePathError (Some e) ''removeallfrom'' base, w)) } } })"

definition removeContents ::
  "'w kernel \<Rightarrow> (string \<Rightarrow> (err + int, 'w) fsop) \<Rightarrow> 'w unlink_op \<Rightarrow> nat \<Rightarrow> string \<Rightarrow> (err option, 'w) fsop" where
  "removeContents K open_fn ul n path w =
     (if path = [] then Some (None, w)
      else case splitPath path of (parentDir, base) \<Rightarrow> do {
        (p, w) \<leftarrow> open_fn parentDir w;
        case p of
          Inl e \<Rightarrow> if \<not> is_sentinel ErrNotExist e then Some (Some e, w) else Some (None, w)
        | Inr parent \<Rightarrow> do {
            (e, w) \<leftarrow> removeContentsFrom K ul n parent base None w;
            (_, w) \<leftarrow> do_close K [parent] w;
            case e of
              None \<Rightarrow> Some (None, w)
            | Some e \<Rightarrow>
                (case e of
                   PathError _ _ _ \<Rightarrow> Some (convertErrorType (Some (in_dir parentDir e)), w)
                 | _ \<Rightarrow> Some (ensurePathError (Some e) ''removecontentsfrom'' base, w)) } })"

definition RemoveAll :: "'w kernel \<Rightarrow> unix_fs \<Rightarrow> nat \<Rightarrow> string \<Rightarrow> (err option, 'w) fsop" where
  "RemoveAll K fs n name w =
     (case unsafePath (basePath fs) name of
        Err e \<Rightarrow> Some (Some e, w)
      | Panic \<Rightarrow> None
      | Ok name \<Rightarrow>
          if name = ''.'' then Some (Some (BadPathResolution ''removeall'' name), w)
          else removeAll K (Open K fs) (Remove K fs) (unlinkat K) n name w)"

definition RemoveContents :: "'w kernel \<Rightarrow> unix_fs \<Rightarrow> nat \<Rightarrow> string \<Rightarrow> (err option, 'w) fsop" where
  "RemoveContents K fs n name w =
     (case unsafePath (basePath fs) name of
        Err e \<Rightarrow> Some (Some e, w)
      | Panic \<Rightarrow> None
      | Ok name \<Rightarrow> removeContents K (Open K fs) (unlinkat K) n name w)"

section \<open>Renaming, linking, creating\<close>

definition link_error :: "string \<Rightarrow> string \<Rightarrow> string \<Rightarrow> errno \<Rightarrow> err" where
  "link_error op old new e = Wrapped (op @ '' '' @ old @ '' '' @ new) (Errno e)"

text \<open>The second half of \<open>Rename\<close>, once both parents are open.\<close>

definition rename_open ::
  "'w kernel \<Rightarrow> string \<Rightarrow> string \<Rightarrow> int \<Rightarrow> string \<Rightarrow> int \<Rightarrow> string \<Rightarrow> (err option, 'w) fsop" where
  "rename_open K oldpath newpath olddirfd oldname newdirfd newname w =
     (if newname = ''.'' then Some (Some (BadPathResolution ''rename'' newname), w)
      else do {
        (r, w) \<leftarrow> Lstatat K newdirfd newname w;
        case r of
          Inr _ \<Rightarrow> Some (Some (PathError ''rename'' newname (Sentinel ErrExist)), w)
        | Inl e \<Rightarrow>
            if \<not> is_sentinel ErrNotExist e then Some (Some e, w)
            else do {
              (u, w) \<leftarrow> sys (k_renameat K olddirfd oldname newdirfd newname) w;
              case u of
                Inl e \<Rightarrow> Some (Some (link_error ''rename'' oldpath newpath e), w)
              | Inr _ \<Rightarrow> Some (None, w) } })"

definition Rename :: "'w kernel \<Rightarrow> unix_fs \<Rightarrow> string \<Rightarrow> string \<Rightarrow> (err option, 'w) fsop" where
  "Rename K fs oldpath newpath w =
     (if oldpath = newpath then Some (None, w)
      else with_path K fs oldpath Some (\<lambda>olddirfd oldname w.
        if oldname = ''.'' then Some (Some (BadPathResolution ''rename'' oldname), w)
        else do {
          (r, w) \<leftarrow> Lstatat K olddirfd oldname w;
          case r of
            Inl e \<Rightarrow> Some (Some e, w)
          | Inr _ \<Rightarrow> do {
              ((newdirfd, newname, closeFd2, e), w) \<leftarrow> safePath K fs newpath w;
              case e of
                None \<Rightarrow> do {
                  (r, w) \<leftarrow> rename_open K oldpath newpath olddirfd oldname newdirfd newname w;
                  (_, w) \<leftarrow> do_close K closeFd2 w;
                  Some (r, w) }
              | Some e \<Rightarrow> do {
                  (_, w) \<leftarrow> do_close K closeFd2 w;
                  if \<not> is_sentinel ErrNotExist e then Some (Some e, w)
                  else case as_path_error e of
                    None \<Rightarrow> Some (Some e, w)
                  | Some (_, p, _) \<Rightarrow> do {
                      (me, w) \<leftarrow> MkdirAll K fs p 0x1ED w;
                      case me of
                        Some me \<Rightarrow> Some (Some me, w)
                      | None \<Rightarrow> with_path K fs newpath Some
                          (\<lambda>newdirfd newname. rename_open K oldpath newpath olddirfd oldname newdirfd newname) w } } } }) w)"

definition Symlink :: "'w kernel \<Rightarrow> unix_fs \<Rightarrow> string \<Rightarrow> string \<Rightarrow> (err option, 'w) fsop" where
  "Symlink K fs oldpath newpath = with_path K fs newpath Some (\<lambda>dirfd newname w. do {
     (u, w) \<leftarrow> ignoringEINTR (k_symlinkat K oldpath dirfd newname) w;
     case u of
       Inl e \<Rightarrow> Some (Some (link_error ''symlink'' oldpath newname e), w)
     | Inr _ \<Rightarrow> Some (None, w) })"

definition TouchPath :: "'w kernel \<Rightarrow> unix_fs \<Rightarrow> string \<Rightarrow> ((int \<times> string \<times> int list \<times> err option) \<times> bool, 'w) fsop" where
  "TouchPath K fs path w = do {
     ((dirfd, name, closeFd, e), w) \<leftarrow> safePath K fs path w;
     case e of
       None \<Rightarrow> Some (((dirfd, name, closeFd, None), True), w)
     | Some e \<Rightarrow>
         if \<not> is_sentinel ErrNotExist e then Some (((dirfd, name, closeFd, Some e), False), w)
         else case as_path_error e of
           None \<Rightarrow> Some (((dirfd, name, closeFd, Some e), False), w)
         | Some (_, p, _) \<Rightarrow> do {
             (me, w) \<leftarrow> MkdirAll K fs p 0x1ED w;
             case me of
               Some me \<Rightarrow> Some (((dirfd, name, closeFd, Some me), False), w)
             | None \<Rightarrow> do {
                 (_, w) \<leftarrow> do_close K closeFd w;
                 (r, w) \<leftarrow> safePath K fs path w;
                 Some ((r, False), w) } } }"

definition Touch :: "'w kernel \<Rightarrow> unix_fs \<Rightarrow> string \<Rightarrow> flags \<Rightarrow> file_mode \<Rightarrow> (err + int, 'w) fsop" where
  "Touch K fs path flag mode w = do {
     let flag = (if flag AND O_CREATE = 0 then flag OR O_CREATE else flag);
     (((dirfd, name, closeFd, e), _), w) \<leftarrow> TouchPath K fs path w;
     (r, w) \<leftarrow> (case e of Some e \<Rightarrow> Some (Inl e, w) | None \<Rightarrow> OpenFileat K fs dirfd name flag mode w);
     (_, w) \<leftarrow> do_close K closeFd w;
     Some (r, w) }"

section \<open>Removal is confined\<close>

text \<open>
  The interface \<open>unixFS\<close> of the recursive removal: opening, removing and unlinking keep what the kernel
  keeps. The plain and the quota filesystem both provide it.
\<close>

locale removal_fs = guarded_kernel K base P N
  for K :: "'w kernel" and base :: string and P :: "'w \<Rightarrow> bool" and N :: "'w \<Rightarrow> string set" +
  fixes open_fn :: "unix_fs \<Rightarrow> string \<Rightarrow> (err + int, 'w) fsop"
    and remove_fn :: "unix_fs \<Rightarrow> string \<Rightarrow> (err option, 'w) fsop"
    and ul :: "'w unlink_op"
  assumes open_keeps: "on_base fs \<Longrightarrow> keeps ns (open_fn fs p)"
    and remove_keeps: "on_base fs \<Longrightarrow> keeps ns (remove_fn fs p)"
    and unlink_keeps: "nameable ns n \<Longrightarrow> keeps ns (ul d n l)"
begin

lemma keeps_openFdAt [keeps_intros]: "nameable ns n \<Longrightarrow> keeps ns (openFdAt K d n)"
proof -
  assume n: "nameable ns n"
  have "(O_RDONLY OR O_CLOEXEC OR O_NOFOLLOW) AND O_NOFOLLOW \<noteq> 0"
    by (simp add: flag_defs)
  then have "open_ok base (N w) n (O_RDONLY OR O_CLOEXEC OR O_NOFOLLOW)" if "ns \<subseteq> N w" for w
    using nameable_ok [OF n that] by (simp add: open_ok_def)
  then show ?thesis
    unfolding openFdAt_def using openat by (intro keeps_ignoringEINTR keeps_sys) blast
qed

lemma keeps_remove_names:
  "(\<And>n. n \<in> set names \<Longrightarrow> keeps ns (remove n)) \<Longrightarrow> keeps ns (remove_names remove b names acc)"
proof (induction names arbitrary: acc)
  case Nil
  then show ?case by (cases acc) (simp add: keeps_def)
next
  case (Cons n names)
  have "keeps ns (\<lambda>w. remove_names remove b (n # names) (fst acc, snd acc) w)"
    unfolding remove_names.simps using Cons by (auto intro!: keeps_intros)
  then show ?case by simp
qed

lemma keeps_listing:
  assumes "\<And>names e. keeps (ns \<union> set names) (f names e)"
  shows "keeps ns (\<lambda>w. Option.bind (sys (k_readdirnames K fd) w) (\<lambda>((names, e), w). f names e w))"
proof (rule keepsI)
  fix w r w''
  assume w: "P w" "ns \<subseteq> N w"
    "Option.bind (sys (k_readdirnames K fd) w) (\<lambda>((names, e), w). f names e w) = Some (r, w'')"
  obtain names e w' where v: "k_readdirnames K fd w = ((names, e), w')"
    by (metis surj_pair)
  from readdirnames [OF w(1) v] w(2) have "P w'" "ns \<union> set names \<subseteq> N w'" "N w \<subseteq> N w'"
    by auto
  with keepsD [OF assms this(1,2)] w(3) v show "P w'' \<and> N w \<subseteq> N w''"
    by (fastforce simp: sys_def)
qed

lemma keeps_read_batches:
  assumes "\<And>ms n. nameable ms n \<Longrightarrow> keeps ms (remove n)"
  shows "keeps ns (read_batches K remove k fd b acc)"
proof (induction k arbitrary: ns acc)
  case 0
  then show ?case by (simp add: keeps_def)
next
  case (Suc k)
  have "keeps ms (remove_names remove b names x)" if "set names \<subseteq> ms" for ms names x
    using that assms nameable_in by (intro keeps_remove_names) blast
  then have "keeps ns (\<lambda>w. read_batches K remove (Suc k) fd b acc w)"
    unfolding read_batches.simps by (auto intro!: keeps_intros keeps_listing Suc.IH)
  then show ?case by simp
qed

lemma keeps_removal:
  "nameable ns b \<Longrightarrow> keeps ns (removeAllFrom K ul k d b)"
  "nameable ns b \<Longrightarrow> keeps ns (removeContentsFrom K ul k d b acc)"
proof (induction k arbitrary: ns b d acc)
  case 0
  {
    case 1
    then show ?case by (simp add: keeps_def)
  next
    case 2
    then show ?case by (simp add: keeps_def)
  }
next
  case (Suc k)
  {
    case 1
    then have "keeps ns (\<lambda>w. removeAllFrom K ul (Suc k) d b w)"
      unfolding removeAllFrom.simps using Suc.IH(2) by (auto intro!: keeps_intros unlink_keeps)
    then show ?case by simp
  next
    case 2
    then have "keeps ns (\<lambda>w. removeContentsFrom K ul (Suc k) d b acc w)"
      unfolding removeContentsFrom.simps using Suc.IH by (auto intro!: keeps_intros keeps_read_batches)
    then show ?case by simp
  }
qed

lemma keeps_case_err [keeps_intros]:
  "(\<And>a b c. v = PathError a b c \<Longrightarrow> keeps ns (f a b c)) \<Longrightarrow> keeps ns g \<Longrightarrow>
   keeps ns (\<lambda>w. case v of PathError a b c \<Rightarrow> f a b c w | _ \<Rightarrow> g w)"
  by (cases v) simp_all

lemma keeps_removeAll:
  assumes "on_base fs" "\<And>d b. splitPath path = (d, b) \<Longrightarrow> nameable ns b"
  shows "keeps ns (removeAll K (open_fn fs) (remove_fn fs) ul k path)"
  unfolding removeAll_def using assms
  by (auto intro!: keeps_intros keeps_removal open_keeps remove_keeps)

lemma keeps_removeContents:
  assumes "on_base fs" "\<And>d b. splitPath path = (d, b) \<Longrightarrow> nameable ns b"
  shows "keeps ns (removeContents K (open_fn fs) ul k path)"
  unfolding removeContents_def using assms
  by (auto intro!: keeps_intros keeps_removal open_keeps)

end

lemma splitPath_safe_name:
  assumes "safe_name p" "splitPath p = (d, b)"
  shows "safe_name b"
proof -
  from assms(1) obtain cs where cs: "\<forall>c \<in> set cs. plain c" "p = relative_name cs"
    by (auto simp: safe_name_def)
  show ?thesis
  proof (cases cs rule: rev_cases)
    case Nil
    then have "splitPath p = (''.'', ''.'')"
      using cs by (simp add: relative_name_def splitPath_def trim_slashes_id Let_def)
    with assms show ?thesis
      using cs Nil by (simp add: relative_name_def)
  next
    case (snoc cs' c)
    then have c: "plain c" "safe_name c"
      using cs by (auto simp: safe_name_def relative_name_def intro!: exI [of _ "[c]"])
    have "b = c"
    proof (cases "cs' = []")
      case True
      have "trim_leading c = c"
        using c(1) by (cases c; cases "tl c") (auto simp: plain_def)
      moreover have "last_slash c n = None" if "n \<le> length c" for n
        using that
      proof (induction n)
        case (Suc n)
        then have "c ! n \<in> set c" by simp
        with c(1) have "c ! n \<noteq> slash" unfolding plain_def by metis
        with Suc show ?case by simp
      qed simp
      moreover have "last c \<noteq> slash"
        using c(1) last_in_set unfolding plain_def by metis
      ultimately have "splitPath c = (''.'', c)"
        by (simp add: splitPath_def trim_slashes_id Let_def)
      with assms(2) show ?thesis
        using cs snoc True by (simp add: relative_name_def)
    next
      case False
      then have p: "p = join_with ''/'' cs' @ slash # c"
        using cs snoc by (simp add: relative_name_def join_snoc)
      have "safe_name (join_with ''/'' cs')"
        using cs snoc False by (auto simp: safe_name_def relative_name_def intro!: exI [of _ cs'])
      from safe_name_relative [OF this] c(1) have "splitPath p = (join_with ''/'' cs', c)"
        using splitPath_slashes [of c "join_with ''/'' cs'" 0] by (simp add: p plain_def)
      with assms(2) show ?thesis by simp
    qed
    with c show ?thesis by simp
  qed
qed

interpretation unix_removal: removal_fs "traced K" base "\<lambda>(w, l). log_ok base l" "\<lambda>(w, l). listed l"
  "Open (traced K)" "Remove (traced K)" "unlinkat (traced K)"
proof unfold_locales
  show "traced.on_base base fs \<Longrightarrow> traced.keeps base ns (Open (traced K) fs p)" for fs ns p
    by (rule traced.keeps_opens)
  show "traced.nameable ns n \<Longrightarrow> traced.keeps base ns (unlinkat (traced K) d n l)" for ns n d l
    unfolding unlinkat_def by (rule traced.keeps_unlinkat)
  then show "traced.on_base base fs \<Longrightarrow> traced.keeps base ns (Remove (traced K) fs p)" for fs ns p
    unfolding Remove_def by (auto intro!: keeps_intros)
qed

end
