(* ===== verification/UfsWalk.thy ===== *)
theory UfsWalk
  imports UfsFs
begin

text \<open>
  Listing directories and walking trees (\<open>wings/internal/ufs/walk_unix.go\<close>). The walk carries fuel, a bound
  on the depth of the tree; the callback is a parameter and may itself use the filesystem.
\<close>

section \<open>Directory entries\<close>

record dirent =
  de_dirfd :: int
  de_name :: string
  de_path :: string
  de_modeType :: file_mode

definition de_IsDir :: "dirent \<Rightarrow> bool" where
  "de_IsDir de \<longleftrightarrow> de_modeType de AND ModeDir \<noteq> 0"

definition de_Info :: "'w kernel \<Rightarrow> dirent \<Rightarrow> (err + file_stat, 'w) fsop" where
  "de_Info K de = Lstatat K (de_dirfd de) (de_name de)"

definition de_Open :: "'w kernel \<Rightarrow> unix_fs \<Rightarrow> dirent \<Rightarrow> (err + int, 'w) fsop" where
  "de_Open K fs de = OpenFileat K fs (de_dirfd de) (de_name de) O_RDONLY 0"

definition modeType :: "'w kernel \<Rightarrow> int \<Rightarrow> string \<Rightarrow> (err + file_mode, 'w) fsop" where
  "modeType K dirfd name w = do {
     (r, w) \<leftarrow> Lstatat K dirfd name w;
     case r of
       Inl e \<Rightarrow> Some (Inl (Wrapped ''ufs: error finding mode type'' e), w)
     | Inr fi \<Rightarrow> Some (Inr (fi_mode fi AND ModeType), w) }"

text \<open>The \<open>DT_\<close> constants of the kernel.\<close>

definition known_type :: "nat \<Rightarrow> file_mode option" where
  "known_type t =
     (if t = 8 then Some 0
      else if t = 4 then Some ModeDir
      else if t = 10 then Some ModeSymlink
      else if t = 2 then Some (ModeDevice OR ModeCharDevice)
      else if t = 6 then Some ModeDevice
      else if t = 1 then Some ModeNamedPipe
      else if t = 12 then Some ModeSocket
      else None)"

definition modeTypeFromDirent :: "'w kernel \<Rightarrow> sys_dirent \<Rightarrow> int \<Rightarrow> string \<Rightarrow> (err + file_mode, 'w) fsop" where
  "modeTypeFromDirent K de fd name w =
     (case known_type (d_type de) of Some m \<Rightarrow> Some (Inr m, w) | None \<Rightarrow> modeType K fd name w)"

definition skipped :: "sys_dirent \<Rightarrow> bool" where
  "skipped de \<longleftrightarrow> d_ino de = 0 \<or> d_name de = [] \<or> d_name de = ''.'' \<or> d_name de = ''..''"

definition make_dirent :: "int \<Rightarrow> string \<Rightarrow> string \<Rightarrow> string \<Rightarrow> file_mode \<Rightarrow> dirent" where
  "make_dirent fd name relative childName mt =
     \<lparr>de_dirfd = fd, de_name = childName,
      de_path = (if relative = ''.'' then name else Join [relative, childName]), de_modeType = mt\<rparr>"

fun add_entries :: "'w kernel \<Rightarrow> int \<Rightarrow> string \<Rightarrow> string \<Rightarrow> dirent list \<Rightarrow> sys_dirent list \<Rightarrow> (err + dirent list, 'w) fsop" where
  "add_entries K fd name relative entries [] w = Some (Inr entries, w)"
| "add_entries K fd name relative entries (sde # rest) w =
     (if skipped sde then add_entries K fd name relative entries rest w
      else do {
        (r, w) \<leftarrow> modeTypeFromDirent K sde fd (d_name sde) w;
        case r of
          Inl e \<Rightarrow> Some (Inl e, w)
        | Inr mt \<Rightarrow>
            add_entries K fd name relative (entries @ [make_dirent fd name relative (d_name sde) mt]) rest w })"

partial_function (option) read_dir_loop ::
  "'w kernel \<Rightarrow> int \<Rightarrow> string \<Rightarrow> string \<Rightarrow> dirent list \<Rightarrow> 'w \<Rightarrow> ((err + dirent list) \<times> 'w) option" where
  "read_dir_loop K fd name relative entries w = do {
     (r, w) \<leftarrow> sys (k_getdents K fd) w;
     case r of
       Inl e \<Rightarrow>
         if e = EINTR then read_dir_loop K fd name relative entries w
         else Some (Inl (the (ensurePathError (Some (Errno e)) ''getdents'' name)), w)
     | Inr des \<Rightarrow>
         if des = [] then Some (Inr entries, w)
         else do {
           (x, w) \<leftarrow> add_entries K fd name relative entries des w;
           case x of
             Inl e \<Rightarrow> Some (Inl e, w)
           | Inr entries \<Rightarrow> read_dir_loop K fd name relative entries w } }"

definition readDir :: "'w kernel \<Rightarrow> int \<Rightarrow> string \<Rightarrow> string \<Rightarrow> (err + dirent list, 'w) fsop" where
  "readDir K fd name relative = read_dir_loop K fd name relative []"

definition ReadDir :: "'w kernel \<Rightarrow> unix_fs \<Rightarrow> string \<Rightarrow> (err + dirent list, 'w) fsop" where
  "ReadDir K fs path = with_path K fs path Inl (\<lambda>dirfd name w. do {
     ((fd, e), w) \<leftarrow> openat K fs dirfd name (O_DIRECTORY OR O_RDONLY) 0 w;
     case e of
       Some e \<Rightarrow> Some (Inl e, w)
     | None \<Rightarrow> do {
         (r, w) \<leftarrow> readDir K fd name ''.'' w;
         (_, w) \<leftarrow> do_close K [fd] w;
         Some (r, w) } })"

fun map_entries :: "(dirent \<Rightarrow> (err + 't, 'w) fsop) \<Rightarrow> dirent list \<Rightarrow> (err + 't list, 'w) fsop" where
  "map_entries fn [] w = Some (Inr [], w)"
| "map_entries fn (e # es) w = do {
     (r, w) \<leftarrow> fn e w;
     case r of
       Inl er \<Rightarrow> Some (Inl er, w)
     | Inr v \<Rightarrow> do {
         (rs, w) \<leftarrow> map_entries fn es w;
         case rs of Inl er \<Rightarrow> Some (Inl er, w) | Inr vs \<Rightarrow> Some (Inr (v # vs), w) } }"

definition ReadDirMap :: "'w kernel \<Rightarrow> unix_fs \<Rightarrow> string \<Rightarrow> (dirent \<Rightarrow> (err + 't, 'w) fsop) \<Rightarrow> (err + 't list, 'w) fsop" where
  "ReadDirMap K fs path fn = with_path K fs path Inl (\<lambda>dirfd name w. do {
     ((fd, e), w) \<leftarrow> openat K fs dirfd name (O_DIRECTORY OR O_RDONLY) 0 w;
     case e of
       Some e \<Rightarrow> Some (Inl e, w)
     | None \<Rightarrow> do {
         (r, w) \<leftarrow> readDir K fd ''.'' path w;
         (v, w) \<leftarrow> (case r of Inl e \<Rightarrow> Some (Inl e, w) | Inr es \<Rightarrow> map_entries fn es w);
         (_, w) \<leftarrow> do_close K [fd] w;
         Some (v, w) } })"

section \<open>Walking\<close>

type_synonym 'w walk_fn = "int \<Rightarrow> string \<Rightarrow> string \<Rightarrow> dirent option \<Rightarrow> err option \<Rightarrow> (err option, 'w) fsop"

fun walk_each ::
  "(string \<Rightarrow> string \<Rightarrow> dirent \<Rightarrow> (err option, 'w) fsop) \<Rightarrow> string \<Rightarrow> dirent list \<Rightarrow> (err option, 'w) fsop" where
  "walk_each walk relative [] w = Some (None, w)"
| "walk_each walk relative (d1 # dirs) w = do {
     (e, w) \<leftarrow> walk (de_name d1) (if relative = ''.'' then de_name d1 else Join [relative, de_name d1]) d1 w;
     case e of
       None \<Rightarrow> walk_each walk relative dirs w
     | Some e \<Rightarrow> if e = Sentinel SkipDir then Some (None, w) else Some (Some e, w) }"

definition after_skip :: "dirent \<Rightarrow> err option \<Rightarrow> err option" where
  "after_skip d e = (if e = Some (Sentinel SkipDir) \<and> de_IsDir d then None else e)"

fun walkDir :: "'w kernel \<Rightarrow> unix_fs \<Rightarrow> 'w walk_fn \<Rightarrow> nat \<Rightarrow> int \<Rightarrow> string \<Rightarrow> string \<Rightarrow> dirent \<Rightarrow> (err option, 'w) fsop" where
  "walkDir K fs fn 0 parentfd name relative d w = None"
| "walkDir K fs fn (Suc n) parentfd name relative d w = do {
     (e, w) \<leftarrow> fn parentfd name relative (Some d) None w;
     if e \<noteq> None \<or> \<not> de_IsDir d then Some (after_skip d e, w)
     else do {
       ((dirfd, e), w) \<leftarrow> openat K fs parentfd name (O_DIRECTORY OR O_RDONLY) 0 w;
       (r, w) \<leftarrow> (case e of
          Some e \<Rightarrow> Some (Some e, w)
        | None \<Rightarrow> do {
            (ds, w) \<leftarrow> readDir K dirfd name relative w;
            case ds of
              Inr dirs \<Rightarrow> walk_each (walkDir K fs fn n dirfd) relative dirs w
            | Inl e \<Rightarrow> do {
                (e, w) \<leftarrow> fn dirfd name relative (Some d) (Some e) w;
                Some (after_skip d e, w) } });
       (_, w) \<leftarrow> do_close K (if dirfd \<noteq> 0 then [dirfd] else []) w;
       Some (r, w) } }"

definition info_entry :: "file_stat \<Rightarrow> dirent" where
  "info_entry info = \<lparr>de_dirfd = 0, de_name = fi_name info, de_path = [], de_modeType = fi_mode info AND ModeType\<rparr>"

definition WalkDirat :: "'w kernel \<Rightarrow> unix_fs \<Rightarrow> nat \<Rightarrow> int \<Rightarrow> string \<Rightarrow> 'w walk_fn \<Rightarrow> (err option, 'w) fsop" where
  "WalkDirat K fs n dirfd name fn w = do {
     (r, w) \<leftarrow> Lstatat K dirfd name w;
     (e, w) \<leftarrow> (case r of
        Inl e \<Rightarrow> fn dirfd name ''.'' None (Some e) w
      | Inr info \<Rightarrow> walkDir K fs fn n dirfd name ''.'' (info_entry info) w);
     Some (if e = Some (Sentinel SkipDir) \<or> e = Some (Sentinel SkipAll) then None else e, w) }"

section \<open>Listing returns what the kernel reports\<close>

text \<open>
  \<open>answers K fd w bs w'\<close>: from state \<open>w\<close> the kernel answers the calls of one listing with the batches \<open>bs\<close>
  and then the end, possibly interrupting calls in between, and ends up in \<open>w'\<close>.
\<close>

inductive answers :: "'w kernel \<Rightarrow> int \<Rightarrow> 'w \<Rightarrow> sys_dirent list list \<Rightarrow> 'w \<Rightarrow> bool" where
  finish: "k_getdents K fd w = (Inr [], w') \<Longrightarrow> answers K fd w [] w'"
| interrupt: "k_getdents K fd w = (Inl EINTR, w') \<Longrightarrow> answers K fd w' bs w'' \<Longrightarrow> answers K fd w bs w''"
| batch: "k_getdents K fd w = (Inr b, w') \<Longrightarrow> b \<noteq> [] \<Longrightarrow> answers K fd w' bs w'' \<Longrightarrow> answers K fd w (b # bs) w''"

inductive_cases answers_NilE: "answers K fd w [] w'"
inductive_cases answers_ConsE: "answers K fd w (b # bs) w'"

definition list_entry :: "int \<Rightarrow> string \<Rightarrow> string \<Rightarrow> sys_dirent \<Rightarrow> dirent" where
  "list_entry fd name relative sde = make_dirent fd name relative (d_name sde) (the (known_type (d_type sde)))"

definition visible :: "sys_dirent list \<Rightarrow> sys_dirent list" where
  "visible des = [de \<leftarrow> des. d_ino de \<noteq> 0 \<and> d_name de \<notin> {[], ''.'', ''..''}]"

lemma visible_simps [simp]: "visible [] = []" "visible (a # b) = (if skipped a then visible b else a # visible b)"
  "visible (xs @ ys) = visible xs @ visible ys"
  by (simp_all add: visible_def skipped_def)

lemma add_entries_known:
  "\<forall>de \<in> set des. skipped de \<or> known_type (d_type de) \<noteq> None \<Longrightarrow>
   add_entries K fd name relative es des w = Some (Inr (es @ map (list_entry fd name relative) (visible des)), w)"
  by (induction des arbitrary: es) (auto simp: modeTypeFromDirent_def list_entry_def)

lemma read_dir_loop_answers:
  assumes "answers K fd w bs w'" "\<forall>de \<in> set (concat bs). skipped de \<or> known_type (d_type de) \<noteq> None"
  shows "read_dir_loop K fd name relative es w =
    Some (Inr (es @ map (list_entry fd name relative) (visible (concat bs))), w')"
  using assms
proof (induction arbitrary: es rule: answers.induct)
  case (finish K fd w w')
  then show ?case by (subst read_dir_loop.simps) (simp add: sys_def)
next
  case (interrupt K fd w w' bs w'')
  then show ?case by (subst read_dir_loop.simps) (simp add: sys_def)
next
  case (batch K fd w b w' bs w'')
  from batch.prems have "\<forall>de \<in> set (concat bs). skipped de \<or> known_type (d_type de) \<noteq> None"
    and "\<forall>de \<in> set b. skipped de \<or> known_type (d_type de) \<noteq> None"
    by simp_all
  with batch.hyps batch.IH show ?case by (subst read_dir_loop.simps) (simp add: sys_def add_entries_known)
qed

text \<open>C28: Listing a directory returns exactly the entries the kernel reports, in its order and over however many
  calls it takes, interrupted ones included, without deleted entries, \<open>.\<close> and \<open>..\<close>, each with the type the
  kernel gave it; and it returns whenever the kernel comes to the end.\<close>

theorem read_dir_complete:
  assumes "answers K fd w bs w'" "\<forall>de \<in> set (visible (concat bs)). known_type (d_type de) \<noteq> None"
  shows "readDir K fd name relative w =
    Some (Inr (map (list_entry fd name relative) (visible (concat bs))), w')"
proof -
  from assms(2) have "\<forall>de \<in> set (concat bs). skipped de \<or> known_type (d_type de) \<noteq> None"
    by (auto simp: visible_def skipped_def)
  with read_dir_loop_answers [OF assms(1)] show ?thesis by (simp add: readDir_def)
qed

text \<open>A kernel whose state is the list of answers still to give.\<close>

definition script_kernel :: "(errno + sys_dirent list) list kernel" where
  "script_kernel = \<lparr>
     k_openat = (\<lambda>d n f m w. (Inr 3, w)), k_openat2 = (\<lambda>d n f m w. (Inr 3, w)),
     k_evalsymlinks = (\<lambda>d w. (Inr [], w)), k_close = (\<lambda>d w. w), k_fchmodat = (\<lambda>d n m w. (Inr (), w)),
     k_fchownat = (\<lambda>d n i j l w. (Inr (), w)), k_utimensat = (\<lambda>d n a b w. (Inr (), w)),
     k_mkdirat = (\<lambda>d n m w. (Inr (), w)), k_unlinkat = (\<lambda>d n l w. (Inr (), w)),
     k_renameat = (\<lambda>d n d' n' w. (Inr (), w)), k_symlinkat = (\<lambda>t d n w. (Inr (), w)),
     k_fstatat = (\<lambda>d n l w. (Inl ENOENT, w)),
     k_getdents = (\<lambda>d w. case w of [] \<Rightarrow> (Inr [], []) | a # w \<Rightarrow> (a, w)),
     k_readdirnames = (\<lambda>d w. (([], None), w))\<rparr>"

theorem read_dir_complete_witness:
  "map_option (\<lambda>(r, _). map_sum id (map de_name) r)
     (readDir script_kernel 3 ''d'' ''.''
       [Inr [\<lparr>d_ino = 1, d_name = ''.'', d_type = 4\<rparr>, \<lparr>d_ino = 2, d_name = ''a'', d_type = 8\<rparr>], Inl EINTR,
        Inr [\<lparr>d_ino = 0, d_name = ''x'', d_type = 8\<rparr>, \<lparr>d_ino = 5, d_name = ''b'', d_type = 4\<rparr>]]) =
   Some (Inr [''a'', ''b''])"
proof -
  let ?b1 = "[\<lparr>d_ino = 1, d_name = ''.'', d_type = 4\<rparr>, \<lparr>d_ino = 2, d_name = ''a'', d_type = 8\<rparr>]"
  let ?b2 = "[\<lparr>d_ino = 0, d_name = ''x'', d_type = 8\<rparr>, \<lparr>d_ino = 5, d_name = ''b'', d_type = 4\<rparr>]"
  have "answers script_kernel 3 [Inr ?b1, Inl EINTR, Inr ?b2] [?b1, ?b2] []"
    by (rule batch, simp add: script_kernel_def, simp, rule interrupt, simp add: script_kernel_def,
        rule batch, simp add: script_kernel_def, simp, rule finish, simp add: script_kernel_def)
  from read_dir_complete [OF this, of "''d''" "''.''"] show ?thesis
    by (simp add: known_type_def skipped_def list_entry_def make_dirent_def)
qed

section \<open>Walking is confined\<close>

context guarded_kernel
begin

lemma keeps_Lstatat_walk [keeps_intros]: "nameable ns n \<Longrightarrow> keeps ns (de_Info K \<lparr>de_dirfd = d, de_name = n, de_path = p, de_modeType = t\<rparr>)"
  unfolding de_Info_def by (auto intro!: keeps_intros)

lemma keeps_modeTypeFromDirent [keeps_intros]: "nameable ns n \<Longrightarrow> keeps ns (modeTypeFromDirent K de fd n)"
  unfolding modeTypeFromDirent_def modeType_def by (auto intro!: keeps_intros)

lemma keeps_add_entries:
  "d_name ` set des \<subseteq> ns \<Longrightarrow> keeps ns (add_entries K fd name relative es des)"
proof (induction des arbitrary: es)
  case (Cons de des)
  then have "nameable ns (d_name de)" "\<And>es. keeps ns (add_entries K fd name relative es des)"
    by (auto intro: nameable_in)
  then have "keeps ns (\<lambda>w. add_entries K fd name relative es (de # des) w)"
    unfolding add_entries.simps by (auto intro!: keeps_intros)
  then show ?case by simp
qed (simp add: keeps_def)

text \<open>What a listing returns is known by the time it returns.\<close>

lemma add_entries_names:
  "add_entries K fd name relative es des w = Some (Inr out, w') \<Longrightarrow>
   de_name ` set out \<subseteq> de_name ` set es \<union> d_name ` set des"
proof (induction des arbitrary: es w)
  case (Cons de des)
  show ?case
  proof (cases "skipped de")
    case True
    with Cons.prems have "add_entries K fd name relative es des w = Some (Inr out, w')" by simp
    from Cons.IH [OF this] show ?thesis by auto
  next
    case False
    with Cons.prems obtain r v where "modeTypeFromDirent K de fd (d_name de) w = Some (r, v)"
      and rest: "(case r of Inl e \<Rightarrow> Some (Inl e, v) | Inr mt \<Rightarrow>
        add_entries K fd name relative (es @ [make_dirent fd name relative (d_name de) mt]) des v) = Some (Inr out, w')"
      by (auto simp: Option.bind_eq_Some_conv)
    from rest obtain mt where "add_entries K fd name relative
        (es @ [make_dirent fd name relative (d_name de) mt]) des v = Some (Inr out, w')"
      by (cases r) auto
    from Cons.IH [OF this] show ?thesis by (auto simp: make_dirent_def)
  qed
qed simp

lemma read_dir_loop_keeps:
  assumes "read_dir_loop K fd name relative es w = Some (r, w')" "P w" "de_name ` set es \<subseteq> N w"
  shows "P w' \<and> N w \<subseteq> N w' \<and> (\<forall>out. r = Inr out \<longrightarrow> de_name ` set out \<subseteq> N w')"
proof -
  let ?Q = "\<lambda>L fd name relative es w y. L = K \<longrightarrow> P w \<longrightarrow> de_name ` set es \<subseteq> N w \<longrightarrow>
    P (snd y) \<and> N w \<subseteq> N (snd y) \<and> (\<forall>out. fst y = Inr out \<longrightarrow> de_name ` set out \<subseteq> N (snd y))"
  have "?Q K fd name relative es w (r, w')"
    using assms(1)
  proof (rule read_dir_loop.raw_induct [where P = ?Q, rotated])
    fix go L fd name relative es w and y :: "(err + dirent list) \<times> 'w"
    assume IH: "\<And>L fd name relative es w y. go L fd name relative es w = Some y \<Longrightarrow> ?Q L fd name relative es w y"
      and eq: "(do { (r, w) \<leftarrow> sys (k_getdents L fd) w;
        case r of
          Inl e \<Rightarrow> if e = EINTR then go L fd name relative es w
            else Some (Inl (the (ensurePathError (Some (Errno e)) ''getdents'' name)), w)
        | Inr des \<Rightarrow> if des = [] then Some (Inr es, w)
            else do { (x, w) \<leftarrow> add_entries L fd name relative es des w;
              case x of Inl e \<Rightarrow> Some (Inl e, w) | Inr es \<Rightarrow> go L fd name relative es w } }) = Some y"
    show "?Q L fd name relative es w y"
    proof (intro impI)
      assume L: "L = K" and w: "P w" "de_name ` set es \<subseteq> N w"
      obtain g v where v: "k_getdents K fd w = (g, v)" by (cases "k_getdents K fd w")
      from getdents [OF w(1) v] have pv: "P v" "N w \<subseteq> N v" "\<And>des. g = Inr des \<Longrightarrow> d_name ` set des \<subseteq> N v"
        by auto
      show "P (snd y) \<and> N w \<subseteq> N (snd y) \<and> (\<forall>out. fst y = Inr out \<longrightarrow> de_name ` set out \<subseteq> N (snd y))"
      proof (cases g)
        case (Inl e)
        show ?thesis
        proof (cases "e = EINTR")
          case True
          with eq v L Inl have "go K fd name relative es v = Some y" by (simp add: sys_def)
          with IH [OF this] pv w show ?thesis by (meson subset_trans)
        next
          case False
          with eq v L Inl pv show ?thesis by (auto simp: sys_def)
        qed
      next
        case (Inr des)
        show ?thesis
        proof (cases "des = []")
          case True
          have "de_name ` set es \<subseteq> N v"
            using w(2) pv(2) by (rule subset_trans)
          with True eq v L Inr pv w show ?thesis by (simp add: sys_def) (metis fst_conv snd_conv sum.inject(2))
        next
          case False
          with eq v L Inr obtain x u where u: "add_entries K fd name relative es des v = Some (x, u)"
            and rest: "(case x of Inl e \<Rightarrow> Some (Inl e, u) | Inr es \<Rightarrow> go K fd name relative es u) = Some y"
            by (auto simp: sys_def Option.bind_eq_Some_conv)
          have pu: "P u \<and> N v \<subseteq> N u"
            using keepsD [OF keeps_add_entries [OF pv(3) [OF Inr]] pv(1) subset_refl u] .
          show ?thesis
          proof (cases x)
            case (Inl e)
            with rest pu pv show ?thesis by auto
          next
            case out: (Inr es')
            have sub: "de_name ` set es' \<subseteq> de_name ` set es \<union> d_name ` set des"
              using u unfolding out by (rule add_entries_names)
            have "de_name ` set es \<subseteq> N u" "d_name ` set des \<subseteq> N u"
              using w(2) pv(2) pv(3) [OF Inr] pu by (meson subset_trans)+
            then have names: "de_name ` set es' \<subseteq> N u"
              using sub by (meson Un_least subset_trans)
            from rest out have go: "go K fd name relative es' u = Some y" by simp
            have "P (snd y) \<and> N u \<subseteq> N (snd y) \<and> (\<forall>out. fst y = Inr out \<longrightarrow> de_name ` set out \<subseteq> N (snd y))"
              by (rule IH [OF go, rule_format, OF refl conjunct1 [OF pu] names])
            with pu pv(2) show ?thesis by (meson subset_trans)
          qed
        qed
      qed
    qed
  qed
  with assms show ?thesis by simp
qed

lemma keeps_readDir_bind:
  assumes "\<And>e. keeps ns (f (Inl e))" "\<And>ds. keeps (ns \<union> de_name ` set ds) (f (Inr ds))"
  shows "keeps ns (\<lambda>w. Option.bind (readDir K fd name rel w) (\<lambda>(r, w). f r w))"
proof (rule keepsI)
  fix w r w''
  assume w: "P w" "ns \<subseteq> N w" "Option.bind (readDir K fd name rel w) (\<lambda>(r, w). f r w) = Some (r, w'')"
  then obtain x v where x: "readDir K fd name rel w = Some (x, v)" "f x v = Some (r, w'')"
    by (auto simp: Option.bind_eq_Some_conv)
  from read_dir_loop_keeps [OF x(1) [unfolded readDir_def] w(1)]
  have v: "P v" "N w \<subseteq> N v" "\<And>ds. x = Inr ds \<Longrightarrow> de_name ` set ds \<subseteq> N v"
    by auto
  show "P w'' \<and> N w \<subseteq> N w''"
  proof (cases x)
    case (Inl e)
    from keepsD [OF assms(1) v(1) _ x(2) [unfolded Inl]] v w(2) show ?thesis by (meson subset_trans)
  next
    case (Inr ds)
    have "ns \<union> de_name ` set ds \<subseteq> N v"
      using v(3) [OF Inr] v(2) w(2) by (meson Un_least subset_trans)
    from keepsD [OF assms(2) v(1) this x(2) [unfolded Inr]] v(2) show ?thesis by (meson subset_trans)
  qed
qed

lemma keeps_ReadDir [keeps_intros]: "on_base fs \<Longrightarrow> keeps ns (ReadDir K fs path)"
  unfolding ReadDir_def by (auto intro!: keeps_intros keeps_readDir_bind)

lemma keeps_walk_each:
  "(\<And>d rel. d \<in> set dirs \<Longrightarrow> keeps ns (walk (de_name d) rel d)) \<Longrightarrow> keeps ns (walk_each walk relative dirs)"
proof (induction dirs)
  case (Cons d dirs)
  then have "keeps ns (\<lambda>w. walk_each walk relative (d # dirs) w)"
    unfolding walk_each.simps by (auto intro!: keeps_intros)
  then show ?case by simp
qed (simp add: keeps_def)

text \<open>
  A walk whose callback keeps \<open>P\<close> when handed a nameable entry keeps \<open>P\<close>: it opens only names it was given
  or has listed.
\<close>

lemma keeps_walkDir:
  assumes "\<And>ms d n rel de e. nameable ms n \<Longrightarrow> keeps ms (fn d n rel de e)"
  shows "nameable ns name \<Longrightarrow> keeps ns (walkDir K fs fn k parentfd name relative d)"
proof (induction k arbitrary: ns name parentfd relative d)
  case (Suc k)
  have each: "keeps (ns \<union> de_name ` set ds) (walk_each (walkDir K fs fn k fd) rel ds)" for fd rel ds
    by (intro keeps_walk_each Suc.IH nameable_in) auto
  have "keeps ns (\<lambda>w. walkDir K fs fn (Suc k) parentfd name relative d w)"
    unfolding walkDir.simps using Suc.prems assms each
    by (auto intro!: keeps_intros keeps_readDir_bind)
  then show ?case by simp
qed (simp add: keeps_def)

lemma keeps_WalkDirat:
  assumes "\<And>ms d n rel de e. nameable ms n \<Longrightarrow> keeps ms (fn d n rel de e)" "nameable ns name"
  shows "keeps ns (WalkDirat K fs k dirfd name fn)"
  unfolding WalkDirat_def using assms by (auto intro!: keeps_intros keeps_walkDir)

end

end
