(* ===== verification/UfsOps.thy ===== *)
theory UfsOps
  imports UfsRemove UfsWalk
begin

text \<open>
  The operations of \<open>UnixFS\<close> together: what holds of every sequence of them, whatever the kernel answers.
\<close>

section \<open>Every operation\<close>

datatype fs_op =
    OpChmod string file_mode
  | OpChown string int int
  | OpLchown string int int
  | OpChtimes string "int option" "int option"
  | OpMkdir string file_mode
  | OpMkdirAll string file_mode
  | OpOpenFile string flags file_mode
  | OpReadDir string
  | OpRemoveStat string
  | OpRemove string
  | OpRemoveAll string
  | OpRemoveContents string
  | OpRename string string
  | OpStat string
  | OpLstat string
  | OpSymlink string string
  | OpTouch string flags file_mode

definition forget :: "('a, 'w) fsop \<Rightarrow> (unit, 'w) fsop" where
  "forget m w = do { (_, w) \<leftarrow> m w; Some ((), w) }"

text \<open>\<open>n\<close> is the fuel of the recursive removals.\<close>

fun run_op :: "nat \<Rightarrow> 'w kernel \<Rightarrow> unix_fs \<Rightarrow> fs_op \<Rightarrow> (unit, 'w) fsop" where
  "run_op n K fs (OpChmod p m) = forget (Chmod K fs p m)"
| "run_op n K fs (OpChown p u g) = forget (Chown K fs p u g)"
| "run_op n K fs (OpLchown p u g) = forget (Lchown K fs p u g)"
| "run_op n K fs (OpChtimes p a m) = forget (Chtimes K fs p a m)"
| "run_op n K fs (OpMkdir p m) = forget (Mkdir K fs p m)"
| "run_op n K fs (OpMkdirAll p m) = forget (MkdirAll K fs p m)"
| "run_op n K fs (OpOpenFile p f m) = forget (OpenFile K fs p f m)"
| "run_op n K fs (OpReadDir p) = forget (ReadDir K fs p)"
| "run_op n K fs (OpRemoveStat p) = forget (RemoveStat K fs p)"
| "run_op n K fs (OpRemove p) = forget (Remove K fs p)"
| "run_op n K fs (OpRemoveAll p) = forget (RemoveAll K fs n p)"
| "run_op n K fs (OpRemoveContents p) = forget (RemoveContents K fs n p)"
| "run_op n K fs (OpRename p q) = forget (Rename K fs p q)"
| "run_op n K fs (OpStat p) = forget (Stat K fs p)"
| "run_op n K fs (OpLstat p) = forget (Lstat K fs p)"
| "run_op n K fs (OpSymlink p q) = forget (Symlink K fs p q)"
| "run_op n K fs (OpTouch p f m) = forget (Touch K fs p f m)"

fun run_ops :: "nat \<Rightarrow> 'w kernel \<Rightarrow> unix_fs \<Rightarrow> fs_op list \<Rightarrow> (unit, 'w) fsop" where
  "run_ops n K fs [] w = Some ((), w)"
| "run_ops n K fs (op # ops) w = do { (_, w) \<leftarrow> run_op n K fs op w; run_ops n K fs ops w }"

context guarded_kernel
begin

lemma keeps_forget [keeps_intros]: "keeps ns m \<Longrightarrow> keeps ns (forget m)"
  unfolding forget_def by (auto intro!: keeps_intros)

lemma keeps_unlink [keeps_intros]: "nameable ns n \<Longrightarrow> keeps ns (unlinkat K d n l)"
  unfolding UfsRemove.unlinkat_def by (auto intro!: keeps_intros)

lemma keeps_RemoveStat [keeps_intros]: "on_base fs \<Longrightarrow> keeps ns (RemoveStat K fs p)"
  unfolding RemoveStat_def by (auto intro!: keeps_intros)

lemma keeps_Remove [keeps_intros]: "on_base fs \<Longrightarrow> keeps ns (Remove K fs p)"
  unfolding Remove_def by (auto intro!: keeps_intros)

lemma keeps_Symlink [keeps_intros]: "on_base fs \<Longrightarrow> keeps ns (Symlink K fs p q)"
  unfolding Symlink_def by (auto intro!: keeps_intros)

lemma keeps_rename_open [keeps_intros]:
  "nameable ns n \<Longrightarrow> nameable ns n' \<Longrightarrow> keeps ns (rename_open K p q d n d' n')"
  unfolding rename_open_def by (auto intro!: keeps_intros)

lemma keeps_safePath_bind:
  assumes fs: "on_base fs" and err: "\<And>d n c e. keeps ns (f d n c (Some e))"
    and body: "\<And>d n c. nameable ns n \<Longrightarrow> keeps ns (f d n c None)"
  shows "keeps ns (\<lambda>w. Option.bind (safePath K fs p w) (\<lambda>((d, n, c, e), w). f d n c e w))"
proof (rule keepsI)
  fix w r w''
  assume w: "P w" "ns \<subseteq> N w"
    "Option.bind (safePath K fs p w) (\<lambda>((d, n, c, e), w). f d n c e w) = Some (r, w'')"
  then obtain d n c e v where v: "safePath K fs p w = Some ((d, n, c, e), v)" "f d n c e v = Some (r, w'')"
    by (auto simp: Option.bind_eq_Some_conv)
  have "keeps ns (safePath K fs p)"
    using fs keeps_safePath by (auto simp: on_base_def)
  from keepsD [OF this w(1,2) v(1)] w(2) have pv: "P v" "ns \<subseteq> N v" "N w \<subseteq> N v" by auto
  have "keeps ns (f d n c e)"
  proof (cases e)
    case None
    with safePath_name [OF fs] v(1) have "safe_name n" by blast
    with None body show ?thesis by (simp add: nameable_safe)
  qed (simp add: err)
  from keepsD [OF this pv(1,2) v(2)] pv(3) show "P w'' \<and> N w \<subseteq> N w''" by (meson subset_trans)
qed

lemma keeps_safePath' [keeps_intros]: "on_base fs \<Longrightarrow> keeps ns (safePath K fs p)"
  using keeps_safePath by (auto simp: on_base_def)

lemma keeps_Rename [keeps_intros]:
  assumes "on_base fs"
  shows "keeps ns (Rename K fs p q)"
  unfolding Rename_def
proof (intro keeps_if keeps_return keeps_with_path assms)
  fix d n
  assume n: "nameable ns n"
  show "keeps ns (\<lambda>w. do {
      (r, w) \<leftarrow> Lstatat K d n w;
      case r of
        Inl e \<Rightarrow> Some (Some e, w)
      | Inr _ \<Rightarrow> do {
          ((newdirfd, newname, closeFd2, e), w) \<leftarrow> safePath K fs q w;
          case e of
            None \<Rightarrow> do {
              (r, w) \<leftarrow> rename_open K p q d n newdirfd newname w;
              (_, w) \<leftarrow> do_close K closeFd2 w;
              Some (r, w) }
          | Some e \<Rightarrow> do {
              (_, w) \<leftarrow> do_close K closeFd2 w;
              if \<not> is_sentinel ErrNotExist e then Some (Some e, w)
              else case as_path_error e of
                None \<Rightarrow> Some (Some e, w)
              | Some (_, p', _) \<Rightarrow> do {
                  (me, w) \<leftarrow> MkdirAll K fs p' 0x1ED w;
                  case me of
                    Some me \<Rightarrow> Some (Some me, w)
                  | None \<Rightarrow> with_path K fs q Some (\<lambda>newdirfd newname. rename_open K p q d n newdirfd newname) w } } } })"
    by (rule keeps_bind, rule keeps_Lstatat [OF n], rule keeps_case_sum, rule keeps_return,
        rule keeps_safePath_bind [OF assms]) (use assms n in \<open>auto intro!: keeps_intros\<close>)
qed

lemma keeps_TouchPath:
  assumes "on_base fs"
  shows "keeps ns (TouchPath K fs p)"
  unfolding TouchPath_def using assms by (auto intro!: keeps_intros)

lemma TouchPath_name:
  assumes "on_base fs" "TouchPath K fs p w = Some (((d, n, c, None), b), w')"
  shows "safe_name n"
proof -
  from assms(2) obtain d1 n1 c1 e1 v where v: "safePath K fs p w = Some ((d1, n1, c1, e1), v)"
    and rest: "(case e1 of None \<Rightarrow> Some (((d1, n1, c1, None), True), v)
      | Some e \<Rightarrow> if \<not> is_sentinel ErrNotExist e then Some (((d1, n1, c1, Some e), False), v)
         else case as_path_error e of
           None \<Rightarrow> Some (((d1, n1, c1, Some e), False), v)
         | Some (_, p, _) \<Rightarrow> Option.bind (MkdirAll K fs p 0x1ED v) (\<lambda>(me, w). case me of
               Some me \<Rightarrow> Some (((d1, n1, c1, Some me), False), w)
             | None \<Rightarrow> Option.bind (do_close K c1 w) (\<lambda>(_, w).
                 Option.bind (safePath K fs path w) (\<lambda>(r, w). Some ((r, False), w))))) =
      Some (((d, n, c, None), b), w')" if "path = p" for path
    unfolding TouchPath_def by (auto simp: Option.bind_eq_Some_conv)
  show ?thesis
  proof (cases e1)
    case None
    with v rest [OF refl] safePath_name [OF assms(1)] show ?thesis by simp
  next
    case (Some e)
    from rest [OF refl, unfolded Some] have "\<exists>w1. safePath K fs p w1 = Some ((d, n, c, None), w')"
      by (auto simp: Option.bind_eq_Some_conv split: if_splits option.splits)
    then show ?thesis using safePath_name [OF assms(1)] by blast
  qed
qed

lemma keeps_Touch [keeps_intros]:
  assumes "on_base fs"
  shows "keeps ns (Touch K fs p f m)"
proof (rule keepsI)
  fix w r w'
  assume w: "P w" "ns \<subseteq> N w" "Touch K fs p f m w = Some (r, w')"
  let ?f = "if f AND O_CREATE = 0 then f OR O_CREATE else f"
  let ?rest = "\<lambda>d n c e. \<lambda>w. do {
     (r, w) \<leftarrow> (case e of Some e \<Rightarrow> Some (Inl e, w) | None \<Rightarrow> OpenFileat K fs d n ?f m w);
     (_, w) \<leftarrow> do_close K c w;
     Some (r, w) }"
  from w(3) obtain d n c e b v where v: "TouchPath K fs p w = Some (((d, n, c, e), b), v)"
    and rest: "?rest d n c e v = Some (r, w')"
    by (auto simp: Touch_def Let_def Option.bind_eq_Some_conv)
  from keepsD [OF keeps_TouchPath [OF assms] w(1,2) v] w(2) have pv: "P v" "ns \<subseteq> N v" "N w \<subseteq> N v" by auto
  have "e = None \<Longrightarrow> nameable ns n"
    using TouchPath_name [OF assms] v nameable_safe by blast
  then have "keeps ns (?rest d n c e)"
    by (auto intro!: keeps_intros)
  from keepsD [OF this pv(1,2) rest] pv(3) show "P w' \<and> N w \<subseteq> N w'" by (meson subset_trans)
qed

end

section \<open>Confinement\<close>

lemma traced_removal:
  assumes "traced.on_base base fs"
  shows "traced.keeps base ns (RemoveAll (traced K) fs n p)" "traced.keeps base ns (RemoveContents (traced K) fs n p)"
proof -
  from assms obtain bs where bs: "good_base bs" "basePath fs = spell bs"
    by (auto simp: traced.on_base_def)
  have name: "unsafePath (basePath fs) p = Ok name \<Longrightarrow> splitPath name = (d, b) \<Longrightarrow> traced.nameable ns b" for name d b
    using safe_name_unsafePath [OF bs(1)] splitPath_safe_name bs(2) traced.nameable_safe by metis
  show "traced.keeps base ns (RemoveAll (traced K) fs n p)" "traced.keeps base ns (RemoveContents (traced K) fs n p)"
    unfolding RemoveAll_def RemoveContents_def using assms name
    by (auto intro!: keeps_intros unix_removal.keeps_removeAll unix_removal.keeps_removeContents)
qed

lemma traced_op: "traced.on_base base fs \<Longrightarrow> traced.keeps base ns (run_op n (traced K) fs op)"
  by (cases op) (auto intro!: keeps_intros traced_removal)

lemma traced_ops: "traced.on_base base fs \<Longrightarrow> traced.keeps base ns (run_ops n (traced K) fs ops)"
proof (induction ops)
  case (Cons op ops)
  then have "traced.keeps base ns (\<lambda>w. run_ops n (traced K) fs (op # ops) w)"
    unfolding run_ops.simps by (auto intro!: keeps_intros traced_op)
  then show ?case by simp
qed (simp add: traced.keeps_def)



end
