(* ===== verification/UfsDescriptors.thy ===== *)
theory UfsDescriptors
  imports UfsOps
begin

text \<open>
  Descriptor accounting of the sandboxed filesystem: what every operation of \<open>wings/internal/ufs\<close> leaves
  open, read off the recorded system calls. With \<open>openat2\<close> every operation closes what it opened, on every
  path; the fallback without it does not.
\<close>

fun bal :: "call list \<Rightarrow> int \<Rightarrow> int" where
  "bal [] fd = 0"
| "bal (CallOpen d n f r # l) fd = bal l fd + (if r = Some fd then 1 else 0)"
| "bal (CallClose c # l) fd = bal l fd - (if c = fd then 1 else 0)"
| "bal (_ # l) fd = bal l fd"

text \<open>
  \<open>moves A own m\<close>: started with the descriptors \<open>A\<close> in its care, \<open>m\<close> ends with \<open>own r\<close> in its caller's care.
\<close>

definition moves :: "int list \<Rightarrow> ('a \<Rightarrow> int list) \<Rightarrow> ('a, 'w \<times> call list) fsop \<Rightarrow> bool" where
  "moves A own m \<longleftrightarrow> (\<forall>w l r w' l' fd. m (w, l) = Some (r, w', l') \<longrightarrow>
     bal l' fd = bal l fd - int (count_list A fd) + int (count_list (own r) fd))"

abbreviation balanced :: "('a, 'w \<times> call list) fsop \<Rightarrow> bool" where
  "balanced m \<equiv> moves [] (\<lambda>_. []) m"

named_theorems moves_intros

lemma movesI: "(\<And>w l r w' l' fd. m (w, l) = Some (r, w', l') \<Longrightarrow>
    bal l' fd = bal l fd - int (count_list A fd) + int (count_list (own r) fd)) \<Longrightarrow> moves A own m"
  by (simp add: moves_def)

lemma movesD: "moves A own m \<Longrightarrow> m (w, l) = Some (r, w', l') \<Longrightarrow>
    bal l' fd = bal l fd - int (count_list A fd) + int (count_list (own r) fd)"
  by (simp add: moves_def)

lemma moves_bind:
  assumes "moves A own1 m" "\<And>r. moves (own1 r) own2 (f r)"
  shows "moves A own2 (\<lambda>w. Option.bind (m w) (\<lambda>(r, w). f r w))"
proof (rule movesI)
  fix w l r w' l' fd
  assume "Option.bind (m (w, l)) (\<lambda>(r, w). f r w) = Some (r, w', l')"
  then obtain s v k where "m (w, l) = Some (s, v, k)" "f s (v, k) = Some (r, w', l')"
    by (auto simp: Option.bind_eq_Some_conv)
  with movesD [OF assms(1), of w l s v k fd] movesD [OF assms(2), of s v k r w' l' fd]
  show "bal l' fd = bal l fd - int (count_list A fd) + int (count_list (own2 r) fd)" by simp
qed

lemma moves_frame: "moves A own m \<Longrightarrow> moves (A @ C) (\<lambda>r. own r @ C) m"
  by (auto simp: moves_def)

lemma moves_care: "balanced m \<Longrightarrow> moves A (\<lambda>_. A) m"
  using moves_frame [of "[]" "\<lambda>_. []" m A] by simp

lemma balanced_bind [moves_intros]:
  "balanced m \<Longrightarrow> (\<And>r. moves A own (f r)) \<Longrightarrow> moves A own (\<lambda>w. Option.bind (m w) (\<lambda>(r, w). f r w))"
  by (rule moves_bind, rule moves_care)

lemma moves_return: "own r = A \<Longrightarrow> moves A own (\<lambda>w. Some (r, w))"
  by (simp add: moves_def)

lemma moves_return' [moves_intros]: "moves A (\<lambda>_. A) (\<lambda>w. Some (r, w))"
  by (simp add: moves_def)

lemma moves_None [moves_intros]: "moves A own (\<lambda>w. None)"
  by (simp add: moves_def)

lemma moves_if [moves_intros]:
  "(b \<Longrightarrow> moves A own f) \<Longrightarrow> (\<not> b \<Longrightarrow> moves A own g) \<Longrightarrow> moves A own (\<lambda>w. if b then f w else g w)"
  by (cases b) simp_all

lemma moves_if_op [moves_intros]:
  "(b \<Longrightarrow> moves A own f) \<Longrightarrow> (\<not> b \<Longrightarrow> moves A own g) \<Longrightarrow> moves A own (if b then f else g)"
  by (cases b) simp_all

lemma moves_case_option [moves_intros]:
  "(v = None \<Longrightarrow> moves A own f) \<Longrightarrow> (\<And>x. v = Some x \<Longrightarrow> moves A own (g x)) \<Longrightarrow>
   moves A own (\<lambda>w. case v of None \<Rightarrow> f w | Some x \<Rightarrow> g x w)"
  by (cases v) simp_all

lemma moves_case_sum [moves_intros]:
  "(\<And>x. v = Inl x \<Longrightarrow> moves A own (f x)) \<Longrightarrow> (\<And>x. v = Inr x \<Longrightarrow> moves A own (g x)) \<Longrightarrow>
   moves A own (\<lambda>w. case v of Inl x \<Rightarrow> f x w | Inr x \<Rightarrow> g x w)"
  by (cases v) simp_all

lemma moves_case_outcome [moves_intros]:
  "(\<And>x. v = Ok x \<Longrightarrow> moves A own (f x)) \<Longrightarrow> (\<And>x. v = Err x \<Longrightarrow> moves A own (g x)) \<Longrightarrow> (v = Panic \<Longrightarrow> moves A own h) \<Longrightarrow>
   moves A own (\<lambda>w. case v of Ok x \<Rightarrow> f x w | Err x \<Rightarrow> g x w | Panic \<Rightarrow> h w)"
  by (cases v) simp_all

lemma moves_case_prod [moves_intros]:
  "(\<And>x y. v = (x, y) \<Longrightarrow> moves A own (f x y)) \<Longrightarrow> moves A own (\<lambda>w. case v of (x, y) \<Rightarrow> f x y w)"
  by (cases v) simp

lemma moves_pair_case [moves_intros]:
  "(\<And>x y. v = (x, y) \<Longrightarrow> moves A own (f x y)) \<Longrightarrow> moves A own (case v of (x, y) \<Rightarrow> f x y)"
  by (cases v) simp

lemma moves_case_err [moves_intros]:
  "(\<And>a b c. v = PathError a b c \<Longrightarrow> moves A own (f a b c)) \<Longrightarrow> moves A own g \<Longrightarrow>
   moves A own (\<lambda>w. case v of PathError a b c \<Rightarrow> f a b c w | _ \<Rightarrow> g w)"
  by (cases v) simp_all

section \<open>System calls\<close>

lemma balanced_calls [moves_intros]:
  "balanced (sys (k_evalsymlinks (traced K) d))" "balanced (sys (k_fchmodat (traced K) d n m))"
  "balanced (sys (k_fchownat (traced K) d n i j fl))" "balanced (sys (k_utimensat (traced K) d n a b))"
  "balanced (sys (k_mkdirat (traced K) d n m))" "balanced (sys (k_unlinkat (traced K) d n fl))"
  "balanced (sys (k_renameat (traced K) d n d' n'))" "balanced (sys (k_symlinkat (traced K) t d n))"
  "balanced (sys (k_fstatat (traced K) d n fl))" "balanced (sys (k_getdents (traced K) d))"
  "balanced (sys (k_readdirnames (traced K) d))"
  by (auto simp: moves_def sys_def traced_def record_call_def split: prod.splits)

definition opened_fd :: "errno + int \<Rightarrow> int list" where
  "opened_fd r = (case r of Inl _ \<Rightarrow> [] | Inr fd \<Rightarrow> [fd])"

lemma moves_opens:
  "moves [] opened_fd (sys (k_openat (traced K) d n f m))" "moves [] opened_fd (sys (k_openat2 (traced K) d n f m))"
  by (auto simp: moves_def sys_def traced_def record_call_def opened_def opened_fd_def split: prod.splits sum.splits)

lemma bal_close_all: "close_all (traced K) fds (w, l) = (w', l') \<Longrightarrow> bal l' fd = bal l fd - int (count_list fds fd)"
proof (induction fds arbitrary: w l)
  case (Cons c fds)
  from Cons.IH [of "k_close K c w" "CallClose c # l"] Cons.prems show ?case
    by (simp add: close_all_def traced_def)
qed (simp add: close_all_def)

lemma moves_close: "moves (A @ fds) (\<lambda>_. A) (do_close (traced K) fds)"
  by (auto simp: moves_def do_close_def dest: bal_close_all)

lemma moves_close_bind:
  "moves A own f \<Longrightarrow> moves (A @ fds) own (\<lambda>w. Option.bind (do_close (traced K) fds w) (\<lambda>(_, w). f w))"
  by (rule moves_bind [OF moves_close])

lemma moves_ignoringEINTR:
  assumes "moves [] own (sys fn)" "own (Inl EINTR) = []"
  shows "moves [] own (ignoringEINTR fn)"
proof (rule movesI)
  fix w l r w' l' fd
  assume run: "ignoringEINTR fn (w, l) = Some (r, w', l')"
  let ?Q = "\<lambda>fn w y. moves [] own (sys fn) \<longrightarrow>
    bal (snd (snd y)) fd = bal (snd w) fd + int (count_list (own (fst y)) fd)"
  have "?Q fn (w, l) (r, w', l')"
    using run
  proof (rule ignoringEINTR.raw_induct [where P = ?Q, rotated])
    fix go fn and w :: "'b \<times> call list" and y
    assume IH: "\<And>fn w y. go fn w = Some y \<Longrightarrow> ?Q fn w y"
      and eq: "(case fn w of (r, w') \<Rightarrow> if r = Inl EINTR then go fn w' else Some (r, w')) = Some y"
    show "?Q fn w y"
    proof
      assume k: "moves [] own (sys fn)"
      obtain s v where v: "fn w = (s, v)" by (cases "fn w")
      then have kv: "bal (snd v) fd = bal (snd w) fd + int (count_list (own s) fd)"
        using movesD [OF k, of "fst w" "snd w" s "fst v" "snd v" fd] by (simp add: sys_def)
      show "bal (snd (snd y)) fd = bal (snd w) fd + int (count_list (own (fst y)) fd)"
      proof (cases "s = Inl EINTR")
        case True
        with eq v have "go fn v = Some y" by simp
        from IH [OF this] k kv True assms(2) show ?thesis by simp
      next
        case False
        with eq v kv show ?thesis by auto
      qed
    qed
  qed
  with assms(1) show "bal l' fd = bal l fd - int (count_list [] fd) + int (count_list (own r) fd)" by simp
qed

lemma balanced_retries [moves_intros]:
  "balanced (ignoringEINTR (k_unlinkat (traced K) d n fl))" "balanced (ignoringEINTR (k_symlinkat (traced K) t d n))"
  "balanced (ignoringEINTR (k_fstatat (traced K) d n fl))"
  by (auto intro!: moves_ignoringEINTR moves_intros)

section \<open>Opening with openat2\<close>

definition fd_of :: "int \<times> err option \<Rightarrow> int list" where
  "fd_of r = (case snd r of None \<Rightarrow> [fst r] | Some _ \<Rightarrow> [])"

lemma moves_sys_case:
  assumes "moves [] opened_fd m" "\<And>fd. moves [fd] own (f (Inr fd))" "\<And>e. moves [] own (f (Inl e))"
  shows "moves [] own (\<lambda>w. Option.bind (m w) (\<lambda>(r, w). f r w))"
  using assms(2,3) by (intro moves_bind [OF assms(1)]) (auto simp: opened_fd_def split: sum.splits)

lemma fd_of_simps [simp]: "fd_of (fd, None) = [fd]" "fd_of (fd, Some e) = []"
  by (simp_all add: fd_of_def)

lemma fd_of_ensured [simp]: "fd_of (fd, ensurePathError (Some e) op p) = []"
  by (cases "ensurePathError (Some e) op p") simp_all

lemma moves_raw_openat:
  "moves [] fd_of (raw_openat (traced K) d n f m)" "moves [] fd_of (raw_openat2 (traced K) d n f m)"
  unfolding raw_openat_def raw_openat2_def Let_def
  by (auto intro!: moves_sys_case moves_opens moves_if moves_return)

lemma moves_open_loop:
  assumes "moves [] fd_of attempt"
  shows "moves [] fd_of (open_loop attempt)"
proof (rule movesI)
  fix w l r w' l' fd
  assume run: "open_loop attempt (w, l) = Some (r, w', l')"
  let ?Q = "\<lambda>m w y. moves [] fd_of m \<longrightarrow>
    bal (snd (snd y)) fd = bal (snd w) fd + int (count_list (fd_of (fst y)) fd)"
  have "?Q attempt (w, l) (r, w', l')"
    using run
  proof (rule open_loop.raw_induct [where P = ?Q, rotated])
    fix go and m :: "(int \<times> err option, 'a \<times> call list) fsop" and w y
    assume IH: "\<And>m w y. go m w = Some y \<Longrightarrow> ?Q m w y"
      and eq: "(do { ((fd, e), w) \<leftarrow> m w;
        case e of None \<Rightarrow> Some ((fd, None), w)
        | Some e \<Rightarrow> if e = Errno EINTR then go m w else Some ((0, Some e), w) }) = Some y"
    show "?Q m w y"
    proof
      assume k: "moves [] fd_of m"
      from eq obtain d e v where v: "m w = Some ((d, e), v)"
        by (auto simp: Option.bind_eq_Some_conv)
      then have kv: "bal (snd v) fd = bal (snd w) fd + int (count_list (fd_of (d, e)) fd)"
        using movesD [OF k, of "fst w" "snd w" "(d, e)" "fst v" "snd v" fd] by simp
      show "bal (snd (snd y)) fd = bal (snd w) fd + int (count_list (fd_of (fst y)) fd)"
      proof (cases "e = Some (Errno EINTR)")
        case True
        with eq v have "go m v = Some y" by simp
        from IH [OF this] k kv True show ?thesis by (simp add: fd_of_def)
      next
        case False
        with eq v kv show ?thesis by (auto simp: fd_of_def split: option.splits)
      qed
    qed
  qed
  with assms show "bal l' fd = bal l fd - int (count_list [] fd) + int (count_list (fd_of r) fd)" by simp
qed

lemma moves_fd_case:
  assumes "moves [] fd_of m" "\<And>fd. moves (fd # A) own (f fd None)" "\<And>fd e. moves A own (f fd (Some e))"
  shows "moves A own (\<lambda>w. Option.bind (m w) (\<lambda>((fd, e), w). f fd e w))"
proof -
  have "moves (fd_of r @ A) own (case r of (fd, e) \<Rightarrow> f fd e)" for r
    using assms(2,3) by (cases r; cases "snd r") auto
  from moves_bind [OF moves_frame [OF assms(1), of A, simplified] this] show ?thesis
    by (simp add: case_prod_unfold)
qed

lemma moves_openat: "useOpenat2 fs \<Longrightarrow> moves [] fd_of (openat (traced K) fs d n f m)"
  unfolding openat_def Let_def
  by (intro moves_fd_case moves_open_loop)
     (auto intro!: moves_raw_openat moves_return moves_intros)

definition path_fds :: "int \<times> string \<times> int list \<times> err option \<Rightarrow> int list" where
  "path_fds r = fst (snd (snd r))"

lemma moves_safePath: "useOpenat2 fs \<Longrightarrow> moves [] path_fds (safePath (traced K) fs p)"
  unfolding safePath_def
  by (intro moves_case_outcome moves_case_option moves_pair_case moves_case_prod moves_if moves_None moves_fd_case moves_raw_openat moves_openat
      moves_return) (simp_all add: path_fds_def)

lemma moves_safePath_case:
  assumes "useOpenat2 fs" "\<And>d n c. moves (c @ A) own (f d n c None)" "\<And>d n c e. moves (c @ A) own (f d n c (Some e))"
  shows "moves A own (\<lambda>w. Option.bind (safePath (traced K) fs p w) (\<lambda>((d, n, c, e), w). f d n c e w))"
proof -
  have "moves (path_fds r @ A) own (case r of (d, n, c, e) \<Rightarrow> f d n c e)" for r
    using assms(2,3) by (cases r; cases "snd (snd (snd r))") (auto simp: path_fds_def)
  from moves_bind [OF moves_frame [OF moves_safePath [OF assms(1)], of A, simplified] this] show ?thesis
    by (simp add: case_prod_unfold)
qed

lemma moves_with_path:
  assumes "useOpenat2 fs" "\<And>d n. moves [] own (body d n)" "\<And>e. own (fail e) = []"
  shows "moves [] own (with_path (traced K) fs p fail body)"
  unfolding with_path_def
proof (rule moves_safePath_case [OF assms(1)], goal_cases)
  have close: "moves (own r @ c) own (\<lambda>w. Option.bind (do_close (traced K) c w) (\<lambda>(_, w). Some (r, w)))" for r c
    by (rule moves_close_bind) (simp add: moves_return)
  {
    case (1 d n c)
    show ?case
      using moves_bind [OF moves_frame [OF assms(2), of c] close] by simp
  next
    case (2 d n c e)
    show ?case
      using close [of "fail e" c] assms(3) by simp
  }
qed

section \<open>The operations\<close>

lemma balanced_stat [moves_intros]:
  "balanced (do_fstatat (traced K) op d n fl)" "balanced (Lstatat (traced K) d n)"
  "balanced (unlinkat (traced K) d n fl)"
  unfolding do_fstatat_def Lstatat_def unlinkat_def by (auto intro!: moves_intros)

lemma balanced_with_path [moves_intros]:
  "useOpenat2 fs \<Longrightarrow> (\<And>d n. balanced (body d n)) \<Longrightarrow> balanced (with_path (traced K) fs p fail body)"
  by (rule moves_with_path) simp_all

lemma balanced_attributes [moves_intros]:
  assumes "useOpenat2 fs"
  shows "balanced (Chmod (traced K) fs n m)" "balanced (Chown (traced K) fs n i j)"
    "balanced (Lchown (traced K) fs n i j)" "balanced (Chtimes (traced K) fs n a b)"
    "balanced (Stat (traced K) fs n)" "balanced (Lstat (traced K) fs n)" "balanced (Mkdir (traced K) fs n m)"
    "balanced (Symlink (traced K) fs q n)" "balanced (Remove (traced K) fs n)" "balanced (RemoveStat (traced K) fs n)"
  unfolding Chmod_def UfsFs.fchmodat_def Chown_def Lchown_def fchown_def Chtimes_def Chtimesat_def
    Stat_def Lstat_def do_fstat_def Mkdir_def UfsFs.mkdirat_def Symlink_def Remove_def RemoveStat_def
  using assms by (auto intro!: moves_intros)

lemma balanced_mkdirAll: "useOpenat2 fs \<Longrightarrow> balanced (mkdirAll (traced K) fs name m)"
proof (induction name rule: length_induct)
  case (1 name)
  have "length (take (parent_end name - 1) name) < length name" if "1 < parent_end name"
    using that parent_end_le [of name] by simp
  with 1 have IH: "1 < parent_end name \<Longrightarrow> balanced (mkdirAll (traced K) fs (take (parent_end name - 1) name) m)"
    by blast
  have "mkdirAll (traced K) fs name m = (\<lambda>w. mkdirAll (traced K) fs name m w)" by simp
  then show ?case
    unfolding mkdirAll.simps [of "traced K" fs name m] Let_def
    using 1 IH by (auto intro!: moves_intros)
qed

lemma balanced_MkdirAll [moves_intros]: "useOpenat2 fs \<Longrightarrow> balanced (MkdirAll (traced K) fs name m)"
  unfolding MkdirAll_def by (auto intro!: moves_intros balanced_mkdirAll)

definition result_fd :: "err + int \<Rightarrow> int list" where
  "result_fd r = (case r of Inl _ \<Rightarrow> [] | Inr fd \<Rightarrow> [fd])"

lemma result_fd_simps [simp]: "result_fd (Inl e) = []" "result_fd (Inr fd) = [fd]"
  by (simp_all add: result_fd_def)

lemma moves_OpenFileat: "useOpenat2 fs \<Longrightarrow> moves [] result_fd (OpenFileat (traced K) fs d n f m)"
  unfolding OpenFileat_def by (intro moves_fd_case moves_openat) (auto intro!: moves_return)

lemma moves_OpenFile:
  assumes "useOpenat2 fs"
  shows "moves [] result_fd (OpenFile (traced K) fs p f m)"
proof -
  have "moves [] fd_of (openFile (traced K) fs p f m)"
    unfolding openFile_def using assms by (intro moves_with_path moves_openat) simp_all
  then show ?thesis
    unfolding OpenFile_def by (intro moves_fd_case) (auto intro!: moves_return)
qed

lemma moves_result_case:
  assumes "moves [] result_fd m" "\<And>fd. moves (fd # A) own (f (Inr fd))" "\<And>e. moves A own (f (Inl e))"
  shows "moves A own (\<lambda>w. Option.bind (m w) (\<lambda>(r, w). f r w))"
proof -
  have "moves (result_fd r @ A) own (f r)" for r
    using assms(2,3) by (cases r) simp_all
  from moves_bind [OF moves_frame [OF assms(1), of A, simplified] this] show ?thesis .
qed

lemma moves_opened_case:
  assumes "moves [] opened_fd m" "\<And>fd. moves (fd # A) own (f (Inr fd))" "\<And>e. moves A own (f (Inl e))"
  shows "moves A own (\<lambda>w. Option.bind (m w) (\<lambda>(r, w). f r w))"
proof -
  have "moves (opened_fd r @ A) own (f r)" for r
    using assms(2,3) by (cases r) (simp_all add: opened_fd_def)
  from moves_bind [OF moves_frame [OF assms(1), of A, simplified] this] show ?thesis .
qed

lemma moves_openFdAt: "moves [] opened_fd (openFdAt (traced K) d n)"
  unfolding openFdAt_def by (intro moves_ignoringEINTR moves_opens) (simp add: opened_fd_def)

lemma close_one:
  "moves [] own f \<Longrightarrow> moves [fd] own (\<lambda>w. Option.bind (do_close (traced K) [fd] w) (\<lambda>(_, w). f w))"
  using moves_close_bind [of "[]" own f "[fd]" K] by simp

section \<open>Removal\<close>

lemma balanced_remove_names:
  "(\<And>n. balanced (remove n)) \<Longrightarrow> balanced (remove_names remove b names acc)"
proof (induction names arbitrary: acc)
  case Nil
  then show ?case by (cases acc) (simp add: moves_def)
next
  case (Cons n names)
  have "balanced (\<lambda>w. remove_names remove b (n # names) (fst acc, snd acc) w)"
    unfolding remove_names.simps using Cons by (auto intro!: moves_intros)
  then show ?case by simp
qed

definition batch_fd :: "int \<Rightarrow> err option + nat \<times> err option \<Rightarrow> int list" where
  "batch_fd fd r = (case r of Inl _ \<Rightarrow> [] | Inr _ \<Rightarrow> [fd])"

lemma batch_fd_simps [simp]: "batch_fd fd (Inl r) = []" "batch_fd fd (Inr s) = [fd]"
  by (simp_all add: batch_fd_def)

lemma moves_read_batches:
  assumes "\<And>n. balanced (remove n)"
  shows "moves [fd] (batch_fd fd) (read_batches (traced K) remove k fd b acc)"
proof (induction k arbitrary: acc)
  case 0
  then show ?case by (simp add: moves_def)
next
  case (Suc k)
  have "moves [fd] (batch_fd fd) (\<lambda>w. read_batches (traced K) remove (Suc k) fd b acc w)"
    unfolding read_batches.simps using assms Suc.IH
    by (auto intro!: balanced_bind balanced_calls moves_pair_case moves_case_option close_one moves_if
        moves_return balanced_remove_names)
  then show ?case by simp
qed

lemma balanced_removal:
  assumes "\<And>d n l. balanced (ul d n l)"
  shows "balanced (removeAllFrom (traced K) ul k d b)" "balanced (removeContentsFrom (traced K) ul k d b acc)"
proof (induction k arbitrary: d b acc)
  case 0
  {
    case 1
    then show ?case by (simp add: moves_def)
  next
    case 2
    then show ?case by (simp add: moves_def)
  }
next
  case (Suc k)
  {
    case 1
    have "balanced (\<lambda>w. removeAllFrom (traced K) ul (Suc k) d b w)"
      unfolding removeAllFrom.simps using Suc.IH(2) assms by (auto intro!: moves_intros)
    then show ?case by simp
  next
    case 2
    have rest: "moves (batch_fd fd r) (\<lambda>_. []) (\<lambda>w. case r of
         Inl r \<Rightarrow> Some (r, w)
       | Inr (respSize, acc) \<Rightarrow> Option.bind (do_close (traced K) [fd] w) (\<lambda>(_, w).
             if respSize < reqSize then Some (None, w) else removeContentsFrom (traced K) ul k d b acc w))" for fd r
      using Suc.IH(2) by (cases r) (auto intro!: close_one moves_if moves_return simp: batch_fd_def)
    have "balanced (\<lambda>w. removeContentsFrom (traced K) ul (Suc k) d b acc w)"
      unfolding removeContentsFrom.simps
      by (intro moves_opened_case [OF moves_openFdAt])
         (simp_all add: moves_return moves_bind [OF moves_read_batches [OF Suc.IH(1)] rest])
    then show ?case by simp
  }
qed

lemma balanced_RemoveAll [moves_intros]:
  assumes "useOpenat2 fs"
  shows "balanced (RemoveAll (traced K) fs k p)" "balanced (RemoveContents (traced K) fs k p)"
proof -
  have op: "moves [] result_fd (Open (traced K) fs q)" for q
    unfolding Open_def using assms by (rule moves_OpenFile)
  have removal: "balanced (removeAllFrom (traced K) (unlinkat (traced K)) k d b)"
    "balanced (removeContentsFrom (traced K) (unlinkat (traced K)) k d b acc)" for d b acc
    by (auto intro!: balanced_removal moves_intros)
  have "balanced (removeAll (traced K) (Open (traced K) fs) (Remove (traced K) fs) (unlinkat (traced K)) k q)" for q
    unfolding removeAll_def using assms
    by (intro moves_if moves_return' moves_case_prod balanced_bind balanced_attributes moves_result_case [OF op])
       (auto intro!: removal close_one moves_intros)
  moreover have "balanced (removeContents (traced K) (Open (traced K) fs) (unlinkat (traced K)) k q)" for q
    unfolding removeContents_def
    by (intro moves_if moves_return' moves_case_prod moves_result_case [OF op])
       (auto intro!: removal close_one moves_intros)
  ultimately show "balanced (RemoveAll (traced K) fs k p)" "balanced (RemoveContents (traced K) fs k p)"
    unfolding RemoveAll_def RemoveContents_def by (auto intro!: moves_intros)
qed

section \<open>Renaming and listing\<close>

lemma balanced_rename_open [moves_intros]: "balanced (rename_open (traced K) p q d n d' n')"
  unfolding rename_open_def by (auto intro!: moves_intros)

lemma close_path:
  "moves [] own f \<Longrightarrow> moves c own (\<lambda>w. Option.bind (do_close (traced K) c w) (\<lambda>(_, w). f w))"
  using moves_close_bind [of "[]" own f c K] by simp

lemma balanced_Rename [moves_intros]:
  assumes "useOpenat2 fs"
  shows "balanced (Rename (traced K) fs p q)"
  unfolding Rename_def
  by (intro moves_if moves_return' balanced_with_path assms balanced_bind [OF balanced_stat(2)] moves_case_sum
      moves_safePath_case)
    (auto intro!: moves_intros close_path assms)

lemma balanced_add_entries: "balanced (add_entries (traced K) fd name rel es des)"
proof (induction des arbitrary: es)
  case (Cons de des)
  have "balanced (\<lambda>w. add_entries (traced K) fd name rel es (de # des) w)"
    unfolding add_entries.simps modeTypeFromDirent_def modeType_def using Cons by (auto intro!: moves_intros)
  then show ?case by simp
qed (simp add: moves_def)

lemma balanced_step: "balanced m \<Longrightarrow> m w = Some (r, v) \<Longrightarrow> bal (snd v) fd = bal (snd w) fd"
  using movesD [of "[]" "\<lambda>_. []" m "fst w" "snd w" r "fst v" "snd v" fd] by simp

lemma balanced_readDir [moves_intros]: "balanced (readDir (traced K) d name rel)"
proof (rule movesI)
  fix w l r w' l' fd
  assume "readDir (traced K) d name rel (w, l) = Some (r, w', l')"
  then have run: "read_dir_loop (traced K) d name rel [] (w, l) = Some (r, w', l')"
    by (simp add: readDir_def)
  let ?Q = "\<lambda>L d name rel es w y. L = traced K \<longrightarrow> bal (snd (snd y)) fd = bal (snd w) fd"
  have "?Q (traced K) d name rel [] (w, l) (r, w', l')"
    using run
  proof (rule read_dir_loop.raw_induct [where P = ?Q, rotated])
    fix go L d name rel es and w :: "'a \<times> call list" and y :: "(err + dirent list) \<times> 'a \<times> call list"
    assume IH: "\<And>L d name rel es w y. go L d name rel es w = Some y \<Longrightarrow> ?Q L d name rel es w y"
      and eq: "(do { (r, w) \<leftarrow> sys (k_getdents L d) w;
        case r of
          Inl e \<Rightarrow> if e = EINTR then go L d name rel es w
            else Some (Inl (the (ensurePathError (Some (Errno e)) ''getdents'' name)), w)
        | Inr des \<Rightarrow> if des = [] then Some (Inr es, w)
            else do { (x, w) \<leftarrow> add_entries L d name rel es des w;
              case x of Inl e \<Rightarrow> Some (Inl e, w) | Inr es \<Rightarrow> go L d name rel es w } }) = Some y"
    show "?Q L d name rel es w y"
    proof
      assume L: "L = traced K"
      obtain g v where v: "sys (k_getdents (traced K) d) w = Some (g, v)"
        by (simp add: sys_def) (metis surj_pair)
      from balanced_step [OF balanced_calls(10) v] have bv: "bal (snd v) fd = bal (snd w) fd" .
      show "bal (snd (snd y)) fd = bal (snd w) fd"
      proof (cases g)
        case (Inl e)
        with eq v L have "if e = EINTR then go (traced K) d name rel es v = Some y else snd y = v" by auto
        with IH [of "traced K" d name rel es v y] bv show ?thesis by (auto split: if_splits)
      next
        case (Inr des)
        show ?thesis
        proof (cases "des = []")
          case True
          with eq v L Inr bv show ?thesis by auto
        next
          case False
          with eq v L Inr obtain x u where u: "add_entries (traced K) d name rel es des v = Some (x, u)"
            and rest: "(case x of Inl e \<Rightarrow> Some (Inl e, u) | Inr es \<Rightarrow> go (traced K) d name rel es u) = Some y"
            by (auto simp: Option.bind_eq_Some_conv)
          from balanced_step [OF balanced_add_entries u] bv have bu: "bal (snd u) fd = bal (snd w) fd" by simp
          with rest IH [of "traced K" d name rel _ u y] show ?thesis by (cases x) auto
        qed
      qed
    qed
  qed
  then show "bal l' fd = bal l fd - int (count_list [] fd) + int (count_list [] fd)" by simp
qed

lemma balanced_ReadDir [moves_intros]: "useOpenat2 fs \<Longrightarrow> balanced (ReadDir (traced K) fs p)"
  unfolding ReadDir_def
  by (intro balanced_with_path moves_fd_case moves_openat) (auto intro!: moves_intros close_one)

section \<open>No descriptor is lost\<close>

definition opens_file :: "fs_op \<Rightarrow> bool" where
  "opens_file op \<longleftrightarrow> (case op of OpOpenFile _ _ _ \<Rightarrow> True | OpTouch _ _ _ \<Rightarrow> True | _ \<Rightarrow> False)"

lemma balanced_forget [moves_intros]: "balanced m \<Longrightarrow> balanced (forget m)"
  unfolding forget_def by (auto intro!: moves_intros)

lemma balanced_op: "useOpenat2 fs \<Longrightarrow> \<not> opens_file op \<Longrightarrow> balanced (run_op n (traced K) fs op)"
  by (cases op) (auto simp: opens_file_def intro!: moves_intros)

lemma balanced_ops:
  "useOpenat2 fs \<Longrightarrow> \<forall>op \<in> set ops. \<not> opens_file op \<Longrightarrow> balanced (run_ops n (traced K) fs ops)"
proof (induction ops)
  case (Cons op ops)
  then have "balanced (\<lambda>w. run_ops n (traced K) fs (op # ops) w)"
    unfolding run_ops.simps by (auto intro!: moves_intros balanced_op)
  then show ?case by simp
qed (simp add: moves_def)



text \<open>
  Without \<open>openat2\<close> the check of the resolved path happens after the open; when it fails, the descriptor is
  returned with the error and nobody closes it.
\<close>

definition counting_kernel :: "nat kernel" where
  "counting_kernel = \<lparr>
     k_openat = (\<lambda>d n f m w. (Inr (int w), Suc w)), k_openat2 = (\<lambda>d n f m w. (Inr (int w), Suc w)),
     k_evalsymlinks = (\<lambda>d w. (Inr ''/etc'', w)), k_close = (\<lambda>d w. w), k_fchmodat = (\<lambda>d n m w. (Inr (), w)),
     k_fchownat = (\<lambda>d n i j l w. (Inr (), w)), k_utimensat = (\<lambda>d n a b w. (Inr (), w)),
     k_mkdirat = (\<lambda>d n m w. (Inr (), w)), k_unlinkat = (\<lambda>d n l w. (Inl EACCES, w)),
     k_renameat = (\<lambda>d n d' n' w. (Inr (), w)), k_symlinkat = (\<lambda>t d n w. (Inr (), w)),
     k_fstatat = (\<lambda>d n l w. (Inl ENOENT, w)), k_getdents = (\<lambda>d w. (Inr [], w)),
     k_readdirnames = (\<lambda>d w. (([''a''], None), w))\<rparr>"

text \<open>Without \<open>openat2\<close>, an operation whose parent directory turns out to lie outside the base (through a
  symbolic link) reports a bad path and leaves the descriptor of that directory open.\<close>

theorem escape_loses_descriptor:
  assumes "\<not> useOpenat2 fs" "unsafePath (basePath fs) path = Ok name" "Split name = (dir, file)" "dir \<noteq> []"
    "\<And>f m. k_openat K AT_EMPTY_PATH (basePath fs) f m w = (Inr rootfd, w0)"
    "\<And>f m. k_openat K rootfd (TrimSuffix dir ''/'') f m w0 = (Inr fd, w1)"
    "k_evalsymlinks K fd w1 = (Inr p, w2)" "\<not> unsafeIsPathInsideOfBase (basePath fs) p" "fd \<noteq> rootfd"
  shows "\<exists>log. Stat (traced K) fs path (w, []) =
      Some (Inl (BadPathResolution ''openat'' (TrimSuffix dir ''/'')), (k_close K rootfd w2, log)) \<and>
    bal log fd = 1 \<and> bal log rootfd = 0"
  using assms
  by (simp add: Stat_def do_fstat_def with_path_def safePath_def raw_openat_def sys_def openat_def Let_def
      open_loop.simps check_opened_def traced_def record_call_def opened_def do_close_def close_all_def)

theorem escape_loses_descriptor_witness:
  "\<exists>log. Stat (traced counting_kernel) \<lparr>basePath = ''/srv'', useOpenat2 = False\<rparr> ''link/x'' (3, []) =
      Some (Inl (BadPathResolution ''openat'' ''link''), (5, log)) \<and> bal log 4 = 1 \<and> bal log 3 = 0"
proof -
  let ?fs = "\<lparr>basePath = ''/srv'', useOpenat2 = False\<rparr>"
  have 1: "unsafePath (basePath ?fs) ''link/x'' = Ok ''link/x''" "Split ''link/x'' = (''link/'', ''x'')"
    "\<not> unsafeIsPathInsideOfBase (basePath ?fs) ''/etc''" "TrimSuffix ''link/'' ''/'' = ''link''"
    by code_simp+
  have "\<not> useOpenat2 ?fs" "''link/'' \<noteq> []"
    "\<And>f m. k_openat counting_kernel AT_EMPTY_PATH (basePath ?fs) f m 3 = (Inr 3, 4)"
    "\<And>f m. k_openat counting_kernel 3 (TrimSuffix ''link/'' ''/'') f m 4 = (Inr 4, 5)"
    "k_evalsymlinks counting_kernel 4 5 = (Inr ''/etc'', 5)" "(4::int) \<noteq> 3"
    by (simp_all add: counting_kernel_def)
  from escape_loses_descriptor [OF this(1) 1(1,2) this(2-5) 1(3) this(6)]
  have "\<exists>log. Stat (traced counting_kernel) ?fs ''link/x'' (3, []) =
      Some (Inl (BadPathResolution ''openat'' (TrimSuffix ''link/'' ''/'')), (k_close counting_kernel 3 5, log)) \<and>
    bal log 4 = 1 \<and> bal log 3 = 0" .
  moreover have "k_close counting_kernel 3 5 = 5"
    by (simp add: counting_kernel_def)
  ultimately show ?thesis by (simp only: 1(4))
qed

section \<open>Guards of the root and lost errors\<close>



lemma read_batches_goes_on:
  assumes "\<And>w. snd (fst (k_readdirnames K fd w)) \<in> {None, Some (Sentinel EOF)}"
  shows "read_batches K remove k fd b acc w = Some (x, w') \<Longrightarrow> \<exists>s. x = Inr s"
proof (induction k arbitrary: acc w)
  case (Suc k)
  obtain names e v where v: "k_readdirnames K fd w = ((names, e), v)"
    by (metis surj_pair)
  then have e: "(case e of Some e \<Rightarrow> if e \<noteq> Sentinel EOF then Some e else None | None \<Rightarrow> None) = None"
    using assms [of w] by auto
  from Suc.prems show ?case
    using Suc.IH by (auto simp: sys_def v e Option.bind_eq_Some_conv split: if_splits)
qed simp

text \<open>Removing the contents of a directory reports no error for an entry that could not be removed: as long as
  reading the directory itself does not fail, the result is success, whatever unlinking returns.\<close>

theorem remove_contents_silent:
  assumes "\<And>fd w. snd (fst (k_readdirnames K fd w)) \<in> {None, Some (Sentinel EOF)}"
    "removeContentsFrom K ul n parentFd base acc w = Some (r, w')"
  shows "r = None"
  using assms(2)
proof (induction n arbitrary: acc w)
  case (Suc n)
  from Suc.prems obtain f v where f: "openFdAt K parentFd base w = Some (f, v)"
    by (auto simp: Option.bind_eq_Some_conv)
  show ?case
  proof (cases f)
    case (Inl e)
    with Suc.prems f show ?thesis by simp
  next
    case (Inr fd)
    with Suc.prems f obtain x u where x: "read_batches K (removeAllFrom K ul n fd) n fd base acc v = Some (x, u)"
      and rest: "(case x of Inl r \<Rightarrow> Some (r, u) | Inr (respSize, acc) \<Rightarrow>
          Option.bind (do_close K [fd] u) (\<lambda>(_, w). if respSize < reqSize then Some (None, w)
            else removeContentsFrom K ul n parentFd base acc w)) = Some (r, w')"
      by (auto simp: Option.bind_eq_Some_conv)
    from read_batches_goes_on [OF assms(1) x] obtain k acc' where "x = Inr (k, acc')" by auto
    with rest Suc.IH show ?thesis
      by (simp add: do_close_def split: if_splits)
  qed
qed simp

theorem remove_contents_silent_witness:
  "map_option fst (removeContentsFrom counting_kernel (unlinkat counting_kernel) 3 3 ''d'' None 4) = Some None"
proof -
  have "\<exists>y. removeContentsFrom counting_kernel (unlinkat counting_kernel) 3 3 ''d'' None 4 = Some y"
    by (simp add: numeral_3_eq_3 openFdAt_def ignoringEINTR_done counting_kernel_def sys_def unlinkat_def reqSize_def
        do_close_def close_all_def)
  then obtain r w' where run: "removeContentsFrom counting_kernel (unlinkat counting_kernel) 3 3 ''d'' None 4 = Some (r, w')"
    by auto
  have "snd (fst (k_readdirnames counting_kernel fd w)) \<in> {None, Some (Sentinel EOF)}" for fd w
    by (simp add: counting_kernel_def)
  from remove_contents_silent [OF this run] run show ?thesis by simp
qed

end
