(* ===== verification/Allocations.thy ===== *)
theory Allocations
  imports UfsPath "HOL-Library.AList"
begin

text \<open>
  What a server's settings become when they are handed to Docker: port bindings
  (\<open>wings/environment/allocations.go\<close>), resource limits and variables (\<open>wings/environment/settings.go\<close>),
  environment variables (\<open>wings/server/server.go\<close>) and custom mounts (\<open>wings/server/mounts.go\<close>).

  A Go map is an association list with distinct keys; where a loop ranges over a map, the order of the list is
  the order in which the runtime happens to visit it. Values of the daemon's configuration are arguments.
\<close>

section \<open>Port bindings\<close>

record binding =
  HostIP :: string
  HostPort :: string

record allocations =
  ForceOutgoingIP :: bool
  DefaultIp :: string
  DefaultPort :: int
  Mappings :: "(string \<times> int list) list"

type_synonym port_map = "(string \<times> binding list) list"

definition bindings_of :: "port_map \<Rightarrow> string \<Rightarrow> binding list" where
  "bindings_of out p = (case map_of out p of None \<Rightarrow> [] | Some bs \<Rightarrow> bs)"

definition add_binding :: "string \<Rightarrow> binding \<Rightarrow> port_map \<Rightarrow> port_map" where
  "add_binding p b out = AList.update p (bindings_of out p @ [b]) out"

definition tcp_port :: "int \<Rightarrow> string" where "tcp_port port = Itoa port @ ''/tcp''"
definition udp_port :: "int \<Rightarrow> string" where "udp_port port = Itoa port @ ''/udp''"

definition valid_port :: "int \<Rightarrow> bool" where
  "valid_port port \<longleftrightarrow> \<not> (port < 1 \<or> port > 65535)"

definition bind_port :: "string \<Rightarrow> int \<Rightarrow> port_map \<Rightarrow> port_map" where
  "bind_port ip port out =
     (if \<not> valid_port port then out
      else (let b = \<lparr>HostIP = ip, HostPort = Itoa port\<rparr>
            in add_binding (udp_port port) b (add_binding (tcp_port port) b out)))"

definition Bindings :: "allocations \<Rightarrow> port_map" where
  "Bindings a = fold (\<lambda>(ip, ports). fold (bind_port ip) ports) (Mappings a) []"

text \<open>
  One turn of the inner loop of \<open>DockerBindings\<close>. Deleting from \<open>out[p]\<close> shifts the array the loop itself
  ranges over: \<open>arr\<close> is that array, of the length it had when the loop began, and \<open>len\<close> the current length
  of \<open>out[p]\<close>, a prefix of it.
\<close>

definition local_ip :: string where "local_ip = ''127.0.0.1''"

fun rebind :: "bool \<Rightarrow> string \<Rightarrow> nat \<Rightarrow> nat \<Rightarrow> binding list \<Rightarrow> nat \<Rightarrow> (unit, binding list) outcome" where
  "rebind ispn iface 0 i arr len = Ok (take len arr)"
| "rebind ispn iface (Suc n) i arr len =
     (if HostIP (arr ! i) \<noteq> local_ip then rebind ispn iface n (Suc i) arr len
      else if ispn then
        (if len < Suc i then Panic
         else rebind ispn iface n (Suc i) (take i arr @ drop (Suc i) (take len arr) @ drop (len - 1) arr) (len - 1))
      else rebind ispn iface n (Suc i) (arr[i := \<lparr>HostIP = iface, HostPort = HostPort (arr ! i)\<rparr>]) len)"

fun rebind_all :: "bool \<Rightarrow> string \<Rightarrow> port_map \<Rightarrow> (unit, port_map) outcome" where
  "rebind_all ispn iface [] = Ok []"
| "rebind_all ispn iface ((p, binds) # out) =
     (case rebind ispn iface (length binds) 0 binds (length binds) of
        Ok bs \<Rightarrow> (case rebind_all ispn iface out of Ok out \<Rightarrow> Ok ((p, bs) # out) | _ \<Rightarrow> Panic)
      | _ \<Rightarrow> Panic)"

definition DockerBindings :: "bool \<Rightarrow> string \<Rightarrow> allocations \<Rightarrow> (unit, port_map) outcome" where
  "DockerBindings ispn iface a = rebind_all ispn iface (Bindings a)"

definition Exposed :: "bool \<Rightarrow> string \<Rightarrow> allocations \<Rightarrow> (unit, string set) outcome" where
  "Exposed ispn iface a = (case DockerBindings ispn iface a of Ok out \<Rightarrow> Ok (fst ` set out) | _ \<Rightarrow> Panic)"

lemma Itoa_inj: "0 \<le> a \<Longrightarrow> 0 \<le> b \<Longrightarrow> Itoa a = Itoa b \<longleftrightarrow> a = b"
  by (auto simp: Itoa_def dest: nat_digits_inj)

lemma ports_distinct [simp]:
  "0 \<le> a \<Longrightarrow> 0 \<le> b \<Longrightarrow> tcp_port a = tcp_port b \<longleftrightarrow> a = b"
  "0 \<le> a \<Longrightarrow> 0 \<le> b \<Longrightarrow> udp_port a = udp_port b \<longleftrightarrow> a = b"
  "tcp_port a \<noteq> udp_port b" "udp_port b \<noteq> tcp_port a"
  by (auto simp: tcp_port_def udp_port_def Itoa_inj)

lemma bindings_of_add: "bindings_of (add_binding p b out) q = bindings_of out q @ (if q = p then [b] else [])"
  by (simp add: bindings_of_def add_binding_def update_conv')

definition exact :: "(string \<times> int) set \<Rightarrow> port_map \<Rightarrow> bool" where
  "exact S out \<longleftrightarrow> (\<forall>port b. 0 \<le> port \<longrightarrow>
     (b \<in> set (bindings_of out (tcp_port port)) \<longleftrightarrow> (\<exists>ip. (ip, port) \<in> S \<and> b = \<lparr>HostIP = ip, HostPort = Itoa port\<rparr>)) \<and>
     (b \<in> set (bindings_of out (udp_port port)) \<longleftrightarrow> (\<exists>ip. (ip, port) \<in> S \<and> b = \<lparr>HostIP = ip, HostPort = Itoa port\<rparr>)))"

lemma exact_bind_port:
  "exact S out \<Longrightarrow> exact (S \<union> (if valid_port port then {(ip, port)} else {})) (bind_port ip port out)"
  unfolding exact_def bind_port_def Let_def
  by (auto simp: bindings_of_add valid_port_def)

lemma exact_ports:
  "exact S out \<Longrightarrow> exact (S \<union> {(ip, p) | p. p \<in> set ports \<and> valid_port p}) (fold (bind_port ip) ports out)"
proof (induction ports arbitrary: S out)
  case (Cons port ports)
  have eq: "S \<union> (if valid_port port then {(ip, port)} else {}) \<union> {(ip, p) | p. p \<in> set ports \<and> valid_port p} =
      S \<union> {(ip, p) | p. p \<in> set (port # ports) \<and> valid_port p}"
    by auto
  show ?case
    using Cons.IH [OF exact_bind_port [OF Cons.prems, of port ip]] unfolding eq by simp
qed simp

lemma exact_mappings:
  "exact S out \<Longrightarrow> exact (S \<union> {(ip, p) | ip p. \<exists>ports. (ip, ports) \<in> set ms \<and> p \<in> set ports \<and> valid_port p})
     (fold (\<lambda>(ip, ports). fold (bind_port ip) ports) ms out)"
proof (induction ms arbitrary: S out)
  case (Cons m ms)
  obtain ip ports where m: "m = (ip, ports)" by (cases m)
  have eq: "S \<union> {(ip, p) | p. p \<in> set ports \<and> valid_port p} \<union>
        {(ip, p) | ip p. \<exists>ports. (ip, ports) \<in> set ms \<and> p \<in> set ports \<and> valid_port p} =
      S \<union> {(ip, p) | ip p. \<exists>ports. (ip, ports) \<in> set (m # ms) \<and> p \<in> set ports \<and> valid_port p}"
    unfolding m by auto
  show ?case
    using Cons.IH [OF exact_ports [OF Cons.prems, of ip ports]] unfolding eq by (simp add: m)
qed simp

text \<open>The port map holds, under the TCP and the UDP key of a port alike, exactly one kind of binding for every
  address the allocation maps that port to, and none for a port outside 1 to 65535.\<close>

theorem bindings_exact:
  assumes "0 \<le> port" "key = tcp_port port \<or> key = udp_port port"
  shows "set (bindings_of (Bindings a) key) =
    {b. \<exists>ip ports. (ip, ports) \<in> set (Mappings a) \<and> port \<in> set ports \<and> 1 \<le> port \<and> port \<le> 65535 \<and>
      b = \<lparr>HostIP = ip, HostPort = Itoa port\<rparr>}"
proof -
  have "exact {} []" by (simp add: exact_def bindings_of_def)
  from exact_mappings [OF this, of "Mappings a"] assms show ?thesis
    unfolding Bindings_def exact_def by (fastforce simp: valid_port_def)
qed

theorem bindings_exact_witness:
  "set (bindings_of (Bindings \<lparr>ForceOutgoingIP = False, DefaultIp = ''10.0.0.1'', DefaultPort = 25565,
      Mappings = [(''10.0.0.1'', [25565, 70000]), (''10.0.0.2'', [25565])]\<rparr>) (udp_port 25565)) =
   {\<lparr>HostIP = ''10.0.0.1'', HostPort = Itoa 25565\<rparr>, \<lparr>HostIP = ''10.0.0.2'', HostPort = Itoa 25565\<rparr>}"
  using bindings_exact [of 25565 "udp_port 25565" "\<lparr>ForceOutgoingIP = False, DefaultIp = ''10.0.0.1'', DefaultPort = 25565,
      Mappings = [(''10.0.0.1'', [25565, 70000]), (''10.0.0.2'', [25565])]\<rparr>"]
  by auto

definition publish_on :: "string \<Rightarrow> binding \<Rightarrow> binding" where
  "publish_on iface b = (if HostIP b \<noteq> local_ip then b else \<lparr>HostIP = iface, HostPort = HostPort b\<rparr>)"

lemma rebind_replaces:
  "rebind False iface (length bs) (length as) (as @ bs) (length as + length bs) = Ok (as @ map (publish_on iface) bs)"
proof (induction bs arbitrary: as)
  case (Cons b bs)
  have "rebind False iface (length (b # bs)) (length as) (as @ b # bs) (length as + length (b # bs)) =
      rebind False iface (length bs) (length (as @ [publish_on iface b])) ((as @ [publish_on iface b]) @ bs)
        (length (as @ [publish_on iface b]) + length bs)"
    by (simp add: publish_on_def list_update_append)
  with Cons.IH [of "as @ [publish_on iface b]"] show ?case by simp
qed simp

lemma rebind_all_replaces:
  "rebind_all False iface out = Ok (map (\<lambda>(p, bs). (p, map (publish_on iface) bs)) out)"
proof (induction out)
  case (Cons e out)
  then show ?case
    using rebind_replaces [of iface "snd e" "[]"] by (cases e) simp
qed simp

text \<open>Outside ISPN mode the bindings given to Docker are those of the allocation with every loopback address
  replaced by the network interface, port by port and in the same order; nothing panics.\<close>

theorem docker_bindings_replaced:
  "DockerBindings False iface a = Ok (map (\<lambda>(p, bs). (p, map (publish_on iface) bs)) (Bindings a))"
  by (simp add: DockerBindings_def rebind_all_replaces)

text \<open>In ISPN mode an allocation that lists the same loopback port twice makes the daemon panic: the loop
  deletes from the slice it ranges over.\<close>

theorem ispn_duplicate_panics:
  assumes "valid_port p" "Mappings a = [(local_ip, [p, p])]"
  shows "DockerBindings True iface a = Panic"
proof -
  let ?b = "\<lparr>HostIP = local_ip, HostPort = Itoa p\<rparr>"
  have "Bindings a = [(tcp_port p, [?b, ?b]), (udp_port p, [?b, ?b])]"
    using assms by (simp add: Bindings_def bind_port_def Let_def add_binding_def bindings_of_def)
  moreover have "rebind True iface (Suc (Suc 0)) 0 [?b, ?b] (Suc (Suc 0)) = Panic"
    by simp
  ultimately show ?thesis
    by (simp add: DockerBindings_def)
qed

theorem ispn_duplicate_panics_witness:
  "DockerBindings True ''eth0'' \<lparr>ForceOutgoingIP = False, DefaultIp = local_ip, DefaultPort = 25565,
     Mappings = [(local_ip, [25565, 25565])]\<rparr> = Panic"
  by (rule ispn_duplicate_panics [of 25565]) (simp_all add: valid_port_def)

section \<open>Limits\<close>

text \<open>
  \<open>bounded\<close> is \<open>BoundedMemoryLimit\<close>, which multiplies by a floating-point overhead; the products of the
  other limits are \<open>int64\<close>.
\<close>

record limits =
  MemoryLimit :: int
  Swap :: int
  IoWeight :: nat
  CpuLimit :: int
  limit_DiskSpace :: int
  Threads :: string
  OOMKiller :: bool

record container_resources =
  res_Memory :: int
  res_MemoryReservation :: int
  res_MemorySwap :: int
  res_BlkioWeight :: nat
  res_OomKillDisable :: bool
  res_PidsLimit :: int
  res_CPUQuota :: int
  res_CPUPeriod :: int
  res_CPUShares :: int
  res_CpusetCpus :: string

definition ConvertedCpuLimit :: "limits \<Rightarrow> int" where
  "ConvertedCpuLimit l = (if CpuLimit l = 0 then -1 else wrap64 (CpuLimit l * 1000))"

definition ConvertedSwap :: "int \<Rightarrow> limits \<Rightarrow> int" where
  "ConvertedSwap bounded l =
     (if Swap l < 0 then -1 else wrap64 (wrap64 (Swap l * 1024 * 1024) + bounded))"

definition AsContainerResources :: "int \<Rightarrow> int \<Rightarrow> limits \<Rightarrow> container_resources" where
  "AsContainerResources bounded pidLimit l =
     (let resources = \<lparr>res_Memory = bounded, res_MemoryReservation = wrap64 (MemoryLimit l * 1024 * 1024),
            res_MemorySwap = ConvertedSwap bounded l, res_BlkioWeight = IoWeight l,
            res_OomKillDisable = (\<not> OOMKiller l), res_PidsLimit = pidLimit,
            res_CPUQuota = 0, res_CPUPeriod = 0, res_CPUShares = 0, res_CpusetCpus = []\<rparr>;
          resources = (if CpuLimit l > 0
            then resources\<lparr>res_CPUQuota := wrap64 (CpuLimit l * 1000), res_CPUPeriod := 100000, res_CPUShares := 1024\<rparr>
            else resources)
      in if Threads l \<noteq> [] then resources\<lparr>res_CpusetCpus := Threads l\<rparr> else resources)"

text \<open>\<open>Server.DiskSpace\<close>: the limit of the panel in MiB, in bytes.\<close>

definition DiskSpace :: "limits \<Rightarrow> int" where
  "DiskSpace l = wrap64 (limit_DiskSpace l * 1024 * 1024)"

text \<open>For limits whose products fit an \<open>int64\<close>, the container is given swap never below its memory (the total
  Docker expects) unless swap is unlimited, a CPU quota of one thousandth of a period per percent exactly when a
  CPU limit is set, and the reservation in bytes.\<close>

theorem container_resources_exact:
  assumes "0 \<le> MemoryLimit l" "MemoryLimit l < 2 ^ 40" "Swap l < 2 ^ 40" "\<bar>CpuLimit l\<bar> < 2 ^ 40"
    "0 \<le> bounded" "bounded < 2 ^ 62" "r = AsContainerResources bounded pids l"
  shows "(res_MemorySwap r = -1 \<and> Swap l < 0 \<or> res_MemorySwap r = res_Memory r + Swap l * 1048576 \<and> res_Memory r \<le> res_MemorySwap r) \<and>
    res_MemoryReservation r = MemoryLimit l * 1048576 \<and>
    (if 0 < CpuLimit l then res_CPUQuota r * 100 = CpuLimit l * res_CPUPeriod r else res_CPUQuota r = 0 \<and> res_CPUPeriod r = 0) \<and>
    (res_OomKillDisable r \<longleftrightarrow> \<not> OOMKiller l)"
proof -
  have "wrap64 (MemoryLimit l * 1024 * 1024) = MemoryLimit l * 1024 * 1024"
    using assms(1,2) by (intro wrap64_mono_nonneg) simp_all
  moreover have "0 \<le> Swap l \<Longrightarrow> wrap64 (Swap l * 1024 * 1024) = Swap l * 1024 * 1024"
    "0 \<le> Swap l \<Longrightarrow> wrap64 (Swap l * 1024 * 1024 + bounded) = Swap l * 1024 * 1024 + bounded"
    using assms(3,5,6) by (auto intro!: wrap64_mono_nonneg)
  moreover have "0 < CpuLimit l \<Longrightarrow> wrap64 (CpuLimit l * 1000) = CpuLimit l * 1000"
    using assms(4) by (intro wrap64_mono_nonneg) simp_all
  ultimately show ?thesis
    using assms(7) by (auto simp: AsContainerResources_def Let_def ConvertedSwap_def)
qed

theorem container_resources_exact_witness:
  "res_MemorySwap (AsContainerResources 1073741824 512
     \<lparr>MemoryLimit = 1024, Swap = 512, IoWeight = 500, CpuLimit = 200, limit_DiskSpace = 0, Threads = [], OOMKiller = True\<rparr>) = 1610612736"
  using container_resources_exact [of "\<lparr>MemoryLimit = 1024, Swap = 512, IoWeight = 500, CpuLimit = 200, limit_DiskSpace = 0,
      Threads = [], OOMKiller = True\<rparr>" 1073741824 _ 512, OF _ _ _ _ _ _ refl]
  by (auto simp: AsContainerResources_def Let_def)

end
