(* ===== verification/EnvVars.thy ===== *)
theory EnvVars
  imports Allocations
begin

text \<open>
  The environment variables of a server (\<open>GetEnvironmentVariables\<close> of \<open>wings/server/server.go\<close> with
  \<open>Variables.Get\<close> of \<open>wings/environment/settings.go\<close>) and its bind mounts
  (\<open>wings/server/mounts.go\<close>).
\<close>

section \<open>Variables\<close>

text \<open>The dynamic types a value can have; a float is given by its rendering.\<close>

datatype env_value = VInt int | VInt32 int | VInt64 int | VFloat string | VBool bool | VString string | VOther

definition FormatBool :: "bool \<Rightarrow> string" where
  "FormatBool b = (if b then ''true'' else ''false'')"

definition Variables_Get :: "(string \<times> env_value) list \<Rightarrow> string \<Rightarrow> (unit, string) outcome" where
  "Variables_Get v key =
     (case map_of v key of
        None \<Rightarrow> Ok []
      | Some val \<Rightarrow>
          (case val of
             VInt i \<Rightarrow> Ok (Itoa i)
           | VInt32 i \<Rightarrow> Panic
           | VInt64 i \<Rightarrow> Ok (Itoa i)
           | VFloat s \<Rightarrow> Ok s
           | VBool b \<Rightarrow> Ok (FormatBool b)
           | VString s \<Rightarrow> Ok s
           | VOther \<Rightarrow> Ok []))"

text \<open>\<open>strings.ToUpper\<close> on ASCII.\<close>

definition upper_char :: "char \<Rightarrow> char" where
  "upper_char c = (if (97 :: nat) \<le> of_char c \<and> of_char c \<le> (122 :: nat) then char_of (of_char c - (32 :: nat)) else c)"

definition ToUpper :: "string \<Rightarrow> string" where
  "ToUpper s = map upper_char s"

abbreviation equals :: char where
  "equals \<equiv> CHR ''=''"

fun add_variables :: "(string \<times> env_value) list \<Rightarrow> string list \<Rightarrow> string list \<Rightarrow> (unit, string list) outcome" where
  "add_variables v [] out = Ok out"
| "add_variables v (k # ks) out =
     (if \<exists>e \<in> set out. HasPrefix e (ToUpper k @ ''='') then add_variables v ks out
      else (case Variables_Get v k of
              Ok s \<Rightarrow> add_variables v ks (out @ [ToUpper k @ ''='' @ s])
            | _ \<Rightarrow> Panic))"

definition builtin_variables :: "string \<Rightarrow> string \<Rightarrow> int \<Rightarrow> string \<Rightarrow> int \<Rightarrow> string list" where
  "builtin_variables tz startup memory ip port =
     [''TZ='' @ tz, ''STARTUP='' @ startup, ''SERVER_MEMORY='' @ Itoa memory, ''SERVER_IP='' @ ip, ''SERVER_PORT='' @ Itoa port]"

definition GetEnvironmentVariables ::
  "string \<Rightarrow> string \<Rightarrow> int \<Rightarrow> string \<Rightarrow> int \<Rightarrow> (string \<times> env_value) list \<Rightarrow> (unit, string list) outcome" where
  "GetEnvironmentVariables tz startup memory ip port v =
     add_variables v (map fst v) (builtin_variables tz startup memory ip port)"

definition key_of :: "string \<Rightarrow> string" where
  "key_of e = takeWhile (\<lambda>c. c \<noteq> equals) e"

lemma key_of_entry: "equals \<notin> set n \<Longrightarrow> key_of (n @ equals # s) = n"
  by (simp add: key_of_def takeWhile_to_sep)

lemma prefix_key: "equals \<notin> set n \<Longrightarrow> prefix (n @ ''='') e \<longleftrightarrow> key_of e = n \<and> equals \<in> set e"
proof
  assume n: "equals \<notin> set n" and "key_of e = n \<and> equals \<in> set e"
  then have "e = n @ dropWhile (\<lambda>c. c \<noteq> equals) e" "dropWhile (\<lambda>c. c \<noteq> equals) e \<noteq> []"
    by (auto simp: key_of_def dropWhile_eq_Nil_conv)
  then have "prefix (n @ [hd (dropWhile (\<lambda>c. c \<noteq> equals) e)]) e"
    by (metis append_Cons append_Nil append_assoc list.collapse prefixI)
  moreover have "hd (dropWhile (\<lambda>c. c \<noteq> equals) e) = equals"
    using hd_dropWhile [of "\<lambda>c. c \<noteq> equals" e] \<open>dropWhile _ e \<noteq> []\<close> by simp
  ultimately show "prefix (n @ ''='') e" by simp
qed (auto simp: prefix_def key_of_def takeWhile_to_sep)

lemma upper_not_equals: "upper_char c = equals \<longleftrightarrow> c = equals"
proof (cases "(97 :: nat) \<le> of_char c \<and> of_char c \<le> (122 :: nat)")
  case True
  then have "of_char c - 32 < (256 :: nat)" by linarith
  with True have "of_char (upper_char c) = of_char c - (32 :: nat)"
    by (simp add: upper_char_def of_char_of mod_less)
  with True have "of_char (upper_char c) \<noteq> (of_char equals :: nat)" "of_char c \<noteq> (of_char equals :: nat)"
    by auto
  then show ?thesis by metis
next
  case False
  then have "upper_char c = c" by (auto simp: upper_char_def)
  then show ?thesis by simp
qed

lemma ToUpper_no_equals: "equals \<notin> set k \<Longrightarrow> equals \<notin> set (ToUpper k)"
  by (auto simp: ToUpper_def dest: sym [THEN upper_not_equals [THEN iffD1]])

lemma add_variables_inv:
  assumes "\<forall>k \<in> set ks. equals \<notin> set k" "distinct (map key_of out)" "\<forall>e \<in> set out. equals \<in> set e"
    "add_variables v ks out = Ok out'"
  shows "distinct (map key_of out') \<and> (\<forall>e \<in> set out'. equals \<in> set e) \<and> prefix out out'"
  using assms
proof (induction ks arbitrary: out)
  case (Cons k ks)
  show ?case
  proof (cases "\<exists>e \<in> set out. HasPrefix e (ToUpper k @ ''='')")
    case True
    with Cons show ?thesis by simp
  next
    case False
    with Cons.prems obtain s where run: "add_variables v ks (out @ [ToUpper k @ ''='' @ s]) = Ok out'"
      by (auto split: outcome.splits)
    have k: "equals \<notin> set (ToUpper k)"
      using Cons.prems(1) ToUpper_no_equals by simp
    then have "ToUpper k \<notin> key_of ` set out"
      using False Cons.prems(3) by (auto simp: prefix_key)
    then have "distinct (map key_of (out @ [ToUpper k @ ''='' @ s]))"
      using Cons.prems(2) k by (simp add: key_of_entry)
    from Cons.IH [OF _ this _ run] Cons.prems(1,3) show ?thesis
      by (auto simp: prefix_def)
  qed
qed simp

text \<open>The environment handed to the container starts with the five variables of the daemon, unchanged, and
  every variable name occurs in it only once: a variable of the egg or the user never overrides a built-in one.\<close>

theorem env_builtins_win:
  assumes "\<forall>k \<in> set (map fst v). equals \<notin> set k"
    "GetEnvironmentVariables tz startup memory ip port v = Ok out"
  shows "prefix (builtin_variables tz startup memory ip port) out \<and>
    distinct (map key_of out) \<and> (\<forall>e \<in> set out. equals \<in> set e)"
proof -
  have keys: "map key_of (builtin_variables tz startup memory ip port) =
      [''TZ'', ''STARTUP'', ''SERVER_MEMORY'', ''SERVER_IP'', ''SERVER_PORT'']"
    by (simp add: builtin_variables_def key_of_def)
  have "distinct (map key_of (builtin_variables tz startup memory ip port))"
    unfolding keys by simp
  moreover have "\<forall>e \<in> set (builtin_variables tz startup memory ip port). equals \<in> set e"
    by (simp add: builtin_variables_def)
  ultimately show ?thesis
    using add_variables_inv [OF assms(1)] assms(2) unfolding GetEnvironmentVariables_def by blast
qed

theorem env_builtins_win_witness:
  "\<exists>out. GetEnvironmentVariables ''UTC'' ''run'' 1 ''::'' 2 [(''server_ip'', VString ''x''), (''motd'', VBool True)] = Ok out \<and>
     distinct (map key_of out)"
proof -
  let ?v = "[(''server_ip'', VString ''x''), (''motd'', VBool True)]"
  have "\<exists>out. GetEnvironmentVariables ''UTC'' ''run'' 1 ''::'' 2 ?v = Ok out"
    by (simp add: GetEnvironmentVariables_def Variables_Get_def)
  then obtain out where out: "GetEnvironmentVariables ''UTC'' ''run'' 1 ''::'' 2 ?v = Ok out" by blast
  have "\<forall>k \<in> set (map fst ?v). equals \<notin> set k" by simp
  from env_builtins_win [OF this out] out show ?thesis by blast
qed

section \<open>Mounts\<close>

record mount =
  mount_Target :: string
  mount_Source :: string
  mount_ReadOnly :: bool

text \<open>
  \<open>missing\<close> answers whether a path does not exist on the host; \<open>block\<close> is \<open>BlockBaseDirMount\<close>, \<open>allowed\<close> the
  list \<open>AllowedMounts\<close> of the daemon.
\<close>

fun customMounts :: "(string \<Rightarrow> bool) \<Rightarrow> bool \<Rightarrow> string list \<Rightarrow> mount list \<Rightarrow> mount list" where
  "customMounts missing block allowed [] = []"
| "customMounts missing block allowed (m # ms) =
     (let source = Clean (mount_Source m); target = Clean (mount_Target m)
      in if missing source then customMounts missing block allowed ms
         else if HasPrefix target ''/home/container'' \<and> block then customMounts missing block allowed ms
         else if \<exists>a \<in> set allowed. HasPrefix source (Clean a)
           then \<lparr>mount_Target = target, mount_Source = source, mount_ReadOnly = mount_ReadOnly m\<rparr> #
             customMounts missing block allowed ms
         else customMounts missing block allowed ms)"

record mount_config =
  mc_passwd :: bool
  mc_passwd_dir :: string
  mc_machine :: bool
  mc_machine_dir :: string

definition Mounts :: "mount_config \<Rightarrow> string \<Rightarrow> string \<Rightarrow> mount list \<Rightarrow> mount list" where
  "Mounts cfg root uuid custom =
     [\<lparr>mount_Target = ''/home/container'', mount_Source = root, mount_ReadOnly = False\<rparr>] @
     (if mc_passwd cfg then
        [\<lparr>mount_Target = ''/etc/passwd'', mount_Source = Join [mc_passwd_dir cfg, ''passwd''], mount_ReadOnly = True\<rparr>,
         \<lparr>mount_Target = ''/etc/group'', mount_Source = Join [mc_passwd_dir cfg, ''group''], mount_ReadOnly = True\<rparr>]
      else []) @
     (if mc_machine cfg then
        [\<lparr>mount_Target = ''/etc/machine-id'', mount_Source = Join [mc_machine_dir cfg, uuid], mount_ReadOnly = True\<rparr>]
      else []) @ custom"

text \<open>A custom mount reaches the container only if its cleaned source exists and starts with a cleaned allowed
  path and, when the base directory is blocked, its target does not start with the container's home; kept mounts
  keep their order and their read-only flag.\<close>

theorem custom_mounts_filter:
  "customMounts missing block allowed ms =
     map (\<lambda>m. \<lparr>mount_Target = Clean (mount_Target m), mount_Source = Clean (mount_Source m), mount_ReadOnly = mount_ReadOnly m\<rparr>)
       (filter (\<lambda>m. \<not> missing (Clean (mount_Source m)) \<and>
          \<not> (block \<and> HasPrefix (Clean (mount_Target m)) ''/home/container'') \<and>
          (\<exists>a \<in> set allowed. HasPrefix (Clean (mount_Source m)) (Clean a))) ms)"
  by (induction ms) (auto simp: Let_def)

text \<open>The allow list compares strings, not directories: allowing a directory also admits every sibling whose
  name extends it.\<close>

theorem allowed_mount_admits_sibling:
  assumes "Clean a = a" "Clean (a @ ext) = a @ ext" "\<not> missing (a @ ext)" "Clean t = t" "\<not> HasPrefix t ''/home/container''"
  shows "customMounts missing block [a] [\<lparr>mount_Target = t, mount_Source = a @ ext, mount_ReadOnly = ro\<rparr>] =
    [\<lparr>mount_Target = t, mount_Source = a @ ext, mount_ReadOnly = ro\<rparr>]"
  using assms by (simp add: Let_def)

theorem allowed_mount_admits_sibling_witness:
  "customMounts (\<lambda>_. False) True [''/mnt/data''] [\<lparr>mount_Target = ''/x'', mount_Source = ''/mnt/data-secret'', mount_ReadOnly = False\<rparr>] =
    [\<lparr>mount_Target = ''/x'', mount_Source = ''/mnt/data-secret'', mount_ReadOnly = False\<rparr>]"
proof -
  have "Clean ''/mnt/data'' = ''/mnt/data''" "Clean (''/mnt/data'' @ ''-secret'') = ''/mnt/data'' @ ''-secret''"
    "Clean ''/x'' = ''/x''" "\<not> HasPrefix ''/x'' ''/home/container''"
    by code_simp+
  from allowed_mount_admits_sibling [OF this(1,2) _ this(3,4), of "\<lambda>_. False"] show ?thesis
    by (simp only: append.simps not_False_eq_True simp_thms)
qed

end
