(* ===== verification/DockerSpec.thy ===== *)
theory DockerSpec
  imports EnvVars
begin

text \<open>
  The container the Docker environment asks for (\<open>Create\<close> and \<open>convertMounts\<close> of
  \<open>wings/environment/docker/container.go\<close>): how the settings of a server and of the daemon become the
  configuration passed to \<open>ContainerCreate\<close>. \<open>docker_cfg\<close> holds the daemon settings it reads; the
  floating-point memory overhead is the field \<open>dc_bounded\<close>.
\<close>

section \<open>Settings\<close>

record docker_cfg =
  dc_Domainname :: string
  dc_Interface :: string
  dc_ISPN :: bool
  dc_Mode :: string
  dc_Driver :: string
  dc_Name :: string
  dc_Gateway :: string
  dc_Dns :: "string list"
  dc_TmpfsSize :: int
  dc_UsernsMode :: string
  dc_Rootless :: bool
  dc_RootlessUid :: int
  dc_RootlessGid :: int
  dc_Uid :: int
  dc_Gid :: int
  dc_PidLimit :: int
  dc_bounded :: "limits \<Rightarrow> int"
  dc_Registries :: "(string \<times> string) list"

record env_settings =
  set_Mounts :: "mount list"
  set_Allocations :: allocations
  set_Limits :: limits
  set_Labels :: "(string \<times> string) list"

record docker_mount =
  dm_Type :: string
  dm_Source :: string
  dm_Target :: string
  dm_ReadOnly :: bool

record endpoint =
  ep_Network :: string
  ep_IPv4Address :: string
  ep_IPAddress :: string
  ep_Gateway :: string

record container_spec =
  cs_Hostname :: string
  cs_Domainname :: string
  cs_Exposed :: "string set"
  cs_Image :: string
  cs_Env :: "string list"
  cs_Labels :: "(string \<times> string) list"
  cs_User :: string
  cs_Bindings :: port_map
  cs_Mounts :: "docker_mount list"
  cs_Tmpfs :: "(string \<times> string) list"
  cs_Resources :: container_resources
  cs_DNS :: "string list"
  cs_SecurityOpt :: "string list"
  cs_ReadonlyRootfs :: bool
  cs_CapDrop :: "string list"
  cs_NetworkMode :: string
  cs_UsernsMode :: string
  cs_Networking :: "endpoint option"

section \<open>Building the container\<close>

definition convertMounts :: "mount list \<Rightarrow> docker_mount list" where
  "convertMounts mounts =
     map (\<lambda>m. \<lparr>dm_Type = ''bind'', dm_Source = mount_Source m, dm_Target = mount_Target m, dm_ReadOnly = mount_ReadOnly m\<rparr>) mounts"

text \<open>
  The loop over the environment variables assigns into the slice of the configuration itself, so later readers
  of \<open>EnvironmentVariables\<close> see the result.
\<close>

definition server_ip_local :: string where "server_ip_local = ''SERVER_IP=127.0.0.1''"

definition patch_server_ip :: "docker_cfg \<Rightarrow> allocations \<Rightarrow> string list \<Rightarrow> string list" where
  "patch_server_ip cfg a evs =
     (if DefaultPort a \<noteq> 0
      then map (\<lambda>v. if v = server_ip_local then ''SERVER_IP='' @ dc_Interface cfg else v) evs else evs)"

definition merge_labels :: "(string \<times> string) list \<Rightarrow> (string \<times> string) list" where
  "merge_labels conf = AList.update ''ContainerType'' ''server_process'' (AList.update ''Service'' ''Pelican'' conf)"

definition container_user :: "docker_cfg \<Rightarrow> string" where
  "container_user cfg =
     (if dc_Rootless cfg then Itoa (dc_RootlessUid cfg) @ '':'' @ Itoa (dc_RootlessGid cfg)
      else Itoa (dc_Uid cfg) @ '':'' @ Itoa (dc_Gid cfg))"

definition outgoing_network :: "string \<Rightarrow> string" where
  "outgoing_network ip = ''ip-'' @ map (\<lambda>c. if c = CHR ''.'' \<or> c = CHR '':'' then CHR ''-'' else c) ip"

definition forced_network :: "allocations \<Rightarrow> bool" where
  "forced_network a \<longleftrightarrow> ForceOutgoingIP a \<and> DefaultPort a \<noteq> 0"

definition network_mode :: "docker_cfg \<Rightarrow> allocations \<Rightarrow> string" where
  "network_mode cfg a = (if forced_network a then outgoing_network (DefaultIp a) else dc_Mode cfg)"

definition dropped_capabilities :: "string list" where
  "dropped_capabilities =
     [''setpcap'', ''mknod'', ''audit_write'', ''net_raw'', ''dac_override'', ''fowner'', ''fsetid'',
      ''net_bind_service'', ''sys_chroot'', ''setfcap'', ''sys_ptrace'']"

definition networking :: "docker_cfg \<Rightarrow> allocations \<Rightarrow> endpoint option" where
  "networking cfg a =
     (if dc_Driver cfg = ''macvlan''
      then Some \<lparr>ep_Network = dc_Name cfg, ep_IPv4Address = DefaultIp a, ep_IPAddress = DefaultIp a, ep_Gateway = dc_Gateway cfg\<rparr>
      else None)"

definition container_of :: "docker_cfg \<Rightarrow> string \<Rightarrow> string \<Rightarrow> string list \<Rightarrow> env_settings \<Rightarrow> (unit, container_spec) outcome" where
  "container_of cfg uuid img evs s =
     (let a = set_Allocations s
      in case Exposed (dc_ISPN cfg) (dc_Interface cfg) a of
           Ok exposed \<Rightarrow>
             (case DockerBindings (dc_ISPN cfg) (dc_Interface cfg) a of
                Ok bindings \<Rightarrow> Ok
                  \<lparr>cs_Hostname = uuid, cs_Domainname = dc_Domainname cfg, cs_Exposed = exposed,
                   cs_Image = TrimPrefix img ''~'', cs_Env = evs, cs_Labels = merge_labels (set_Labels s),
                   cs_User = container_user cfg, cs_Bindings = bindings, cs_Mounts = convertMounts (set_Mounts s),
                   cs_Tmpfs = [(''/tmp'', ''rw,exec,nosuid,size='' @ Itoa (dc_TmpfsSize cfg) @ ''M'')],
                   cs_Resources = AsContainerResources (dc_bounded cfg (set_Limits s)) (dc_PidLimit cfg) (set_Limits s),
                   cs_DNS = dc_Dns cfg, cs_SecurityOpt = [''no-new-privileges''], cs_ReadonlyRootfs = True,
                   cs_CapDrop = dropped_capabilities, cs_NetworkMode = network_mode cfg a,
                   cs_UsernsMode = dc_UsernsMode cfg, cs_Networking = networking cfg a\<rparr>
              | _ \<Rightarrow> Panic)
         | _ \<Rightarrow> Panic)"

lemma container_of_cases:
  assumes "container_of cfg uuid img evs s = Ok c"
  obtains out where "DockerBindings (dc_ISPN cfg) (dc_Interface cfg) (set_Allocations s) = Ok out"
    "cs_Bindings c = out" "cs_Exposed c = fst ` set out" "cs_Env c = evs" "cs_Image c = TrimPrefix img ''~''"
    "cs_Labels c = merge_labels (set_Labels s)" "cs_Mounts c = convertMounts (set_Mounts s)"
    "cs_NetworkMode c = network_mode cfg (set_Allocations s)"
  using assms by (auto simp: container_of_def Exposed_def Let_def split: outcome.splits)

lemma patched_no_local:
  "DefaultPort a \<noteq> 0 \<Longrightarrow> dc_Interface cfg \<noteq> local_ip \<Longrightarrow> server_ip_local \<notin> set (patch_server_ip cfg a evs)"
  by (auto simp: patch_server_ip_def server_ip_local_def local_ip_def)

lemma published_not_local:
  assumes "DockerBindings False iface a = Ok out" "iface \<noteq> local_ip" "(p, bs) \<in> set out" "b \<in> set bs"
  shows "HostIP b \<noteq> local_ip"
proof -
  have "out = map (\<lambda>(p, bs). (p, map (publish_on iface) bs)) (Bindings a)"
    using assms(1) by (simp add: DockerBindings_def rebind_all_replaces)
  with assms(2-4) show ?thesis
    by (auto simp: publish_on_def split: if_splits)
qed

text \<open>A container of a server with an allocation, on a daemon without ISPN, is never bound to the loopback
  address: no published port has the host address 127.0.0.1 and no variable announces it; every published port
  is an exposed one, and the daemon's labels win over configured ones.\<close>

theorem container_not_on_loopback:
  assumes "container_of cfg uuid img (patch_server_ip cfg (set_Allocations s) evs) s = Ok c"
    "\<not> dc_ISPN cfg" "dc_Interface cfg \<noteq> local_ip" "DefaultPort (set_Allocations s) \<noteq> 0"
  shows "server_ip_local \<notin> set (cs_Env c) \<and>
    (\<forall>(p, bs) \<in> set (cs_Bindings c). p \<in> cs_Exposed c \<and> (\<forall>b \<in> set bs. HostIP b \<noteq> local_ip)) \<and>
    map_of (cs_Labels c) ''Service'' = Some ''Pelican'' \<and> map_of (cs_Labels c) ''ContainerType'' = Some ''server_process''"
proof -
  from assms(1) obtain out where
    out: "DockerBindings (dc_ISPN cfg) (dc_Interface cfg) (set_Allocations s) = Ok out"
      "cs_Bindings c = out" "cs_Exposed c = fst ` set out"
      "cs_Env c = patch_server_ip cfg (set_Allocations s) evs" "cs_Labels c = merge_labels (set_Labels s)"
    by (rule container_of_cases)
  have "\<forall>(p, bs) \<in> set out. p \<in> fst ` set out \<and> (\<forall>b \<in> set bs. HostIP b \<noteq> local_ip)"
    using published_not_local [of "dc_Interface cfg" "set_Allocations s" out] out(1) assms(2,3) by force
  moreover have "map_of (merge_labels l) ''Service'' = Some ''Pelican'' \<and>
      map_of (merge_labels l) ''ContainerType'' = Some ''server_process''" for l
    by (simp add: merge_labels_def update_conv')
  ultimately show ?thesis
    using patched_no_local [OF assms(4,3)] out by simp
qed

definition example_cfg :: docker_cfg where
  "example_cfg = \<lparr>dc_Domainname = [], dc_Interface = ''172.18.0.1'', dc_ISPN = False, dc_Mode = ''pelican_nw'', dc_Driver = ''bridge'',
     dc_Name = ''pelican_nw'', dc_Gateway = ''172.18.0.1'', dc_Dns = [''1.1.1.1''], dc_TmpfsSize = 100, dc_UsernsMode = [],
     dc_Rootless = False, dc_RootlessUid = 0, dc_RootlessGid = 0, dc_Uid = 988, dc_Gid = 988, dc_PidLimit = 512,
     dc_bounded = (\<lambda>l. MemoryLimit l * 1048576), dc_Registries = []\<rparr>"

definition example_settings :: env_settings where
  "example_settings = \<lparr>set_Mounts = [], set_Allocations = \<lparr>ForceOutgoingIP = False, DefaultIp = local_ip, DefaultPort = 25565,
       Mappings = [(local_ip, [25565])]\<rparr>,
     set_Limits = \<lparr>MemoryLimit = 1024, Swap = 0, IoWeight = 500, CpuLimit = 100, limit_DiskSpace = 1024, Threads = [], OOMKiller = True\<rparr>,
     set_Labels = [(''Service'', ''mine'')]\<rparr>"

theorem container_not_on_loopback_witness:
  "\<exists>c. container_of example_cfg ''u1'' ''img'' (patch_server_ip example_cfg (set_Allocations example_settings) [server_ip_local]) example_settings = Ok c
     \<and> server_ip_local \<notin> set (cs_Env c)"
proof -
  have "\<exists>c. container_of example_cfg ''u1'' ''img''
      (patch_server_ip example_cfg (set_Allocations example_settings) [server_ip_local]) example_settings = Ok c"
    by (simp add: container_of_def Let_def Exposed_def DockerBindings_def rebind_all_replaces example_cfg_def)
  then obtain c where c: "container_of example_cfg ''u1'' ''img''
      (patch_server_ip example_cfg (set_Allocations example_settings) [server_ip_local]) example_settings = Ok c" ..
  from container_not_on_loopback [OF c] c show ?thesis
    by (auto simp: example_cfg_def example_settings_def local_ip_def)
qed

end
