(* ===== verification/DockerEnv.thy ===== *)
theory DockerEnv
  imports DockerSpec
begin

text \<open>
  The Docker environment of a server: its state, its event bus and its container operations
  (\<open>wings/environment/docker/environment.go\<close>, \<open>container.go\<close>).

  The Docker client is not part of the program: it is a record of functions over an arbitrary state \<open>'d\<close> of
  the Docker host. An operation is a function from the environment to its outcome and the new environment;
  what it publishes on the bus is recorded in order. A call whose context expires or is cancelled returns the
  corresponding error.
\<close>

section \<open>States and errors\<close>

datatype derr = DockerNotFound | CtxDeadline | CtxCanceled | ErrNotAttached | DockerError string | Annotated derr

definition IsErrNotFound :: "derr \<Rightarrow> bool" where
  "IsErrNotFound e \<longleftrightarrow> e = DockerNotFound"

fun is_deadline :: "derr \<Rightarrow> bool" where
  "is_deadline CtxDeadline = True"
| "is_deadline (Annotated e) = is_deadline e"
| "is_deadline _ = False"

definition ProcessOfflineState :: string where "ProcessOfflineState = ''offline''"
definition ProcessStartingState :: string where "ProcessStartingState = ''starting''"
definition ProcessRunningState :: string where "ProcessRunningState = ''running''"
definition ProcessStoppingState :: string where "ProcessStoppingState = ''stopping''"

lemmas state_defs = ProcessOfflineState_def ProcessStartingState_def ProcessRunningState_def ProcessStoppingState_def

lemma states_distinct [simp]:
  "ProcessOfflineState \<noteq> ProcessStartingState" "ProcessStartingState \<noteq> ProcessOfflineState"
  "ProcessOfflineState \<noteq> ProcessRunningState" "ProcessRunningState \<noteq> ProcessOfflineState"
  "ProcessOfflineState \<noteq> ProcessStoppingState" "ProcessStoppingState \<noteq> ProcessOfflineState"
  "ProcessStartingState \<noteq> ProcessRunningState" "ProcessRunningState \<noteq> ProcessStartingState"
  "ProcessStartingState \<noteq> ProcessStoppingState" "ProcessStoppingState \<noteq> ProcessStartingState"
  "ProcessRunningState \<noteq> ProcessStoppingState" "ProcessStoppingState \<noteq> ProcessRunningState"
  by (simp_all add: state_defs)

definition process_states :: "string set" where
  "process_states = {ProcessOfflineState, ProcessStartingState, ProcessRunningState, ProcessStoppingState}"

lemma process_states_simps [simp]: "ProcessOfflineState \<in> process_states" "ProcessStartingState \<in> process_states"
  "ProcessRunningState \<in> process_states" "ProcessStoppingState \<in> process_states"
  by (simp_all add: process_states_def)

datatype bus_event = StateChange string | ImagePullStarted | ImagePullStatus string | ImagePullCompleted

section \<open>The Docker client and the environment\<close>

record container =
  ct_running :: bool
  ct_exit :: int
  ct_oom :: bool
  ct_logpath :: string

text \<open>\<open>ParentDone\<close>: the caller's context was cancelled; otherwise the result of \<open>ContainerWait\<close>.\<close>

datatype wait_result = ParentDone | WaitError "derr option" | WaitOk

record 'd docker =
  dk_inspect :: "'d \<Rightarrow> (derr, container) outcome \<times> 'd"
  dk_remove :: "bool \<Rightarrow> 'd \<Rightarrow> (derr, unit) outcome \<times> 'd"
  dk_create :: "container_spec \<Rightarrow> 'd \<Rightarrow> (derr, unit) outcome \<times> 'd"
  dk_pull :: "string \<Rightarrow> string option \<Rightarrow> 'd \<Rightarrow> (derr, (string \<times> string) list \<times> derr option) outcome \<times> 'd"
  dk_images :: "'d \<Rightarrow> (derr, string list list) outcome \<times> 'd"
  dk_network_inspect :: "string \<Rightarrow> 'd \<Rightarrow> (derr, unit) outcome \<times> 'd"
  dk_network_create :: "string \<Rightarrow> string \<Rightarrow> 'd \<Rightarrow> (derr, unit) outcome \<times> 'd"
  dk_attach :: "'d \<Rightarrow> (derr, unit) outcome \<times> 'd"
  dk_start :: "'d \<Rightarrow> (derr, unit) outcome \<times> 'd"
  dk_kill :: "string \<Rightarrow> 'd \<Rightarrow> (derr, unit) outcome \<times> 'd"
  dk_stop :: "'d \<Rightarrow> (derr, unit) outcome \<times> 'd"
  dk_wait :: "'d \<Rightarrow> wait_result \<times> 'd"
  dk_update :: "container_resources \<Rightarrow> 'd \<Rightarrow> (derr, unit) outcome \<times> 'd"
  dk_write :: "string \<Rightarrow> 'd \<Rightarrow> (derr, unit) outcome \<times> 'd"
  dk_log_exists :: "string \<Rightarrow> 'd \<Rightarrow> bool"
  dk_truncate :: "string \<Rightarrow> 'd \<Rightarrow> (derr, unit) outcome \<times> 'd"
  dk_logs :: "string \<Rightarrow> 'd \<Rightarrow> (derr, string list) outcome \<times> 'd"

record 'd env =
  ev_Id :: string
  ev_settings :: env_settings
  ev_vars :: "string list"
  ev_image :: string
  ev_stop_type :: string
  ev_stop_value :: string
  ev_st :: string
  ev_bus :: "bus_event list"
  ev_stream :: bool
  ev_docker :: 'd

type_synonym 'd envop = "'d env \<Rightarrow> (derr, unit) outcome \<times> 'd env"

definition NewEnvironment ::
  "string \<Rightarrow> string \<Rightarrow> string \<Rightarrow> string \<Rightarrow> env_settings \<Rightarrow> string list \<Rightarrow> 'd \<Rightarrow> 'd env" where
  "NewEnvironment uuid img stop_type stop_value s vars d =
     \<lparr>ev_Id = uuid, ev_settings = s, ev_vars = vars, ev_image = img, ev_stop_type = stop_type,
      ev_stop_value = stop_value, ev_st = ProcessOfflineState, ev_bus = [], ev_stream = False, ev_docker = d\<rparr>"

definition env_State :: "'d env \<Rightarrow> string" where
  "env_State e = ev_st e"

definition publish :: "bus_event \<Rightarrow> 'd env \<Rightarrow> 'd env" where
  "publish x e = e\<lparr>ev_bus := ev_bus e @ [x]\<rparr>"

definition SetState :: "string \<Rightarrow> 'd envop" where
  "SetState state e =
     (if state \<noteq> ProcessOfflineState \<and> state \<noteq> ProcessStartingState \<and> state \<noteq> ProcessRunningState \<and>
         state \<noteq> ProcessStoppingState then (Panic, e)
      else (Ok (), if env_State e \<noteq> state then publish (StateChange state) (e\<lparr>ev_st := state\<rparr>) else e))"

text \<open>\<open>SetState\<close> on one of the constants, where it cannot panic.\<close>

definition put_state :: "string \<Rightarrow> 'd env \<Rightarrow> 'd env" where
  "put_state state e = snd (SetState state e)"

lemma SetState_constant: "state \<in> process_states \<Longrightarrow> SetState state e = (Ok (), put_state state e)"
  by (auto simp: SetState_def put_state_def process_states_def)

definition SetStream :: "bool \<Rightarrow> 'd env \<Rightarrow> 'd env" where
  "SetStream s e = e\<lparr>ev_stream := s\<rparr>"

definition IsAttached :: "'d env \<Rightarrow> bool" where
  "IsAttached e = ev_stream e"

definition SetStopConfiguration :: "string \<Rightarrow> string \<Rightarrow> 'd env \<Rightarrow> 'd env" where
  "SetStopConfiguration t v e = e\<lparr>ev_stop_type := t, ev_stop_value := v\<rparr>"

definition SetImage :: "string \<Rightarrow> 'd env \<Rightarrow> 'd env" where
  "SetImage i e = e\<lparr>ev_image := i\<rparr>"

definition SetSettings :: "env_settings \<Rightarrow> 'd env \<Rightarrow> 'd env" where
  "SetSettings s e = e\<lparr>ev_settings := s\<rparr>"

definition SetEnvironmentVariables :: "string list \<Rightarrow> 'd env \<Rightarrow> 'd env" where
  "SetEnvironmentVariables v e = e\<lparr>ev_vars := v\<rparr>"

text \<open>A call of the client, and a call followed by the code for its error and for its value; a panic unwinds.\<close>

definition call :: "('d \<Rightarrow> 'r \<times> 'd) \<Rightarrow> 'd env \<Rightarrow> 'r \<times> 'd env" where
  "call f e = (case f (ev_docker e) of (r, d) \<Rightarrow> (r, e\<lparr>ev_docker := d\<rparr>))"

definition on ::
  "('e, 'a) outcome \<times> 's \<Rightarrow> ('e \<Rightarrow> 's \<Rightarrow> ('f, 'b) outcome \<times> 's) \<Rightarrow> ('a \<Rightarrow> 's \<Rightarrow> ('f, 'b) outcome \<times> 's) \<Rightarrow>
    ('f, 'b) outcome \<times> 's" where
  "on r bad good = (case r of (Ok a, e) \<Rightarrow> good a e | (Err er, e) \<Rightarrow> bad er e | (Panic, e) \<Rightarrow> (Panic, e))"

definition wrap :: "derr \<Rightarrow> 'd env \<Rightarrow> (derr, 'b) outcome \<times> 'd env" where
  "wrap er e = (Err (Annotated er), e)"

definition bare :: "derr \<Rightarrow> 'd env \<Rightarrow> (derr, 'b) outcome \<times> 'd env" where
  "bare er e = (Err er, e)"

definition done_ok :: "'a \<Rightarrow> 'd env \<Rightarrow> (derr, 'a) outcome \<times> 'd env" where
  "done_ok a e = (Ok a, e)"

lemmas result_defs = wrap_def bare_def done_ok_def

section \<open>Container operations\<close>

definition env_Exists :: "'d docker \<Rightarrow> 'd env \<Rightarrow> (derr, bool) outcome \<times> 'd env" where
  "env_Exists D e =
     on (call (dk_inspect D) e) (\<lambda>er e. if IsErrNotFound er then (Ok False, e) else (Err er, e)) (\<lambda>_. done_ok True)"

definition env_IsRunning :: "'d docker \<Rightarrow> 'd env \<Rightarrow> (derr, bool) outcome \<times> 'd env" where
  "env_IsRunning D e = on (call (dk_inspect D) e) bare (\<lambda>c. done_ok (ct_running c))"

definition ExitState :: "'d docker \<Rightarrow> 'd env \<Rightarrow> (derr, int \<times> bool) outcome \<times> 'd env" where
  "ExitState D e =
     on (call (dk_inspect D) e) (\<lambda>er e. if IsErrNotFound er then (Ok (1, False), e) else wrap er e)
       (\<lambda>c. done_ok (ct_exit c mod 2 ^ 32, ct_oom c))"

text \<open>
  \<open>Attach\<close> starts a reader of the stream; when the stream ends (at any later time) the reader runs
  \<open>stream_ended\<close>.
\<close>

definition Attach :: "'d docker \<Rightarrow> 'd envop" where
  "Attach D e =
     (if IsAttached e then (Ok (), e)
      else on (call (dk_attach D) e) wrap (\<lambda>_ e. (Ok (), SetStream True e)))"

definition stream_ended :: "'d env \<Rightarrow> 'd env" where
  "stream_ended e = SetStream False (put_state ProcessOfflineState e)"

definition InSituUpdate :: "docker_cfg \<Rightarrow> 'd docker \<Rightarrow> 'd envop" where
  "InSituUpdate cfg D e =
     on (call (dk_inspect D) e) (\<lambda>er e. if IsErrNotFound er then (Ok (), e) else wrap er e)
       (\<lambda>_ e. let l = set_Limits (ev_settings e)
              in on (call (dk_update D (AsContainerResources (dc_bounded cfg l) (dc_PidLimit cfg) l)) e) wrap done_ok)"

text \<open>
  \<open>dc_Registries\<close> lists the registries in the order the map is iterated, each with its encoded credentials
  (empty when they could not be encoded).
\<close>

definition registry_auth :: "docker_cfg \<Rightarrow> string \<Rightarrow> string option" where
  "registry_auth cfg img = map_option snd (find (\<lambda>(registry, _). HasPrefix img registry) (dc_Registries cfg))"

definition ensureImageExists :: "docker_cfg \<Rightarrow> 'd docker \<Rightarrow> string \<Rightarrow> 'd envop" where
  "ensureImageExists cfg D img e =
     (case (let e = publish ImagePullStarted e
            in if HasPrefix img ''~'' then (Ok (), e)
               else on (call (dk_pull D img (registry_auth cfg img)) e)
                 (\<lambda>er e. on (call (dk_images D) e) wrap
                    (\<lambda>images e. if \<exists>tags \<in> set images. img \<in> set tags then (Ok (), e) else wrap er e))
                 (\<lambda>(lines, serr) e.
                    let e = fold (\<lambda>(status, progress). publish (ImagePullStatus (status @ '' '' @ progress))) lines e
                    in case serr of Some er \<Rightarrow> (Err er, e) | None \<Rightarrow> (Ok (), e))) of
        (r, e) \<Rightarrow> (r, publish ImagePullCompleted e))"

definition ensure_network :: "'d docker \<Rightarrow> allocations \<Rightarrow> 'd envop" where
  "ensure_network D a e =
     (if forced_network a
      then on (call (dk_network_inspect D (outgoing_network (DefaultIp a))) e)
        (\<lambda>er e. if \<not> IsErrNotFound er then bare er e
                else on (call (dk_network_create D (outgoing_network (DefaultIp a)) (DefaultIp a)) e) bare done_ok)
        done_ok
      else (Ok (), e))"

definition env_Create :: "docker_cfg \<Rightarrow> 'd docker \<Rightarrow> 'd envop" where
  "env_Create cfg D e =
     (case call (dk_inspect D) e of
        (Ok c, e) \<Rightarrow> (Ok (), e)
      | (Panic, e) \<Rightarrow> (Panic, e)
      | (Err er, e) \<Rightarrow>
          if \<not> IsErrNotFound er then wrap er e
          else on (ensureImageExists cfg D (ev_image e) e) wrap
            (\<lambda>_ e. let s = ev_settings e; a = set_Allocations s;
                       e = SetEnvironmentVariables (patch_server_ip cfg a (ev_vars e)) e
                   in case Exposed (dc_ISPN cfg) (dc_Interface cfg) a of
                        Ok _ \<Rightarrow> on (ensure_network D a e) bare
                          (\<lambda>_ e. case container_of cfg (ev_Id e) (ev_image e) (ev_vars e) s of
                                   Ok spec \<Rightarrow> on (call (dk_create D spec) e) wrap done_ok
                                 | _ \<Rightarrow> (Panic, e))
                      | _ \<Rightarrow> (Panic, e)))"

definition env_Destroy :: "'d docker \<Rightarrow> 'd envop" where
  "env_Destroy D e =
     on (call (dk_remove D True) (put_state ProcessStoppingState e))
       (\<lambda>er e. let e = put_state ProcessOfflineState e in if IsErrNotFound er then (Ok (), e) else bare er e)
       (\<lambda>_ e. (Ok (), put_state ProcessOfflineState e))"

definition SendCommand :: "'d docker \<Rightarrow> string \<Rightarrow> 'd envop" where
  "SendCommand D c e =
     (if \<not> IsAttached e then wrap ErrNotAttached e
      else (let e = (if ev_stop_type e = ''command'' \<and> c = ev_stop_value e then put_state ProcessStoppingState e else e)
            in on (call (dk_write D (c @ [char_of (10 :: nat)])) e) wrap done_ok))"

text \<open>\<open>dk_logs\<close> returns the lines the scanner reads from the log.\<close>

definition Readlog :: "'d docker \<Rightarrow> int \<Rightarrow> 'd env \<Rightarrow> (derr, string list) outcome \<times> 'd env" where
  "Readlog D lines e = on (call (dk_logs D (Itoa lines)) e) wrap done_ok"

end
