(* ===== verification/DockerPower.thy ===== *)
theory DockerPower
  imports DockerEnv
begin

text \<open>
  The power operations of the Docker environment (\<open>wings/environment/docker/power.go\<close>) and what the state
  changes they publish look like to the server, which takes a change to offline that does not follow stopping
  for a crash.
\<close>

section \<open>Operations\<close>

definition OnBeforeStart :: "docker_cfg \<Rightarrow> 'd docker \<Rightarrow> 'd envop" where
  "OnBeforeStart cfg D e =
     on (call (dk_remove D False) e) (\<lambda>er e. if \<not> IsErrNotFound er then wrap er e else env_Create cfg D e)
       (\<lambda>_. env_Create cfg D)"

text \<open>The part of \<open>Start\<close> after \<open>sawError = true\<close>, and the deferred function, which also runs on a panic.\<close>

definition after_failed_start :: "'d env \<Rightarrow> 'd env" where
  "after_failed_start e = put_state ProcessOfflineState (put_state ProcessStoppingState e)"

definition boot_steps :: "docker_cfg \<Rightarrow> 'd docker \<Rightarrow> 'd envop" where
  "boot_steps cfg D e =
     on (OnBeforeStart cfg D e) wrap
       (\<lambda>_ e. on (Attach D e) wrap (\<lambda>_ e. on (call (dk_start D) e) wrap done_ok))"

definition boot :: "docker_cfg \<Rightarrow> 'd docker \<Rightarrow> 'd envop" where
  "boot cfg D e =
     (case boot_steps cfg D (put_state ProcessStartingState e) of
        (Ok u, e) \<Rightarrow> (Ok u, e)
      | (r, e) \<Rightarrow> (r, after_failed_start e))"

definition env_Start :: "docker_cfg \<Rightarrow> 'd docker \<Rightarrow> 'd envop" where
  "env_Start cfg D e =
     on (call (dk_inspect D) e)
       (\<lambda>er e. if \<not> IsErrNotFound er then wrap er e else boot cfg D e)
       (\<lambda>c e. if ct_running c then Attach D (put_state ProcessRunningState e)
              else if dk_log_exists D (ct_logpath c) (ev_docker e)
              then on (call (dk_truncate D (ct_logpath c)) e) wrap (\<lambda>_. boot cfg D)
              else boot cfg D e)"

text \<open>
  The waiting loop of \<open>Terminate\<close>: \<open>ticks\<close> is the number of ticks the runtime delivers before the time
  limit (the select may take either when both are ready).
\<close>

fun await_exit :: "'d docker \<Rightarrow> nat \<Rightarrow> 'd envop" where
  "await_exit D 0 e =
     on (call (dk_kill D ''SIGKILL'') e)
       (\<lambda>er e. if \<not> IsErrNotFound er then wrap er e else (Ok (), put_state ProcessOfflineState e))
       (\<lambda>_ e. (Ok (), put_state ProcessOfflineState e))"
| "await_exit D (Suc ticks) e =
     on (call (dk_inspect D) e)
       (\<lambda>er e. if IsErrNotFound er then (Ok (), put_state ProcessOfflineState e) else wrap er e)
       (\<lambda>c e. if \<not> ct_running c then (Ok (), put_state ProcessOfflineState e) else await_exit D ticks e)"

definition env_Terminate :: "'d docker \<Rightarrow> nat \<Rightarrow> string \<Rightarrow> 'd envop" where
  "env_Terminate D ticks signal e =
     on (call (dk_inspect D) e)
       (\<lambda>er e. if IsErrNotFound er then (Ok (), e) else wrap er e)
       (\<lambda>c e. if \<not> ct_running c then
                (Ok (), if env_State e \<noteq> ProcessOfflineState
                        then put_state ProcessOfflineState (put_state ProcessStoppingState e) else e)
              else on (call (dk_kill D signal) (put_state ProcessStoppingState e))
                (\<lambda>er e. if \<not> IsErrNotFound er then wrap er e else await_exit D ticks e)
                (\<lambda>_. await_exit D ticks))"

definition stop_signal :: "string \<Rightarrow> string" where
  "stop_signal v =
     (let u = ToUpper v
      in if u = ''SIGABRT'' then ''SIGABRT''
         else if u = ''SIGINT'' \<or> u = ''C'' then ''SIGINT''
         else if u = ''SIGTERM'' then ''SIGTERM''
         else ''SIGKILL'')"

definition env_Stop :: "'d docker \<Rightarrow> nat \<Rightarrow> 'd envop" where
  "env_Stop D ticks e =
     (if ev_stop_type e = [] \<or> ev_stop_type e = ''signal''
      then env_Terminate D ticks (stop_signal (ev_stop_value e)) e
      else (let e = (if env_State e \<noteq> ProcessOfflineState then put_state ProcessStoppingState e else e)
            in if IsAttached e \<and> ev_stop_type e = ''command'' then SendCommand D (ev_stop_value e) e
               else on (call (dk_stop D) e)
                 (\<lambda>er e. if IsErrNotFound er then (Ok (), put_state ProcessOfflineState (SetStream False e)) else wrap er e)
                 done_ok))"

text \<open>The wait of \<open>WaitForStop\<close> once the stop was sent.\<close>

definition wait_stopped :: "'d docker \<Rightarrow> nat \<Rightarrow> bool \<Rightarrow> 'd envop" where
  "wait_stopped D ticks terminate e =
     (case call (dk_wait D) e of
        (ParentDone, e) \<Rightarrow> if terminate then env_Terminate D ticks ''SIGKILL'' e else (Err CtxCanceled, e)
      | (WaitError None, e) \<Rightarrow> (Ok (), e)
      | (WaitError (Some x), e) \<Rightarrow>
          if IsErrNotFound x then (Ok (), e)
          else if terminate then env_Terminate D ticks ''SIGKILL'' e
          else wrap x e
      | (WaitOk, e) \<Rightarrow> (Ok (), e))"

definition WaitForStop :: "'d docker \<Rightarrow> nat \<Rightarrow> bool \<Rightarrow> 'd envop" where
  "WaitForStop D ticks terminate e =
     on (env_Stop D ticks e)
       (\<lambda>er e. if terminate \<and> is_deadline er then env_Terminate D ticks ''SIGKILL'' e else bare er e)
       (\<lambda>_. wait_stopped D ticks terminate)"

section \<open>The published states\<close>

text \<open>\<open>trail e\<close> is the sequence of states the environment has been in, as published on its bus.\<close>

fun state_of :: "bus_event \<Rightarrow> string list" where
  "state_of (StateChange s) = [s]"
| "state_of _ = []"

definition trail :: "'d env \<Rightarrow> string list" where
  "trail e = ProcessOfflineState # concat (map state_of (ev_bus e))"

fun orderly :: "string list \<Rightarrow> bool" where
  "orderly (a # b # ss) = ((b = ProcessOfflineState \<longrightarrow> a = ProcessStoppingState) \<and> orderly (b # ss))"
| "orderly _ = True"

text \<open>The invariant of an environment: its state is a valid one and the last one published, and every published
  change is a change.\<close>

definition env_ok :: "'d env \<Rightarrow> bool" where
  "env_ok e \<longleftrightarrow> set (trail e) \<subseteq> process_states \<and> distinct_adj (trail e) \<and> last (trail e) = ev_st e"

lemma orderly_snoc: "ss \<noteq> [] \<Longrightarrow> orderly (ss @ [b]) \<longleftrightarrow> orderly ss \<and> (b = ProcessOfflineState \<longrightarrow> last ss = ProcessStoppingState)"
  by (induction ss rule: orderly.induct) auto

lemma distinct_adj_snoc: "ss \<noteq> [] \<Longrightarrow> distinct_adj (ss @ [b]) \<longleftrightarrow> distinct_adj ss \<and> last ss \<noteq> b"
  by (simp add: distinct_adj_append_iff)

lemma trail_not_Nil [simp]: "trail e \<noteq> []"
  by (simp add: trail_def)

lemma trail_publish [simp]: "trail (publish x e) = trail e @ state_of x"
  by (simp add: trail_def publish_def)

lemma st_publish [simp]: "ev_st (publish x e) = ev_st e"
  by (simp add: publish_def)

lemma trail_updates [simp]: "trail (e\<lparr>ev_docker := d\<rparr>) = trail e" "trail (e\<lparr>ev_st := s\<rparr>) = trail e"
  "trail (SetStream b e) = trail e" "trail (SetEnvironmentVariables v e) = trail e"
  "trail (SetStopConfiguration t w e) = trail e" "trail (SetImage i e) = trail e" "trail (SetSettings z e) = trail e"
  by (simp_all add: trail_def SetStream_def SetEnvironmentVariables_def SetStopConfiguration_def SetImage_def SetSettings_def)

lemma st_updates [simp]: "ev_st (SetStream b e) = ev_st e" "ev_st (SetEnvironmentVariables v e) = ev_st e"
  "ev_st (SetStopConfiguration t w e) = ev_st e" "ev_st (SetImage i e) = ev_st e" "ev_st (SetSettings z e) = ev_st e"
  by (simp_all add: SetStream_def SetEnvironmentVariables_def SetStopConfiguration_def SetImage_def SetSettings_def)

lemma put_state_st [simp]: "s \<in> process_states \<Longrightarrow> ev_st (put_state s e) = s"
  by (auto simp: put_state_def SetState_def env_State_def process_states_def)

lemma trail_put_state: "s \<in> process_states \<Longrightarrow> trail (put_state s e) = (if ev_st e = s then trail e else trail e @ [s])"
  by (auto simp: put_state_def SetState_def env_State_def process_states_def)

lemma env_ok_put_state [simp]: "env_ok e \<Longrightarrow> s \<in> process_states \<Longrightarrow> env_ok (put_state s e)"
  by (auto simp: env_ok_def trail_put_state distinct_adj_snoc)

section \<open>What each operation publishes\<close>

text \<open>
  The abstract environment is its state and its trail; entering a state is the only step it has. \<open>goes ss e e'\<close>:
  seen abstractly, \<open>e'\<close> is \<open>e\<close> after entering the states \<open>ss\<close> in turn.
\<close>

fun enter :: "string \<Rightarrow> string \<times> string list \<Rightarrow> string \<times> string list" where
  "enter s (st, tr) = (if st = s then (st, tr) else (s, tr @ [s]))"

definition abs_env :: "'d env \<Rightarrow> string \<times> string list" where
  "abs_env e = (ev_st e, trail e)"

definition goes :: "string list \<Rightarrow> 'd env \<Rightarrow> 'd env \<Rightarrow> bool" where
  "goes ss e e' \<longleftrightarrow> abs_env e' = fold enter ss (abs_env e)"

lemma goes_refl [simp]: "goes [] e e"
  by (simp add: goes_def)

lemma goes_trans: "goes ss a b \<Longrightarrow> goes ts b c \<Longrightarrow> goes (ss @ ts) a c"
  by (simp add: goes_def)

lemma goes_silent: "goes [] a b \<Longrightarrow> goes ts b c \<Longrightarrow> goes ts a c"
  by (simp add: goes_def)

lemma goes_then_silent: "goes ss a b \<Longrightarrow> goes [] b c \<Longrightarrow> goes ss a c"
  by (simp add: goes_def)

lemma abs_put_state [simp]: "s \<in> process_states \<Longrightarrow> abs_env (put_state s e) = enter s (abs_env e)"
  by (auto simp: abs_env_def trail_put_state)

lemma goes_put_state: "s \<in> process_states \<Longrightarrow> goes [s] e (put_state s e)"
  by (simp add: goes_def)

lemma abs_updates [simp]: "abs_env (SetStream b e) = abs_env e" "abs_env (SetEnvironmentVariables v e) = abs_env e"
  "abs_env (e\<lparr>ev_docker := d\<rparr>) = abs_env e" "abs_env (publish ImagePullStarted e) = abs_env e"
  "abs_env (publish ImagePullCompleted e) = abs_env e" "abs_env (publish (ImagePullStatus x) e) = abs_env e"
  by (simp_all add: abs_env_def)

lemma abs_call [simp]: "call f e = (r, e') \<Longrightarrow> abs_env e' = abs_env e"
  by (auto simp: call_def split: prod.splits)

lemma abs_pull_lines [simp]:
  "abs_env (fold (\<lambda>(status, progress). publish (ImagePullStatus (f status progress))) lines e) = abs_env e"
  by (induction lines arbitrary: e) auto

lemma abs_Attach [simp]: "Attach D e = (r, e') \<Longrightarrow> abs_env e' = abs_env e"
  by (auto simp: Attach_def on_def result_defs split: if_splits prod.splits outcome.splits)

lemma abs_ensureImage [simp]: "ensureImageExists cfg D img e = (r, e') \<Longrightarrow> abs_env e' = abs_env e"
  by (auto simp: ensureImageExists_def on_def result_defs Let_def
      split: if_splits prod.splits outcome.splits option.splits)

lemma abs_ensure_network [simp]: "ensure_network D a e = (r, e') \<Longrightarrow> abs_env e' = abs_env e"
  by (auto simp: ensure_network_def on_def result_defs split: if_splits prod.splits outcome.splits)

lemma abs_Create [simp]: "env_Create cfg D e = (r, e') \<Longrightarrow> abs_env e' = abs_env e"
  by (auto simp: env_Create_def on_def result_defs Let_def split: if_splits prod.splits outcome.splits)

lemma abs_OnBeforeStart [simp]: "OnBeforeStart cfg D e = (r, e') \<Longrightarrow> abs_env e' = abs_env e"
  by (auto simp: OnBeforeStart_def on_def result_defs split: if_splits prod.splits outcome.splits)

lemma abs_boot_steps [simp]: "boot_steps cfg D e = (r, e') \<Longrightarrow> abs_env e' = abs_env e"
  by (auto simp: boot_steps_def on_def result_defs split: if_splits prod.splits outcome.splits)

lemma abs_failed_start [simp]:
  "abs_env (after_failed_start e) = enter ProcessOfflineState (enter ProcessStoppingState (abs_env e))"
  by (simp add: after_failed_start_def)

lemma boot_path:
  "boot cfg D e = (r, e') \<Longrightarrow>
    goes (if is_ok r then [ProcessStartingState] else [ProcessStartingState, ProcessStoppingState, ProcessOfflineState]) e e'"
  by (auto simp: boot_def goes_def split: prod.splits outcome.splits)

lemma Start_path:
  assumes "env_Start cfg D e = (r, e')"
  shows "goes [] e e' \<and> \<not> is_ok r \<or> goes [ProcessRunningState] e e' \<or>
    goes (if is_ok r then [ProcessStartingState] else [ProcessStartingState, ProcessStoppingState, ProcessOfflineState]) e e'"
  using assms
  by (auto simp: env_Start_def on_def result_defs goes_def split: if_splits prod.splits outcome.splits
      dest!: boot_path)

lemma await_path:
  "await_exit D ticks e = (r, e') \<Longrightarrow> goes (if is_ok r then [ProcessOfflineState] else []) e e'"
proof (induction ticks arbitrary: e)
  case 0
  then show ?case
    by (auto simp: on_def result_defs goes_def split: if_splits prod.splits outcome.splits)
next
  case (Suc ticks)
  then show ?case
    by (auto simp: on_def result_defs goes_def split: if_splits prod.splits outcome.splits)
qed

lemma Terminate_path:
  assumes "env_Terminate D ticks sig e = (r, e')"
  shows "goes [] e e' \<or> goes (if is_ok r then [ProcessStoppingState, ProcessOfflineState] else [ProcessStoppingState]) e e'"
  using assms
  by (auto simp: env_Terminate_def on_def result_defs goes_def split: if_splits prod.splits outcome.splits
      dest!: await_path)

lemma SendCommand_path:
  assumes "SendCommand D c e = (r, e')"
  shows "goes [] e e' \<or> goes [ProcessStoppingState] e e'"
  using assms by (auto simp: SendCommand_def on_def result_defs goes_def Let_def split: if_splits prod.splits outcome.splits)

text \<open>
  An operation is \<open>tidy\<close> when it enters valid states only and enters offline directly from stopping: it never
  looks like a crash.
\<close>

definition calm :: "string list \<Rightarrow> bool" where
  "calm ss \<longleftrightarrow> set ss \<subseteq> process_states \<and> orderly (ProcessRunningState # ss)"

definition tidy :: "'d env \<Rightarrow> 'd env \<Rightarrow> bool" where
  "tidy e e' \<longleftrightarrow> (\<exists>ss. calm ss \<and> goes ss e e')"

lemma calm_simps [simp]: "calm []" "calm [ProcessStoppingState]" "calm [ProcessStoppingState, ProcessOfflineState]"
  "calm [ProcessStartingState]" "calm [ProcessRunningState]"
  "calm [ProcessStartingState, ProcessStoppingState, ProcessOfflineState]"
  by (simp_all add: calm_def)

lemma orderly_weaken: "orderly (ProcessRunningState # ss) \<Longrightarrow> orderly (s # ss)"
  by (cases ss) auto

lemma orderly_append: "orderly (s # ss) \<Longrightarrow> orderly (ProcessRunningState # ts) \<Longrightarrow> orderly (s # ss @ ts)"
proof (induction ss arbitrary: s)
  case Nil
  then show ?case by (simp add: orderly_weaken)
qed auto

lemma calm_append: "calm ss \<Longrightarrow> calm ts \<Longrightarrow> calm (ss @ ts)"
  by (auto simp: calm_def orderly_append)

lemma tidy_refl [simp]: "tidy e e"
  unfolding tidy_def by (intro exI [of _ "[]"]) simp

lemma tidy_trans: "tidy a b \<Longrightarrow> tidy b c \<Longrightarrow> tidy a c"
  unfolding tidy_def by (blast intro: calm_append goes_trans)

lemma tidy_goes: "goes ss e e' \<Longrightarrow> calm ss \<Longrightarrow> tidy e e'"
  by (auto simp: tidy_def)

lemma tidy_abs: "abs_env e' = abs_env e \<Longrightarrow> tidy e e'"
  by (rule tidy_goes [of "[]"]) (simp_all add: goes_def)

lemma tidy_Start: "env_Start cfg D e = (r, e') \<Longrightarrow> tidy e e'"
  by (auto dest!: Start_path intro: tidy_goes split: if_splits)

lemma tidy_Terminate: "env_Terminate D ticks sig e = (r, e') \<Longrightarrow> tidy e e'"
  by (auto dest!: Terminate_path intro: tidy_goes split: if_splits)

lemma tidy_Destroy: "env_Destroy D e = (r, e') \<Longrightarrow> r \<noteq> Panic \<Longrightarrow>
    goes [ProcessStoppingState, ProcessOfflineState] e e'"
  by (auto simp: env_Destroy_def on_def result_defs goes_def Let_def split: if_splits prod.splits outcome.splits)

lemma Stop_path:
  assumes "env_Stop D ticks e = (r, e')"
  shows "tidy e e'"
proof (cases "ev_stop_type e = [] \<or> ev_stop_type e = ''signal''")
  case True
  with assms show ?thesis by (auto simp: env_Stop_def intro: tidy_Terminate)
next
  case False
  define e1 where "e1 = (if env_State e \<noteq> ProcessOfflineState then put_state ProcessStoppingState e else e)"
  have e1: "tidy e e1" "ev_st e1 = ProcessOfflineState \<and> e1 = e \<or> ev_st e1 = ProcessStoppingState"
    by (auto simp: e1_def env_State_def intro: tidy_goes [OF goes_put_state])
  have run: "(if IsAttached e1 \<and> ev_stop_type e1 = ''command'' then SendCommand D (ev_stop_value e1) e1
      else on (call (dk_stop D) e1)
        (\<lambda>er e. if IsErrNotFound er then (Ok (), put_state ProcessOfflineState (SetStream False e)) else wrap er e)
        done_ok) = (r, e')"
    using assms False unfolding env_Stop_def Let_def e1_def by (simp only: if_False)
  show ?thesis
  proof (cases "IsAttached e1 \<and> ev_stop_type e1 = ''command''")
    case True
    with run have "SendCommand D (ev_stop_value e1) e1 = (r, e')"
      by (simp only: if_True simp_thms)
    then have "tidy e1 e'" by (auto dest!: SendCommand_path intro: tidy_goes)
    with e1(1) show ?thesis by (rule tidy_trans)
  next
    case no: False
    with run have "on (call (dk_stop D) e1)
        (\<lambda>er e. if IsErrNotFound er then (Ok (), put_state ProcessOfflineState (SetStream False e)) else wrap er e)
        done_ok = (r, e')"
      by (simp only: if_False simp_thms)
    then have "abs_env e' = abs_env e1 \<or> abs_env e' = enter ProcessOfflineState (abs_env e1)"
      by (auto simp: on_def result_defs split: if_splits prod.splits outcome.splits)
    with e1(2) have "abs_env e' = abs_env e1 \<or> abs_env e' = fold enter [ProcessStoppingState, ProcessOfflineState] (abs_env e1)"
      by (auto simp: abs_env_def)
    then have "goes [] e1 e' \<or> goes [ProcessStoppingState, ProcessOfflineState] e1 e'"
      by (simp add: goes_def)
    then have "tidy e1 e'" by (auto intro: tidy_goes)
    with e1(1) show ?thesis by (rule tidy_trans)
  qed
qed

lemma tidy_wait:
  assumes "wait_stopped D ticks terminate e = (r, e')"
  shows "tidy e e'"
proof -
  obtain w e1 where w: "call (dk_wait D) e = (w, e1)" by force
  have "tidy e1 e'"
  proof (cases w)
    case ParentDone
    with assms w show ?thesis by (auto simp: wait_stopped_def split: if_splits intro: tidy_Terminate)
  next
    case (WaitError x)
    with assms w show ?thesis
      by (auto simp: wait_stopped_def wrap_def split: if_splits option.splits intro: tidy_Terminate)
  next
    case WaitOk
    with assms w show ?thesis by (simp add: wait_stopped_def)
  qed
  with tidy_abs [OF abs_call [OF w]] show ?thesis by (rule tidy_trans)
qed

lemma tidy_WaitForStop:
  assumes "WaitForStop D ticks terminate e = (r, e')"
  shows "tidy e e'"
proof -
  obtain r1 e1 where stop: "env_Stop D ticks e = (r1, e1)" by force
  have "tidy e1 e'"
  proof (cases r1)
    case (Ok u)
    with assms stop show ?thesis by (auto simp: WaitForStop_def on_def intro: tidy_wait)
  next
    case (Err er)
    with assms stop show ?thesis
      by (auto simp: WaitForStop_def on_def bare_def split: if_splits intro: tidy_Terminate)
  next
    case Panic
    with assms stop show ?thesis by (simp add: WaitForStop_def on_def)
  qed
  with Stop_path [OF stop] show ?thesis by (rule tidy_trans)
qed

fun trail_ok :: "string \<times> string list \<Rightarrow> bool" where
  "trail_ok (st, tr) \<longleftrightarrow> tr \<noteq> [] \<and> set tr \<subseteq> process_states \<and> distinct_adj tr \<and> last tr = st"

lemma enter_ok: "trail_ok p \<Longrightarrow> s \<in> process_states \<Longrightarrow> trail_ok (enter s p)"
  by (cases p) (auto simp: distinct_adj_snoc)

lemma enter_orderly:
  "trail_ok p \<Longrightarrow> orderly (snd p) \<Longrightarrow> (s = ProcessOfflineState \<longrightarrow> fst p = ProcessStoppingState) \<Longrightarrow>
    orderly (snd (enter s p))"
  by (cases p) (auto simp: orderly_snoc)

lemma fst_enter [simp]: "fst (enter s p) = s"
  by (cases p) auto

lemma enters_ok: "trail_ok p \<Longrightarrow> set ss \<subseteq> process_states \<Longrightarrow> trail_ok (fold enter ss p)"
  by (induction ss arbitrary: p) (simp_all add: enter_ok)

lemma enters_orderly:
  "trail_ok p \<Longrightarrow> set ss \<subseteq> process_states \<Longrightarrow> orderly (snd p) \<Longrightarrow> orderly (fst p # ss) \<Longrightarrow> orderly (snd (fold enter ss p))"
  by (induction ss arbitrary: p) (simp_all add: enter_ok enter_orderly)

lemma env_ok_abs: "env_ok e \<longleftrightarrow> trail_ok (abs_env e)"
  by (auto simp: env_ok_def abs_env_def)

lemma tidy_ok: "tidy e e' \<Longrightarrow> env_ok e \<Longrightarrow> env_ok e'"
  by (auto simp: tidy_def calm_def goes_def env_ok_abs intro: enters_ok)

lemma tidy_orderly: "tidy e e' \<Longrightarrow> env_ok e \<Longrightarrow> orderly (trail e) \<Longrightarrow> orderly (trail e')"
proof -
  assume "tidy e e'" "env_ok e" "orderly (trail e)"
  moreover have "snd (abs_env x) = trail x" for x :: "'a env" by (simp add: abs_env_def)
  ultimately show "orderly (trail e')"
    using enters_orderly [of "abs_env e"]
    by (metis calm_def env_ok_abs goes_def orderly_weaken tidy_def)
qed

section \<open>Operations in sequence\<close>

text \<open>
  Every way the environment changes: the operations of the interface, a state set from outside, and the end of
  the attached stream.
\<close>

datatype env_op =
    OpStart | OpStop nat | OpWaitForStop nat bool | OpTerminate nat string | OpDestroy | OpCreate
  | OpSendCommand string | OpAttach | OpInSituUpdate | OpSetState string | OpStreamEnds
  | OpSetImage string | OpSetStop string string | OpSetSettings env_settings | OpSetVars "string list"

fun run_op :: "docker_cfg \<Rightarrow> 'd docker \<Rightarrow> env_op \<Rightarrow> 'd envop" where
  "run_op cfg D OpStart e = env_Start cfg D e"
| "run_op cfg D (OpStop n) e = env_Stop D n e"
| "run_op cfg D (OpWaitForStop n t) e = WaitForStop D n t e"
| "run_op cfg D (OpTerminate n sig) e = env_Terminate D n sig e"
| "run_op cfg D OpDestroy e = env_Destroy D e"
| "run_op cfg D OpCreate e = env_Create cfg D e"
| "run_op cfg D (OpSendCommand c) e = SendCommand D c e"
| "run_op cfg D OpAttach e = Attach D e"
| "run_op cfg D OpInSituUpdate e = InSituUpdate cfg D e"
| "run_op cfg D (OpSetState s) e = SetState s e"
| "run_op cfg D OpStreamEnds e = (Ok (), stream_ended e)"
| "run_op cfg D (OpSetImage i) e = (Ok (), SetImage i e)"
| "run_op cfg D (OpSetStop t v) e = (Ok (), SetStopConfiguration t v e)"
| "run_op cfg D (OpSetSettings s) e = (Ok (), SetSettings s e)"
| "run_op cfg D (OpSetVars v) e = (Ok (), SetEnvironmentVariables v e)"

definition run_ops :: "docker_cfg \<Rightarrow> 'd docker \<Rightarrow> env_op list \<Rightarrow> 'd env \<Rightarrow> 'd env" where
  "run_ops cfg D ops e = fold (\<lambda>x e. snd (run_op cfg D x e)) ops e"

text \<open>The operations the server performs on its own authority, as opposed to what the process does.\<close>

fun own_op :: "env_op \<Rightarrow> bool" where
  "own_op OpStreamEnds = False"
| "own_op (OpSetState s) = (s \<noteq> ProcessOfflineState)"
| "own_op _ = True"

lemma abs_InSituUpdate: "InSituUpdate cfg D e = (r, e') \<Longrightarrow> abs_env e' = abs_env e"
  by (auto simp: InSituUpdate_def on_def result_defs Let_def split: if_splits prod.splits outcome.splits)

lemma tidy_Destroy': "env_Destroy D e = (r, e') \<Longrightarrow> tidy e e'"
proof (cases "r = Panic")
  case True
  assume "env_Destroy D e = (r, e')"
  with True have "goes [ProcessStoppingState] e e'"
    by (auto simp: env_Destroy_def on_def result_defs goes_def Let_def split: if_splits prod.splits outcome.splits)
  then show ?thesis by (rule tidy_goes) simp
next
  case False
  assume "env_Destroy D e = (r, e')"
  from tidy_Destroy [OF this False] show ?thesis by (rule tidy_goes) simp
qed

lemma tidy_SetState: "SetState s e = (r, e') \<Longrightarrow> s \<noteq> ProcessOfflineState \<Longrightarrow> tidy e e'"
proof -
  assume run: "SetState s e = (r, e')" and s: "s \<noteq> ProcessOfflineState"
  show "tidy e e'"
  proof (cases "s \<in> process_states")
    case True
    with run have "e' = put_state s e" by (simp add: SetState_constant)
    with True have "goes [s] e e'" by (simp add: goes_put_state)
    then show ?thesis by (rule tidy_goes) (use True s in \<open>simp add: calm_def\<close>)
  next
    case False
    with run show ?thesis by (auto simp: SetState_def process_states_def)
  qed
qed

lemma abs_setters [simp]: "abs_env (SetImage i e) = abs_env e" "abs_env (SetStopConfiguration t v e) = abs_env e"
  "abs_env (SetSettings s e) = abs_env e"
  by (simp_all add: abs_env_def)

lemma tidy_silent: "env_Create cfg D e = (r, e') \<Longrightarrow> tidy e e'" "Attach D e = (r, e') \<Longrightarrow> tidy e e'"
  "InSituUpdate cfg D e = (r, e') \<Longrightarrow> tidy e e'" "tidy e (SetImage i e)" "tidy e (SetStopConfiguration t v e)"
  "tidy e (SetSettings s e)" "tidy e (SetEnvironmentVariables w e)"
  by (auto intro: tidy_abs dest: abs_InSituUpdate)

lemma tidy_SendCommand: "SendCommand D c e = (r, e') \<Longrightarrow> tidy e e'"
  by (auto dest!: SendCommand_path intro: tidy_goes)

lemmas tidy_ops = tidy_Start Stop_path tidy_WaitForStop tidy_Terminate tidy_Destroy' tidy_SetState tidy_SendCommand tidy_silent

lemma tidy_own: "own_op x \<Longrightarrow> run_op cfg D x e = (r, e') \<Longrightarrow> tidy e e'"
  by (cases x) (auto intro: tidy_ops)

lemma SetState_ok: "env_ok e \<Longrightarrow> env_ok (snd (SetState s e))"
  by (cases "s \<in> process_states") (auto simp: SetState_constant, auto simp: SetState_def process_states_def)

lemma run_op_ok: "env_ok e \<Longrightarrow> env_ok (snd (run_op cfg D x e))"
proof (cases "own_op x")
  case True
  assume "env_ok e"
  moreover have "tidy e (snd (run_op cfg D x e))"
    using tidy_own [OF True] by (metis prod.collapse)
  ultimately show ?thesis by (simp add: tidy_ok)
next
  case False
  assume "env_ok e"
  moreover have "env_ok (SetStream b f) \<longleftrightarrow> env_ok f" for b and f :: "'a env" by (simp add: env_ok_def)
  ultimately show ?thesis
    using False by (cases x) (auto simp: SetState_ok stream_ended_def)
qed

lemma run_ops_ok: "env_ok e \<Longrightarrow> env_ok (run_ops cfg D ops e)"
  unfolding run_ops_def by (induction ops arbitrary: e) (simp_all add: run_op_ok)

lemma New_ok [simp]: "env_ok (NewEnvironment uuid img t v s vars d)" "trail (NewEnvironment uuid img t v s vars d) = [ProcessOfflineState]"
  by (simp_all add: env_ok_def NewEnvironment_def trail_def)

lemma run_own_tidy: "list_all own_op ops \<Longrightarrow> tidy e (run_ops cfg D ops e)"
  unfolding run_ops_def
proof (induction ops arbitrary: e)
  case (Cons x ops)
  have "tidy e (snd (run_op cfg D x e))"
    using Cons.prems tidy_own [of x cfg D e] by (metis list.pred_inject(2) prod.collapse)
  with Cons show ?case by (auto intro: tidy_trans)
qed simp

text \<open>Whatever is done to an environment, its state is always one of the four process states and the one it
  published last, and it publishes a change only when the state changes.\<close>

theorem environment_publishes_changes:
  assumes "e = run_ops cfg D ops (NewEnvironment uuid img t v s vars d)"
  shows "ev_st e = last (trail e) \<and> set (trail e) \<subseteq> process_states \<and> distinct_adj (trail e)"
proof -
  have "env_ok (run_ops cfg D ops (NewEnvironment uuid img t v s vars d))"
    by (intro run_ops_ok) simp
  then show ?thesis
    unfolding assms by (simp add: env_ok_def)
qed


definition sleepy_docker :: "unit docker" where
  "sleepy_docker = \<lparr>dk_inspect = (\<lambda>d. (Ok \<lparr>ct_running = False, ct_exit = 0, ct_oom = False, ct_logpath = []\<rparr>, d)),
     dk_remove = (\<lambda>_ d. (Ok (), d)), dk_create = (\<lambda>_ d. (Ok (), d)), dk_pull = (\<lambda>_ _ d. (Ok ([], None), d)),
     dk_images = (\<lambda>d. (Ok [], d)), dk_network_inspect = (\<lambda>_ d. (Ok (), d)), dk_network_create = (\<lambda>_ _ d. (Ok (), d)),
     dk_attach = (\<lambda>d. (Ok (), d)), dk_start = (\<lambda>d. (Err (DockerError ''no''), d)), dk_kill = (\<lambda>_ d. (Ok (), d)),
     dk_stop = (\<lambda>d. (Ok (), d)), dk_wait = (\<lambda>d. (WaitOk, d)), dk_update = (\<lambda>_ d. (Ok (), d)),
     dk_write = (\<lambda>_ d. (Ok (), d)), dk_log_exists = (\<lambda>_ _. False), dk_truncate = (\<lambda>_ d. (Ok (), d)), dk_logs = (\<lambda>_ d. (Ok [], d))\<rparr>"

abbreviation fresh_env :: "unit env" where
  "fresh_env \<equiv> NewEnvironment ''u1'' ''img'' ''command'' ''stop'' example_settings [] ()"

theorem environment_publishes_changes_witness:
  "ev_st (run_ops example_cfg sleepy_docker [OpStart, OpStreamEnds] fresh_env) \<in> process_states"
  using environment_publishes_changes [OF refl, of example_cfg sleepy_docker "[OpStart, OpStreamEnds]" "''u1''" "''img''" "''command''"
      "''stop''" example_settings "[]" "()"]
    last_in_set [OF trail_not_Nil, of "run_ops example_cfg sleepy_docker [OpStart, OpStreamEnds] fresh_env"]
  by auto


lemma Attach_attached: "Attach D e = (Ok u, e') \<Longrightarrow> IsAttached e'"
  by (auto simp: Attach_def on_def wrap_def IsAttached_def SetStream_def split: if_splits prod.splits outcome.splits)

lemma call_attached: "call f e = (r, e') \<Longrightarrow> IsAttached e' = IsAttached e"
  by (auto simp: call_def IsAttached_def split: prod.splits)

lemma boot_attached: "boot cfg D e = (Ok u, e') \<Longrightarrow> IsAttached e'"
  by (auto simp: boot_def boot_steps_def on_def result_defs call_attached split: prod.splits outcome.splits
      dest: Attach_attached)

lemma Start_attached: "env_Start cfg D e = (Ok u, e') \<Longrightarrow> IsAttached e'"
  by (auto simp: env_Start_def on_def wrap_def split: if_splits prod.splits outcome.splits
      dest: Attach_attached boot_attached)

text \<open>From offline, a start that fails after it began leaves the environment offline, having published starting,
  stopping and offline; one that succeeds leaves the console attached, the environment starting, or running when the
  container already ran; one refused before it began publishes nothing, or only that the container is running.\<close>

theorem start_outcomes:
  assumes "env_Start cfg D e = (r, e')" "env_ok e" "ev_st e = ProcessOfflineState"
  shows "(is_ok r \<longrightarrow> IsAttached e') \<and>
    (trail e' = trail e \<and> \<not> is_ok r \<or>
    trail e' = trail e @ [ProcessRunningState] \<or>
    (is_ok r \<and> trail e' = trail e @ [ProcessStartingState] \<and> ev_st e' = ProcessStartingState) \<or>
    (\<not> is_ok r \<and> trail e' = trail e @ [ProcessStartingState, ProcessStoppingState, ProcessOfflineState] \<and>
      ev_st e' = ProcessOfflineState))"
proof -
  have "is_ok r \<longrightarrow> IsAttached e'"
    using assms(1) Start_attached by (cases r) auto
  moreover have "abs_env e = (ProcessOfflineState, trail e)" using assms(3) by (simp add: abs_env_def)
  ultimately show ?thesis
    using Start_path [OF assms(1)] by (cases "is_ok r") (auto simp: goes_def abs_env_def)
qed

theorem start_outcomes_witness:
  "trail (snd (env_Start example_cfg sleepy_docker fresh_env)) =
     [ProcessOfflineState, ProcessStartingState, ProcessStoppingState, ProcessOfflineState]"
proof -
  have "\<exists>e. env_Start example_cfg sleepy_docker fresh_env = (Err (Annotated (DockerError ''no'')), e) \<and>
      trail e \<noteq> trail fresh_env \<and> trail e \<noteq> trail fresh_env @ [ProcessRunningState]"
    by (simp add: env_Start_def sleepy_docker_def on_def call_def boot_def boot_steps_def OnBeforeStart_def env_Create_def
        Attach_def IsAttached_def wrap_def SetStream_def put_state_def SetState_def publish_def env_State_def
        NewEnvironment_def trail_def after_failed_start_def)
  then obtain e where run: "env_Start example_cfg sleepy_docker fresh_env = (Err (Annotated (DockerError ''no'')), e)"
    and e: "trail e \<noteq> trail fresh_env" "trail e \<noteq> trail fresh_env @ [ProcessRunningState]" by blast
  have "ev_st fresh_env = ProcessOfflineState" by (simp add: NewEnvironment_def)
  from start_outcomes [OF run _ this] e show ?thesis by (simp add: run)
qed

text \<open>A termination that reports success on a running container leaves the environment offline, however often
  the container is polled, and publishes stopping before offline.\<close>

theorem terminate_goes_offline:
  assumes "env_Terminate D ticks sig e = (Ok u, e')" "call (dk_inspect D) e = (Ok c, e1)" "ct_running c"
  shows "ev_st e' = ProcessOfflineState \<and>
    trail e' = (if ev_st e = ProcessStoppingState then trail e else trail e @ [ProcessStoppingState]) @ [ProcessOfflineState]"
proof -
  have e1: "abs_env (put_state ProcessStoppingState e1) = enter ProcessStoppingState (abs_env e)"
    using abs_call [OF assms(2)] by simp
  from assms obtain e2 where "abs_env e2 = enter ProcessStoppingState (abs_env e)" "await_exit D ticks e2 = (Ok u, e')"
    using e1 by (auto simp: env_Terminate_def on_def wrap_def split: prod.splits outcome.splits if_splits dest: abs_call)
  then have "abs_env e' = enter ProcessOfflineState (enter ProcessStoppingState (abs_env e))"
    using await_path [of D ticks e2 "Ok u" e'] by (simp add: goes_def)
  then show ?thesis by (auto simp: abs_env_def)
qed

definition busy_docker :: "unit docker" where
  "busy_docker = sleepy_docker\<lparr>dk_inspect := (\<lambda>d. (Ok \<lparr>ct_running = True, ct_exit = 0, ct_oom = False, ct_logpath = []\<rparr>, d))\<rparr>"

theorem terminate_goes_offline_witness:
  "ev_st (snd (env_Terminate busy_docker 1 ''SIGTERM'' fresh_env)) = ProcessOfflineState"
proof -
  have "\<exists>e'. env_Terminate busy_docker 1 ''SIGTERM'' fresh_env = (Ok (), e')"
    by (simp add: env_Terminate_def busy_docker_def sleepy_docker_def on_def call_def)
  then obtain e' where run: "env_Terminate busy_docker 1 ''SIGTERM'' fresh_env = (Ok (), e')" ..
  have "call (dk_inspect busy_docker) fresh_env = (Ok \<lparr>ct_running = True, ct_exit = 0, ct_oom = False, ct_logpath = []\<rparr>, fresh_env)"
    by (simp add: busy_docker_def call_def)
  from terminate_goes_offline [OF run this] run show ?thesis by simp
qed

end
