(* ===== verification/QuotaFs.thy ===== *)
theory QuotaFs
  imports UfsQuota UfsDescriptors
begin

text \<open>
  The filesystem that accounts for deletions (\<open>wings/internal/ufs/fs_quota.go\<close>): \<open>Quota\<close> embeds \<open>UnixFS\<close> and
  replaces the operations the recursive removal uses. Its state is a pair of the counters and the state of the
  operating system; \<open>lifted K\<close> is the kernel acting on the second component.
\<close>

section \<open>A kernel beside other state\<close>

definition lift_call :: "('w \<Rightarrow> 'r \<times> 'w) \<Rightarrow> 's \<times> 'w \<Rightarrow> 'r \<times> 's \<times> 'w" where
  "lift_call f = (\<lambda>(s, w). case f w of (r, w) \<Rightarrow> (r, s, w))"

definition lifted :: "'w kernel \<Rightarrow> ('s \<times> 'w) kernel" where
  "lifted K = \<lparr>
     k_openat = (\<lambda>d n f m. lift_call (k_openat K d n f m)),
     k_openat2 = (\<lambda>d n f m. lift_call (k_openat2 K d n f m)),
     k_evalsymlinks = (\<lambda>d. lift_call (k_evalsymlinks K d)),
     k_close = (\<lambda>d (s, w). (s, k_close K d w)),
     k_fchmodat = (\<lambda>d n m. lift_call (k_fchmodat K d n m)),
     k_fchownat = (\<lambda>d n i j f. lift_call (k_fchownat K d n i j f)),
     k_utimensat = (\<lambda>d n a b. lift_call (k_utimensat K d n a b)),
     k_mkdirat = (\<lambda>d n m. lift_call (k_mkdirat K d n m)),
     k_unlinkat = (\<lambda>d n f. lift_call (k_unlinkat K d n f)),
     k_renameat = (\<lambda>d n d' n'. lift_call (k_renameat K d n d' n')),
     k_symlinkat = (\<lambda>t d n. lift_call (k_symlinkat K t d n)),
     k_fstatat = (\<lambda>d n f. lift_call (k_fstatat K d n f)),
     k_getdents = (\<lambda>d. lift_call (k_getdents K d)),
     k_readdirnames = (\<lambda>d. lift_call (k_readdirnames K d))\<rparr>"

interpretation beside: guarded_kernel "lifted (traced K)" base "\<lambda>(s, w, l). log_ok base l" "\<lambda>(s, w, l). listed l"
  by unfold_locales
     (auto simp: lifted_def lift_call_def traced_def record_call_def open_ok_def name_ok_def split: prod.splits sum.splits)

text \<open>An update of the state beside the kernel.\<close>

definition update_state :: "('s \<Rightarrow> 'r \<times> 's) \<Rightarrow> ('r, 's \<times> 'w) fsop" where
  "update_state f = (\<lambda>(s, w). case f s of (r, s) \<Rightarrow> Some (r, s, w))"

lemma keeps_update_state [keeps_intros]: "beside.keeps base ns (update_state f)"
  by (rule beside.keepsI) (auto simp: update_state_def split: prod.splits)

section \<open>Removal\<close>

definition release :: "file_stat \<Rightarrow> (int, quota \<times> 'w) fsop" where
  "release s = update_state (Add (wrap64 (- fi_size s)))"

definition Quota_Remove :: "'w kernel \<Rightarrow> unix_fs \<Rightarrow> string \<Rightarrow> (err option, quota \<times> 'w) fsop" where
  "Quota_Remove K fs name w = do {
     ((s, e), w) \<leftarrow> RemoveStat (lifted K) fs name w;
     case e of
       Some e \<Rightarrow> Some (Some e, w)
     | None \<Rightarrow>
         if \<not> fi_IsRegular (the s) then Some (None, w)
         else do {
           (_, w) \<leftarrow> release (the s) w;
           Some (None, w) } }"

definition Quota_unlinkat :: "'w kernel \<Rightarrow> int \<Rightarrow> string \<Rightarrow> int \<Rightarrow> (errno + unit, quota \<times> 'w) fsop" where
  "Quota_unlinkat K dirfd name fl w = do {
     (_, w) \<leftarrow> (if fl = 0 then do {
         (r, w) \<leftarrow> Lstatat (lifted K) dirfd name w;
         case r of
           Inr s \<Rightarrow> if fi_IsRegular s then do { (_, w) \<leftarrow> release s w; Some ((), w) } else Some ((), w)
         | Inl _ \<Rightarrow> Some ((), w) }
       else Some ((), w));
     unlinkat (lifted K) dirfd name fl w }"

definition Quota_RemoveAll :: "'w kernel \<Rightarrow> unix_fs \<Rightarrow> nat \<Rightarrow> string \<Rightarrow> (err option, quota \<times> 'w) fsop" where
  "Quota_RemoveAll K fs n name w =
     (case unsafePath (basePath fs) name of
        Err e \<Rightarrow> Some (Some e, w)
      | Panic \<Rightarrow> None
      | Ok name \<Rightarrow>
          if name = ''.'' then Some (Some (BadPathResolution ''removeall'' name), w)
          else removeAll (lifted K) (Open (lifted K) fs) (Quota_Remove K fs) (Quota_unlinkat K) n name w)"

interpretation quota_removal: removal_fs "lifted (traced K)" base "\<lambda>(s, w, l). log_ok base l" "\<lambda>(s, w, l). listed l"
  "Open (lifted (traced K))" "Quota_Remove (traced K)" "Quota_unlinkat (traced K)"
proof unfold_locales
  show "beside.on_base base fs \<Longrightarrow> beside.keeps base ns (Open (lifted (traced K)) fs p)" for fs ns p
    by (rule beside.keeps_opens)
  show "beside.nameable ns n \<Longrightarrow> beside.keeps base ns (Quota_unlinkat (traced K) d n l)" for ns n d l
    unfolding Quota_unlinkat_def release_def by (auto intro!: keeps_intros)
  show "beside.on_base base fs \<Longrightarrow> beside.keeps base ns (Quota_Remove (traced K) fs p)" for fs ns p
    unfolding Quota_Remove_def release_def by (auto intro!: keeps_intros)
qed

lemma beside_RemoveAll:
  assumes "beside.on_base base fs"
  shows "beside.keeps base ns (Quota_RemoveAll (traced K) fs n p)"
proof -
  from assms obtain bs where bs: "good_base bs" "basePath fs = spell bs"
    by (auto simp: beside.on_base_def)
  have name: "unsafePath (basePath fs) p = Ok name \<Longrightarrow> splitPath name = (d, b) \<Longrightarrow> beside.nameable ns b" for name d b
    using safe_name_unsafePath [OF bs(1)] splitPath_safe_name bs(2) beside.nameable_safe by metis
  show ?thesis
    unfolding Quota_RemoveAll_def using assms name
    by (auto intro!: keeps_intros quota_removal.keeps_removeAll)
qed

text \<open>The deletions of the accounting filesystem are confined like those of the plain one: whatever path is
  given, every system call of \<open>RemoveAll\<close> and \<open>Remove\<close> names the base directory, a path of plain components or an
  entry the kernel listed.\<close>

theorem quota_removal_confined:
  assumes "good_base bs" "fs = \<lparr>basePath = spell bs, useOpenat2 = b\<rparr>"
    "Quota_RemoveAll (traced K) fs n path (q, w, []) = Some (r, (q', w', log)) \<or>
     Quota_Remove (traced K) fs path (q, w, []) = Some (r, (q', w', log))"
  shows "log_ok (spell bs) log"
proof -
  have base: "beside.on_base (spell bs) fs"
    using assms(1,2) by (auto simp: beside.on_base_def)
  from assms(3) show ?thesis
  proof
    assume run: "Quota_RemoveAll (traced K) fs n path (q, w, []) = Some (r, (q', w', log))"
    from beside.keepsD [OF beside_RemoveAll [OF base] _ _ run, of "{}"] show ?thesis by simp
  next
    assume run: "Quota_Remove (traced K) fs path (q, w, []) = Some (r, (q', w', log))"
    from beside.keepsD [OF quota_removal.remove_keeps [OF base] _ _ run, of "{}"] show ?thesis by simp
  qed
qed

text \<open>A kernel with one regular file of 7 bytes under every name, which it refuses to unlink.\<close>

definition stubborn_kernel :: "nat kernel" where
  "stubborn_kernel = counting_kernel\<lparr>k_fstatat := (\<lambda>d n l w.
     (Inr \<lparr>st_mode = S_IFREG, st_size = 7, st_mtime = 0, st_ino = 1, st_nlink = 1\<rparr>, w))\<rparr>"

theorem quota_removal_confined_witness:
  "\<exists>log. log \<noteq> [] \<and> log_ok ''/srv'' log"
proof -
  have base: "good_base [''srv'']" "spell [''srv''] = ''/srv''"
    by (simp_all add: good_base_def plain_def)
  have path: "unsafePath ''/srv'' ''x/../b'' = Ok ''b''" "Split ''b'' = ([], ''b'')"
    by code_simp+
  obtain r q w log where run: "Quota_Remove (traced counting_kernel) \<lparr>basePath = spell [''srv''], useOpenat2 = True\<rparr> ''x/../b''
      (NewQuota 0, 3, []) = Some (r, (q, w, log))" and "log \<noteq> []"
    by (simp add: base(2) path Quota_Remove_def RemoveStat_def with_path_def safePath_def raw_openat_def do_close_def
        close_all_def sys_def traced_def lifted_def lift_call_def record_call_def opened_def
        counting_kernel_def errno_err_def flag_defs Lstatat_def do_fstatat_def ignoringEINTR.simps
        ensurePathError_def)
  from quota_removal_confined [OF base(1) refl disjI2 [OF run]] \<open>log \<noteq> []\<close> show ?thesis
    by (auto simp: base(2))
qed

lemma lifted_EINTR:
  fixes f :: "'w \<Rightarrow> (errno + 'b) \<times> 'w" and s :: 's
  assumes run: "ignoringEINTR f w = Some (r, w')"
  shows "ignoringEINTR (lift_call f) (s, w) = Some (r, (s, w'))"
proof -
  have "ignoringEINTR (lift_call f) (s, w) = Some (fst (r, w'), (s, snd (r, w')))"
    using run
  proof (rule ignoringEINTR.raw_induct [where P =
      "\<lambda>f w y. ignoringEINTR (lift_call f) (s, w) = Some (fst y, (s, snd y))", rotated])
    fix go :: "('w \<Rightarrow> (errno + 'b) \<times> 'w) \<Rightarrow> 'w \<Rightarrow> ((errno + 'b) \<times> 'w) option"
      and fn :: "'w \<Rightarrow> (errno + 'b) \<times> 'w" and w y
    assume IH: "\<And>fn w y. go fn w = Some y \<Longrightarrow> ignoringEINTR (lift_call fn) (s, w) = Some (fst y, (s, snd y))"
      and eq: "(case fn w of (r, w') \<Rightarrow> if r = Inl EINTR then go fn w' else Some (r, w')) = Some y"
    obtain x v where v: "fn w = (x, v)" by (cases "fn w")
    show "ignoringEINTR (lift_call fn) (s, w) = Some (fst y, (s, snd y))"
    proof (cases "x = Inl EINTR")
      case True
      with eq v have "go fn v = Some y" by simp
      from IH [OF this] True v show ?thesis
        by (subst ignoringEINTR.simps) (simp add: lift_call_def)
    next
      case False
      with eq v show ?thesis
        by (subst ignoringEINTR.simps) (auto simp: lift_call_def)
    qed
  qed
  then show ?thesis by simp
qed

lemma lifted_Lstatat: "Lstatat K d n w = Some (r, w') \<Longrightarrow> Lstatat (lifted K) d n (s, w) = Some (r, (s, w'))"
proof -
  assume "Lstatat K d n w = Some (r, w')"
  then obtain x v where v: "ignoringEINTR (k_fstatat K d n AT_SYMLINK_NOFOLLOW) w = Some (x, v)"
    and r: "(case x of Inl e \<Rightarrow> Some (Inl (the (ensurePathError (Some (Errno e)) ''lstatat'' n)), v)
      | Inr st \<Rightarrow> Some (Inr (fillFileStatFromSys st n), v)) = Some (r, w')"
    by (auto simp: Lstatat_def do_fstatat_def Option.bind_eq_Some_conv)
  from lifted_EINTR [OF v, of s] r show ?thesis
    by (cases x) (simp_all add: Lstatat_def do_fstatat_def lifted_def)
qed

lemma lifted_unlinkat: "unlinkat K d n l w = Some (r, w') \<Longrightarrow> unlinkat (lifted K) d n l (s, w) = Some (r, (s, w'))"
  by (simp add: unlinkat_def lifted_def lifted_EINTR)

text \<open>The usage drops by the size of a regular file before the file is unlinked, whether or not unlinking then
  succeeds: a file that cannot be removed is no longer accounted for.\<close>

theorem failed_unlink_lowers_usage:
  assumes "Lstatat K dirfd name w = Some (Inr s, w1)" "fi_IsRegular s" "0 \<le> fi_size s" "fi_size s \<le> Usage q" "Usage q < 2 ^ 63"
    "unlinkat K dirfd name 0 w1 = Some (Inl e, w2)"
  shows "\<exists>q'. Quota_unlinkat K dirfd name 0 (q, w) = Some (Inl e, (q', w2)) \<and> Usage q' = Usage q - fi_size s"
proof -
  have "in_i64 (- fi_size s)" "in_i64 (Usage q + - fi_size s)"
    using assms(3-5) by (auto simp: in_i64_def)
  then have "Usage (snd (Add (wrap64 (- fi_size s)) q)) = Usage q - fi_size s"
    using assms(4) by (simp add: Add_exact)
  moreover obtain x q' where "Add (wrap64 (- fi_size s)) q = (x, q')" by force
  ultimately show ?thesis
    using assms(2) lifted_Lstatat [OF assms(1), of q] lifted_unlinkat [OF assms(6), of q']
    by (simp add: Quota_unlinkat_def release_def update_state_def)
qed

theorem failed_unlink_lowers_usage_witness:
  "\<exists>q'. Quota_unlinkat stubborn_kernel 3 ''f'' 0 (\<lparr>q_limit = 100, q_usage = 50\<rparr>, 4) = Some (Inl EACCES, (q', 4)) \<and> Usage q' = 43"
proof -
  let ?st = "\<lparr>st_mode = S_IFREG, st_size = 7, st_mtime = 0, st_ino = 1, st_nlink = 1\<rparr>"
  have stat: "Lstatat stubborn_kernel 3 ''f'' 4 = Some (Inr (fillFileStatFromSys ?st ''f''), 4)"
    by (simp add: Lstatat_def do_fstatat_def ignoringEINTR_done stubborn_kernel_def)
  have reg: "fi_IsRegular (fillFileStatFromSys ?st ''f'')" "fi_size (fillFileStatFromSys ?st ''f'') = 7"
    by (simp_all add: fi_IsRegular_def fillFileStatFromSys_def mode_from_sys_def type_bits_def mode_defs ModeType_def)
  have unlink: "unlinkat stubborn_kernel 3 ''f'' 0 4 = Some (Inl EACCES, 4)"
    by (simp add: unlinkat_def ignoringEINTR_done stubborn_kernel_def counting_kernel_def)
  from failed_unlink_lowers_usage [OF stat reg(1) _ _ _ unlink, of "\<lparr>q_limit = 100, q_usage = 50\<rparr>"] reg(2)
  show ?thesis by (simp add: Usage_def)
qed

end
