(* ===== verification/FsDisk.thy ===== *)
theory FsDisk
  imports QuotaFs
begin

text \<open>
  The disk accounting of a server's filesystem (\<open>wings/server/filesystem/disk_space.go\<close>): the size of a
  directory tree, the cached usage and the checks made before writing and booting.

  Times are nanoseconds; \<open>None\<close> is the zero time of a filesystem whose size was never looked up.
\<close>

datatype fs_error = FsIsDirectory string | FsNoDiskSpace | FsUnder err | FsWrapped string fs_error
  | FsDenylist string | FsUnknownArchive | FsMsg string

record filesystem =
  fsys_unix :: unix_fs
  fsys_interval :: int
  fsys_isTest :: bool
  fsys_uid :: int
  fsys_gid :: int

record disk_cache =
  lastLookupTime :: "int option"
  lookupInProgress :: bool

section \<open>The size of a tree\<close>

text \<open>The two variables the callback of \<open>DirectorySize\<close> assigns: the inodes with several links it has met, and the size.\<close>

type_synonym size_state = "nat list \<times> int"

definition count_file :: "file_stat \<Rightarrow> size_state \<Rightarrow> unit \<times> size_state" where
  "count_file info = (\<lambda>(hardLinks, used).
     ((), if st_nlink (fi_sys info) > 1
          then if st_ino (fi_sys info) \<in> set hardLinks then (hardLinks, used)
               else (hardLinks @ [st_ino (fi_sys info)], wrap64 (used + fi_size info))
          else (hardLinks, wrap64 (used + fi_size info))))"

definition size_visit :: "'w kernel \<Rightarrow> (size_state \<times> 'w) walk_fn" where
  "size_visit K dirfd name rel d e w =
     (case e of
        Some er \<Rightarrow> Some (Some (Wrapped ''walkdirat err'' er), w)
      | None \<Rightarrow>
          if case d of None \<Rightarrow> False | Some d \<Rightarrow> de_modeType d AND ModeType \<noteq> 0 then Some (None, w)
          else do {
            (r, w) \<leftarrow> Lstatat (lifted K) dirfd name w;
            case r of
              Inl er \<Rightarrow> Some (Some (Wrapped ''lstatat err'' er), w)
            | Inr info \<Rightarrow> do { (_, w) \<leftarrow> update_state (count_file info) w; Some (None, w) } })"

definition DirectorySize :: "'w kernel \<Rightarrow> unix_fs \<Rightarrow> nat \<Rightarrow> string \<Rightarrow> (int \<times> err option, 'w) fsop" where
  "DirectorySize K fs n root =
     with_path K fs root (\<lambda>e. (0, Some e)) (\<lambda>dirfd name w. do {
       (e, (s, w)) \<leftarrow> WalkDirat (lifted K) fs n dirfd name (size_visit K) (([], 0), w);
       Some ((snd s, map_option (Wrapped ''server/filesystem: directorysize: failed to walk directory'') e), w) })"

definition linked :: "file_stat \<Rightarrow> bool" where
  "linked i \<longleftrightarrow> st_nlink (fi_sys i) > 1"

definition count_files :: "file_stat list \<Rightarrow> size_state \<Rightarrow> size_state" where
  "count_files infos s = fold (\<lambda>i s. snd (count_file i s)) infos s"

definition tree_size :: "(nat \<Rightarrow> int) \<Rightarrow> file_stat list \<Rightarrow> int" where
  "tree_size sz infos =
     sum_list (map fi_size (filter (\<lambda>i. \<not> linked i) infos)) + (\<Sum>n \<in> set (map (st_ino \<circ> fi_sys) (filter linked infos)). sz n)"

lemma count_files_exact:
  assumes "\<forall>i \<in> set infos. 0 \<le> fi_size i \<and> (linked i \<longrightarrow> fi_size i = sz (st_ino (fi_sys i)))"
    "0 \<le> used" "used + sum_list (map fi_size infos) < 2 ^ 63"
  shows "snd (count_files infos (seen, used)) =
    used + sum_list (map fi_size (filter (\<lambda>i. \<not> linked i) infos)) +
      (\<Sum>n \<in> set (map (st_ino \<circ> fi_sys) (filter linked infos)) - set seen. sz n)"
  using assms
proof (induction infos arbitrary: seen used)
  case Nil
  then show ?case by (simp add: count_files_def)
next
  case (Cons i infos)
  let ?L = "\<lambda>s. set (map (st_ino \<circ> fi_sys) (filter linked infos)) - set s"
  have rest: "0 \<le> sum_list (map fi_size infos)"
    using Cons.prems(1) by (intro sum_list_nonneg) auto
  then have fit: "wrap64 (used + fi_size i) = used + fi_size i"
    using Cons.prems by (intro wrap64_mono_nonneg) auto
  have step: "snd (count_files (i # infos) (seen, used)) = snd (count_files infos (snd (count_file i (seen, used))))"
    by (simp add: count_files_def)
  show ?case
  proof (cases "linked i")
    case False
    then have "snd (count_file i (seen, used)) = (seen, used + fi_size i)"
      using fit by (simp add: count_file_def linked_def)
    with Cons.IH [of "used + fi_size i" seen] Cons.prems False show ?thesis
      by (simp add: step)
  next
    case True
    show ?thesis
    proof (cases "st_ino (fi_sys i) \<in> set seen")
      case seen: True
      then have "snd (count_file i (seen, used)) = (seen, used)"
        using True by (simp add: count_file_def linked_def)
      moreover have "used + sum_list (map fi_size infos) < 2 ^ 63"
        using Cons.prems by auto
      moreover have "insert (st_ino (fi_sys i)) A - set seen = A - set seen" for A
        using seen by auto
      ultimately show ?thesis
        using Cons.IH [of used seen] Cons.prems True by (simp add: step)
    next
      case new: False
      then have "snd (count_file i (seen, used)) = (seen @ [st_ino (fi_sys i)], used + fi_size i)"
        using True fit by (simp add: count_file_def linked_def)
      moreover have "set (map (st_ino \<circ> fi_sys) (filter linked (i # infos))) - set seen =
          insert (st_ino (fi_sys i)) (?L (seen @ [st_ino (fi_sys i)]))"
        using True new by auto
      moreover have "(\<Sum>n \<in> insert (st_ino (fi_sys i)) (?L (seen @ [st_ino (fi_sys i)])). sz n) =
          sz (st_ino (fi_sys i)) + (\<Sum>n \<in> ?L (seen @ [st_ino (fi_sys i)]). sz n)"
        by (intro sum.insert) auto
      ultimately show ?thesis
        using Cons.IH [of "used + fi_size i" "seen @ [st_ino (fi_sys i)]"] Cons.prems True by (simp add: step)
    qed
  qed
qed

text \<open>C29: The size counted for the files a walk meets is the sum of the sizes of those with one link plus, for every
  inode met under several names, its size once: hard links are not counted twice.\<close>

theorem hard_links_counted_once:
  assumes "\<forall>i \<in> set infos. 0 \<le> fi_size i \<and> (linked i \<longrightarrow> fi_size i = sz (st_ino (fi_sys i)))"
    "sum_list (map fi_size infos) < 2 ^ 63"
  shows "snd (count_files infos ([], 0)) = tree_size sz infos"
  using count_files_exact [OF assms(1), of 0 "[]"] assms(2) by (simp add: tree_size_def)

definition example_file :: "nat \<Rightarrow> nat \<Rightarrow> int \<Rightarrow> file_stat" where
  "example_file ino links sz =
     fillFileStatFromSys \<lparr>st_mode = S_IFREG, st_size = sz, st_mtime = 0, st_ino = ino, st_nlink = links\<rparr> ''f''"

theorem hard_links_counted_once_witness:
  "snd (count_files [example_file 1 1 5, example_file 2 2 7, example_file 2 2 7] ([], 0)) = 12"
  using hard_links_counted_once [of "[example_file 1 1 5, example_file 2 2 7, example_file 2 2 7]" "\<lambda>_. 7"]
  by (simp add: tree_size_def linked_def example_file_def fillFileStatFromSys_def)

section \<open>Cached usage\<close>

definition updateCachedDiskUsage ::
  "'w kernel \<Rightarrow> filesystem \<Rightarrow> nat \<Rightarrow> int \<Rightarrow> disk_cache \<times> quota \<Rightarrow> (int \<times> err option \<times> disk_cache \<times> quota, 'w) fsop" where
  "updateCachedDiskUsage K fs n now cq w = do {
     ((used, e), w) \<leftarrow> DirectorySize K (fsys_unix fs) n ''/'' w;
     let c = (fst cq)\<lparr>lastLookupTime := Some now, lookupInProgress := False\<rparr>;
     let q = snd (SetUsage used (snd cq));
     Some ((used, e, c, q), w) }"

text \<open>
  The last component of the result of \<open>DiskUsage\<close> says whether it left a lookup to a routine of its own, which
  runs \<open>updateCachedDiskUsage\<close> later.
\<close>

definition DiskUsage ::
  "'w kernel \<Rightarrow> filesystem \<Rightarrow> nat \<Rightarrow> int \<Rightarrow> bool \<Rightarrow> disk_cache \<times> quota \<Rightarrow>
    ((int \<times> err option \<times> disk_cache \<times> quota) \<times> bool, 'w) fsop" where
  "DiskUsage K fs n now allowStaleValue cq w =
     (let cached = (Usage (snd cq), None, cq)
      in if fsys_interval fs = 0 then Some (((0, None, cq), False), w)
         else if case lastLookupTime (fst cq) of None \<Rightarrow> True | Some t \<Rightarrow> \<not> t > now - 1000000000 * fsys_interval fs
         then if \<not> allowStaleValue then do {
                (r, w) \<leftarrow> updateCachedDiskUsage K fs n now cq w;
                Some ((r, False), w) }
              else if \<not> lookupInProgress (fst cq) then Some ((cached, True), w)
              else Some ((cached, False), w)
         else Some ((cached, False), w))"

definition HasSpaceAvailable ::
  "'w kernel \<Rightarrow> filesystem \<Rightarrow> nat \<Rightarrow> int \<Rightarrow> bool \<Rightarrow> disk_cache \<times> quota \<Rightarrow> (bool \<times> (disk_cache \<times> quota) \<times> bool, 'w) fsop" where
  "HasSpaceAvailable K fs n now allowStaleValue cq w = do {
     (((used, e, cq), spawned), w) \<leftarrow> DiskUsage K fs n now allowStaleValue cq w;
     Some ((if Limit (snd cq) = 0 then True else used \<le> Limit (snd cq), cq, spawned), w) }"

definition HasSpaceErr ::
  "'w kernel \<Rightarrow> filesystem \<Rightarrow> nat \<Rightarrow> int \<Rightarrow> bool \<Rightarrow> disk_cache \<times> quota \<Rightarrow> (fs_error option \<times> disk_cache \<times> quota, 'w) fsop" where
  "HasSpaceErr K fs n now allowStaleValue cq w = do {
     ((ok, cq, _), w) \<leftarrow> HasSpaceAvailable K fs n now allowStaleValue cq w;
     Some ((if \<not> ok then Some FsNoDiskSpace else None, cq), w) }"

definition HasSpaceFor :: "int \<Rightarrow> quota \<Rightarrow> fs_error option" where
  "HasSpaceFor sz q = (if \<not> CanFit sz q then Some FsNoDiskSpace else None)"

definition SetDiskLimit :: "int \<Rightarrow> quota \<Rightarrow> quota" where
  "SetDiskLimit i q = snd (SetLimit i q)"

lemma SetUsage_simps [simp]: "Usage (snd (SetUsage n q)) = n" "Limit (snd (SetUsage n q)) = Limit q"
  by (simp_all add: SetUsage_def Usage_def Limit_def)

text \<open>Before a boot the space check measures the tree: once the cached size has expired and no stale value is
  allowed, the server may start exactly when it has no limit or the size counted now, even if the count failed
  half-way, is within it; that size becomes the usage, and until the interval has passed again every check answers
  from it without touching the disk.\<close>

theorem boot_check_measures:
  assumes "fsys_interval fs > 0" "lastLookupTime c = None \<or> (\<exists>t. lastLookupTime c = Some t \<and> t + 1000000000 * fsys_interval fs \<le> now)"
    "DirectorySize K (fsys_unix fs) n ''/'' w = Some ((used, e), w')"
    "now \<le> later" "later < now + 1000000000 * fsys_interval fs"
  shows "\<exists>c' q'. HasSpaceAvailable K fs n now False (c, q) w = Some ((Limit q = 0 \<or> used \<le> Limit q, (c', q'), False), w') \<and>
    Usage q' = used \<and> Limit q' = Limit q \<and>
    HasSpaceAvailable K fs n later b (c', q') w'' = Some ((Limit q = 0 \<or> used \<le> Limit q, (c', q'), False), w'')"
  using assms by (auto simp: HasSpaceAvailable_def DiskUsage_def updateCachedDiskUsage_def Let_def split: option.splits)

theorem boot_check_measures_witness:
  "\<exists>c q. HasSpaceAvailable counting_kernel
      \<lparr>fsys_unix = \<lparr>basePath = ''/srv'', useOpenat2 = True\<rparr>, fsys_interval = 150, fsys_isTest = False, fsys_uid = 988, fsys_gid = 988\<rparr>
      5 200 False (\<lparr>lastLookupTime = None, lookupInProgress = False\<rparr>, NewQuota 10) 3 = Some ((True, (c, q), False), 4)"
proof -
  let ?fs = "\<lparr>fsys_unix = \<lparr>basePath = ''/srv'', useOpenat2 = True\<rparr>, fsys_interval = 150, fsys_isTest = False, fsys_uid = 988, fsys_gid = 988\<rparr>"
  have path: "unsafePath ''/srv'' ''/'' = Ok ''.''" "Split ''.'' = ([], ''.'')"
    by code_simp+
  have "\<exists>e. DirectorySize counting_kernel (fsys_unix ?fs) 5 ''/'' 3 = Some ((0, e), 4)"
    by (simp add: DirectorySize_def with_path_def safePath_def raw_openat_def path WalkDirat_def size_visit_def Lstatat_def
        do_fstatat_def ignoringEINTR.simps lifted_def lift_call_def counting_kernel_def sys_def do_close_def close_all_def
        ensurePathError_def as_path_error.simps errnoToPathError_def)
  then obtain e where run: "DirectorySize counting_kernel (fsys_unix ?fs) 5 ''/'' 3 = Some ((0, e), 4)" ..
  have "0 \<le> Limit (NewQuota 10)"
    by (simp add: Limit_def NewQuota_def)
  with boot_check_measures [OF _ _ run, of "\<lparr>lastLookupTime = None, lookupInProgress = False\<rparr>" 200 200 "NewQuota 10" False 0]
  show ?thesis by (simp del: NewQuota_def) blast
qed

section \<open>Measuring is confined\<close>

lemma keeps_beside:
  assumes "beside.keeps base ns m"
  shows "traced.keeps base ns (\<lambda>w. do { (r, (s, w)) \<leftarrow> m (s0, w); Some (g r s, w) })"
proof (rule traced.keepsI)
  fix w r w'
  assume w: "case w of (w, l) \<Rightarrow> log_ok base l" "ns \<subseteq> (case w of (w, l) \<Rightarrow> listed l)"
    and run: "(do { (r, (s, w)) \<leftarrow> m (s0, w); Some (g r s, w) }) = Some (r, w')"
  from run obtain x s where x: "m (s0, w) = Some (x, (s, w'))"
    by (auto simp: Option.bind_eq_Some_conv)
  from beside.keepsD [OF assms _ _ x] w
  show "(case w' of (w, l) \<Rightarrow> log_ok base l) \<and> (case w of (w, l) \<Rightarrow> listed l) \<subseteq> (case w' of (w, l) \<Rightarrow> listed l)"
    by (auto split: prod.splits)
qed

lemma keeps_size_visit: "beside.nameable ns n \<Longrightarrow> beside.keeps base ns (size_visit (traced K) d n rel de e)"
  unfolding size_visit_def by (auto intro!: keeps_intros)

lemma keeps_DirectorySize:
  assumes "traced.on_base base fs"
  shows "traced.keeps base ns (DirectorySize (traced K) fs n root)"
proof -
  have "traced.keeps base ms (\<lambda>w. do {
       (e, (s, w)) \<leftarrow> WalkDirat (lifted (traced K)) fs n dirfd name (size_visit (traced K)) (([], 0), w);
       Some ((snd s, map_option (Wrapped ''server/filesystem: directorysize: failed to walk directory'') e), w) })"
    if "traced.nameable ms name" for ms dirfd name
  proof (rule keeps_beside)
    have "beside.nameable ms name" using that by (simp add: traced.nameable_def beside.nameable_def)
    then show "beside.keeps base ms (WalkDirat (lifted (traced K)) fs n dirfd name (size_visit (traced K)))"
      by (intro beside.keeps_WalkDirat keeps_size_visit)
  qed
  then show ?thesis
    unfolding DirectorySize_def by (intro traced.keeps_with_path assms)
qed

end
