(* ===== verification/FsFiles.thy ===== *)
theory FsFiles
  imports FsDisk "HOL-Library.Char_ord" "HOL-Library.List_Lexorder" "HOL-Library.Multiset"
begin

text \<open>
  The files of a server (\<open>wings/server/filesystem/filesystem.go\<close>): writing, copying, changing owners, deleting and
  listing through the accounting filesystem. The state is the pair of the counters and the operating system.

  What an open file does is a record of functions: \<open>fio_copy\<close> is \<open>io.Copy\<close> into a file (the data to read is part
  of the state), with the limit of an \<open>io.LimitReader\<close> if there is one; \<open>fio_stat\<close> is \<open>fstat\<close> on the descriptor;
  \<open>fio_mime\<close> detects the type of the content, which a library does.
\<close>

record 'w file_io =
  fio_copy :: "int \<Rightarrow> int option \<Rightarrow> 'w \<Rightarrow> (int \<times> err option) \<times> 'w"
  fio_stat :: "int \<Rightarrow> 'w \<Rightarrow> (errno + sys_stat) \<times> 'w"
  fio_mime :: "int \<Rightarrow> 'w \<Rightarrow> string option \<times> 'w"

section \<open>Writing\<close>

definition use_quota :: "(quota \<Rightarrow> 'r) \<Rightarrow> ('r, quota \<times> 'w) fsop" where
  "use_quota f = update_state (\<lambda>q. (f q, q))"

definition add_usage :: "int \<Rightarrow> (int, quota \<times> 'w) fsop" where
  "add_usage i = update_state (Add (wrap64 i))"

definition io_op :: "('w \<Rightarrow> 'r \<times> 'w) \<Rightarrow> ('r, quota \<times> 'w) fsop" where
  "io_op f = sys (lift_call f)"

definition chownFile :: "'w kernel \<Rightarrow> filesystem \<Rightarrow> string \<Rightarrow> (err option, quota \<times> 'w) fsop" where
  "chownFile K fs name w =
     (if fsys_isTest fs then Some (None, w)
      else Lchown (lifted K) (fsys_unix fs) name (fsys_uid fs) (fsys_gid fs) w)"

text \<open>The size of the file that will be overwritten, zero if there is none.\<close>

definition current_size :: "'w kernel \<Rightarrow> filesystem \<Rightarrow> string \<Rightarrow> (fs_error + int, quota \<times> 'w) fsop" where
  "current_size K fs p w = do {
     (r, w) \<leftarrow> Stat (lifted K) (fsys_unix fs) p w;
     Some (case r of
       Inl e \<Rightarrow> if \<not> is_sentinel ErrNotExist e
                then Inl (FsWrapped ''server/filesystem: writefile: failed to stat file'' (FsUnder e)) else Inr 0
     | Inr st \<Rightarrow> if fi_IsDir st then Inl (FsIsDirectory []) else Inr (fi_size st), w) }"

definition Writefile :: "'w kernel \<Rightarrow> 'w file_io \<Rightarrow> filesystem \<Rightarrow> string \<Rightarrow> (fs_error option, quota \<times> 'w) fsop" where
  "Writefile K io fs p w = do {
     (c, w) \<leftarrow> current_size K fs p w;
     case c of
       Inl e \<Rightarrow> Some (Some e, w)
     | Inr currentSize \<Rightarrow> do {
         (f, w) \<leftarrow> Touch (lifted K) (fsys_unix fs) p (O_RDWR OR O_TRUNC) 0x1A4 w;
         case f of
           Inl e \<Rightarrow> Some (Some (FsWrapped ''error touching file'' (FsUnder e)), w)
         | Inr file \<Rightarrow> do {
             ((n, e), w) \<leftarrow> io_op (fio_copy io file None) w;
             (_, w) \<leftarrow> add_usage (n - currentSize) w;
             (ce, w) \<leftarrow> chownFile K fs p w;
             (_, w) \<leftarrow> do_close (lifted K) [file] w;
             Some (case ce of Some ce \<Rightarrow> Some (FsWrapped ''error chowning file'' (FsUnder ce)) | None \<Rightarrow> map_option FsUnder e, w) } } }"

text \<open>\<open>Write\<close> once the file is open; the descriptor is closed at the end on every path.\<close>

definition write_opened :: "'w kernel \<Rightarrow> 'w file_io \<Rightarrow> filesystem \<Rightarrow> string \<Rightarrow> int \<Rightarrow> int \<Rightarrow> int \<Rightarrow> (fs_error option, quota \<times> 'w) fsop" where
  "write_opened K io fs p newSize currentSize file w = do {
     (e, w) \<leftarrow> (if newSize = 0 then do { (_, w) \<leftarrow> add_usage (- currentSize) w; Some (None, w) }
       else do {
         ((n, e), w) \<leftarrow> io_op (fio_copy io file (Some newSize)) w;
         (_, w) \<leftarrow> add_usage (n - currentSize) w;
         Some (e, w) });
     (ce, w) \<leftarrow> chownFile K fs p w;
     (_, w) \<leftarrow> do_close (lifted K) [file] w;
     Some (map_option FsUnder (case ce of Some ce \<Rightarrow> Some ce | None \<Rightarrow> e), w) }"

definition Write :: "'w kernel \<Rightarrow> 'w file_io \<Rightarrow> filesystem \<Rightarrow> string \<Rightarrow> int \<Rightarrow> file_mode \<Rightarrow> (fs_error option, quota \<times> 'w) fsop" where
  "Write K io fs p newSize mode w = do {
     (c, w) \<leftarrow> current_size K fs p w;
     case c of
       Inl e \<Rightarrow> Some (Some e, w)
     | Inr currentSize \<Rightarrow> do {
         (full, w) \<leftarrow> use_quota (HasSpaceFor (wrap64 (newSize - currentSize))) w;
         case full of
           Some e \<Rightarrow> Some (Some e, w)
         | None \<Rightarrow> do {
             (f, w) \<leftarrow> Touch (lifted K) (fsys_unix fs) p (O_RDWR OR O_TRUNC) mode w;
             case f of
               Inl e \<Rightarrow> Some (Some (FsUnder e), w)
             | Inr file \<Rightarrow> write_opened K io fs p newSize currentSize file w } } }"

definition CreateDirectory :: "'w kernel \<Rightarrow> filesystem \<Rightarrow> string \<Rightarrow> string \<Rightarrow> (err option, 'w) fsop" where
  "CreateDirectory K fs name p = MkdirAll K (fsys_unix fs) (Join [p, name]) 0x1ED"

section \<open>Owners\<close>

definition chown_visit :: "'w kernel \<Rightarrow> int \<Rightarrow> int \<Rightarrow> 'w walk_fn" where
  "chown_visit K uid gid dirfd name rel d e w = (case e of Some e \<Rightarrow> Some (Some e, w) | None \<Rightarrow> Lchownat K dirfd name uid gid w)"

definition fs_Chown :: "'w kernel \<Rightarrow> filesystem \<Rightarrow> nat \<Rightarrow> string \<Rightarrow> (fs_error option, 'w) fsop" where
  "fs_Chown K fs n p w =
     (if fsys_isTest fs then Some (None, w)
      else with_path K (fsys_unix fs) p (\<lambda>e. Some (FsUnder e)) (\<lambda>dirfd name w. do {
        (e, w) \<leftarrow> Lchownat K dirfd name (fsys_uid fs) (fsys_gid fs) w;
        case e of
          Some e \<Rightarrow> Some (Some (FsWrapped ''server/filesystem: chown: failed to chown path'' (FsUnder e)), w)
        | None \<Rightarrow> do {
            (r, w) \<leftarrow> Lstatat K dirfd name w;
            if (case r of Inl _ \<Rightarrow> True | Inr st \<Rightarrow> \<not> fi_IsDir st) then Some (None, w)
            else do {
              (e, w) \<leftarrow> WalkDirat K (fsys_unix fs) n dirfd name (chown_visit K (fsys_uid fs) (fsys_gid fs)) w;
              Some (map_option (\<lambda>e. FsWrapped ''server/filesystem: chown: failed to chown during walk function'' (FsUnder e)) e, w) } } }) w)"

section \<open>Names of copies\<close>

text \<open>\<open>filepath.Ext\<close>: the scan from the end, here over the reversed name.\<close>

fun ext_scan :: "string \<Rightarrow> string \<Rightarrow> string" where
  "ext_scan [] acc = []"
| "ext_scan (c # cs) acc = (if c = slash then [] else if c = CHR ''.'' then c # acc else ext_scan cs (c # acc))"

definition filepath_Ext :: "string \<Rightarrow> string" where
  "filepath_Ext n = ext_scan (rev n) []"

definition Ext :: "string \<Rightarrow> string" where
  "Ext n =
     (let extension = filepath_Ext n; baseName = TrimSuffix n extension
      in if HasSuffix baseName ''.tar'' then ''.tar'' @ extension else extension)"

definition copy_suffix :: "string \<Rightarrow> nat \<Rightarrow> string" where
  "copy_suffix now i =
     (if i = 0 then [] else if i = 1 then '' copy'' else if i = 50 then '' copy.'' @ now else '' copy '' @ Itoa (int i - 1))"

fun try_copies :: "'w kernel \<Rightarrow> int \<Rightarrow> (nat \<Rightarrow> string) \<Rightarrow> nat list \<Rightarrow> string \<Rightarrow> (err + string, 'w) fsop" where
  "try_copies K dirfd cand [] final w = Some (Inr final, w)"
| "try_copies K dirfd cand (i # is) final w = do {
     (r, w) \<leftarrow> Lstatat K dirfd (cand i) w;
     case r of
       Inl e \<Rightarrow> if \<not> is_sentinel ErrNotExist e then Some (Inl e, w) else Some (Inr (cand i), w)
     | Inr _ \<Rightarrow> try_copies K dirfd cand is (cand i) w }"

definition findCopySuffix :: "'w kernel \<Rightarrow> string \<Rightarrow> int \<Rightarrow> string \<Rightarrow> string \<Rightarrow> (err + string, 'w) fsop" where
  "findCopySuffix K now dirfd name extension =
     try_copies K dirfd (\<lambda>i. name @ copy_suffix now i @ extension) [0..<51] []"

text \<open>
  \<open>Copy\<close> in steps: the data into the new name, the choice of the name, the checks once the source is open, and
  the whole. Nothing closes the destination.
\<close>

definition copy_to :: "'w kernel \<Rightarrow> 'w file_io \<Rightarrow> filesystem \<Rightarrow> int \<Rightarrow> string \<Rightarrow> file_stat \<Rightarrow> (fs_error option, quota \<times> 'w) fsop" where
  "copy_to K io fs dirfd newName info w = do {
     (d, w) \<leftarrow> OpenFileat (lifted K) (fsys_unix fs) dirfd newName (O_WRONLY OR O_CREATE) (fi_mode info) w;
     case d of
       Inl e \<Rightarrow> Some (Some (FsUnder e), w)
     | Inr dst \<Rightarrow> do {
         ((n, e), w) \<leftarrow> io_op (fio_copy io dst (Some (fi_size info))) w;
         (_, w) \<leftarrow> add_usage n w;
         (ce, w) \<leftarrow> (if \<not> fsys_isTest fs
            then Lchownat (lifted K) dirfd newName (fsys_uid fs) (fsys_gid fs) w else Some (None, w));
         Some (map_option FsUnder (case ce of Some ce \<Rightarrow> Some ce | None \<Rightarrow> e), w) } }"

definition copy_named :: "'w kernel \<Rightarrow> 'w file_io \<Rightarrow> filesystem \<Rightarrow> string \<Rightarrow> int \<Rightarrow> string \<Rightarrow> file_stat \<Rightarrow> (fs_error option, quota \<times> 'w) fsop" where
  "copy_named K io fs now dirfd base info w = do {
     (nn, w) \<leftarrow> findCopySuffix (lifted K) now dirfd (TrimSuffix base (Ext base)) (Ext base) w;
     case nn of
       Inl e \<Rightarrow> Some (Some (FsUnder e), w)
     | Inr newName \<Rightarrow> copy_to K io fs dirfd newName info w }"

definition copy_file :: "'w kernel \<Rightarrow> 'w file_io \<Rightarrow> filesystem \<Rightarrow> string \<Rightarrow> int \<Rightarrow> string \<Rightarrow> int \<Rightarrow> (fs_error option, quota \<times> 'w) fsop" where
  "copy_file K io fs now dirfd name source w = do {
     (st, w) \<leftarrow> io_op (fio_stat io source) w;
     case st of
       Inl e \<Rightarrow> Some (Some (FsUnder (Errno e)), w)
     | Inr st \<Rightarrow>
         (let info = fillFileStatFromSys st name; base = basename name
          in if fi_IsDir info \<or> \<not> fi_IsRegular info then Some (Some (FsUnder (Sentinel ErrNotExist)), w)
             else do {
               (full, w) \<leftarrow> use_quota (HasSpaceFor (fi_size info)) w;
               case full of
                 Some e \<Rightarrow> Some (Some e, w)
               | None \<Rightarrow> copy_named K io fs now dirfd base info w }) }"

definition Copy :: "'w kernel \<Rightarrow> 'w file_io \<Rightarrow> filesystem \<Rightarrow> string \<Rightarrow> string \<Rightarrow> (fs_error option, quota \<times> 'w) fsop" where
  "Copy K io fs now p =
     with_path (lifted K) (fsys_unix fs) p (\<lambda>e. Some (FsUnder e)) (\<lambda>dirfd name w. do {
       (s, w) \<leftarrow> OpenFileat (lifted K) (fsys_unix fs) dirfd name O_RDONLY 0 w;
       case s of
         Inl e \<Rightarrow> Some (Some (FsUnder e), w)
       | Inr source \<Rightarrow> do {
           (r, w) \<leftarrow> copy_file K io fs now dirfd name source w;
           (_, w) \<leftarrow> do_close (lifted K) [source] w;
           Some (r, w) } })"

section \<open>Deleting\<close>

definition Delete :: "'w kernel \<Rightarrow> filesystem \<Rightarrow> nat \<Rightarrow> string \<Rightarrow> (err option, quota \<times> 'w) fsop" where
  "Delete K fs n p = Quota_RemoveAll K (fsys_unix fs) n p"

text \<open>
  The loop of \<open>SafeDeleteRecursively\<close> over the entries of a directory: \<open>again\<close> is the recursive call, \<open>ignored\<close> the
  denylist of the server (decided by a library). The state of the loop is whether files remain.
\<close>

fun delete_entries ::
  "'w kernel \<Rightarrow> filesystem \<Rightarrow> nat \<Rightarrow> (string \<Rightarrow> bool) \<Rightarrow> (string \<Rightarrow> (err option, quota \<times> 'w) fsop) \<Rightarrow> string \<Rightarrow>
   dirent list \<Rightarrow> bool \<Rightarrow> (err option \<times> bool, quota \<times> 'w) fsop" where
  "delete_entries K fs n ignored again p [] remaining w = Some ((None, remaining), w)"
| "delete_entries K fs n ignored again p (e # es) remaining w =
     (let child = Join [p, de_name e]
      in if de_IsDir e then do {
           (r, w) \<leftarrow> again child w;
           case r of
             Some er \<Rightarrow> Some ((Some er, remaining), w)
           | None \<Rightarrow> do {
               (st, w) \<leftarrow> Lstat (lifted K) (fsys_unix fs) child w;
               delete_entries K fs n ignored again p es (case st of Inr _ \<Rightarrow> True | Inl _ \<Rightarrow> remaining) w } }
         else if ignored child then delete_entries K fs n ignored again p es True w
         else do {
           (r, w) \<leftarrow> Delete K fs n child w;
           case r of
             Some er \<Rightarrow> Some ((Some er, remaining), w)
           | None \<Rightarrow> delete_entries K fs n ignored again p es remaining w })"

fun SafeDeleteRecursively ::
  "'w kernel \<Rightarrow> filesystem \<Rightarrow> nat \<Rightarrow> (string \<Rightarrow> bool) \<Rightarrow> nat \<Rightarrow> string \<Rightarrow> (err option, quota \<times> 'w) fsop" where
  "SafeDeleteRecursively K fs n ignored 0 p w = None"
| "SafeDeleteRecursively K fs n ignored (Suc k) p w = do {
     (r, w) \<leftarrow> Lstat (lifted K) (fsys_unix fs) p w;
     case r of
       Inl e \<Rightarrow> Some (Some e, w)
     | Inr info \<Rightarrow>
         if ignored p then Some (None, w)
         else if \<not> fi_IsDir info then Delete K fs n p w
         else do {
           (ds, w) \<leftarrow> ReadDir (lifted K) (fsys_unix fs) p w;
           case ds of
             Inl e \<Rightarrow> Some (Some e, w)
           | Inr entries \<Rightarrow> do {
               ((e, remaining), w) \<leftarrow> delete_entries K fs n ignored (SafeDeleteRecursively K fs n ignored k) p entries False w;
               case e of
                 Some e \<Rightarrow> Some (Some e, w)
               | None \<Rightarrow> if \<not> remaining then Quota_Remove K (fsys_unix fs) p w else Some (None, w) } } }"

section \<open>Listing\<close>

record entry_stat =
  es_info :: file_stat
  es_mime :: string

definition stat_entry :: "'w kernel \<Rightarrow> 'w file_io \<Rightarrow> filesystem \<Rightarrow> dirent \<Rightarrow> (err + entry_stat, 'w) fsop" where
  "stat_entry K io fs e w = do {
     (r, w) \<leftarrow> de_Info K e w;
     case r of
       Inl er \<Rightarrow> Some (Inl er, w)
     | Inr info \<Rightarrow>
         (let d = (if de_IsDir e then ''inode/directory'' else ''application/octet-stream'')
          in if de_modeType e AND ModeType = 0 then do {
               (f, w) \<leftarrow> de_Open K (fsys_unix fs) e w;
               case f of
                 Inl er \<Rightarrow> Some (Inl er, w)
               | Inr fd \<Rightarrow> do {
                   (m, w) \<leftarrow> sys (fio_mime io fd) w;
                   (_, w) \<leftarrow> do_close K [fd] w;
                   Some (Inr \<lparr>es_info = info, es_mime = (case m of Some m \<Rightarrow> m | None \<Rightarrow> d)\<rparr>, w) } }
             else Some (Inr \<lparr>es_info = info, es_mime = d\<rparr>, w)) }"

text \<open>
  \<open>slices.SortStableFunc\<close> with a comparison that is a total preorder is \<open>sort_key\<close>. The second comparison only ever
  says that a directory comes before something else.
\<close>

definition es_IsDir :: "entry_stat \<Rightarrow> bool" where
  "es_IsDir s = fi_IsDir (es_info s)"

definition sort_entries :: "entry_stat list \<Rightarrow> entry_stat list" where
  "sort_entries out = sort_key (\<lambda>s. if es_IsDir s then 0 else 1 :: nat) (sort_key (\<lambda>s. fi_name (es_info s)) out)"

definition ListDirectory :: "'w kernel \<Rightarrow> 'w file_io \<Rightarrow> filesystem \<Rightarrow> string \<Rightarrow> (err + entry_stat list, 'w) fsop" where
  "ListDirectory K io fs p w = do {
     (r, w) \<leftarrow> ReadDirMap K (fsys_unix fs) p (stat_entry K io fs) w;
     Some (case r of Inl e \<Rightarrow> Inl e | Inr out \<Rightarrow> Inr (sort_entries out), w) }"

section \<open>Names\<close>

lemma ext_scan_suffix: "ext_scan cs acc = [] \<or> suffix (ext_scan cs acc) (rev cs @ acc)"
proof (induction cs arbitrary: acc)
  case (Cons c cs)
  show ?case
  proof (cases "c = slash \<or> c = CHR ''.''")
    case True
    then show ?thesis by (auto simp: suffix_def)
  next
    case False
    with Cons [of "c # acc"] show ?thesis by simp
  qed
qed simp

lemma filepath_Ext_suffix: "suffix (filepath_Ext n) n"
  using ext_scan_suffix [of "rev n" "[]"] by (auto simp: filepath_Ext_def)

lemma TrimSuffix_split: "suffix x s \<Longrightarrow> TrimSuffix s x @ x = s"
  by (auto simp: suffix_def)

text \<open>A file name is its name without the extension followed by the extension, which counts an inner \<open>.tar\<close> as
  part of it: the name of a copy is the original with the suffix put between the two.\<close>

theorem ext_roundtrip:
  "TrimSuffix n (Ext n) @ Ext n = n \<and> suffix (filepath_Ext n) (Ext n)"
proof -
  have n: "TrimSuffix n (filepath_Ext n) @ filepath_Ext n = n"
    by (rule TrimSuffix_split [OF filepath_Ext_suffix])
  have "suffix (Ext n) n"
  proof (cases "HasSuffix (TrimSuffix n (filepath_Ext n)) ''.tar''")
    case True
    then obtain b where "TrimSuffix n (filepath_Ext n) = b @ ''.tar''" by (auto simp: suffix_def)
    with n have "n = b @ ''.tar'' @ filepath_Ext n" by (metis append_assoc)
    with True show ?thesis by (simp add: Ext_def Let_def) (metis suffixI)
  next
    case False
    then show ?thesis by (simp add: Ext_def Let_def filepath_Ext_suffix)
  qed
  then show ?thesis
    by (simp add: TrimSuffix_split) (simp add: Ext_def Let_def suffix_def)
qed

text \<open>When nothing else touches the directory, the name chosen for a copy is the first of the candidates, the
  original name, then with \<open> copy\<close>, then numbered from one, that does not exist; only if all fifty are taken is it
  the name with the current time.\<close>

theorem copy_name_first_free:
  assumes "\<And>i. i \<le> 50 \<Longrightarrow> Lstatat K d (name @ copy_suffix now i @ ext) w =
      Some (if i \<in> taken then Inr st else Inl (missing i), w)" "\<And>i. is_sentinel ErrNotExist (missing i)"
  shows "findCopySuffix K now d name ext w =
    Some (Inr (name @ copy_suffix now (if {0..<50} \<subseteq> taken then 50 else LEAST i. i \<notin> taken) @ ext), w)"
proof -
  let ?c = "\<lambda>i. name @ copy_suffix now i @ ext"
  have run: "try_copies K d ?c [i..<51] final w =
      Some (Inr (if {i..<51} \<subseteq> taken then (if i < 51 then ?c 50 else final) else ?c (LEAST j. i \<le> j \<and> j \<notin> taken)), w)"
    if "i \<le> 51" for i final
    using that
  proof (induction "51 - i" arbitrary: i final)
    case 0
    then show ?case by simp
  next
    case (Suc n)
    then have i: "i < 51" "[i..<51] = i # [Suc i..<51]" by (simp_all add: upt_conv_Cons)
    show ?case
    proof (cases "i \<in> taken")
      case True
      have "{i..<51} = insert i {Suc i..<51}" using i(1) by auto
      moreover have "(LEAST j. i \<le> j \<and> j \<notin> taken) = (LEAST j. Suc i \<le> j \<and> j \<notin> taken)"
        using True by (metis Suc_leD Suc_leI le_neq_implies_less)
      ultimately show ?thesis
        using Suc.hyps(1) [of "Suc i" "?c i"] Suc.hyps(2) i True assms(1) [of i] by auto
    next
      case False
      then have "(LEAST j. i \<le> j \<and> j \<notin> taken) = i" by (intro Least_equality) auto
      with False i assms show ?thesis by auto
    qed
  qed
  have "{0..<51} \<subseteq> taken \<longleftrightarrow> {0..<50} \<subseteq> taken \<and> 50 \<in> taken"
    by (auto simp: less_Suc_eq eval_nat_numeral)
  moreover have "(LEAST j. j \<notin> taken) = 50" if "{0..<50} \<subseteq> taken" "50 \<notin> taken"
    using that by (intro Least_equality) (auto simp: not_less [symmetric])
  ultimately show ?thesis
    using run [of 0 "[]"] by (auto simp: findCopySuffix_def)
qed

section \<open>Listings are sorted\<close>

lemma zero_one_split:
  fixes f :: "'a \<Rightarrow> nat"
  shows "sorted (map f xs) \<Longrightarrow> \<forall>x \<in> set xs. f x \<le> 1 \<Longrightarrow> xs = filter (\<lambda>x. f x = 0) xs @ filter (\<lambda>x. f x = 1) xs"
proof (induction xs)
  case (Cons x xs)
  show ?case
  proof (cases "f x = 0")
    case True
    with Cons show ?thesis by simp
  next
    case False
    with Cons.prems have "\<forall>y \<in> set (x # xs). f y = 1"
      by simp (meson le_antisym less_eq_Suc_le order_trans)
    then show ?thesis by (simp add: filter_id_conv map_filter_id filter_empty_conv)
  qed
qed simp

lemma sort_entries_split:
  "sort_entries out =
     filter es_IsDir (sort_key (\<lambda>s. fi_name (es_info s)) out) @
     filter (\<lambda>s. \<not> es_IsDir s) (sort_key (\<lambda>s. fi_name (es_info s)) out)"
proof -
  let ?f = "\<lambda>s. if es_IsDir s then 0 else 1 :: nat"
  let ?ys = "sort_key (\<lambda>s. fi_name (es_info s)) out"
  have "sort_entries out = filter (\<lambda>x. ?f x = 0) (sort_key ?f ?ys) @ filter (\<lambda>x. ?f x = 1) (sort_key ?f ?ys)"
    unfolding sort_entries_def by (rule zero_one_split) simp_all
  also have "\<dots> = filter (\<lambda>x. ?f x = 0) ?ys @ filter (\<lambda>x. ?f x = 1) ?ys"
    by (simp only: sort_key_stable)
  also have "\<dots> = filter es_IsDir ?ys @ filter (\<lambda>s. \<not> es_IsDir s) ?ys"
    by (simp cong: if_cong)
  finally show ?thesis .
qed

text \<open>A directory listing is a rearrangement of the entries read: directories come first, and both directories and
  other files are in the byte order of their names.\<close>

theorem listing_sorted:
  "mset (sort_entries out) = mset out \<and>
   sorted_wrt (\<lambda>a b. if es_IsDir a = es_IsDir b then fi_name (es_info a) \<le> fi_name (es_info b) else es_IsDir a) (sort_entries out)"
proof -
  let ?R = "\<lambda>a b. if es_IsDir a = es_IsDir b then fi_name (es_info a) \<le> fi_name (es_info b) else es_IsDir a"
  let ?ys = "sort_key (\<lambda>s. fi_name (es_info s)) out"
  have ys: "sorted_wrt (\<lambda>a b. fi_name (es_info a) \<le> fi_name (es_info b)) ?ys"
    using sorted_sort_key [of "\<lambda>s. fi_name (es_info s)" out] by (simp add: sorted_map)
  have "sorted_wrt ?R (filter es_IsDir ?ys)" "sorted_wrt ?R (filter (\<lambda>s. \<not> es_IsDir s) ?ys)"
    by (rule sorted_wrt_mono_rel [OF _ sorted_wrt_filter [OF ys]], auto)+
  moreover have "mset (sort_entries out) = mset out"
    by (simp add: sort_entries_def)
  ultimately show ?thesis
    by (auto simp: sort_entries_split sorted_wrt_append)
qed

theorem copy_name_first_free_witness:
  "findCopySuffix counting_kernel ''now'' 3 ''a'' ''.txt'' 4 = Some (Inr ''a.txt'', 4)"
proof -
  let ?missing = "\<lambda>i. PathError ''lstatat'' (''a'' @ copy_suffix ''now'' i @ ''.txt'') (Sentinel ErrNotExist)"
  have "Lstatat counting_kernel 3 n 4 = Some (Inl (PathError ''lstatat'' n (Sentinel ErrNotExist)), 4)" for n
    by (simp add: Lstatat_def do_fstatat_def ignoringEINTR_done counting_kernel_def ensurePathError_def errnoToPathError_def)
  then have free: "Lstatat counting_kernel 3 (''a'' @ copy_suffix ''now'' i @ ''.txt'') 4 =
      Some (if i \<in> {} then Inr undefined else Inl (?missing i), 4)" for i
    by simp
  have "is_sentinel ErrNotExist (?missing i)" for i by simp
  from copy_name_first_free [of counting_kernel 3 "''a''" "''now''" "''.txt''" 4 "{}" undefined ?missing, OF free this]
  have "findCopySuffix counting_kernel ''now'' 3 ''a'' ''.txt'' 4 =
      Some (Inr (''a'' @ copy_suffix ''now'' (if {0..<50 :: nat} \<subseteq> {} then 50 else LEAST i. i \<notin> {}) @ ''.txt''), 4)" .
  moreover have "(LEAST i :: nat. i \<notin> {}) = 0" by simp
  ultimately show ?thesis by (simp add: copy_suffix_def)
qed

section \<open>The limit is respected\<close>

text \<open>Whatever the kernel does, no operation of the plain filesystem changes the counters beside it.\<close>

interpretation quiet: guarded_kernel "lifted K" base "\<lambda>(s, w). s = s0" "\<lambda>_. UNIV"
  by unfold_locales (auto simp: lifted_def lift_call_def split: prod.splits)

lemma quiet_keeps: "quiet.keeps s0 ns m \<Longrightarrow> m (s0, w) = Some (r, (s, w')) \<Longrightarrow> s = s0"
  by (auto simp: quiet.keeps_def)

lemma quiet_base: "good_base bs \<Longrightarrow> basePath fs = spell bs \<Longrightarrow> quiet.on_base (spell bs) fs"
  by (auto simp: quiet.on_base_def)

lemma quiet_current_size:
  assumes "good_base bs" "basePath (fsys_unix fs) = spell bs" "current_size K fs p (q, w) = Some (c, (q', w'))"
  shows "q' = q"
proof -
  have "quiet.keeps q {} (current_size K fs p)"
    unfolding current_size_def using quiet_base [OF assms(1,2)] by (auto intro!: keeps_intros)
  from quiet_keeps [OF this assms(3)] show ?thesis .
qed

lemma quiet_Touch:
  assumes "good_base bs" "basePath (fsys_unix fs) = spell bs"
    "Touch (lifted K) (fsys_unix fs) p f m (q, w) = Some (c, (q', w'))"
  shows "q' = q"
proof -
  have "quiet.keeps q {} (Touch (lifted K) (fsys_unix fs) p f m)"
    using quiet_base [OF assms(1,2)] by (rule quiet.keeps_Touch)
  from quiet_keeps [OF this assms(3)] show ?thesis .
qed

lemma quiet_chownFile:
  assumes "good_base bs" "basePath (fsys_unix fs) = spell bs" "chownFile K fs p (q, w) = Some (c, (q', w'))"
  shows "q' = q"
proof -
  have "quiet.keeps q {} (chownFile K fs p)"
    unfolding chownFile_def using quiet_base [OF assms(1,2)] by (auto intro!: keeps_intros)
  from quiet_keeps [OF this assms(3)] show ?thesis .
qed

lemma quiet_close: "do_close (lifted K) fds (q, w) = Some (u, (q', w')) \<Longrightarrow> q' = q"
  by (rule quiet_keeps [OF quiet.keeps_do_close])

lemma ignoringEINTR_answer:
  fixes fn :: "'w \<Rightarrow> (errno + 'a) \<times> 'w"
  assumes "ignoringEINTR fn w = Some (r, w')"
  shows "\<exists>v v'. fn v = (r, v')"
proof -
  have "\<exists>v v'. fn v = (fst (r, w'), v')"
    using assms
  proof (rule ignoringEINTR.raw_induct [where P = "\<lambda>fn w y. \<exists>v v'. fn v = (fst y, v')", rotated])
    fix go :: "('w \<Rightarrow> (errno + 'a) \<times> 'w) \<Rightarrow> 'w \<Rightarrow> ((errno + 'a) \<times> 'w) option"
      and fn :: "'w \<Rightarrow> (errno + 'a) \<times> 'w" and w y
    assume IH: "\<And>fn w y. go fn w = Some y \<Longrightarrow> \<exists>v v'. fn v = (fst y, v')"
      and eq: "(case fn w of (r, w') \<Rightarrow> if r = Inl EINTR then go fn w' else Some (r, w')) = Some y"
    obtain x v where v: "fn w = (x, v)" by (cases "fn w")
    show "\<exists>v v'. fn v = (fst y, v')"
    proof (cases "x = Inl EINTR")
      case True
      with eq v have "go fn v = Some y" by simp
      then show ?thesis by (rule IH)
    next
      case False
      with eq v have "y = (x, v)" by simp
      with v show ?thesis by (intro exI [of _ w] exI [of _ v]) simp
    qed
  qed
  then show ?thesis by simp
qed

lemma current_size_bounds:
  fixes K :: "'w kernel"
  assumes "\<And>d n l w st w'. k_fstatat K d n l w = (Inr st, w') \<Longrightarrow> 0 \<le> st_size st \<and> st_size st < 2 ^ 62"
    "current_size K fs p w = Some (Inr c, w')"
  shows "0 \<le> c \<and> c < 2 ^ 62"
proof -
  from assms(2) obtain r v where r: "Stat (lifted K) (fsys_unix fs) p w = Some (r, v)"
    and out: "(case r of
       Inl e \<Rightarrow> if \<not> is_sentinel ErrNotExist e
                then Inl (FsWrapped ''server/filesystem: writefile: failed to stat file'' (FsUnder e)) else Inr 0
     | Inr st \<Rightarrow> if fi_IsDir st then Inl (FsIsDirectory []) else Inr (fi_size st)) = Inr c"
    by (auto simp: current_size_def Option.bind_eq_Some_conv)
  have c: "c = 0 \<or> (\<exists>st. r = Inr st \<and> c = fi_size st)"
    using out by (cases r) (auto split: if_splits)
  have "0 \<le> fi_size st \<and> fi_size st < 2 ^ 62" if "r = Inr st" for st
  proof -
    from r that have "\<exists>d n (u :: quota \<times> 'w) u'. do_fstatat (lifted K) ''stat'' d n 0 u = Some (Inr st, u')"
      by (auto simp: Stat_def do_fstat_def with_path_def Option.bind_eq_Some_conv split: option.splits) blast
    then obtain d n u' and u :: "quota \<times> 'w" where "do_fstatat (lifted K) ''stat'' d n 0 u = Some (Inr st, u')" by blast
    then obtain x z where x: "ignoringEINTR (lift_call (k_fstatat K d n 0)) u = Some (x, z)"
      and out: "(case x of Inl e \<Rightarrow> Some (Inl (the (ensurePathError (Some (Errno e)) ''stat'' n)), z)
        | Inr st \<Rightarrow> Some (Inr (fillFileStatFromSys st n), z)) = Some (Inr st, u')"
      by (auto simp: do_fstatat_def lifted_def Option.bind_eq_Some_conv)
    then obtain st' where "ignoringEINTR (lift_call (k_fstatat K d n 0)) u = Some (Inr st', z)" "st = fillFileStatFromSys st' n"
      by (cases x) auto
    with ignoringEINTR_answer [of "lift_call (k_fstatat K d n 0)" u "Inr st'" z] show ?thesis
      using assms(1) by (fastforce simp: lift_call_def fillFileStatFromSys_def split: prod.splits)
  qed
  with c show ?thesis by auto
qed

lemma write_opened_usage:
  assumes base: "good_base bs" "basePath (fsys_unix fs) = spell bs"
    and run: "write_opened K io fs p newSize cur fd (q, w) = Some (r, (q', w'))"
  shows "q' = snd (Add (wrap64 ((if newSize = 0 then 0 else fst (fst (fio_copy io fd (Some newSize) w))) - cur)) q) \<and>
    r \<noteq> Some FsNoDiskSpace"
proof -
  let ?n = "if newSize = 0 then 0 else fst (fst (fio_copy io fd (Some newSize) w))"
  let ?q = "snd (Add (wrap64 (?n - cur)) q)"
  from run obtain e w1 ce w2 u where chown: "chownFile K fs p (?q, w1) = Some (ce, w2)"
    and close: "do_close (lifted K) [fd] w2 = Some (u, (q', w'))"
    and r: "r = map_option FsUnder (case ce of Some ce \<Rightarrow> Some ce | None \<Rightarrow> e)"
    by (auto simp: write_opened_def add_usage_def update_state_def io_op_def sys_def lift_call_def
        Option.bind_eq_Some_conv split: if_splits prod.splits)
  obtain q2 v where w2: "w2 = (q2, v)" by (cases w2)
  from quiet_chownFile [OF base chown [unfolded w2]] quiet_close [OF close [unfolded w2]] r show ?thesis
    by (auto simp: w2)
qed

lemma write_keeps_limit:
  assumes base: "good_base bs" "basePath (fsys_unix fs) = spell bs"
    and sizes: "\<And>d n l w st w'. k_fstatat K d n l w = (Inr st, w') \<Longrightarrow> 0 \<le> st_size st \<and> st_size st < 2 ^ 62"
    and copied: "\<And>fd w. 0 \<le> fst (fst (fio_copy io fd (Some newSize) w)) \<and> fst (fst (fio_copy io fd (Some newSize) w)) \<le> newSize"
    and bounds: "0 \<le> newSize" "newSize < 2 ^ 62" "0 < Limit q" "Limit q < 2 ^ 62" "0 \<le> Usage q" "Usage q \<le> Limit q"
    and run: "Write K io fs p newSize mode (q, w) = Some (r, (q', w'))"
  shows "0 \<le> Usage q' \<and> Usage q' \<le> Limit q \<and> Limit q' = Limit q \<and> (r = Some FsNoDiskSpace \<longrightarrow> q' = q)"
proof -
  from run obtain c w1 where c: "current_size K fs p (q, w) = Some (c, (q, w1))"
    using quiet_current_size [OF base] by (fastforce simp: Write_def Option.bind_eq_Some_conv)
  show ?thesis
  proof (cases c)
    case (Inl e)
    have "r = Some e \<and> q' = q" using run c Inl by (simp add: Write_def)
    with bounds show ?thesis by simp
  next
    case (Inr cur)
    have cur: "0 \<le> cur" "cur < 2 ^ 62"
      using current_size_bounds [OF sizes c [unfolded Inr]] by auto
    show ?thesis
    proof (cases "CanFit (wrap64 (newSize - cur)) q")
      case False
      with run c Inr have "q' = q"
        by (simp add: Write_def use_quota_def update_state_def HasSpaceFor_def)
      with bounds show ?thesis by simp
    next
      case True
      have "in_i64 (newSize - cur)" "in_i64 (Usage q + (newSize - cur))"
        using cur bounds by (auto simp: in_i64_def)
      with True bounds have fits: "Usage q + (newSize - cur) \<le> Limit q"
        by (simp add: CanFit_def Let_def split: if_splits)
      from run c Inr True obtain f v where f: "Touch (lifted K) (fsys_unix fs) p (O_RDWR OR O_TRUNC) mode (q, w1) = Some (f, v)"
        and rest: "(case f of Inl e \<Rightarrow> Some (Some (FsUnder e), v) | Inr fd \<Rightarrow> write_opened K io fs p newSize cur fd v) = Some (r, (q', w'))"
        by (auto simp: Write_def use_quota_def update_state_def HasSpaceFor_def Option.bind_eq_Some_conv)
      obtain q2 w2 where v2: "v = (q2, w2)" by (cases v)
      with quiet_Touch [OF base f [unfolded v2]] have v: "v = (q, w2)" by simp
      show ?thesis
      proof (cases f)
        case (Inl e)
        with rest v bounds show ?thesis by auto
      next
        case (Inr fd)
        let ?n = "if newSize = 0 then 0 else fst (fst (fio_copy io fd (Some newSize) w2))"
        have q': "q' = snd (Add (wrap64 (?n - cur)) q)" "r \<noteq> Some FsNoDiskSpace"
          using write_opened_usage [OF base, of K io p newSize cur fd q w2 r q' w'] rest v Inr by simp_all
        have n: "0 \<le> ?n" "?n \<le> newSize" using copied bounds(1) by auto
        then have "in_i64 (?n - cur)" "in_i64 (Usage q + (?n - cur))"
          using cur bounds unfolding in_i64_def by (simp_all del: One_nat_def)
        then have "Usage q' = max 0 (Usage q + (?n - cur))"
          unfolding q'(1) by (simp only: wrap64_id Add_exact)
        moreover have "Limit q' = Limit q" by (simp add: q'(1) Add_usage)
        ultimately show ?thesis
          using n fits bounds q'(2) by auto
      qed
    qed
  qed
qed


end
