(* ===== verification/FsFilesConfined.thy ===== *)
theory FsFilesConfined
  imports FsFiles
begin

text \<open>
  Every operation on the files of a server stays inside the server's directory: the lemmas of the guarded kernel,
  applied to the operations of \<open>FsFiles\<close>. What happens on an open descriptor names nothing, so the functions of
  \<open>file_io\<close> act on the state under the log.
\<close>

section \<open>Names of copies are plain\<close>

lemma basename_plain: "plain c \<Longrightarrow> basename c = c"
proof -
  assume c: "plain c"
  then have "c = [] \<or> last c \<noteq> slash" by (metis last_in_set plain_def)
  moreover have "last_slash c n = None" if "n \<le> length c" for n
    using that
  proof (induction n)
    case (Suc n)
    then have "c ! n \<in> set c" by simp
    with c have "c ! n \<noteq> slash" unfolding plain_def by metis
    with Suc show ?case by simp
  qed simp
  ultimately show ?thesis by (simp add: basename_def trim_slashes_id Let_def)
qed

lemma basename_safe:
  assumes "safe_name n"
  shows "plain (basename n) \<or> basename n = ''.''"
proof -
  from assms obtain cs where cs: "\<forall>c \<in> set cs. plain c" "n = relative_name cs"
    by (auto simp: safe_name_def)
  show ?thesis
  proof (cases cs rule: rev_cases)
    case Nil
    with cs have "basename n = ''.''"
      by (simp add: relative_name_def basename_def trim_slashes_id Let_def)
    then show ?thesis ..
  next
    case (snoc cs' c)
    then have c: "plain c" using cs by simp
    show ?thesis
    proof (cases "cs' = []")
      case True
      with cs snoc c show ?thesis by (simp add: relative_name_def basename_plain)
    next
      case False
      then have n: "n = join_with ''/'' cs' @ slash # c"
        using cs snoc by (simp add: relative_name_def join_snoc)
      have "safe_name (join_with ''/'' cs')"
        using cs snoc False by (auto simp: safe_name_def relative_name_def intro!: exI [of _ cs'])
      from safe_name_relative [OF this] c have "basename n = c"
        using splitPath_slashes [of c "join_with ''/'' cs'" 0] by (simp add: n plain_def)
      with c show ?thesis by simp
    qed
  qed
qed

lemma nat_digits_no_slash: "slash \<notin> set (nat_digits n)"
proof (induction n rule: nat_digits.induct)
  case (1 n)
  have "digit_char d \<noteq> slash" if "d < 10" for d
  proof
    assume "digit_char d = slash"
    then have "of_char (char_of (48 + d) :: char) = (of_char slash :: nat)"
      by (simp only: digit_char_def)
    with that show False by (simp add: of_char_of)
  qed
  then have "slash \<noteq> digit_char d" if "d < 10" for d using that by metis
  then show ?case using 1 by (subst nat_digits.simps) auto
qed

lemma copy_suffix_no_slash: "slash \<notin> set now \<Longrightarrow> slash \<notin> set (copy_suffix now i)"
  by (auto simp: copy_suffix_def Itoa_def nat_digits_no_slash)

lemma copy_suffix_blank: "i \<noteq> 0 \<Longrightarrow> CHR '' '' \<in> set (copy_suffix now i)"
  by (auto simp: copy_suffix_def)

lemma blank_plain: "slash \<notin> set c \<Longrightarrow> CHR '' '' \<in> set c \<Longrightarrow> plain c"
  by (auto simp: plain_def)

lemma copy_name_safe:
  assumes "safe_name n" "slash \<notin> set now" "base = basename n"
  shows "safe_name (TrimSuffix base (Ext base) @ copy_suffix now i @ Ext base)"
proof -
  have base: "plain base \<or> base = ''.''" using basename_safe [OF assms(1)] assms(3) by simp
  have split: "TrimSuffix base (Ext base) @ Ext base = base" using ext_roundtrip by blast
  have one: "safe_name c" if "plain c" for c
    using that by (auto simp: safe_name_def relative_name_def intro!: exI [of _ "[c]"])
  show ?thesis
  proof (cases "i = 0")
    case True
    have "safe_name ''.''" by (auto simp: safe_name_def relative_name_def intro: exI [of _ "[]"])
    with True split base one show ?thesis by (auto simp: copy_suffix_def)
  next
    case False
    let ?c = "TrimSuffix base (Ext base) @ copy_suffix now i @ Ext base"
    have "slash \<notin> set base" using base by (auto simp: plain_def)
    then have "slash \<notin> set ?c"
      using split copy_suffix_no_slash [OF assms(2)] by (metis Un_iff set_append)
    moreover have "CHR '' '' \<in> set ?c" using copy_suffix_blank [OF False] by simp
    ultimately have "plain ?c" by (intro blank_plain)
    then show ?thesis by (rule one)
  qed
qed

section \<open>Every operation\<close>

definition beneath :: "('w \<Rightarrow> 'r \<times> 'w) \<Rightarrow> 'w \<times> call list \<Rightarrow> 'r \<times> 'w \<times> call list" where
  "beneath f = (\<lambda>(w, l). case f w of (r, w) \<Rightarrow> (r, w, l))"

definition traced_io :: "'w file_io \<Rightarrow> ('w \<times> call list) file_io" where
  "traced_io io = \<lparr>fio_copy = (\<lambda>d n. beneath (fio_copy io d n)), fio_stat = (\<lambda>d. beneath (fio_stat io d)),
     fio_mime = (\<lambda>d. beneath (fio_mime io d))\<rparr>"

definition lifted_io :: "'w file_io \<Rightarrow> ('s \<times> 'w) file_io" where
  "lifted_io io = \<lparr>fio_copy = (\<lambda>d n. lift_call (fio_copy io d n)), fio_stat = (\<lambda>d. lift_call (fio_stat io d)),
     fio_mime = (\<lambda>d. lift_call (fio_mime io d))\<rparr>"

datatype file_op =
    FWritefile string | FWrite string int file_mode | FCreateDirectory string string | FChown string
  | FCopy string string | FDelete string | FSafeDelete string | FListDirectory string

fun run_file_op :: "'w kernel \<Rightarrow> 'w file_io \<Rightarrow> filesystem \<Rightarrow> (string \<Rightarrow> bool) \<Rightarrow> nat \<Rightarrow> file_op \<Rightarrow> (unit, quota \<times> 'w) fsop" where
  "run_file_op K io fs ignored n (FWritefile p) = forget (Writefile K io fs p)"
| "run_file_op K io fs ignored n (FWrite p sz m) = forget (Write K io fs p sz m)"
| "run_file_op K io fs ignored n (FCreateDirectory name p) = forget (CreateDirectory (lifted K) fs name p)"
| "run_file_op K io fs ignored n (FChown p) = forget (fs_Chown (lifted K) fs n p)"
| "run_file_op K io fs ignored n (FCopy now p) = forget (Copy K io fs now p)"
| "run_file_op K io fs ignored n (FDelete p) = forget (Delete K fs n p)"
| "run_file_op K io fs ignored n (FSafeDelete p) = forget (SafeDeleteRecursively K fs n ignored n p)"
| "run_file_op K io fs ignored n (FListDirectory p) = forget (ListDirectory (lifted K) (lifted_io io) fs p)"

fun run_file_ops ::
  "'w kernel \<Rightarrow> 'w file_io \<Rightarrow> filesystem \<Rightarrow> (string \<Rightarrow> bool) \<Rightarrow> nat \<Rightarrow> file_op list \<Rightarrow> (unit, quota \<times> 'w) fsop" where
  "run_file_ops K io fs ignored n [] w = Some ((), w)"
| "run_file_ops K io fs ignored n (op # ops) w = do {
     (_, w) \<leftarrow> run_file_op K io fs ignored n op w; run_file_ops K io fs ignored n ops w }"

lemma keeps_io_op [keeps_intros]: "beside.keeps base ns (io_op (beneath f))"
  unfolding io_op_def
  by (rule beside.keeps_sys) (auto simp: lift_call_def beneath_def split: prod.splits)

lemma keeps_use_quota [keeps_intros]: "beside.keeps base ns (use_quota f)" "beside.keeps base ns (add_usage i)"
  unfolding use_quota_def add_usage_def by (auto intro!: keeps_intros)

lemma keeps_chownFile [keeps_intros]: "beside.on_base base (fsys_unix fs) \<Longrightarrow> beside.keeps base ns (chownFile (traced K) fs p)"
  unfolding chownFile_def by (auto intro!: keeps_intros)

lemma keeps_current_size [keeps_intros]:
  "beside.on_base base (fsys_unix fs) \<Longrightarrow> beside.keeps base ns (current_size (traced K) fs p)"
  unfolding current_size_def by (auto intro!: keeps_intros)

lemma traced_io_simps [simp]: "fio_copy (traced_io io) d n = beneath (fio_copy io d n)"
  "fio_stat (traced_io io) d = beneath (fio_stat io d)" "fio_mime (traced_io io) d = beneath (fio_mime io d)"
  by (simp_all add: traced_io_def)

lemma keeps_Writefile: "beside.on_base base (fsys_unix fs) \<Longrightarrow> beside.keeps base ns (Writefile (traced K) (traced_io io) fs p)"
  unfolding Writefile_def by (auto intro!: keeps_intros)

lemma keeps_Write: "beside.on_base base (fsys_unix fs) \<Longrightarrow> beside.keeps base ns (Write (traced K) (traced_io io) fs p sz m)"
  unfolding Write_def write_opened_def by (auto intro!: keeps_intros)

context guarded_kernel
begin

lemma keeps_bind_post:
  assumes "keeps ns m" "\<And>w r w'. m w = Some (r, w') \<Longrightarrow> keeps ns (f r)"
  shows "keeps ns (\<lambda>w. Option.bind (m w) (\<lambda>(r, w). f r w))"
proof (rule keepsI)
  fix w r w''
  assume w: "P w" "ns \<subseteq> N w" "Option.bind (m w) (\<lambda>(r, w). f r w) = Some (r, w'')"
  then obtain s w' where s: "m w = Some (s, w')" "f s w' = Some (r, w'')"
    by (auto simp: Option.bind_eq_Some_conv)
  from keepsD [OF assms(1) w(1,2) s(1)] w(2) have w': "P w'" "ns \<subseteq> N w'" "N w \<subseteq> N w'" by auto
  from keepsD [OF assms(2) [OF s(1)] w'(1,2) s(2)] w'(3) show "P w'' \<and> N w \<subseteq> N w''"
    by (meson subset_trans)
qed

lemma keeps_Lchownat [keeps_intros]: "nameable ns n \<Longrightarrow> keeps ns (Lchownat K d n uid gid)"
  unfolding Lchownat_def by (auto intro!: keeps_intros)

lemma keeps_fs_Chown: "on_base (fsys_unix fs) \<Longrightarrow> keeps ns (fs_Chown K fs n p)"
proof -
  assume base: "on_base (fsys_unix fs)"
  have "nameable ms m \<Longrightarrow> keeps ms (chown_visit K uid gid d m rel de e)" for ms m uid gid d rel de e
    unfolding chown_visit_def by (auto intro!: keeps_intros)
  with base show ?thesis
    unfolding fs_Chown_def by (auto intro!: keeps_intros keeps_WalkDirat)
qed

lemma keeps_try_copies: "(\<And>i. i \<in> set is \<Longrightarrow> nameable ns (cand i)) \<Longrightarrow> keeps ns (try_copies K d cand is final)"
proof (induction "is" arbitrary: final)
  case (Cons i "is")
  then have "keeps ns (\<lambda>w. try_copies K d cand (i # is) final w)"
    unfolding try_copies.simps by (auto intro!: keeps_intros)
  then show ?case by simp
qed (simp add: keeps_def)

lemma keeps_map_entries: "(\<And>e. e \<in> set es \<Longrightarrow> keeps ns (fn e)) \<Longrightarrow> keeps ns (map_entries fn es)"
proof (induction es)
  case (Cons e es)
  then have "keeps ns (\<lambda>w. map_entries fn (e # es) w)"
    unfolding map_entries.simps by (auto intro!: keeps_intros)
  then show ?case by simp
qed (simp add: keeps_def)

lemma keeps_ReadDirMap:
  assumes "on_base fs" "\<And>ms e. nameable ms (de_name e) \<Longrightarrow> keeps ms (fn e)"
  shows "keeps ns (ReadDirMap K fs path fn)"
proof -
  have "keeps (ms \<union> de_name ` set ds) (map_entries fn ds)" for ms ds
    by (intro keeps_map_entries assms(2)) (simp add: nameable_def)
  then show ?thesis
    unfolding ReadDirMap_def using assms(1) by (auto intro!: keeps_intros keeps_readDir_bind)
qed

end

lemma try_copies_candidate:
  "try_copies K d cand is final w = Some (Inr n, w') \<Longrightarrow> is = [] \<and> n = final \<or> (\<exists>i \<in> set is. n = cand i)"
proof (induction "is" arbitrary: final w)
  case (Cons i "is")
  then obtain r v where r: "Lstatat K d (cand i) w = Some (r, v)"
    and rest: "(case r of Inl e \<Rightarrow> if \<not> is_sentinel ErrNotExist e then Some (Inl e, v) else Some (Inr (cand i), v)
      | Inr _ \<Rightarrow> try_copies K d cand is (cand i) v) = Some (Inr n, w')"
    by (auto simp: Option.bind_eq_Some_conv)
  show ?case
  proof (cases r)
    case (Inl e)
    with rest show ?thesis by (auto split: if_splits)
  next
    case (Inr x)
    with rest have "try_copies K d cand is (cand i) v = Some (Inr n, w')" by simp
    from Cons.IH [OF this] show ?thesis by auto
  qed
qed simp

lemma keeps_de_ops [keeps_intros]:
  assumes "beside.nameable ns (de_name e)"
  shows "beside.keeps base ns (de_Info (lifted (traced K)) e)" "beside.keeps base ns (de_Open (lifted (traced K)) fs e)"
  using assms unfolding de_Info_def de_Open_def by (auto intro!: keeps_intros)

lemma keeps_mime [keeps_intros]: "beside.keeps base ns (sys (fio_mime (lifted_io (traced_io io)) fd))"
  by (rule beside.keeps_sys) (auto simp: lifted_io_def lift_call_def beneath_def split: prod.splits)

lemma keeps_ListDirectory:
  assumes "beside.on_base base (fsys_unix fs)"
  shows "beside.keeps base ns (ListDirectory (lifted (traced K)) (lifted_io (traced_io io)) fs p)"
proof -
  have "beside.nameable ms (de_name e) \<Longrightarrow>
      beside.keeps base ms (stat_entry (lifted (traced K)) (lifted_io (traced_io io)) fs e)" for ms e
    unfolding stat_entry_def Let_def by (auto intro!: keeps_intros)
  then show ?thesis
    unfolding ListDirectory_def using assms by (auto intro!: keeps_intros beside.keeps_ReadDirMap)
qed

lemma keeps_findCopySuffix:
  assumes "safe_name n" "slash \<notin> set now"
  shows "beside.keeps base ns (findCopySuffix (lifted (traced K)) now d (TrimSuffix (basename n) (Ext (basename n))) (Ext (basename n)))"
  unfolding findCopySuffix_def
  using copy_name_safe [OF assms refl] by (intro beside.keeps_try_copies beside.nameable_safe)

lemma findCopySuffix_safe:
  assumes "safe_name n" "slash \<notin> set now"
    "findCopySuffix K now d (TrimSuffix (basename n) (Ext (basename n))) (Ext (basename n)) w = Some (Inr m, w')"
  shows "safe_name m"
  using try_copies_candidate [OF assms(3) [unfolded findCopySuffix_def]] copy_name_safe [OF assms(1,2) refl] by auto

lemma keeps_copy_to [keeps_intros]:
  "beside.nameable ns m \<Longrightarrow> beside.keeps base ns (copy_to (traced K) (traced_io io) fs d m info)"
  unfolding copy_to_def by (auto intro!: keeps_intros)

lemma keeps_copy_named:
  assumes "safe_name n" "slash \<notin> set now"
  shows "beside.keeps base ns (copy_named (traced K) (traced_io io) fs now d (basename n) info)"
  unfolding copy_named_def
proof (rule beside.keeps_bind_post [OF keeps_findCopySuffix [OF assms]])
  let ?base = "basename n"
  fix w w' and r :: "err + string"
  assume run: "findCopySuffix (lifted (traced K)) now d (TrimSuffix ?base (Ext ?base)) (Ext ?base) w = Some (r, w')"
  have "beside.nameable ns m" if "r = Inr m" for m
    by (rule beside.nameable_safe) (rule findCopySuffix_safe [OF assms run [unfolded that]])
  then show "beside.keeps base ns (\<lambda>w. case r of
      Inl e \<Rightarrow> Some (Some (FsUnder e), w)
    | Inr newName \<Rightarrow> copy_to (traced K) (traced_io io) fs d newName info w)"
    by (auto intro!: keeps_intros)
qed

lemma keeps_copy_file:
  assumes "safe_name n" "slash \<notin> set now"
  shows "beside.keeps base ns (copy_file (traced K) (traced_io io) fs now d n source)"
  unfolding copy_file_def Let_def by (auto intro!: keeps_intros keeps_copy_named assms)

lemma keeps_Copy:
  assumes "beside.on_base base (fsys_unix fs)" "slash \<notin> set now"
  shows "beside.keeps base {} (Copy (traced K) (traced_io io) fs now p)"
  unfolding Copy_def
  by (rule beside.keeps_with_path [OF assms(1)])
     (auto intro!: keeps_intros keeps_copy_file assms(2) simp: beside.nameable_def)

lemma keeps_Delete:
  assumes "beside.on_base base (fsys_unix fs)"
  shows "beside.keeps base ns (Delete (traced K) fs n p)"
  unfolding Delete_def by (rule beside_RemoveAll [OF assms])

lemma keeps_delete_entries:
  assumes "beside.on_base base (fsys_unix fs)" "\<And>p. beside.keeps base ns (again p)"
  shows "beside.keeps base ns (delete_entries (traced K) fs n ignored again p es remaining)"
proof (induction es arbitrary: remaining)
  case Nil
  show ?case by (simp add: beside.keeps_def)
next
  case (Cons e es)
  have "beside.keeps base ns (\<lambda>w. delete_entries (traced K) fs n ignored again p (e # es) remaining w)"
    unfolding delete_entries.simps Let_def using assms Cons
    by (auto intro!: keeps_intros keeps_Delete)
  then show ?case by simp
qed

lemma keeps_SafeDelete:
  assumes "beside.on_base base (fsys_unix fs)"
  shows "beside.keeps base ns (SafeDeleteRecursively (traced K) fs n ignored k p)"
proof (induction k arbitrary: p)
  case 0
  show ?case by (simp add: beside.keeps_def)
next
  case (Suc k)
  have "beside.keeps base ns (\<lambda>w. SafeDeleteRecursively (traced K) fs n ignored (Suc k) p w)"
    unfolding SafeDeleteRecursively.simps using assms Suc
    by (auto intro!: keeps_intros keeps_Delete keeps_delete_entries quota_removal.remove_keeps)
  then show ?case by simp
qed

text \<open>The time in the name of a copy is written without a slash.\<close>

fun clock_ok :: "file_op \<Rightarrow> bool" where
  "clock_ok (FCopy now p) = (slash \<notin> set now)"
| "clock_ok _ = True"

lemma keeps_file_op:
  assumes "beside.on_base base (fsys_unix fs)" "clock_ok op"
  shows "beside.keeps base {} (run_file_op (traced K) (traced_io io) fs ignored n op)"
  using assms
  by (cases op) (auto simp: CreateDirectory_def intro!: keeps_intros keeps_Writefile keeps_Write beside.keeps_fs_Chown
      keeps_Copy keeps_Delete keeps_SafeDelete keeps_ListDirectory)

lemma keeps_file_ops:
  assumes "beside.on_base base (fsys_unix fs)" "list_all clock_ok ops"
  shows "beside.keeps base {} (run_file_ops (traced K) (traced_io io) fs ignored n ops)"
  using assms(2)
proof (induction ops)
  case Nil
  show ?case by (simp add: beside.keeps_def)
next
  case (Cons op ops)
  then have "beside.keeps base {} (\<lambda>w. run_file_ops (traced K) (traced_io io) fs ignored n (op # ops) w)"
    unfolding run_file_ops.simps using assms(1) by (auto intro!: keeps_intros keeps_file_op)
  then show ?case by simp
qed

text \<open>Whatever sequence of writes, copies, ownership changes, deletions and listings a client asks for, with
  whatever paths, contents and answers of the kernel, every system call stays inside the server's directory: it names
  the base directory, a path of plain components or an entry the kernel has listed.\<close>

theorem server_files_confined:
  assumes "good_base bs" "basePath (fsys_unix fs) = spell bs" "list_all clock_ok ops"
    "run_file_ops (traced K) (traced_io io) fs ignored n ops (q, w, []) = Some (r, (q', w', log))"
  shows "log_ok (spell bs) log"
proof -
  have "beside.on_base (spell bs) (fsys_unix fs)"
    using assms(1,2) by (auto simp: beside.on_base_def)
  from beside.keepsD [OF keeps_file_ops [OF this assms(3)] _ _ assms(4)] show ?thesis by simp
qed

definition example_fs :: filesystem where
  "example_fs = \<lparr>fsys_unix = \<lparr>basePath = ''/srv'', useOpenat2 = True\<rparr>, fsys_interval = 150, fsys_isTest = False,
     fsys_uid = 988, fsys_gid = 988\<rparr>"

definition still_io :: "'w file_io" where
  "still_io = \<lparr>fio_copy = (\<lambda>d n w. ((case n of Some n \<Rightarrow> n | None \<Rightarrow> 0, None), w)),
     fio_stat = (\<lambda>d w. (Inr \<lparr>st_mode = S_IFREG, st_size = 0, st_mtime = 0, st_ino = 1, st_nlink = 1\<rparr>, w)),
     fio_mime = (\<lambda>d w. (None, w))\<rparr>"

theorem server_files_confined_witness:
  "log_ok ''/srv'' [CallClose 3, CallAt 3 ''b'', CallAt 3 ''b'', CallOpen AT_EMPTY_PATH ''/srv'' (O_DIRECTORY OR O_CLOEXEC) (Some 3)]"
proof -
  have base: "good_base [''srv'']" "spell [''srv''] = ''/srv''"
    by (simp_all add: good_base_def plain_def)
  have path: "unsafePath ''/srv'' ''x/../b'' = Ok ''b''" "Split ''b'' = ([], ''b'')"
    by code_simp+
  have "run_file_ops (traced counting_kernel) (traced_io still_io) example_fs (\<lambda>_. False) 5 [FChown ''x/../b''] (NewQuota 0, 3, []) =
      Some ((), (NewQuota 0, 4, [CallClose 3, CallAt 3 ''b'', CallAt 3 ''b'', CallOpen AT_EMPTY_PATH ''/srv'' (O_DIRECTORY OR O_CLOEXEC) (Some 3)]))"
    by (simp add: example_fs_def path forget_def fs_Chown_def with_path_def safePath_def raw_openat_def Lchownat_def
        Lstatat_def do_fstatat_def ignoringEINTR.simps do_close_def close_all_def sys_def traced_def lifted_def lift_call_def
        record_call_def opened_def counting_kernel_def errno_err_def flag_defs ensurePathError_def)
  from server_files_confined [OF base(1) _ _ this] show ?thesis
    by (simp add: base(2) example_fs_def)
qed


end
