(* ===== verification/Invocation.thy ===== *)
theory Invocation
  imports EnvVars
begin

text \<open>
  The startup command of a server (\<open>parseInvocation\<close> and \<open>DetermineServerTimezone\<close> of
  \<open>wings/server/server.go\<close>) and the variables in the paths of configuration files
  (\<open>replaceParserConfigPathVariables\<close> of \<open>wings/server/config_parser.go\<close>).

  The variables are given with their values as \<open>fmt.Sprint\<close> renders them, in the order the map is iterated.
\<close>

section \<open>Replacing in strings\<close>

text \<open>\<open>strings.ReplaceAll\<close>, and \<open>strings.Replace\<close> with a count of one, for a pattern that is not empty.\<close>

fun ReplaceAll :: "string \<Rightarrow> string \<Rightarrow> string \<Rightarrow> string" where
  "ReplaceAll [] old new = []"
| "ReplaceAll (c # cs) old new =
     (if old \<noteq> [] \<and> HasPrefix (c # cs) old then new @ ReplaceAll (drop (length old - 1) cs) old new
      else c # ReplaceAll cs old new)"

fun ReplaceOnce :: "string \<Rightarrow> string \<Rightarrow> string \<Rightarrow> string" where
  "ReplaceOnce [] old new = []"
| "ReplaceOnce (c # cs) old new =
     (if HasPrefix (c # cs) old then new @ drop (length old) (c # cs) else c # ReplaceOnce cs old new)"

text \<open>All matches of the regular expression for protected segments, \<open>[[\<close>, the least that reaches \<open>]]\<close> on the same
  line, \<open>]]\<close>.\<close>

fun upto_close :: "string \<Rightarrow> string option" where
  "upto_close [] = None"
| "upto_close (c # cs) =
     (if HasPrefix (c # cs) '']]'' then Some '']]''
      else if c = char_of (10 :: nat) then None
      else map_option ((#) c) (upto_close cs))"

fun protected_segments :: "string \<Rightarrow> string list" where
  "protected_segments [] = []"
| "protected_segments (c # cs) =
     (if HasPrefix (c # cs) ''[['' then
        (case upto_close (tl cs) of
           Some seg \<Rightarrow> (''[['' @ seg) # protected_segments (drop (Suc (length seg)) cs)
         | None \<Rightarrow> protected_segments cs)
      else protected_segments cs)"

section \<open>The startup command\<close>

definition placeholder :: "string \<Rightarrow> string" where
  "placeholder n = ''${'' @ n @ ''}''"

definition open_braces :: "string \<Rightarrow> string" where
  "open_braces s = ReplaceAll (ReplaceAll s ''{{'' ''${'') ''}}'' ''}''"

definition temp_segment :: "nat \<Rightarrow> string" where
  "temp_segment i = ''__PROTECTED_SEGMENT_'' @ nat_digits i @ ''__''"

definition hide_segments :: "(nat \<times> string) list \<Rightarrow> string \<Rightarrow> string" where
  "hide_segments segs s = fold (\<lambda>(i, seg) s. ReplaceOnce s seg (temp_segment i)) segs s"

definition show_segments :: "(nat \<times> string) list \<Rightarrow> string \<Rightarrow> string" where
  "show_segments segs s = fold (\<lambda>(i, seg) s. ReplaceOnce s (temp_segment i) seg) segs s"

definition replace_variable :: "(nat \<times> string) list \<Rightarrow> string \<times> string \<Rightarrow> string \<Rightarrow> string" where
  "replace_variable segs v s =
     show_segments segs (ReplaceAll (hide_segments segs s) (placeholder (fst v)) (snd v))"

definition parseInvocation :: "string \<Rightarrow> (string \<times> string) list \<Rightarrow> int \<Rightarrow> int \<Rightarrow> string \<Rightarrow> string" where
  "parseInvocation invocation envvars memory port ip =
     (let invocation = open_braces invocation;
          segs = enumerate 0 (protected_segments invocation);
          invocation = fold (replace_variable segs) envvars invocation;
          invocation = ReplaceAll invocation ''${SERVER_PORT}'' (Itoa port);
          invocation = ReplaceAll invocation ''${SERVER_MEMORY}'' (Itoa memory)
      in ReplaceAll invocation ''${SERVER_IP}'' ip)"

definition replaceParserConfigPathVariables :: "string \<Rightarrow> (string \<times> string) list \<Rightarrow> string" where
  "replaceParserConfigPathVariables filename envvars =
     (if \<not> (CHR ''{'' \<in> set filename) \<or> \<not> (CHR ''}'' \<in> set filename) then filename
      else fold (\<lambda>(n, v) s. ReplaceAll s (placeholder n) v) envvars (open_braces filename))"

text \<open>\<open>known\<close>: whether \<open>time.LoadLocation\<close> finds the zone.\<close>

definition DetermineServerTimezone :: "(string \<Rightarrow> bool) \<Rightarrow> (string \<times> env_value) list \<Rightarrow> string \<Rightarrow> string" where
  "DetermineServerTimezone known envvars defaultTimezone =
     (case map_of envvars ''SERVER_TIMEZONE'' of
        Some (VString timezone) \<Rightarrow> if timezone \<noteq> [] \<and> known timezone then timezone else defaultTimezone
      | _ \<Rightarrow> defaultTimezone)"

section \<open>Commands as texts and variables\<close>

text \<open>A command is a sequence of plain texts and of variables in either notation.\<close>

datatype piece = Plain string | Braces string | Dollar string

definition special :: "char set" where
  "special = {CHR ''$'', CHR ''{'', CHR ''}'', CHR ''['', CHR '']''}"

fun piece_ok :: "piece \<Rightarrow> bool" where
  "piece_ok (Plain t) = (set t \<inter> special = {})"
| "piece_ok (Braces n) = (set n \<inter> special = {})"
| "piece_ok (Dollar n) = (set n \<inter> special = {})"

fun source_text :: "piece \<Rightarrow> string" where
  "source_text (Plain t) = t"
| "source_text (Braces n) = ''{{'' @ n @ ''}}''"
| "source_text (Dollar n) = placeholder n"

fun replaced_text :: "(string \<Rightarrow> string option) \<Rightarrow> piece \<Rightarrow> string" where
  "replaced_text m (Plain t) = t"
| "replaced_text m (Braces n) = (case m n of Some v \<Rightarrow> v | None \<Rightarrow> placeholder n)"
| "replaced_text m (Dollar n) = (case m n of Some v \<Rightarrow> v | None \<Rightarrow> placeholder n)"

lemma ReplaceAll_skip: "old = c # rest \<Longrightarrow> c \<notin> set t \<Longrightarrow> ReplaceAll (t @ s) old new = t @ ReplaceAll s old new"
  by (induction t) auto

lemma ReplaceAll_absent: "old = c # rest \<Longrightarrow> c \<notin> set t \<Longrightarrow> ReplaceAll t old new = t"
  using ReplaceAll_skip [of old c rest t "[]" new] by simp

lemma ReplaceAll_hit: "old \<noteq> [] \<Longrightarrow> ReplaceAll (old @ s) old new = new @ ReplaceAll s old new"
  by (cases old) simp_all

lemma concat_ReplaceAll:
  assumes "\<And>p s. p \<in> set ps \<Longrightarrow> ReplaceAll (f p @ s) old new = g p @ ReplaceAll s old new"
  shows "ReplaceAll (concat (map f ps)) old new = concat (map g ps)"
  using assms by (induction ps) simp_all

lemma placeholder_inj:
  assumes "CHR ''}'' \<notin> set n" "CHR ''}'' \<notin> set m"
  shows "prefix (placeholder n) (placeholder m @ s) \<longleftrightarrow> n = m"
proof
  assume "prefix (placeholder n) (placeholder m @ s)"
  then obtain z where z: "n @ CHR ''}'' # z = m @ CHR ''}'' # s"
    by (auto simp: placeholder_def prefix_def)
  have "takeWhile (\<lambda>x. x \<noteq> CHR ''}'') (n @ CHR ''}'' # z) = n" "takeWhile (\<lambda>x. x \<noteq> CHR ''}'') (m @ CHR ''}'' # s) = m"
    using assms by (simp_all add: takeWhile_to_sep)
  with z show "n = m" by metis
qed simp

text \<open>Replacing one variable in a command whose variables are all in the dollar notation.\<close>

definition fill :: "(string \<Rightarrow> string option) \<Rightarrow> piece list \<Rightarrow> string" where
  "fill m ps = concat (map (replaced_text m) ps)"

definition plain_values :: "(string \<Rightarrow> string option) \<Rightarrow> bool" where
  "plain_values m \<longleftrightarrow> (\<forall>n v. m n = Some v \<longrightarrow> CHR ''$'' \<notin> set v)"

lemma replace_placeholder:
  assumes "CHR ''}'' \<notin> set n" "CHR ''$'' \<notin> set m" "CHR ''}'' \<notin> set m"
  shows "ReplaceAll (placeholder m @ s) (placeholder n) v =
    (if n = m then v else placeholder m) @ ReplaceAll s (placeholder n) v"
proof (cases "n = m")
  case True
  have "placeholder m \<noteq> []" by (simp add: placeholder_def)
  with True show ?thesis by (simp add: ReplaceAll_hit)
next
  case False
  then have no: "\<not> prefix (placeholder n) (placeholder m @ s)"
    using assms by (simp add: placeholder_inj)
  have tail: "placeholder m = CHR ''$'' # ''{'' @ m @ ''}''" by (simp add: placeholder_def)
  have "ReplaceAll (placeholder m @ s) (placeholder n) v = CHR ''$'' # ReplaceAll ((''{'' @ m @ ''}'') @ s) (placeholder n) v"
    using no unfolding tail by simp
  also have "ReplaceAll ((''{'' @ m @ ''}'') @ s) (placeholder n) v = (''{'' @ m @ ''}'') @ ReplaceAll s (placeholder n) v"
    by (rule ReplaceAll_skip [of _ "CHR ''$''" "''{'' @ n @ ''}''"]) (use assms in \<open>simp_all add: placeholder_def\<close>)
  finally show ?thesis
    using False by (simp add: tail)
qed

lemma replaced_piece:
  assumes "piece_ok p" "plain_values m" "CHR ''}'' \<notin> set n"
  shows "ReplaceAll (replaced_text m p @ s) (placeholder n) v =
    replaced_text (m ++ (if m n = None then [n \<mapsto> v] else Map.empty)) p @ ReplaceAll s (placeholder n) v"
proof -
  have skip: "CHR ''$'' \<notin> set t \<Longrightarrow> ReplaceAll (t @ s) (placeholder n) v = t @ ReplaceAll s (placeholder n) v" for t
    by (rule ReplaceAll_skip [of _ "CHR ''$''" "''{'' @ n @ ''}''"]) (simp_all add: placeholder_def)
  have var: "ReplaceAll ((case m k of Some w \<Rightarrow> w | None \<Rightarrow> placeholder k) @ s) (placeholder n) v =
      (case (m ++ (if m n = None then [n \<mapsto> v] else Map.empty)) k of Some w \<Rightarrow> w | None \<Rightarrow> placeholder k) @ ReplaceAll s (placeholder n) v"
    if "set k \<inter> special = {}" for k
  proof (cases "m k")
    case None
    with that assms(3) show ?thesis
      by (auto simp: replace_placeholder special_def map_add_def)
  next
    case (Some w)
    with assms(2) have "CHR ''$'' \<notin> set w" by (simp add: plain_values_def)
    with Some show ?thesis by (auto simp: skip map_add_def)
  qed
  show ?thesis
  proof (cases p)
    case (Plain t)
    with assms(1) have "CHR ''$'' \<notin> set t" by (auto simp: special_def)
    with Plain show ?thesis by (simp add: skip)
  qed (use assms(1) var in simp_all)
qed

lemma fill_step:
  assumes "\<forall>p \<in> set ps. piece_ok p" "plain_values m" "CHR ''}'' \<notin> set n"
  shows "ReplaceAll (fill m ps) (placeholder n) v = fill (m ++ (if m n = None then [n \<mapsto> v] else Map.empty)) ps"
  unfolding fill_def by (rule concat_ReplaceAll, rule replaced_piece) (use assms in blast)+

lemma fill_fold:
  assumes "\<forall>p \<in> set ps. piece_ok p" "plain_values m" "\<forall>(n, v) \<in> set vs. CHR ''}'' \<notin> set n \<and> CHR ''$'' \<notin> set v"
  shows "fold (\<lambda>(n, v) s. ReplaceAll s (placeholder n) v) vs (fill m ps) = fill (map_of vs ++ m) ps"
  using assms
proof (induction vs arbitrary: m)
  case (Cons nv vs)
  obtain n v where nv: "nv = (n, v)" by force
  let ?m = "m ++ (if m n = None then [n \<mapsto> v] else Map.empty)"
  have "plain_values ?m"
    using Cons.prems(2,3) by (auto simp: plain_values_def nv map_add_def split: option.splits if_splits)
  moreover have "map_of vs ++ ?m = map_of (nv # vs) ++ m"
    by (rule ext) (auto simp: map_add_def nv split: option.splits)
  ultimately show ?case
    using Cons.IH [of ?m] Cons.prems by (simp add: nv fill_step fun_upd_def)
qed simp

text \<open>Both notations become the dollar notation.\<close>

fun half_open :: "piece \<Rightarrow> string" where
  "half_open (Plain t) = t"
| "half_open (Braces n) = ''${'' @ n @ ''}}''"
| "half_open (Dollar n) = placeholder n"

lemma special_simps: "set t \<inter> special = {} \<longleftrightarrow> CHR ''$'' \<notin> set t \<and> CHR ''{'' \<notin> set t \<and> CHR ''}'' \<notin> set t \<and>
    CHR ''['' \<notin> set t \<and> CHR '']'' \<notin> set t"
  by (auto simp: special_def)

lemma open_left:
  assumes "piece_ok p"
  shows "ReplaceAll (source_text p @ s) ''{{'' ''${'' = half_open p @ ReplaceAll s ''{{'' ''${''"
proof (cases p)
  case (Plain t)
  with assms show ?thesis by (simp add: special_simps ReplaceAll_skip)
next
  case (Braces n)
  have "ReplaceAll (''{{'' @ ((n @ ''}}'') @ s)) ''{{'' ''${'' = ''${'' @ ReplaceAll ((n @ ''}}'') @ s) ''{{'' ''${''"
    by (rule ReplaceAll_hit) simp
  also have "ReplaceAll ((n @ ''}}'') @ s) ''{{'' ''${'' = (n @ ''}}'') @ ReplaceAll s ''{{'' ''${''"
    by (rule ReplaceAll_skip) (use assms Braces in \<open>auto simp: special_simps\<close>)
  finally show ?thesis using Braces by simp
next
  case (Dollar n)
  have "\<not> prefix ''{{'' (CHR ''{'' # n @ ''}'' @ s)"
    using assms Dollar by (cases n) (auto simp: special_def)
  then have "ReplaceAll (CHR ''{'' # (n @ ''}'') @ s) ''{{'' ''${'' = CHR ''{'' # ReplaceAll ((n @ ''}'') @ s) ''{{'' ''${''"
    by simp
  also have "ReplaceAll ((n @ ''}'') @ s) ''{{'' ''${'' = (n @ ''}'') @ ReplaceAll s ''{{'' ''${''"
    by (rule ReplaceAll_skip) (use assms Dollar in \<open>auto simp: special_simps\<close>)
  finally show ?thesis using Dollar by (simp add: placeholder_def)
qed

lemma open_right:
  assumes "piece_ok p" "\<not> prefix ''}'' s"
  shows "ReplaceAll (half_open p @ s) ''}}'' ''}'' = replaced_text Map.empty p @ ReplaceAll s ''}}'' ''}''"
proof (cases p)
  case (Plain t)
  with assms show ?thesis by (simp add: special_simps ReplaceAll_skip)
next
  case (Braces n)
  have "ReplaceAll ((''${'' @ n) @ (''}}'' @ s)) ''}}'' ''}'' = (''${'' @ n) @ ReplaceAll (''}}'' @ s) ''}}'' ''}''"
    by (rule ReplaceAll_skip) (use assms Braces in \<open>auto simp: special_simps\<close>)
  also have "ReplaceAll (''}}'' @ s) ''}}'' ''}'' = ''}'' @ ReplaceAll s ''}}'' ''}''"
    by (rule ReplaceAll_hit) simp
  finally show ?thesis using Braces by (simp add: placeholder_def)
next
  case (Dollar n)
  have "ReplaceAll ((''${'' @ n) @ (''}'' @ s)) ''}}'' ''}'' = (''${'' @ n) @ ReplaceAll (''}'' @ s) ''}}'' ''}''"
    by (rule ReplaceAll_skip) (use assms Dollar in \<open>auto simp: special_simps\<close>)
  also have "ReplaceAll (''}'' @ s) ''}}'' ''}'' = ''}'' @ ReplaceAll s ''}}'' ''}''"
    using assms(2) by simp
  finally show ?thesis using Dollar by (simp add: placeholder_def)
qed

lemma no_close: "\<forall>p \<in> set ps. piece_ok p \<Longrightarrow> \<not> prefix ''}'' (concat (map half_open ps))"
proof (induction ps)
  case (Cons p ps)
  then show ?case
  proof (cases p)
    case (Plain t)
    with Cons show ?thesis by (cases t) (auto simp: special_def)
  qed (auto simp: placeholder_def)
qed simp

lemma open_braces_pieces:
  assumes "\<forall>p \<in> set ps. piece_ok p"
  shows "open_braces (concat (map source_text ps)) = fill Map.empty ps"
proof -
  have "ReplaceAll (concat (map source_text ps)) ''{{'' ''${'' = concat (map half_open ps)"
    by (rule concat_ReplaceAll) (use assms open_left in blast)
  moreover have "ReplaceAll (concat (map half_open ps)) ''}}'' ''}'' = fill Map.empty ps"
    using assms by (induction ps) (simp_all add: fill_def open_right no_close)
  ultimately show ?thesis by (simp add: open_braces_def)
qed

section \<open>What a command becomes\<close>

lemma nat_digits_no_dollar: "CHR ''$'' \<notin> set (nat_digits n)"
proof (induction n rule: nat_digits.induct)
  case (1 n)
  have d: "CHR ''$'' \<noteq> digit_char d" if "d < 10" for d
    using that by (auto simp: digit_char_def char_of_eq_iff take_bit_nat_eq_self dest!: arg_cong [of _ _ "of_char :: char \<Rightarrow> nat"])
  with 1 show ?case
    by (subst nat_digits.simps) auto
qed

lemma Itoa_no_dollar [simp]: "CHR ''$'' \<notin> set (Itoa i)"
  by (simp add: Itoa_def nat_digits_no_dollar)

lemma no_protected: "CHR ''['' \<notin> set s \<Longrightarrow> protected_segments s = []"
  by (induction s) auto

lemma replace_variable_unprotected [simp]: "replace_variable [] = (\<lambda>v s. ReplaceAll s (placeholder (fst v)) (snd v))"
  by (intro ext) (simp add: replace_variable_def hide_segments_def show_segments_def)

lemma fill_unprotected: "\<forall>p \<in> set ps. piece_ok p \<Longrightarrow> CHR ''['' \<notin> set (fill Map.empty ps)"
proof (induction ps)
  case (Cons p ps)
  then show ?case by (cases p) (auto simp: fill_def placeholder_def special_def)
qed (simp add: fill_def)

text \<open>A startup command without protected segments becomes the same command with every variable, in either
  notation, replaced at once by the value of the server's variable of that name, else by the port, the memory or
  the address where it names these, and left in the dollar notation otherwise: the result does not depend on the
  order in which the variables are taken.\<close>

theorem invocation_substitutes:
  assumes "\<forall>p \<in> set ps. piece_ok p" "\<forall>(n, v) \<in> set vs. CHR ''}'' \<notin> set n \<and> CHR ''$'' \<notin> set v"
  shows "parseInvocation (concat (map source_text ps)) vs memory port ip =
    concat (map (replaced_text
      ([''SERVER_PORT'' \<mapsto> Itoa port, ''SERVER_MEMORY'' \<mapsto> Itoa memory, ''SERVER_IP'' \<mapsto> ip] ++ map_of vs)) ps)"
proof -
  have vals: "plain_values Map.empty" "plain_values (map_of vs)"
    using assms(2) by (auto simp: plain_values_def dest!: map_of_SomeD)
  have names: "''${SERVER_PORT}'' = placeholder ''SERVER_PORT''" "''${SERVER_MEMORY}'' = placeholder ''SERVER_MEMORY''"
    "''${SERVER_IP}'' = placeholder ''SERVER_IP''"
    by (simp_all add: placeholder_def)
  have vars: "fold (\<lambda>v s. ReplaceAll s (placeholder (fst v)) (snd v)) vs (fill Map.empty ps) = fill (map_of vs) ps"
    using fill_fold [OF assms(1) vals(1) assms(2)] by (simp add: case_prod_unfold)
  define m1 where "m1 = map_of vs ++ (if map_of vs ''SERVER_PORT'' = None then [''SERVER_PORT'' \<mapsto> Itoa port] else Map.empty)"
  define m2 where "m2 = m1 ++ (if m1 ''SERVER_MEMORY'' = None then [''SERVER_MEMORY'' \<mapsto> Itoa memory] else Map.empty)"
  have "plain_values m1" "plain_values m2"
    using vals(2) by (auto simp: m1_def m2_def plain_values_def map_add_def split: option.splits if_splits)
  then have "parseInvocation (concat (map source_text ps)) vs memory port ip =
      fill (m2 ++ (if m2 ''SERVER_IP'' = None then [''SERVER_IP'' \<mapsto> ip] else Map.empty)) ps"
    using assms(1) vals(2)
    by (simp add: parseInvocation_def Let_def open_braces_pieces no_protected fill_unprotected enumerate_eq_zip vars names
        fill_step m1_def [symmetric] m2_def [symmetric])
  also have "m2 ++ (if m2 ''SERVER_IP'' = None then [''SERVER_IP'' \<mapsto> ip] else Map.empty) =
      [''SERVER_PORT'' \<mapsto> Itoa port, ''SERVER_MEMORY'' \<mapsto> Itoa memory, ''SERVER_IP'' \<mapsto> ip] ++ map_of vs"
    by (rule ext) (auto simp: m1_def m2_def map_add_def split: option.splits)
  finally show ?thesis by (simp add: fill_def)
qed

theorem invocation_substitutes_witness:
  "parseInvocation ''java -Xmx{{SERVER_MEMORY}}M -jar ${JAR}'' [(''JAR'', ''a.jar'')] 7 5 ''h'' = ''java -Xmx7M -jar a.jar''"
proof -
  let ?ps = "[Plain ''java -Xmx'', Braces ''SERVER_MEMORY'', Plain ''M -jar '', Dollar ''JAR'']"
  have "\<forall>p \<in> set ?ps. piece_ok p" by (simp add: special_def)
  moreover have "char_of (55 :: nat) = CHR ''7''" by code_simp
  then have "Itoa 7 = ''7''" by (simp add: Itoa_def nat_digits.simps digit_char_def)
  ultimately show ?thesis
    using invocation_substitutes [of ?ps "[(''JAR'', ''a.jar'')]" 7 5 "''h''"] by (simp add: placeholder_def map_add_def)
qed

end
