(* ===== verification/ServerBase.thy ===== *)
theory ServerBase
  imports DockerPower FsFiles Throttle Sinks Bags Invocation
begin

text \<open>
  The state of a server (\<open>wings/server/server.go\<close>, \<open>configuration.go\<close>, \<open>resources.go\<close>, \<open>errors.go\<close>,
  \<open>events.go\<close>) and what it relies on: the process environment, an interface of
  \<open>wings/environment/environment.go\<close>; its filesystem; the panel.

  \<open>'e\<close> is the state of the environment, \<open>'w\<close> the host with its files and the panel. The messages of the event
  bus are recorded in the order they are published; the routines an operation starts are recorded too and run
  later, as steps of their own.
\<close>

section \<open>The process environment\<close>

text \<open>\<open>pe_docker_attached\<close> is \<open>IsAttached\<close> of a Docker environment, \<open>None\<close> for any other environment: the code
  asks for it through a type assertion.\<close>

record 'e penv =
  pe_State :: "'e \<Rightarrow> string"
  pe_SetState :: "string \<Rightarrow> 'e \<Rightarrow> (derr, unit) outcome \<times> 'e"
  pe_Start :: "'e \<Rightarrow> (derr, unit) outcome \<times> 'e"
  pe_WaitForStop :: "nat \<Rightarrow> bool \<Rightarrow> 'e \<Rightarrow> (derr, unit) outcome \<times> 'e"
  pe_Terminate :: "string \<Rightarrow> 'e \<Rightarrow> (derr, unit) outcome \<times> 'e"
  pe_InSituUpdate :: "'e \<Rightarrow> (derr, unit) outcome \<times> 'e"
  pe_Create :: "'e \<Rightarrow> (derr, unit) outcome \<times> 'e"
  pe_ExitState :: "'e \<Rightarrow> (derr, int \<times> bool) outcome \<times> 'e"
  pe_Readlog :: "int \<Rightarrow> 'e \<Rightarrow> (derr, string list) outcome \<times> 'e"
  pe_SetSettings :: "env_settings \<Rightarrow> 'e \<Rightarrow> 'e"
  pe_SetVariables :: "string list \<Rightarrow> 'e \<Rightarrow> 'e"
  pe_SetImage :: "string \<Rightarrow> 'e \<Rightarrow> 'e"
  pe_SetStop :: "string \<Rightarrow> string \<Rightarrow> 'e \<Rightarrow> 'e"
  pe_IsRunning :: "'e \<Rightarrow> (derr, bool) outcome \<times> 'e"
  pe_SendCommand :: "string \<Rightarrow> 'e \<Rightarrow> (derr, unit) outcome \<times> 'e"
  pe_Destroy :: "'e \<Rightarrow> (derr, unit) outcome \<times> 'e"
  pe_docker_attached :: "('e \<Rightarrow> bool) option"

section \<open>Configuration\<close>

record configuration =
  cfg_Uuid :: string
  cfg_Suspended :: bool
  cfg_Invocation :: string
  cfg_SkipEggScripts :: bool
  cfg_EnvVars :: "(string \<times> env_value) list"
  cfg_Labels :: "(string \<times> string) list"
  cfg_Allocations :: allocations
  cfg_Build :: limits
  cfg_CrashDetection :: bool
  cfg_Mounts :: "mount list"
  cfg_Denylist :: "string list"
  cfg_Features :: "(string \<times> string list) list option"
  cfg_Image :: string

text \<open>A line of output that marks the server as started; \<open>om_reg\<close> is its compiled regular expression.\<close>

record matcher =
  om_raw :: string
  om_reg :: "(string \<Rightarrow> bool) option"

definition Contains :: "string \<Rightarrow> string \<Rightarrow> bool" where
  "Contains s p = sublist p s"

definition Matches :: "matcher \<Rightarrow> string \<Rightarrow> bool" where
  "Matches olm s = (case om_reg olm of None \<Rightarrow> Contains s (om_raw olm) | Some r \<Rightarrow> r s)"

definition matcher_of :: "(string \<Rightarrow> (string \<Rightarrow> bool) option) \<Rightarrow> string \<Rightarrow> matcher" where
  "matcher_of compile r =
     \<lparr>om_raw = r,
      om_reg = (if HasPrefix r ''regex:'' \<and> length r > 6 then compile (TrimPrefix r ''regex:'') else None)\<rparr>"

record config_file =
  cff_FileName :: string
  cff_AllowCreate :: bool

record process_config =
  pc_Done :: "matcher list"
  pc_StripAnsi :: bool
  pc_StopType :: string
  pc_StopValue :: string
  pc_Files :: "config_file list"

definition SetSuspended :: "bool \<Rightarrow> configuration \<Rightarrow> configuration" where
  "SetSuspended b c = c\<lparr>cfg_Suspended := b\<rparr>"

section \<open>Errors, events and routines\<close>

text \<open>\<open>EvPublished\<close> is an event with a plain text, by its topic.\<close>

datatype srv_error =
    ErrIsRunning | ErrSuspended | ErrServerIsInstalling | ErrServerIsTransferring | ErrServerIsRestoring
  | CrashTooFrequent | ServerDoesNotExist | UnknownAction
  | SrvLock lock_err | SrvEnv derr | SrvFs fs_error | SrvRemote string | SrvDecode | SrvText string | SrvMsg string srv_error

definition IsTooFrequentCrashError :: "srv_error \<Rightarrow> bool" where
  "IsTooFrequentCrashError e \<longleftrightarrow> e = CrashTooFrequent"

definition IsServerDoesNotExistError :: "srv_error \<Rightarrow> bool" where
  "IsServerDoesNotExistError e \<longleftrightarrow> e = ServerDoesNotExist"

text \<open>\<open>cpu\<close> is the rendering of a floating-point number.\<close>

record stats =
  sta_Memory :: nat
  sta_MemoryLimit :: nat
  sta_Cpu :: string
  sta_Rx :: nat
  sta_Tx :: nat
  sta_Uptime :: int

record usage =
  us_Stats :: stats
  us_State :: string
  us_Disk :: int

datatype server_event =
    EvStatus string | EvStats usage | EvConsole string | EvInstallOutput string | EvFeature string string string
  | EvPublished string string

datatype routine = CrashRoutine | StopSuspended | LookupDisk | HandleOutput string | StreamInstallOutput "string list"

text \<open>An activity saved for a crash: exit code, out-of-memory flag and last lines.\<close>

type_synonym crash_activity = "int \<times> bool \<times> string list"

section \<open>The server\<close>

record ('e, 'w) server =
  sv_ctx_cancelled :: bool
  sv_powerLock :: locker
  sv_cfg :: configuration
  sv_proc :: process_config
  sv_lastCrash :: "int option"
  sv_usage :: usage
  sv_env :: 'e
  sv_disk :: "disk_cache \<times> quota"
  sv_world :: 'w
  sv_events :: "server_event list"
  sv_emitter :: sink_pool
  sv_logSink :: sink_pool
  sv_installSink :: sink_pool
  sv_chans :: chans
  sv_installing :: bool
  sv_transferring :: bool
  sv_restoring :: bool
  sv_throttler :: "throttle option"
  sv_sftp :: context_bag
  sv_ws :: "ws_bag option"
  sv_ws_cancelled :: "nat list"
  sv_routines :: "routine list"
  sv_panel :: "(string \<times> string) list"
  sv_activity :: "crash_activity list"

definition no_stats :: stats where
  "no_stats = \<lparr>sta_Memory = 0, sta_MemoryLimit = 0, sta_Cpu = ''0'', sta_Rx = 0, sta_Tx = 0, sta_Uptime = 0\<rparr>"

definition NewServer :: "configuration \<Rightarrow> process_config \<Rightarrow> 'e \<Rightarrow> disk_cache \<times> quota \<Rightarrow> 'w \<Rightarrow> chans \<Rightarrow> ('e, 'w) server" where
  "NewServer c pc e d w cs =
     \<lparr>sv_ctx_cancelled = False, sv_powerLock = NewLocker, sv_cfg = c, sv_proc = pc, sv_lastCrash = None,
      sv_usage = \<lparr>us_Stats = no_stats, us_State = ProcessOfflineState, us_Disk = 0\<rparr>, sv_env = e, sv_disk = d,
      sv_world = w, sv_events = [], sv_emitter = NewSinkPool, sv_logSink = NewSinkPool, sv_installSink = NewSinkPool,
      sv_chans = cs, sv_installing = False, sv_transferring = False, sv_restoring = False, sv_throttler = None,
      sv_sftp = NewContextBag, sv_ws = None, sv_ws_cancelled = [], sv_routines = [], sv_panel = [], sv_activity = []\<rparr>"

text \<open>
  What a server is surrounded by: the environment and the kernel, the settings of the daemon
  (\<open>config.Get()\<close>), and the code that is not the program's: the decoder of the panel's settings, the time zone
  database, \<open>os.Stat\<close> on mount sources, \<open>os.WriteFile\<close> for the machine id, regular expressions, and the
  configuration parsers, which get the opened file.
\<close>

datatype fetch_error = FetchStatus int | FetchFailed string

record ('e, 'w) daemon =
  dmn_env :: "'e penv"
  dmn_kernel :: "'w kernel"
  dmn_fs :: filesystem
  dmn_fuel :: nat
  dmn_fetch :: "string \<Rightarrow> 'w \<Rightarrow> (fetch_error + string \<times> process_config) \<times> 'w"
  dmn_unmarshal :: "string \<Rightarrow> configuration \<Rightarrow> configuration option"
  dmn_parse :: "config_file \<Rightarrow> int \<Rightarrow> 'w \<Rightarrow> err option \<times> 'w"
  dmn_write_file :: "string \<Rightarrow> string \<Rightarrow> 'w \<Rightarrow> err option \<times> 'w"
  dmn_sprint :: "env_value \<Rightarrow> string"
  dmn_zone :: "string \<Rightarrow> bool"
  dmn_missing :: "string \<Rightarrow> bool"
  dmn_strip :: "string \<Rightarrow> string"
  dmn_empty :: configuration
  dmn_crash_enabled :: bool
  dmn_clean_exit_is_crash :: bool
  dmn_crash_timeout :: int
  dmn_log_lines :: int
  dmn_check_permissions :: bool
  dmn_timezone :: string
  dmn_mounts :: mount_config
  dmn_block_base :: bool
  dmn_allowed_mounts :: "string list"
  dmn_throttle_lines :: "64 word"
  dmn_throttle_period :: int

type_synonym ('r, 'e, 'w) srvop = "('e, 'w) server \<Rightarrow> ((srv_error, 'r) outcome \<times> ('e, 'w) server) option"

text \<open>Sequencing: an error returns, a panic unwinds. \<open>None\<close> is an operation that does not end.\<close>

definition andthen ::
  "((srv_error, 'a) outcome \<times> 's) option \<Rightarrow> ('a \<Rightarrow> 's \<Rightarrow> ((srv_error, 'b) outcome \<times> 's) option) \<Rightarrow>
    ((srv_error, 'b) outcome \<times> 's) option" where
  "andthen m f = (case m of
     None \<Rightarrow> None
   | Some (Ok a, s) \<Rightarrow> f a s
   | Some (Err e, s) \<Rightarrow> Some (Err e, s)
   | Some (Panic, s) \<Rightarrow> Some (Panic, s))"

definition pure_ok :: "('e, 'w) server \<Rightarrow> ((srv_error, unit) outcome \<times> ('e, 'w) server) option" where
  "pure_ok s = Some (Ok (), s)"

definition on_env :: "('e \<Rightarrow> (derr, 'a) outcome \<times> 'e) \<Rightarrow> ('e, 'w) server \<Rightarrow> (srv_error, 'a) outcome \<times> ('e, 'w) server" where
  "on_env f s = (case f (sv_env s) of
     (Ok a, e) \<Rightarrow> (Ok a, s\<lparr>sv_env := e\<rparr>)
   | (Err er, e) \<Rightarrow> (Err (SrvEnv er), s\<lparr>sv_env := e\<rparr>)
   | (Panic, e) \<Rightarrow> (Panic, s\<lparr>sv_env := e\<rparr>))"

definition set_env :: "('e \<Rightarrow> 'e) \<Rightarrow> ('e, 'w) server \<Rightarrow> ('e, 'w) server" where
  "set_env f s = s\<lparr>sv_env := f (sv_env s)\<rparr>"

definition emit :: "server_event \<Rightarrow> ('e, 'w) server \<Rightarrow> ('e, 'w) server" where
  "emit x s = s\<lparr>sv_events := sv_events s @ [x]\<rparr>"

definition PublishConsoleOutputFromDaemon :: "string \<Rightarrow> ('e, 'w) server \<Rightarrow> ('e, 'w) server" where
  "PublishConsoleOutputFromDaemon msg s = emit (EvConsole msg) s"

definition start_routine :: "routine \<Rightarrow> ('e, 'w) server \<Rightarrow> ('e, 'w) server" where
  "start_routine r s = s\<lparr>sv_routines := sv_routines s @ [r]\<rparr>"

definition srv_State :: "('e, 'w) daemon \<Rightarrow> ('e, 'w) server \<Rightarrow> string" where
  "srv_State D s = pe_State (dmn_env D) (sv_env s)"

definition IsRunning :: "('e, 'w) daemon \<Rightarrow> ('e, 'w) server \<Rightarrow> bool" where
  "IsRunning D s \<longleftrightarrow> srv_State D s = ProcessRunningState \<or> srv_State D s = ProcessStartingState"

definition IsSuspended :: "('e, 'w) server \<Rightarrow> bool" where
  "IsSuspended s = cfg_Suspended (sv_cfg s)"

definition ExecutingPowerAction :: "('e, 'w) server \<Rightarrow> bool" where
  "ExecutingPowerAction s = IsLocked (sv_powerLock s)"

definition sv_DiskSpace :: "('e, 'w) server \<Rightarrow> int" where
  "sv_DiskSpace s = DiskSpace (cfg_Build (sv_cfg s))"

section \<open>Resource usage\<close>

definition Proc :: "('e, 'w) server \<Rightarrow> usage \<times> ('e, 'w) server" where
  "Proc s = (let u = (sv_usage s)\<lparr>us_Disk := Usage (snd (sv_disk s))\<rparr> in (u, s\<lparr>sv_usage := u\<rparr>))"

definition UpdateStats :: "stats \<Rightarrow> usage \<Rightarrow> usage" where
  "UpdateStats st u = u\<lparr>us_Stats := st\<rparr>"

definition usage_Reset :: "usage \<Rightarrow> usage" where
  "usage_Reset u = u\<lparr>us_Stats := (us_Stats u)\<lparr>sta_Memory := 0, sta_Cpu := ''0'', sta_Uptime := 0, sta_Tx := 0, sta_Rx := 0\<rparr>\<rparr>"

definition publish_stats :: "('e, 'w) server \<Rightarrow> ('e, 'w) server" where
  "publish_stats s = (case Proc s of (u, s) \<Rightarrow> emit (EvStats u) s)"

section \<open>Tearing down\<close>

text \<open>
  \<open>Events().Destroy\<close>, \<open>DestroyAllSinks\<close> and the power lock panic when a channel is closed twice; the sinks are
  destroyed in the order the map is iterated.
\<close>

definition DestroyAllSinks :: "('e, 'w) server \<Rightarrow> (srv_error, unit) outcome \<times> ('e, 'w) server" where
  "DestroyAllSinks s =
     (case pool_Destroy (sv_chans s) (sv_logSink s) of
        Ok (cs, p) \<Rightarrow> (case pool_Destroy cs (sv_installSink s) of
            Ok (cs, q) \<Rightarrow> (Ok (), s\<lparr>sv_chans := cs, sv_logSink := p, sv_installSink := q\<rparr>)
          | _ \<Rightarrow> (Panic, s\<lparr>sv_chans := cs, sv_logSink := p\<rparr>))
      | _ \<Rightarrow> (Panic, s))"

definition cancel_websockets :: "('e, 'w) server \<Rightarrow> ('e, 'w) server" where
  "cancel_websockets s =
     (case ws_CancelAll (Websockets (sv_ws s)) of
        (cs, w) \<Rightarrow> s\<lparr>sv_ws := Some w, sv_ws_cancelled := sv_ws_cancelled s @ cs\<rparr>)"

definition CleanupForDestroy :: "('e, 'w) server \<Rightarrow> (srv_error, unit) outcome \<times> ('e, 'w) server" where
  "CleanupForDestroy s =
     (let s = s\<lparr>sv_ctx_cancelled := True\<rparr>
      in case pool_Destroy (sv_chans s) (sv_emitter s) of
           Ok (cs, p) \<Rightarrow>
             (case DestroyAllSinks (s\<lparr>sv_chans := cs, sv_emitter := p\<rparr>) of
                (Ok _, s) \<Rightarrow>
                  (let s = cancel_websockets s
                   in case Destroy (sv_powerLock s) of
                        (Ok _, l) \<Rightarrow> (Ok (), s\<lparr>sv_powerLock := l\<rparr>)
                      | (_, l) \<Rightarrow> (Panic, s\<lparr>sv_powerLock := l\<rparr>))
              | (_, s) \<Rightarrow> (Panic, s))
         | _ \<Rightarrow> (Panic, s))"

end
