(* ===== verification/ServerBoot.thy ===== *)
theory ServerBoot
  imports ServerBase
begin

text \<open>
  What a server does before its process is started: fetching its configuration from the panel, handing it to the
  environment, checking the disk and updating files (\<open>Sync\<close>, \<open>SyncWithConfiguration\<close> and \<open>CreateMachineID\<close> of
  \<open>wings/server/server.go\<close>, \<open>update.go\<close>, \<open>config_parser.go\<close>, \<open>onBeforeStart\<close> of \<open>power.go\<close>).
\<close>

section \<open>Configuration from the panel\<close>

definition SyncWithConfiguration :: "('e, 'w) daemon \<Rightarrow> string \<times> process_config \<Rightarrow> (unit, 'e, 'w) srvop" where
  "SyncWithConfiguration D cfg s =
     (let c = (dmn_empty D)\<lparr>cfg_CrashDetection := dmn_crash_enabled D\<rparr>
      in case dmn_unmarshal D (fst cfg) c of
           None \<Rightarrow> Some (Err SrvDecode, s)
         | Some c \<Rightarrow> Some (Ok (), s\<lparr>sv_cfg := c, sv_proc := snd cfg\<rparr>))"

definition server_mounts :: "('e, 'w) daemon \<Rightarrow> ('e, 'w) server \<Rightarrow> mount list" where
  "server_mounts D s =
     Mounts (dmn_mounts D) (basePath (fsys_unix (dmn_fs D))) (cfg_Uuid (sv_cfg s))
       (customMounts (dmn_missing D) (dmn_block_base D) (dmn_allowed_mounts D) (cfg_Mounts (sv_cfg s)))"

definition server_variables :: "('e, 'w) daemon \<Rightarrow> ('e, 'w) server \<Rightarrow> (unit, string list) outcome" where
  "server_variables D s =
     (let c = sv_cfg s; a = cfg_Allocations c; mem = MemoryLimit (cfg_Build c)
      in GetEnvironmentVariables (DetermineServerTimezone (dmn_zone D) (cfg_EnvVars c) (dmn_timezone D))
           (parseInvocation (cfg_Invocation c) (map (\<lambda>(k, v). (k, dmn_sprint D v)) (cfg_EnvVars c)) mem (DefaultPort a) (DefaultIp a))
           mem (DefaultIp a) (DefaultPort a) (cfg_EnvVars c))"

definition SyncWithEnvironment :: "('e, 'w) daemon \<Rightarrow> (unit, 'e, 'w) srvop" where
  "SyncWithEnvironment D s =
     (let cfg = sv_cfg s; P = dmn_env D;
          s = set_env (pe_SetSettings P \<lparr>set_Mounts = server_mounts D s, set_Allocations = cfg_Allocations cfg,
                 set_Limits = cfg_Build cfg, set_Labels = cfg_Labels cfg\<rparr>) s;
          s = set_env (pe_SetImage P (cfg_Image cfg)) s;
          s = set_env (pe_SetStop P (pc_StopType (sv_proc s)) (pc_StopValue (sv_proc s))) s
      in case server_variables D s of
           Ok vars \<Rightarrow>
             (let s = set_env (pe_SetVariables P vars) s
              in if \<not> IsSuspended s
                 then (case on_env (pe_InSituUpdate P) s of
                         (Panic, s) \<Rightarrow> Some (Panic, s)
                       | (_, s) \<Rightarrow> Some (Ok (), s))
                 else if srv_State D s \<noteq> ProcessOfflineState then pure_ok (start_routine StopSuspended s)
                 else pure_ok s)
         | _ \<Rightarrow> Some (Panic, s))"

definition Sync :: "('e, 'w) daemon \<Rightarrow> (unit, 'e, 'w) srvop" where
  "Sync D s =
     (case dmn_fetch D (cfg_Uuid (sv_cfg s)) (sv_world s) of
        (Inl e, w) \<Rightarrow>
          Some (Err (case e of FetchStatus code \<Rightarrow> if code = 404 then ServerDoesNotExist else SrvRemote ''status''
                             | FetchFailed m \<Rightarrow> SrvRemote m), s\<lparr>sv_world := w\<rparr>)
      | (Inr cfg, w) \<Rightarrow>
          andthen (SyncWithConfiguration D cfg (s\<lparr>sv_world := w\<rparr>)) (\<lambda>_ s.
          andthen (SyncWithEnvironment D
            (s\<lparr>sv_disk := (fst (sv_disk s), SetDiskLimit (sv_DiskSpace s) (snd (sv_disk s)))\<rparr>)) (\<lambda>_ s.
            if IsSuspended s
            then pure_ok ((cancel_websockets s)\<lparr>sv_sftp := CancelAll (sv_sftp s)\<rparr>)
            else pure_ok s)))"

section \<open>Files\<close>

text \<open>
  The configuration files are updated by a pool of workers; they are taken here one after another, in their order.
\<close>

definition update_file :: "('e, 'w) daemon \<Rightarrow> (string \<times> string) list \<Rightarrow> config_file \<Rightarrow> (unit, 'w) fsop" where
  "update_file D vars f w =
     (let filename = replaceParserConfigPathVariables (cff_FileName f) vars; fs = fsys_unix (dmn_fs D); K = dmn_kernel D
      in do {
        (r, w) \<leftarrow> (if cff_AllowCreate f then Touch K fs filename (O_RDWR OR O_CREATE) 0x1A4 w else Open K fs filename w);
        case r of
          Inl e \<Rightarrow> Some ((), w)
        | Inr fd \<Rightarrow> do {
            let (_, w) = dmn_parse D f fd w;
            (_, w) \<leftarrow> do_close K [fd] w;
            Some ((), w) } })"

fun update_files :: "('e, 'w) daemon \<Rightarrow> (string \<times> string) list \<Rightarrow> config_file list \<Rightarrow> (unit, 'w) fsop" where
  "update_files D vars [] w = Some ((), w)"
| "update_files D vars (f # fs) w = do { (_, w) \<leftarrow> update_file D vars f w; update_files D vars fs w }"

definition UpdateConfigurationFiles :: "('e, 'w) daemon \<Rightarrow> (unit, 'e, 'w) srvop" where
  "UpdateConfigurationFiles D s = do {
     (_, w) \<leftarrow> update_files D (map (\<lambda>(k, v). (k, dmn_sprint D v)) (cfg_EnvVars (sv_cfg s))) (pc_Files (sv_proc s)) (sv_world s);
     pure_ok (s\<lparr>sv_world := w\<rparr>) }"

definition CreateMachineID :: "('e, 'w) daemon \<Rightarrow> (unit, 'e, 'w) srvop" where
  "CreateMachineID D s =
     (let uuid = cfg_Uuid (sv_cfg s);
          p = Join [mc_machine_dir (dmn_mounts D), uuid]
      in case dmn_write_file D p (ReplaceAll uuid ''-'' []) (sv_world s) of
           (Some e, w) \<Rightarrow> Some (Err (SrvMsg ''failed to write machine-id'' (SrvFs (FsUnder e))), s\<lparr>sv_world := w\<rparr>)
         | (None, w) \<Rightarrow> Some (Ok (), s\<lparr>sv_world := w\<rparr>))"

text \<open>Only the uncached check measures the disk before it answers; the cached one may leave that to a routine.\<close>

definition check_disk :: "('e, 'w) daemon \<Rightarrow> int \<Rightarrow> (unit, 'e, 'w) srvop" where
  "check_disk D now s =
     (if sv_DiskSpace s \<le> 0
      then do {
        ((_, d, lookup), w) \<leftarrow> HasSpaceAvailable (dmn_kernel D) (dmn_fs D) (dmn_fuel D) now True (sv_disk s) (sv_world s);
        let s = s\<lparr>sv_disk := d, sv_world := w\<rparr>;
        pure_ok (if lookup then start_routine LookupDisk s else s) }
      else do {
        let s = PublishConsoleOutputFromDaemon ''Checking server disk space usage, this could take a few seconds...'' s;
        ((e, d), w) \<leftarrow> HasSpaceErr (dmn_kernel D) (dmn_fs D) (dmn_fuel D) now False (sv_disk s) (sv_world s);
        let s = s\<lparr>sv_disk := d, sv_world := w\<rparr>;
        case e of Some e \<Rightarrow> Some (Err (SrvFs e), s) | None \<Rightarrow> pure_ok s })"

definition fix_permissions :: "('e, 'w) daemon \<Rightarrow> (unit, 'e, 'w) srvop" where
  "fix_permissions D s =
     (if dmn_check_permissions D then do {
        let s = PublishConsoleOutputFromDaemon ''Ensuring file permissions are set correctly, this could take a few seconds...'' s;
        (e, w) \<leftarrow> fs_Chown (dmn_kernel D) (dmn_fs D) (dmn_fuel D) ''/'' (sv_world s);
        let s = s\<lparr>sv_world := w\<rparr>;
        case e of
          Some e \<Rightarrow> Some (Err (SrvMsg ''failed to chown root server directory during pre-boot process'' (SrvFs e)), s)
        | None \<Rightarrow> pure_ok s }
      else pure_ok s)"

definition onBeforeStart :: "('e, 'w) daemon \<Rightarrow> int \<Rightarrow> (unit, 'e, 'w) srvop" where
  "onBeforeStart D now s =
     (case Sync D s of
        None \<Rightarrow> None
      | Some (Err e, s) \<Rightarrow> Some (Err (SrvMsg ''unable to sync server data from Panel instance'' e), s)
      | Some (Panic, s) \<Rightarrow> Some (Panic, s)
      | Some (Ok _, s) \<Rightarrow>
          if IsSuspended s then Some (Err ErrSuspended, s)
          else andthen (SyncWithEnvironment D s) (\<lambda>_ s.
            andthen (check_disk D now s) (\<lambda>_ s.
            andthen (UpdateConfigurationFiles D (PublishConsoleOutputFromDaemon ''Updating process configuration files...'' s)) (\<lambda>_ s.
            andthen (fix_permissions D s) (\<lambda>_ s.
              if mc_machine (dmn_mounts D) then CreateMachineID D s else pure_ok s)))))"

end
