(* ===== verification/ServerPower.thy ===== *)
theory ServerPower
  imports ServerBoot
begin

text \<open>
  Power actions (\<open>wings/server/power.go\<close>): start, stop, restart and kill under the server's power lock, over any
  process environment. The locale \<open>process_environment\<close> states what the server relies on; the Docker environment
  provides it.
\<close>

section \<open>Actions\<close>

abbreviation PowerActionStart :: string where "PowerActionStart \<equiv> ''start''"
abbreviation PowerActionStop :: string where "PowerActionStop \<equiv> ''stop''"
abbreviation PowerActionRestart :: string where "PowerActionRestart \<equiv> ''restart''"
abbreviation PowerActionTerminate :: string where "PowerActionTerminate \<equiv> ''kill''"

definition pa_IsValid :: "string \<Rightarrow> bool" where
  "pa_IsValid pa \<longleftrightarrow> pa = PowerActionStart \<or> pa = PowerActionStop \<or> pa = PowerActionTerminate \<or> pa = PowerActionRestart"

definition pa_IsStart :: "string \<Rightarrow> bool" where
  "pa_IsStart pa \<longleftrightarrow> pa = PowerActionStart \<or> pa = PowerActionRestart"

definition start_server :: "('e, 'w) daemon \<Rightarrow> int \<Rightarrow> (unit, 'e, 'w) srvop" where
  "start_server D now s = andthen (onBeforeStart D now s) (\<lambda>_ s. Some (on_env (pe_Start (dmn_env D)) s))"

definition perform :: "('e, 'w) daemon \<Rightarrow> int \<Rightarrow> string \<Rightarrow> (unit, 'e, 'w) srvop" where
  "perform D now action s =
     (if action = PowerActionStart then
        (if srv_State D s \<noteq> ProcessOfflineState then Some (Err ErrIsRunning, s) else start_server D now s)
      else if action = PowerActionStop \<or> action = PowerActionRestart then
        andthen (Some (on_env (pe_WaitForStop (dmn_env D) 600 True) s)) (\<lambda>_ s.
          if action = PowerActionStop then Some (Ok (), s) else start_server D now s)
      else if action = PowerActionTerminate then Some (on_env (pe_Terminate (dmn_env D) ''SIGKILL'') s)
      else Some (Err UnknownAction, s))"

text \<open>The deferred release runs however the action ends.\<close>

definition release_after ::
  "((srv_error, unit) outcome \<times> ('e, 'w) server) option \<Rightarrow> ((srv_error, unit) outcome \<times> ('e, 'w) server) option" where
  "release_after m = map_option (\<lambda>(r, s). (r, s\<lparr>sv_powerLock := Release (sv_powerLock s)\<rparr>)) m"

text \<open>
  \<open>acq\<close> answers the attempt to get the lock within the time given, one of the outcomes of \<open>TryAcquire\<close>;
  \<open>waits\<close> is the variadic argument.
\<close>

definition HandlePowerAction ::
  "('e, 'w) daemon \<Rightarrow> int \<Rightarrow> (locker \<Rightarrow> (lock_err, unit) outcome \<times> locker) \<Rightarrow> string \<Rightarrow> int list \<Rightarrow> (unit, 'e, 'w) srvop" where
  "HandlePowerAction D now acq action waits s =
     (if sv_installing s \<or> sv_transferring s \<or> sv_restoring s
      then Some (Err (if sv_restoring s then ErrServerIsRestoring
                      else if sv_transferring s then ErrServerIsTransferring
                      else ErrServerIsInstalling), s)
      else let wait = (case waits of w # _ \<Rightarrow> if w > 0 then w else 0 | [] \<Rightarrow> 0)
      in if action \<noteq> PowerActionTerminate
         then (case (if wait > 0 then acq (sv_powerLock s) else Acquire (sv_powerLock s)) of
                 (Panic, l) \<Rightarrow> Some (Panic, s\<lparr>sv_powerLock := l\<rparr>)
               | (Err e, l) \<Rightarrow>
                   Some (Err (SrvMsg (if wait > 0 then ''could not acquire lock on power action after '' @ Itoa wait @ '' seconds''
                                      else ''failed to acquire exclusive lock for power actions'') (SrvLock e)),
                     s\<lparr>sv_powerLock := l\<rparr>)
               | (Ok _, l) \<Rightarrow> release_after (perform D now action (s\<lparr>sv_powerLock := l\<rparr>)))
         else (case Acquire (sv_powerLock s) of
                 (Panic, l) \<Rightarrow> Some (Panic, s\<lparr>sv_powerLock := l\<rparr>)
               | (Err _, l) \<Rightarrow> perform D now action (s\<lparr>sv_powerLock := l\<rparr>)
               | (Ok _, l) \<Rightarrow> release_after (perform D now action (s\<lparr>sv_powerLock := l\<rparr>))))"

section \<open>What an action leaves alone\<close>

definition same_control :: "('e, 'w) server \<Rightarrow> ('e, 'w) server \<Rightarrow> bool" where
  "same_control s s' \<longleftrightarrow> sv_powerLock s' = sv_powerLock s \<and> sv_installing s' = sv_installing s \<and>
     sv_transferring s' = sv_transferring s \<and> sv_restoring s' = sv_restoring s \<and> sv_lastCrash s' = sv_lastCrash s \<and>
     us_State (sv_usage s') = us_State (sv_usage s) \<and> sv_activity s' = sv_activity s"

lemma same_control_refl [simp]: "same_control s s"
  by (simp add: same_control_def)

lemma same_control_trans: "same_control a b \<Longrightarrow> same_control b c \<Longrightarrow> same_control a c"
  by (simp add: same_control_def)

text \<open>\<open>kept Q m\<close>: whatever \<open>m\<close> returns, the server it leaves is related to the one it got.\<close>

definition kept :: "('s \<Rightarrow> 's \<Rightarrow> bool) \<Rightarrow> ('s \<Rightarrow> ('r \<times> 's) option) \<Rightarrow> bool" where
  "kept Q m \<longleftrightarrow> (\<forall>s r s'. m s = Some (r, s') \<longrightarrow> Q s s')"

named_theorems kept_intros

lemma kept_andthen [kept_intros]:
  assumes "\<And>a b c. Q a b \<Longrightarrow> Q b c \<Longrightarrow> Q a c" "kept Q m" "\<And>a. kept Q (f a)"
  shows "kept Q (\<lambda>s. andthen (m s) f)"
  unfolding kept_def
proof (intro allI impI)
  fix s r s'
  assume "andthen (m s) f = Some (r, s')"
  then show "Q s s'"
    using assms(2,3) assms(1) unfolding kept_def andthen_def
    by (cases "m s") (auto split: outcome.splits prod.splits, blast+)
qed

lemma keptD: "kept Q m \<Longrightarrow> m s = Some (r, s') \<Longrightarrow> Q s s'"
  by (auto simp: kept_def)

locale boot_frame =
  fixes Q :: "('e, 'w) server \<Rightarrow> ('e, 'w) server \<Rightarrow> bool" and D :: "('e, 'w) daemon"
  assumes refl: "Q s s" and trans: "Q a b \<Longrightarrow> Q b c \<Longrightarrow> Q a c"
    and world: "Q s (s\<lparr>sv_world := w\<rparr>)" and disk: "Q s (s\<lparr>sv_disk := d\<rparr>)"
    and config: "Q s (s\<lparr>sv_cfg := cfg, sv_proc := pc\<rparr>)" and emits: "Q s (emit x s)"
    and routines: "Q s (start_routine t s)" and sockets: "Q s (cancel_websockets s)"
    and sftp: "Q s (s\<lparr>sv_sftp := bag\<rparr>)"
    and settings: "Q s (set_env (pe_SetSettings (dmn_env D) z) s)" and img: "Q s (set_env (pe_SetImage (dmn_env D) i) s)"
    and stop: "Q s (set_env (pe_SetStop (dmn_env D) t' v) s)" and vars: "Q s (set_env (pe_SetVariables (dmn_env D) vs) s)"
    and update: "Q s (snd (on_env (pe_InSituUpdate (dmn_env D)) s))"
begin

lemma via: "Q b c \<Longrightarrow> Q a b \<Longrightarrow> Q a c"
  using trans by blast

lemma kept_seq: "kept Q m \<Longrightarrow> (\<And>a. kept Q (f a)) \<Longrightarrow> kept Q (\<lambda>s. andthen (m s) f)"
  using trans by (rule kept_andthen)

lemma kept_pre: "kept Q m \<Longrightarrow> (\<And>s. Q s (g s)) \<Longrightarrow> kept Q (\<lambda>s. m (g s))"
  unfolding kept_def using trans by blast

lemma kept_config: "kept Q (SyncWithConfiguration D cfg)"
  by (auto simp: kept_def SyncWithConfiguration_def Let_def refl config split: option.splits)

lemma kept_environment: "kept Q (SyncWithEnvironment D)"
proof -
  have "Q s s'" if run: "SyncWithEnvironment D s = Some (r, s')" for s r s'
  proof -
    let ?s1 = "set_env (pe_SetSettings (dmn_env D) \<lparr>set_Mounts = server_mounts D s, set_Allocations = cfg_Allocations (sv_cfg s),
                 set_Limits = cfg_Build (sv_cfg s), set_Labels = cfg_Labels (sv_cfg s)\<rparr>) s"
    let ?s2 = "set_env (pe_SetImage (dmn_env D) (cfg_Image (sv_cfg s))) ?s1"
    let ?s3 = "set_env (pe_SetStop (dmn_env D) (pc_StopType (sv_proc ?s2)) (pc_StopValue (sv_proc ?s2))) ?s2"
    have to3: "Q s ?s3"
      by (rule trans [OF settings trans [OF img stop]])
    show ?thesis
    proof (cases "server_variables D ?s3")
      case (Ok vs)
      let ?s4 = "set_env (pe_SetVariables (dmn_env D) vs) ?s3"
      have to4: "Q s ?s4" by (rule trans [OF to3 vars])
      have "s' = snd (on_env (pe_InSituUpdate (dmn_env D)) ?s4) \<or> s' = start_routine StopSuspended ?s4 \<or> s' = ?s4"
        using run Ok
        by (auto simp: SyncWithEnvironment_def Let_def pure_ok_def split: prod.splits outcome.splits if_splits)
      then show ?thesis
        using trans [OF to4 update] trans [OF to4 routines] to4 by blast
    next
      case (Err x)
      with run to3 show ?thesis by (simp add: SyncWithEnvironment_def Let_def)
    next
      case Panic
      with run to3 show ?thesis by (simp add: SyncWithEnvironment_def Let_def)
    qed
  qed
  then show ?thesis by (simp add: kept_def)
qed

lemma kept_Sync: "kept Q (Sync D)"
proof -
  have close: "Q s ((cancel_websockets s)\<lparr>sv_sftp := b\<rparr>)" for s b
    by (rule trans [OF sockets sftp])
  have "kept Q (\<lambda>s. if IsSuspended s then pure_ok ((cancel_websockets s)\<lparr>sv_sftp := CancelAll (sv_sftp s)\<rparr>) else pure_ok s)"
    by (auto simp: kept_def pure_ok_def refl close)
  moreover have "kept Q (\<lambda>s. SyncWithEnvironment D (s\<lparr>sv_disk := f s\<rparr>))" for f
    by (rule kept_pre [OF kept_environment]) (rule disk)
  ultimately have rest: "kept Q (\<lambda>s. andthen (SyncWithConfiguration D cfg s) (\<lambda>_ s.
      andthen (SyncWithEnvironment D (s\<lparr>sv_disk := (fst (sv_disk s), SetDiskLimit (sv_DiskSpace s) (snd (sv_disk s)))\<rparr>)) (\<lambda>_ s.
        if IsSuspended s then pure_ok ((cancel_websockets s)\<lparr>sv_sftp := CancelAll (sv_sftp s)\<rparr>) else pure_ok s)))" for cfg
    by (intro kept_seq kept_config)
  have "Q s s'" if run: "Sync D s = Some (r, s')" for s r s'
  proof -
    obtain x w where f: "dmn_fetch D (cfg_Uuid (sv_cfg s)) (sv_world s) = (x, w)" by force
    show ?thesis
    proof (cases x)
      case (Inl e)
      with run f have "s' = s\<lparr>sv_world := w\<rparr>" by (simp add: Sync_def)
      then show ?thesis by (simp add: world)
    next
      case (Inr cfg)
      with run f have "Q (s\<lparr>sv_world := w\<rparr>) s'"
        by (intro keptD [OF rest [of cfg], of _ r]) (simp add: Sync_def)
      with world show ?thesis by (rule trans)
    qed
  qed
  then show ?thesis by (simp add: kept_def)
qed

lemma kept_files: "kept Q (UpdateConfigurationFiles D)"
  by (auto simp: kept_def UpdateConfigurationFiles_def pure_ok_def world Option.bind_eq_Some_conv)

lemma kept_machine_id: "kept Q (CreateMachineID D)"
  by (auto simp: kept_def CreateMachineID_def Let_def world split: prod.splits option.splits)

lemma disk_world: "Q s (s\<lparr>sv_disk := d, sv_world := w\<rparr>)"
  by (rule trans [OF disk world])

lemma console: "Q s (PublishConsoleOutputFromDaemon m s)"
  by (simp add: PublishConsoleOutputFromDaemon_def emits)

lemma kept_disk: "kept Q (check_disk D now)"
  unfolding kept_def check_disk_def Let_def pure_ok_def
  by (auto simp: Option.bind_eq_Some_conv disk_world intro: trans [OF disk_world routines] trans [OF console disk_world]
      split: if_splits option.splits)

lemma kept_permissions: "kept Q (fix_permissions D)"
  unfolding kept_def fix_permissions_def Let_def pure_ok_def
  by (auto simp: Option.bind_eq_Some_conv refl intro: trans [OF console world] split: if_splits option.splits)

lemma kept_before_start: "kept Q (onBeforeStart D now)"
proof -
  have "kept Q (\<lambda>s. UpdateConfigurationFiles D (PublishConsoleOutputFromDaemon m s))" for m
    by (rule kept_pre [OF kept_files]) (rule console)
  moreover have "kept Q (\<lambda>s. if mc_machine (dmn_mounts D) then CreateMachineID D s else pure_ok s)"
    using kept_machine_id by (auto simp: kept_def pure_ok_def refl)
  ultimately have rest: "kept Q (\<lambda>s. andthen (SyncWithEnvironment D s) (\<lambda>_ s.
            andthen (check_disk D now s) (\<lambda>_ s.
            andthen (UpdateConfigurationFiles D (PublishConsoleOutputFromDaemon ''Updating process configuration files...'' s)) (\<lambda>_ s.
            andthen (fix_permissions D s) (\<lambda>_ s.
              if mc_machine (dmn_mounts D) then CreateMachineID D s else pure_ok s)))))"
    by (intro kept_seq kept_environment kept_disk kept_permissions)
  have "Q s s'" if run: "onBeforeStart D now s = Some (r, s')" for s r s'
  proof -
    from run obtain x t where x: "Sync D s = Some (x, t)"
      by (cases "Sync D s") (auto simp: onBeforeStart_def)
    then have t: "Q s t" by (rule keptD [OF kept_Sync])
    have "s' = t \<or> Q t s'"
      using run keptD [OF rest, of t r s'] by (auto simp: onBeforeStart_def x split: outcome.splits if_splits)
    with t show ?thesis using trans by blast
  qed
  then show ?thesis by (simp add: kept_def)
qed

end

text \<open>\<open>moves\<close>: the environment passed through valid states and entered offline only from stopping.\<close>

definition moves :: "string \<times> string list \<Rightarrow> string \<times> string list \<Rightarrow> bool" where
  "moves p q \<longleftrightarrow> (\<exists>ss. calm ss \<and> q = fold enter ss p)"

lemma moves_refl [simp]: "moves p p"
  unfolding moves_def by (intro exI [of _ "[]"]) simp

lemma moves_trans: "moves p q \<Longrightarrow> moves q r \<Longrightarrow> moves p r"
proof -
  assume "moves p q" "moves q r"
  then obtain ss ts where "calm ss" "q = fold enter ss p" "calm ts" "r = fold enter ts q"
    by (auto simp: moves_def)
  then have "calm (ss @ ts) \<and> r = fold enter (ss @ ts) p" by (simp add: calm_append)
  then show ?thesis unfolding moves_def by blast
qed

text \<open>
  What the server relies on, of a process environment whose state and history of states \<open>view\<close> shows: it reports
  its state; a state set is entered; starting, stopping and terminating move it as above; updates of its
  configuration and questions about it do not.
\<close>

locale process_environment =
  fixes P :: "'e penv" and view :: "'e \<Rightarrow> string \<times> string list"
  assumes reports: "pe_State P e = fst (view e)"
    and enters: "st \<in> process_states \<Longrightarrow> pe_SetState P st e = (r, e') \<Longrightarrow> r = Ok () \<and> view e' = enter st (view e)"
    and starts: "pe_Start P e = (r, e') \<Longrightarrow> moves (view e) (view e')"
    and waits: "pe_WaitForStop P n t e = (r, e') \<Longrightarrow> moves (view e) (view e')"
    and terminates: "pe_Terminate P sig e = (r, e') \<Longrightarrow> moves (view e) (view e')"
    and updates: "pe_InSituUpdate P e = (r, e') \<Longrightarrow> view e' = view e"
    and exits: "pe_ExitState P e = (rx, e') \<Longrightarrow> view e' = view e"
    and reads: "pe_Readlog P k e = (rl, e') \<Longrightarrow> view e' = view e"
    and settings: "view (pe_SetSettings P z e) = view e" and img: "view (pe_SetImage P i e) = view e"
    and stop: "view (pe_SetStop P t' v e) = view e" and vars: "view (pe_SetVariables P vs e) = view e"
begin

lemma on_env_moves:
  assumes "on_env f s = (r, s')" "\<And>e x e'. f e = (x, e') \<Longrightarrow> moves (view e) (view e')"
  shows "moves (view (sv_env s)) (view (sv_env s'))"
  using assms(1) assms(2) [of "sv_env s"] by (auto simp: on_env_def split: outcome.splits prod.splits)

definition sees :: "('e, 'w) server \<Rightarrow> ('e, 'w) server \<Rightarrow> bool" where
  "sees s s' \<longleftrightarrow> view (sv_env s') = view (sv_env s)"

lemma before_start_sees:
  assumes "dmn_env D = P" "onBeforeStart D now s = Some (r, s')"
  shows "view (sv_env s') = view (sv_env s)"
proof -
  have upd: "view (sv_env (snd (on_env (pe_InSituUpdate P) s))) = view (sv_env s)" for s :: "('e, 'w) server"
    using updates by (auto simp: on_env_def split: prod.splits outcome.splits)
  have "boot_frame sees D"
    by unfold_locales
      (simp_all add: sees_def emit_def start_routine_def cancel_websockets_def set_env_def assms(1) settings img stop vars upd
        split: prod.splits)
  from keptD [OF boot_frame.kept_before_start [OF this] assms(2)] show ?thesis by (simp add: sees_def)
qed

lemma start_server_orderly:
  assumes "dmn_env D = P" "start_server D now s = Some (r, s')"
  shows "moves (view (sv_env s)) (view (sv_env s'))"
proof -
  from assms obtain x t where t: "onBeforeStart D now s = Some (x, t)"
    by (cases "onBeforeStart D now s") (auto simp: start_server_def andthen_def)
  then have "view (sv_env t) = view (sv_env s)" by (rule before_start_sees [OF assms(1)])
  moreover have "s' = t \<or> on_env (pe_Start P) t = (r, s')"
    using assms(2) t by (simp add: start_server_def andthen_def assms(1) split: outcome.splits)
  then have "moves (view (sv_env t)) (view (sv_env s'))"
    using on_env_moves [of "pe_Start P" t r s'] starts by auto
  ultimately show ?thesis by simp
qed

lemma perform_orderly:
  assumes "dmn_env D = P" "perform D now action s = Some (r, s')"
  shows "moves (view (sv_env s)) (view (sv_env s'))"
proof -
  obtain x t where t: "on_env (pe_WaitForStop P 600 True) s = (x, t)" by force
  have "s' = s \<or> s' = t \<or> start_server D now s = Some (r, s') \<or> start_server D now t = Some (r, s') \<or>
      on_env (pe_Terminate P ''SIGKILL'') s = (r, s')"
    using assms(2) t by (simp add: perform_def andthen_def assms(1) split: if_splits outcome.splits)
  moreover have "moves (view (sv_env s)) (view (sv_env t))"
    using on_env_moves [OF t] waits by blast
  moreover have "on_env (pe_Terminate P ''SIGKILL'') s = (r, s') \<Longrightarrow> moves (view (sv_env s)) (view (sv_env s'))"
    using on_env_moves [of "pe_Terminate P ''SIGKILL''" s r s'] terminates by blast
  ultimately show ?thesis
    using start_server_orderly [OF assms(1)] moves_trans by (elim disjE) (simp, simp, blast+)
qed

lemma power_action_orderly:
  assumes "dmn_env D = P" "HandlePowerAction D now acq action ws s = Some (r, s')"
  shows "moves (view (sv_env s)) (view (sv_env s'))"
proof -
  have "moves (view (sv_env a)) (view (sv_env b))" if "release_after (perform D now action a) = Some (x, b)" for a b x
    using that perform_orderly [OF assms(1)] by (force simp: release_after_def)
  then show ?thesis
    using assms(2) perform_orderly [OF assms(1)] unfolding HandlePowerAction_def Let_def
    by (force split: if_splits prod.splits outcome.splits)
qed

end

section \<open>The power lock\<close>

lemma control_frame: "boot_frame same_control D"
  by unfold_locales
    (auto simp: same_control_def emit_def start_routine_def cancel_websockets_def set_env_def on_env_def
      split: prod.splits outcome.splits)

lemma on_env_control: "on_env f s = (r, s') \<Longrightarrow> same_control s s'"
  by (auto simp: on_env_def same_control_def split: prod.splits outcome.splits)

lemma start_server_control: "start_server D now s = Some (r, s') \<Longrightarrow> same_control s s'"
proof -
  assume run: "start_server D now s = Some (r, s')"
  then obtain x t where t: "onBeforeStart D now s = Some (x, t)"
    by (cases "onBeforeStart D now s") (auto simp: start_server_def andthen_def)
  then have st: "same_control s t" by (rule keptD [OF boot_frame.kept_before_start [OF control_frame]])
  have "s' = t \<or> same_control t s'"
    using run t by (auto simp: start_server_def andthen_def split: outcome.splits dest: on_env_control)
  with st show ?thesis using same_control_trans by blast
qed

lemma perform_control:
  assumes "perform D now action s = Some (r, s')"
  shows "same_control s s'"
proof -
  obtain x t where t: "on_env (pe_WaitForStop (dmn_env D) 600 True) s = (x, t)" by force
  then have st: "same_control s t" by (rule on_env_control)
  have "s' = s \<or> s' = t \<or> start_server D now s = Some (r, s') \<or> start_server D now t = Some (r, s') \<or>
      on_env (pe_Terminate (dmn_env D) ''SIGKILL'') s = (r, s')"
    using assms t by (auto simp: perform_def andthen_def split: if_splits outcome.splits)
  with st show ?thesis
    using start_server_control on_env_control same_control_trans by (elim disjE) (simp, simp, blast+)
qed

end
