(* ===== verification/ServerEvents.thy ===== *)
theory ServerEvents
  imports ServerPower
begin

text \<open>
  How a server reacts to its environment: state changes, resource events and console output
  (\<open>wings/server/listeners.go\<close>, \<open>OnStateChange\<close> of \<open>server.go\<close>, \<open>crash.go\<close>). Every event of the environment is
  handled by a routine of its own, started when the event arrives and run at any later time.
\<close>

section \<open>Crashes\<close>

text \<open>One reading of the clock per operation.\<close>

definition crashed_recently :: "('e, 'w) daemon \<Rightarrow> int \<Rightarrow> int option \<Rightarrow> bool" where
  "crashed_recently D now last_crash \<longleftrightarrow> dmn_crash_timeout D \<noteq> 0 \<and>
     (case last_crash of None \<Rightarrow> False | Some c \<Rightarrow> c + wrap64 (1000000000 * dmn_crash_timeout D) > now)"

definition console_lines :: "string list \<Rightarrow> ('e, 'w) server \<Rightarrow> ('e, 'w) server" where
  "console_lines ls s = fold PublishConsoleOutputFromDaemon ls s"

definition handleServerCrash :: "('e, 'w) daemon \<Rightarrow> int \<Rightarrow> (unit, 'e, 'w) srvop" where
  "handleServerCrash D now s =
     (if srv_State D s \<noteq> ProcessOfflineState \<or> \<not> cfg_CrashDetection (sv_cfg s)
      then pure_ok (if \<not> cfg_CrashDetection (sv_cfg s)
             then console_lines [''Aborting automatic restart, crash detection is disabled for this instance.''] s else s)
      else (case on_env (pe_ExitState (dmn_env D)) s of
              (Panic, s) \<Rightarrow> Some (Panic, s)
            | (Err e, s) \<Rightarrow> Some (Err (SrvMsg ''failed to get exit state for server process'' e), s)
            | (Ok (exitCode, oomKilled), s) \<Rightarrow>
                if exitCode = 0 \<and> \<not> oomKilled \<and> \<not> dmn_clean_exit_is_crash D then pure_ok s
                else (case on_env (pe_Readlog (dmn_env D) (dmn_log_lines D)) s of
                        (Panic, s) \<Rightarrow> Some (Panic, s)
                      | (logs, s) \<Rightarrow>
                          (let s = console_lines [''---------- Detected server process in a crashed state! ----------'',
                                     ''Exit code: '' @ Itoa exitCode, ''Out of memory: '' @ FormatBool oomKilled] s
                           in if crashed_recently D now (sv_lastCrash s)
                              then Some (Err CrashTooFrequent,
                                     console_lines [''Aborting automatic restart, last crash occurred less than '' @
                                       Itoa (dmn_crash_timeout D) @ '' seconds ago.''] s)
                              else (let s = s\<lparr>sv_activity := sv_activity s @
                                               [(exitCode, oomKilled, case logs of Ok ls \<Rightarrow> ls | _ \<Rightarrow> [])]\<rparr>;
                                        s = s\<lparr>sv_lastCrash := Some now\<rparr>
                                    in map_option (\<lambda>(r, s). (case r of Err e \<Rightarrow> Err (SrvMsg ''failed to start server after crash detection'' e)
                                                                    | _ \<Rightarrow> r, s))
                                         (HandlePowerAction D now Acquire PowerActionStart [] s))))))"

section \<open>State changes\<close>

text \<open>
  \<open>OnStateChange\<close> reads the state of the environment three times; \<open>st1\<close>, \<open>st2\<close> and \<open>st3\<close> are what it reads.
  The last result tells whether it started the crash handler.
\<close>

definition looks_crashed :: "string \<Rightarrow> string \<Rightarrow> bool" where
  "looks_crashed prevState st \<longleftrightarrow>
     (prevState = ProcessStartingState \<or> prevState = ProcessRunningState) \<and> st = ProcessOfflineState"

definition OnStateChange :: "string \<Rightarrow> string \<Rightarrow> string \<Rightarrow> ('e, 'w) server \<Rightarrow> ('e, 'w) server" where
  "OnStateChange st1 st2 st3 s =
     (let prevState = us_State (sv_usage s);
          s = s\<lparr>sv_usage := (sv_usage s)\<lparr>us_State := st1\<rparr>\<rparr>;
          s = (if prevState \<noteq> st2 then emit (EvStatus st1) s else s);
          s = (if st1 = ProcessOfflineState then publish_stats (s\<lparr>sv_usage := usage_Reset (sv_usage s)\<rparr>) else s);
          s = (if looks_crashed prevState st3 then start_routine CrashRoutine s else s)
      in s\<lparr>sv_panel := sv_panel s @ [(prevState, st1)]\<rparr>)"

section \<open>The disk limiter\<close>

text \<open>The limiter is a \<open>sync.Once\<close>: \<open>True\<close> when it has fired since the last reset.\<close>

definition limiter_Reset :: "bool \<Rightarrow> bool" where
  "limiter_Reset fired = False"

definition Trigger :: "('e, 'w) daemon \<Rightarrow> bool \<Rightarrow> ('e, 'w) server \<Rightarrow> (srv_error, unit) outcome \<times> bool \<times> ('e, 'w) server" where
  "Trigger D fired s =
     (if fired then (Ok (), True, s)
      else (case on_env (pe_WaitForStop (dmn_env D) 60 True)
                   (PublishConsoleOutputFromDaemon ''Server is exceeding the assigned disk space limit, stopping process now.'' s) of
              (Panic, s) \<Rightarrow> (Panic, True, s)
            | (_, s) \<Rightarrow> (Ok (), True, s)))"

section \<open>Events of the environment\<close>

datatype listener_event = OnBus bus_event | OnResource stats

definition reset_throttle :: "('e, 'w) daemon \<Rightarrow> int \<Rightarrow> ('e, 'w) server \<Rightarrow> ('e, 'w) server" where
  "reset_throttle D now s =
     s\<lparr>sv_throttler := Some (throttle_Reset now (Throttler now (dmn_throttle_lines D) (dmn_throttle_period D) (sv_throttler s)))\<rparr>"

text \<open>
  One event, handled at the time \<open>now\<close>; the environment does not change while the handler reads it. The usage of the
  disk may be looked up later.
\<close>

definition handle_event ::
  "('e, 'w) daemon \<Rightarrow> int \<Rightarrow> listener_event \<Rightarrow> bool \<times> ('e, 'w) server \<Rightarrow> ((srv_error, unit) outcome \<times> bool \<times> ('e, 'w) server) option" where
  "handle_event D now ev lim_s = (case lim_s of (lim, s) \<Rightarrow>
     (case ev of
        OnResource st \<Rightarrow> do {
          let s = s\<lparr>sv_usage := UpdateStats st (sv_usage s)\<rparr>;
          ((ok, d, lookup), w) \<leftarrow> HasSpaceAvailable (dmn_kernel D) (dmn_fs D) (dmn_fuel D) now True (sv_disk s) (sv_world s);
          let s = s\<lparr>sv_disk := d, sv_world := w\<rparr>;
          let s = (if lookup then start_routine LookupDisk s else s);
          let (r, lim, s) = (if \<not> ok then Trigger D lim s else (Ok (), lim, s));
          Some (case r of Panic \<Rightarrow> (Panic, lim, s) | _ \<Rightarrow> (Ok (), lim, publish_stats s)) }
      | OnBus (StateChange data) \<Rightarrow>
          (let (lim, s) = (if data = ProcessStartingState then (limiter_Reset lim, reset_throttle D now s) else (lim, s));
               st = srv_State D s
           in Some (Ok (), lim, OnStateChange st st st s))
      | OnBus (ImagePullStatus data) \<Rightarrow> Some (Ok (), lim, emit (EvInstallOutput data) s)
      | OnBus ImagePullStarted \<Rightarrow>
          Some (Ok (), lim, PublishConsoleOutputFromDaemon ''Pulling Docker container image, this could take a few minutes to complete...'' s)
      | OnBus ImagePullCompleted \<Rightarrow>
          Some (Ok (), lim, PublishConsoleOutputFromDaemon ''Finished pulling Docker container image'' s)))"

section \<open>Console output\<close>

text \<open>\<open>strings.ToLower\<close> on ASCII.\<close>

definition lower_char :: "char \<Rightarrow> char" where
  "lower_char c = (if (65 :: nat) \<le> of_char c \<and> of_char c \<le> (90 :: nat) then char_of (of_char c + (32 :: nat)) else c)"

definition ToLower :: "string \<Rightarrow> string" where
  "ToLower s = map lower_char s"

text \<open>The first pattern of a feature the line contains, in the order the map is iterated.\<close>

definition feature_match :: "(string \<times> string list) list \<Rightarrow> string \<Rightarrow> (string \<times> string) option" where
  "feature_match features output =
     find (\<lambda>(key, pat). Contains (ToLower output) (ToLower pat)) (concat (map (\<lambda>(key, pats). map (Pair key) pats) features))"

text \<open>The code between the first and the second reading of the environment's state: is the server started now?\<close>

definition output_done :: "('e, 'w) daemon \<Rightarrow> string \<Rightarrow> ('e, 'w) server \<Rightarrow> (srv_error, unit) outcome \<times> ('e, 'w) server" where
  "output_done D v s =
     (if srv_State D s = ProcessStartingState \<and> (\<exists>l \<in> set (pc_Done (sv_proc s)). Matches l v)
      then on_env (pe_SetState (dmn_env D) ProcessRunningState) s
      else (Ok (), s))"

definition onConsoleOutput :: "('e, 'w) daemon \<Rightarrow> string \<Rightarrow> ('e, 'w) server \<Rightarrow> (srv_error, unit) outcome \<times> ('e, 'w) server" where
  "onConsoleOutput D data s =
     (if srv_State D s \<noteq> ProcessStartingState \<and> \<not> IsRunning D s then (Ok (), s)
      else (let starting = (srv_State D s = ProcessStartingState);
                v = (if starting \<and> pc_StripAnsi (sv_proc s) then dmn_strip D data else data)
            in case output_done D v s of
                 (Ok _, s) \<Rightarrow>
                   (let features = cfg_Features (sv_cfg s);
                        v = (if features \<noteq> None \<and> pc_StripAnsi (sv_proc s) then dmn_strip D v else v);
                        s = (case Option.bind features (\<lambda>f. feature_match f v) of
                               Some (key, pat) \<Rightarrow> emit (EvFeature key pat v) s
                             | None \<Rightarrow> s)
                    in if IsRunning D s \<and> pc_StopType (sv_proc s) = ''command'' \<and> v = pc_StopValue (sv_proc s)
                       then on_env (pe_SetState (dmn_env D) ProcessOfflineState) s
                       else (Ok (), s))
               | r \<Rightarrow> r))"

definition processConsoleOutputEvent ::
  "('e, 'w) daemon \<Rightarrow> int \<Rightarrow> string \<Rightarrow> ('e, 'w) server \<Rightarrow> (srv_error, unit) outcome \<times> ('e, 'w) server" where
  "processConsoleOutputEvent D now v s =
     (let s = start_routine (HandleOutput v) s;
          th = Throttler now (dmn_throttle_lines D) (dmn_throttle_period D) (sv_throttler s)
      in case Allow now th of (ok, struck, th) \<Rightarrow>
           (let s = s\<lparr>sv_throttler := Some th\<rparr>;
                s = (if struck then PublishConsoleOutputFromDaemon ''Server is outputting console data too quickly -- throttling...'' s else s)
            in if \<not> ok then (Ok (), s)
               else (case Push v (sv_chans s) (sv_logSink s) of
                       Ok cs \<Rightarrow> (Ok (), s\<lparr>sv_chans := cs\<rparr>)
                     | _ \<Rightarrow> (Panic, s))))"

section \<open>The routines\<close>

text \<open>What a routine does when it is run at last.\<close>

definition run_routine :: "('e, 'w) daemon \<Rightarrow> int \<Rightarrow> routine \<Rightarrow> (unit, 'e, 'w) srvop" where
  "run_routine D now t s =
     (case t of
        CrashRoutine \<Rightarrow>
          map_option (\<lambda>(r, s). case r of
              Panic \<Rightarrow> (Panic, s)
            | Err e \<Rightarrow> (Ok (), if IsTooFrequentCrashError e then s
                else PublishConsoleOutputFromDaemon ''Server crash was detected but an error occurred while handling it.'' s)
            | Ok _ \<Rightarrow> (Ok (), s)) (handleServerCrash D now s)
      | StopSuspended \<Rightarrow>
          (case on_env (pe_WaitForStop (dmn_env D) 60 True) s of (Panic, s) \<Rightarrow> Some (Panic, s) | (_, s) \<Rightarrow> Some (Ok (), s))
      | LookupDisk \<Rightarrow> do {
          ((_, _, d), w) \<leftarrow> updateCachedDiskUsage (dmn_kernel D) (dmn_fs D) (dmn_fuel D) now (sv_disk s) (sv_world s);
          pure_ok (s\<lparr>sv_disk := d, sv_world := w\<rparr>) }
      | HandleOutput v \<Rightarrow> Some (onConsoleOutput D v s)
      | StreamInstallOutput lines \<Rightarrow>
          (let s = emit (EvPublished ''daemon message'' ''Starting installation process, this could take a few minutes...'') s
           in case push_all lines (sv_chans s) (sv_installSink s) of
                Ok cs \<Rightarrow> Some (Ok (), s\<lparr>sv_chans := cs\<rparr>)
              | _ \<Rightarrow> Some (Panic, s)))"

end
