(* ===== verification/ServerDocker.thy ===== *)
theory ServerDocker
  imports ServerPower
begin

text \<open>
  The Docker environment as the process environment of a server, and what follows for power actions.
\<close>

section \<open>The Docker environment provides the interface\<close>

text \<open>\<open>n\<close> bounds the polls of a termination; the time allowed for a stop only decides what the host answers.\<close>

definition docker_penv :: "docker_cfg \<Rightarrow> 'd docker \<Rightarrow> nat \<Rightarrow> 'd env penv" where
  "docker_penv cfg K n =
     \<lparr>pe_State = env_State, pe_SetState = SetState, pe_Start = env_Start cfg K,
      pe_WaitForStop = (\<lambda>_. WaitForStop K n), pe_Terminate = env_Terminate K n,
      pe_InSituUpdate = InSituUpdate cfg K, pe_Create = env_Create cfg K, pe_ExitState = ExitState K,
      pe_Readlog = Readlog K, pe_SetSettings = SetSettings, pe_SetVariables = SetEnvironmentVariables,
      pe_SetImage = SetImage, pe_SetStop = SetStopConfiguration,
      pe_IsRunning = env_IsRunning K, pe_SendCommand = SendCommand K, pe_Destroy = env_Destroy K, pe_docker_attached = Some IsAttached\<rparr>"

lemma moves_tidy: "moves (abs_env e) (abs_env e') \<longleftrightarrow> tidy e e'"
  by (auto simp: moves_def tidy_def goes_def)

lemma abs_ExitState: "ExitState K e = (r, e') \<Longrightarrow> abs_env e' = abs_env e"
  by (auto simp: ExitState_def on_def result_defs split: if_splits prod.splits outcome.splits)

lemma abs_Readlog: "Readlog K n e = (r, e') \<Longrightarrow> abs_env e' = abs_env e"
  by (auto simp: Readlog_def on_def result_defs split: if_splits prod.splits outcome.splits)

interpretation docker: process_environment "docker_penv cfg K n" abs_env
proof unfold_locales
  show "pe_Start (docker_penv cfg K n) e = (r, e') \<Longrightarrow> moves (abs_env e) (abs_env e')" for e r e'
    by (simp add: docker_penv_def moves_tidy tidy_Start)
  show "pe_WaitForStop (docker_penv cfg K n) k t e = (r, e') \<Longrightarrow> moves (abs_env e) (abs_env e')" for k t e r e'
    by (simp add: docker_penv_def moves_tidy tidy_WaitForStop)
  show "pe_Terminate (docker_penv cfg K n) sig e = (r, e') \<Longrightarrow> moves (abs_env e) (abs_env e')" for sig e r e'
    by (simp add: docker_penv_def moves_tidy tidy_Terminate)
  show "pe_State (docker_penv cfg K n) e = fst (abs_env e)" for e
    by (simp add: docker_penv_def env_State_def abs_env_def)
qed (auto simp: docker_penv_def SetState_constant dest: abs_InSituUpdate abs_ExitState abs_Readlog)

end
