(* ===== verification/ServerActions.thy ===== *)
theory ServerActions
  imports ServerEvents ServerDocker
begin

text \<open>
  The guarantees of power actions: who may act, what is left behind, when a server is started, and how the changes an
  action causes reach the crash detection.
\<close>

section \<open>The power lock\<close>

lemma Release_acquired: "locker_ok l \<Longrightarrow> \<not> IsLocked l \<Longrightarrow> Release (l\<lparr>lk_len := Suc 0\<rparr>) = l"
  by (cases l) (simp add: Release_def locker_ok_def IsLocked_def)

lemma acquire_answers:
  assumes "locker_ok l" "TryAcquire (Some e) l (fst p) (snd p)" "e = DeadlineExceeded \<or> e = Canceled"
  shows "p = (Err ErrLockerLocked, l) \<or> (\<not> IsLocked l \<and> p = (Ok (), l\<lparr>lk_len := Suc 0\<rparr>))"
  using assms(2,1,3)
  by (cases rule: TryAcquire.cases) (auto simp: locker_ok_def IsLocked_def intro: prod_eqI)

lemma Acquire_answers: "locker_ok l \<Longrightarrow>
    Acquire l = (if IsLocked l then (Err ErrLockerLocked, l) else (Ok (), l\<lparr>lk_len := Suc 0\<rparr>))"
  by (simp add: lock_simps)

lemma release_perform:
  assumes "release_after (perform D now action (s\<lparr>sv_powerLock := (sv_powerLock s)\<lparr>lk_len := Suc 0\<rparr>\<rparr>)) = Some (r, s')"
    "locker_ok (sv_powerLock s)" "\<not> IsLocked (sv_powerLock s)"
  shows "sv_powerLock s' = sv_powerLock s"
proof -
  from assms(1) obtain t where t: "perform D now action (s\<lparr>sv_powerLock := (sv_powerLock s)\<lparr>lk_len := Suc 0\<rparr>\<rparr>) = Some (r, t)"
    and s': "s' = t\<lparr>sv_powerLock := Release (sv_powerLock t)\<rparr>"
    by (auto simp: release_after_def)
  from perform_control [OF t] have "sv_powerLock t = (sv_powerLock s)\<lparr>lk_len := Suc 0\<rparr>"
    by (simp add: same_control_def)
  with s' assms(2,3) show ?thesis by (simp add: Release_acquired)
qed

lemma power_action_ways:
  assumes "HandlePowerAction D now acq action waits s = Some (r, s')" "locker_ok (sv_powerLock s)"
    "TryAcquire (Some e) (sv_powerLock s) (fst (acq (sv_powerLock s))) (snd (acq (sv_powerLock s)))"
    "e = DeadlineExceeded \<or> e = Canceled"
  shows "s' = s \<or>
    \<not> IsLocked (sv_powerLock s) \<and>
      release_after (perform D now action (s\<lparr>sv_powerLock := (sv_powerLock s)\<lparr>lk_len := Suc 0\<rparr>\<rparr>)) = Some (r, s') \<or>
    perform D now action s = Some (r, s')"
proof -
  let ?l = "sv_powerLock s"
  have busy: "s' = s" if "sv_installing s \<or> sv_transferring s \<or> sv_restoring s"
    using assms(1) that by (auto simp: HandlePowerAction_def)
  have attempt: "acq ?l = (Err ErrLockerLocked, ?l) \<or> (\<not> IsLocked ?l \<and> acq ?l = (Ok (), ?l\<lparr>lk_len := Suc 0\<rparr>))"
    using assms(2,3,4) by (rule acquire_answers)
  obtain wait p where p: "p = (if wait > (0 :: int) then acq ?l else Acquire ?l)"
    and wait: "wait = (case waits of w # _ \<Rightarrow> if w > 0 then w else 0 | [] \<Rightarrow> 0)" by blast
  have pc: "p = (Err ErrLockerLocked, ?l) \<or> (\<not> IsLocked ?l \<and> p = (Ok (), ?l\<lparr>lk_len := Suc 0\<rparr>))"
    using attempt by (auto simp: p Acquire_answers [OF assms(2)])
  show ?thesis
  proof (cases "sv_installing s \<or> sv_transferring s \<or> sv_restoring s")
    case free: False
    show ?thesis
    proof (cases "action = PowerActionTerminate")
      case True
      with free assms(1) show ?thesis
        by (auto simp: HandlePowerAction_def Acquire_answers [OF assms(2)] split: if_splits)
    next
      case False
      with free assms(1) have "(case p of (Panic, l) \<Rightarrow> Some (Panic, s\<lparr>sv_powerLock := l\<rparr>)
               | (Err e, l) \<Rightarrow>
                   Some (Err (SrvMsg (if wait > 0 then ''could not acquire lock on power action after '' @ Itoa wait @ '' seconds''
                                      else ''failed to acquire exclusive lock for power actions'') (SrvLock e)),
                     s\<lparr>sv_powerLock := l\<rparr>)
               | (Ok _, l) \<Rightarrow> release_after (perform D now action (s\<lparr>sv_powerLock := l\<rparr>))) = Some (r, s')"
        unfolding HandlePowerAction_def Let_def p wait by simp
      with pc show ?thesis by auto
    qed
  qed (use busy in blast)
qed

text \<open>C3: However a power action ends, with success, an error or a panic, it leaves the power lock as it found it:
  a lock it took is free again and a lock held by another action is not released.\<close>

theorem power_lock_released:
  assumes "HandlePowerAction D now acq action waits s = Some (r, s')" "locker_ok (sv_powerLock s)"
    "TryAcquire (Some e) (sv_powerLock s) (fst (acq (sv_powerLock s))) (snd (acq (sv_powerLock s)))"
    "e = DeadlineExceeded \<or> e = Canceled"
  shows "sv_powerLock s' = sv_powerLock s"
proof -
  from assms have "s' = s \<or>
      \<not> IsLocked (sv_powerLock s) \<and>
        release_after (perform D now action (s\<lparr>sv_powerLock := (sv_powerLock s)\<lparr>lk_len := Suc 0\<rparr>\<rparr>)) = Some (r, s') \<or>
      perform D now action s = Some (r, s')"
    by (rule power_action_ways)
  then show ?thesis
    using release_perform [OF _ assms(2)] perform_control [of D now action s r s'] by (auto simp: same_control_def)
qed

text \<open>While a server is installed, transferred or restored every power action is refused, and while another action
  holds the lock every action but a kill is refused, with the server and its environment untouched; a kill passes
  through to the environment.\<close>

theorem busy_server_untouched:
  assumes "locker_ok (sv_powerLock s)" "e = DeadlineExceeded \<or> e = Canceled"
    "TryAcquire (Some e) (sv_powerLock s) (fst (acq (sv_powerLock s))) (snd (acq (sv_powerLock s)))"
    "sv_installing s \<or> sv_transferring s \<or> sv_restoring s \<or> IsLocked (sv_powerLock s)"
  shows "HandlePowerAction D now acq action waits s =
     (if sv_restoring s then Some (Err ErrServerIsRestoring, s)
      else if sv_transferring s then Some (Err ErrServerIsTransferring, s)
      else if sv_installing s then Some (Err ErrServerIsInstalling, s)
      else if action = PowerActionTerminate then Some (on_env (pe_Terminate (dmn_env D) ''SIGKILL'') s)
      else Some (Err (SrvMsg (if waits \<noteq> [] \<and> hd waits > 0
              then ''could not acquire lock on power action after '' @ Itoa (hd waits) @ '' seconds''
              else ''failed to acquire exclusive lock for power actions'') (SrvLock ErrLockerLocked)), s))"
proof -
  have "acq (sv_powerLock s) = (Err ErrLockerLocked, sv_powerLock s)" if "IsLocked (sv_powerLock s)"
    using acquire_answers [OF assms(1,3,2)] that by blast
  then show ?thesis
    using assms(4) by (auto simp: HandlePowerAction_def Let_def perform_def Acquire_answers [OF assms(1)] split: list.splits)
qed

section \<open>Starting\<close>

text \<open>Replacing the start operation of the environment changes nothing before the start itself.\<close>

definition with_start :: "('e \<Rightarrow> (derr, unit) outcome \<times> 'e) \<Rightarrow> ('e, 'w) daemon \<Rightarrow> ('e, 'w) daemon" where
  "with_start f D = D\<lparr>dmn_env := (dmn_env D)\<lparr>pe_Start := f\<rparr>\<rparr>"

lemma with_start_selectors:
  "dmn_kernel (with_start f D) = dmn_kernel D" "dmn_fs (with_start f D) = dmn_fs D" "dmn_fuel (with_start f D) = dmn_fuel D"
  "dmn_fetch (with_start f D) = dmn_fetch D" "dmn_unmarshal (with_start f D) = dmn_unmarshal D"
  "dmn_parse (with_start f D) = dmn_parse D" "dmn_write_file (with_start f D) = dmn_write_file D"
  "dmn_sprint (with_start f D) = dmn_sprint D" "dmn_zone (with_start f D) = dmn_zone D"
  "dmn_missing (with_start f D) = dmn_missing D" "dmn_empty (with_start f D) = dmn_empty D"
  "dmn_crash_enabled (with_start f D) = dmn_crash_enabled D" "dmn_check_permissions (with_start f D) = dmn_check_permissions D"
  "dmn_timezone (with_start f D) = dmn_timezone D" "dmn_mounts (with_start f D) = dmn_mounts D"
  "dmn_block_base (with_start f D) = dmn_block_base D" "dmn_allowed_mounts (with_start f D) = dmn_allowed_mounts D"
  "pe_State (dmn_env (with_start f D)) = pe_State (dmn_env D)" "pe_WaitForStop (dmn_env (with_start f D)) = pe_WaitForStop (dmn_env D)"
  "pe_Terminate (dmn_env (with_start f D)) = pe_Terminate (dmn_env D)" "pe_InSituUpdate (dmn_env (with_start f D)) = pe_InSituUpdate (dmn_env D)"
  "pe_SetSettings (dmn_env (with_start f D)) = pe_SetSettings (dmn_env D)" "pe_SetVariables (dmn_env (with_start f D)) = pe_SetVariables (dmn_env D)"
  "pe_SetImage (dmn_env (with_start f D)) = pe_SetImage (dmn_env D)" "pe_SetStop (dmn_env (with_start f D)) = pe_SetStop (dmn_env D)"
  "pe_Start (dmn_env (with_start f D)) = f"
  by (simp_all add: with_start_def)

lemma with_start_frame:
  "SyncWithEnvironment (with_start f D) = SyncWithEnvironment D" "SyncWithConfiguration (with_start f D) = SyncWithConfiguration D"
  "check_disk (with_start f D) = check_disk D" "fix_permissions (with_start f D) = fix_permissions D"
  "CreateMachineID (with_start f D) = CreateMachineID D" "srv_State (with_start f D) = srv_State D"
  unfolding SyncWithEnvironment_def server_mounts_def server_variables_def srv_State_def Let_def SyncWithConfiguration_def
    check_disk_def fix_permissions_def CreateMachineID_def with_start_selectors
  by (rule refl)+

lemma update_files_start: "update_files (with_start f D) vars fs = update_files D vars fs"
proof (induction fs)
  case (Cons a fs)
  have "update_file (with_start f D) = update_file D"
    unfolding update_file_def [abs_def] with_start_selectors by (rule refl)
  then show ?case unfolding fun_eq_iff update_files.simps Cons by simp
qed (simp add: fun_eq_iff)

lemma onBeforeStart_start: "onBeforeStart (with_start f D) = onBeforeStart D"
  unfolding onBeforeStart_def [abs_def] Sync_def UpdateConfigurationFiles_def update_files_start with_start_selectors with_start_frame
  by (rule refl)

text \<open>The panel says that the server is suspended.\<close>

definition panel_suspends :: "('e, 'w) daemon \<Rightarrow> bool" where
  "panel_suspends D \<longleftrightarrow> (\<forall>uuid w. \<exists>cfg w'. dmn_fetch D uuid w = (Inr cfg, w') \<and>
     (\<forall>c. dmn_unmarshal D (fst cfg) ((dmn_empty D)\<lparr>cfg_CrashDetection := dmn_crash_enabled D\<rparr>) = Some c \<longrightarrow> cfg_Suspended c))"

lemma SyncWithEnvironment_cfg: "SyncWithEnvironment D s = Some (r, s') \<Longrightarrow> sv_cfg s' = sv_cfg s"
  by (auto simp: SyncWithEnvironment_def Let_def pure_ok_def set_env_def start_routine_def on_env_def
      split: outcome.splits prod.splits if_splits)

lemma suspended_sync:
  assumes "panel_suspends D" "Sync D s = Some (Ok u, t)"
  shows "IsSuspended t"
proof -
  from assms(1) obtain cfg w where f: "dmn_fetch D (cfg_Uuid (sv_cfg s)) (sv_world s) = (Inr cfg, w)"
    and c: "\<And>c. dmn_unmarshal D (fst cfg) ((dmn_empty D)\<lparr>cfg_CrashDetection := dmn_crash_enabled D\<rparr>) = Some c \<Longrightarrow> cfg_Suspended c"
    unfolding panel_suspends_def by meson
  let ?c0 = "(dmn_empty D)\<lparr>cfg_CrashDetection := dmn_crash_enabled D\<rparr>"
  show ?thesis
  proof (cases "dmn_unmarshal D (fst cfg) ?c0")
    case None
    with assms(2) f show ?thesis by (simp add: Sync_def andthen_def SyncWithConfiguration_def)
  next
    case (Some c')
    define a where "a = s\<lparr>sv_world := w, sv_cfg := c', sv_proc := snd cfg\<rparr>"
    define d where "d = a\<lparr>sv_disk := (fst (sv_disk a), SetDiskLimit (sv_DiskSpace a) (snd (sv_disk a)))\<rparr>"
    have "andthen (SyncWithEnvironment D d) (\<lambda>_ s. if IsSuspended s
            then pure_ok ((cancel_websockets s)\<lparr>sv_sftp := CancelAll (sv_sftp s)\<rparr>) else pure_ok s) = Some (Ok u, t)"
      using assms(2) f Some by (simp add: Sync_def andthen_def SyncWithConfiguration_def a_def d_def)
    then obtain v e where e: "SyncWithEnvironment D d = Some (Ok v, e)" and t: "sv_cfg t = sv_cfg e"
      by (auto simp: andthen_def pure_ok_def cancel_websockets_def split: option.splits outcome.splits prod.splits if_splits)
    have "sv_cfg d = c'" by (simp add: d_def a_def)
    with SyncWithEnvironment_cfg [OF e] t c [OF Some] show ?thesis by (simp add: IsSuspended_def)
  qed
qed

lemma suspended_boot:
  assumes "panel_suspends D" "onBeforeStart D now s = Some (r, t)"
  shows "r \<noteq> Ok ()"
  using assms suspended_sync [OF assms(1)]
  by (auto simp: onBeforeStart_def split: option.splits outcome.splits prod.splits if_splits)

lemma suspended_start:
  assumes "panel_suspends D"
  shows "start_server (with_start f D) now s = start_server D now s \<and> (\<forall>t. start_server D now s \<noteq> Some (Ok (), t))"
  using suspended_boot [OF assms, of now s]
  by (cases "onBeforeStart D now s") (auto simp: start_server_def andthen_def onBeforeStart_start split: outcome.splits)

text \<open>C5: A server the panel reports as suspended is never started: a start or restart of it fails, and no power
  action does anything with the environment's start operation, whatever that is.\<close>

theorem suspended_never_started:
  assumes "panel_suspends D"
  shows "HandlePowerAction (with_start f D) now acq action waits s = HandlePowerAction D now acq action waits s \<and>
    \<not> (pa_IsStart action \<and> (\<exists>t. HandlePowerAction D now acq action waits s = Some (Ok (), t)))"
proof -
  have st: "start_server (with_start f D) now = start_server D now"
    using suspended_start [OF assms] by (simp add: fun_eq_iff)
  have eq: "perform (with_start f D) now action = perform D now action"
    unfolding perform_def [abs_def] st with_start_frame with_start_selectors by (rule refl)
  have eqs: "HandlePowerAction (with_start f D) now acq action waits s = HandlePowerAction D now acq action waits s"
    unfolding HandlePowerAction_def eq by (rule refl)
  have no: "\<not> (pa_IsStart action \<and> perform D now action a = Some (Ok (), t))" for a t
    using suspended_start [OF assms, of f now]
    by (cases "on_env (pe_WaitForStop (dmn_env D) 600 True) a")
      (auto simp: perform_def pa_IsStart_def andthen_def split: outcome.splits if_splits)
  have rel: "\<not> (pa_IsStart action \<and> release_after (perform D now action a) = Some (Ok (), t))" for a t
    using no by (auto simp: release_after_def)
  have "\<not> (pa_IsStart action \<and> HandlePowerAction D now acq action waits s = Some (Ok (), t))" for t
  proof
    assume "pa_IsStart action \<and> HandlePowerAction D now acq action waits s = Some (Ok (), t)"
    then have st: "pa_IsStart action" and run: "HandlePowerAction D now acq action waits s = Some (Ok (), t)" by auto
    from st have "action \<noteq> PowerActionTerminate" by (auto simp: pa_IsStart_def)
    with run obtain l where "release_after (perform D now action (s\<lparr>sv_powerLock := l\<rparr>)) = Some (Ok (), t)"
      unfolding HandlePowerAction_def Let_def by (auto split: if_splits prod.splits outcome.splits)
    with rel st show False by blast
  qed
  with eqs show ?thesis by blast
qed

end
