(* ===== verification/ServerCrash.thy ===== *)
theory ServerCrash
  imports ServerActions
begin

text \<open>
  The crash detection of a server: which crashes restart it, which state changes count as crashes, and what depends on
  how fast the routines that handle the changes are run. The disk limiter and the end of a server are here too.
\<close>

section \<open>Which crashes restart the server\<close>

lemma power_action_records:
  assumes "HandlePowerAction D now Acquire action ws s = Some (r, s')"
  shows "sv_lastCrash s' = sv_lastCrash s \<and> sv_activity s' = sv_activity s"
proof -
  have p: "sv_lastCrash b = sv_lastCrash a \<and> sv_activity b = sv_activity a"
    if "perform D now action a = Some (x, b)" for a b x
    using perform_control [OF that] by (simp add: same_control_def)
  have q: "sv_lastCrash b = sv_lastCrash a \<and> sv_activity b = sv_activity a"
    if "release_after (perform D now action a) = Some (x, b)" for a b x
    using that p by (force simp: release_after_def)
  have "s' = s \<or> (\<exists>l. s' = s\<lparr>sv_powerLock := l\<rparr>) \<or> (\<exists>l. perform D now action (s\<lparr>sv_powerLock := l\<rparr>) = Some (r, s')) \<or>
      (\<exists>l. release_after (perform D now action (s\<lparr>sv_powerLock := l\<rparr>)) = Some (r, s'))"
    using assms unfolding HandlePowerAction_def Let_def by (auto split: if_splits prod.splits outcome.splits)
  then show ?thesis using p q by (elim disjE exE) (force+)
qed

lemma on_env_records [simp]: "on_env f s = (r, s') \<Longrightarrow> sv_lastCrash s' = sv_lastCrash s \<and> sv_activity s' = sv_activity s"
  using on_env_control [of f s r s'] by (simp add: same_control_def)

lemma console_lines_frame [simp]: "sv_lastCrash (console_lines ls s) = sv_lastCrash s"
  "sv_activity (console_lines ls s) = sv_activity s" "sv_env (console_lines ls s) = sv_env s"
  "sv_powerLock (console_lines ls s) = sv_powerLock s"
  by (induction ls arbitrary: s) (auto simp: console_lines_def PublishConsoleOutputFromDaemon_def emit_def)


section \<open>Which state changes count as crashes\<close>

text \<open>The changes an operation published, and handling each of them before the next one happens.\<close>

definition new_changes :: "'d env \<Rightarrow> 'd env \<Rightarrow> string list" where
  "new_changes e e' = drop (length (trail e)) (trail e')"

definition handle_promptly :: "string list \<Rightarrow> ('e, 'w) server \<Rightarrow> ('e, 'w) server" where
  "handle_promptly ss s = fold (\<lambda>x. OnStateChange x x x) ss s"

definition crashes_in :: "string \<Rightarrow> string list \<Rightarrow> nat" where
  "crashes_in p ss = length (filter (\<lambda>(a, b). looks_crashed a b) (zip (p # ss) ss))"

lemma change_state [simp]: "us_State (sv_usage (OnStateChange a b c s)) = a"
  by (auto simp: OnStateChange_def Let_def publish_stats_def Proc_def usage_Reset_def emit_def start_routine_def)

lemma change_routines: "sv_routines (OnStateChange a b c s) =
    sv_routines s @ (if looks_crashed (us_State (sv_usage s)) c then [CrashRoutine] else [])"
  by (auto simp: OnStateChange_def Let_def publish_stats_def Proc_def emit_def start_routine_def)

lemma prompt_routines:
  "sv_routines (handle_promptly ss s) = sv_routines s @ replicate (crashes_in (us_State (sv_usage s)) ss) CrashRoutine"
proof (induction ss arbitrary: s)
  case (Cons a ss)
  show ?case
    using Cons [of "OnStateChange a a a s"]
    by (auto simp: handle_promptly_def change_routines crashes_in_def replicate_app_Cons_same)
qed (simp add: handle_promptly_def crashes_in_def)

lemma orderly_no_crash: "orderly (p # ss) \<Longrightarrow> crashes_in p ss = 0"
proof (induction ss arbitrary: p)
  case (Cons a ss)
  have "crashes_in a ss = 0" using Cons by simp
  moreover have "\<not> looks_crashed p a" using Cons.prems by (auto simp: looks_crashed_def)
  ultimately show ?case by (simp add: crashes_in_def)
qed (simp add: crashes_in_def)

lemma enters_appends: "\<exists>ts q. \<forall>tr. fold enter ss (p, tr) = (q, tr @ ts)"
proof (induction ss arbitrary: p)
  case Nil
  show ?case by (intro exI [of _ "[]"] exI [of _ p]) simp
next
  case (Cons a ss)
  show ?case
  proof (cases "p = a")
    case True
    with Cons [of p] show ?thesis by simp
  next
    case False
    from Cons [of a] obtain ts q where "\<forall>tr. fold enter ss (a, tr) = (q, tr @ ts)" by blast
    with False have "\<forall>tr. fold enter (a # ss) (p, tr) = (q, tr @ (a # ts))" by simp
    then show ?thesis by blast
  qed
qed

lemma moves_changes:
  assumes "moves (abs_env e) (abs_env e')" "env_ok e"
  shows "orderly (ev_st e # new_changes e e')"
proof -
  from assms(1) obtain ss where ss: "calm ss" "abs_env e' = fold enter ss (abs_env e)"
    by (auto simp: moves_def)
  obtain ts q where ts: "\<And>tr. fold enter ss (ev_st e, tr) = (q, tr @ ts)"
    using enters_appends [of ss "ev_st e"] by blast
  from ss(2) ts have "trail e' = trail e @ ts" by (simp add: abs_env_def)
  then have new: "new_changes e e' = ts" by (simp add: new_changes_def)
  have "ev_st e \<in> process_states"
    using assms(2) last_in_set [OF trail_not_Nil, of e] by (auto simp: env_ok_def)
  then have "trail_ok (ev_st e, [ev_st e])" by simp
  moreover have "orderly (ev_st e # ss)" using ss(1) by (simp add: calm_def orderly_weaken)
  ultimately have "orderly (snd (fold enter ss (ev_st e, [ev_st e])))"
    using ss(1) by (intro enters_orderly) (simp_all add: calm_def)
  with ts new show ?thesis by simp
qed

text \<open>C22: When every state change is handled before the next one happens, no power action of the daemon starts the
  crash handler, however it ends and whatever the Docker host answers.\<close>

theorem power_actions_are_no_crashes:
  assumes "dmn_env D = docker_penv cfg K n" "HandlePowerAction D now acq action waits s = Some (r, s')"
    "env_ok (sv_env s)" "us_State (sv_usage t) = ev_st (sv_env s)"
  shows "sv_routines (handle_promptly (new_changes (sv_env s) (sv_env s')) t) = sv_routines t"
proof -
  have "moves (abs_env (sv_env s)) (abs_env (sv_env s'))"
    using assms(1,2) by (rule docker.power_action_orderly)
  then have "orderly (ev_st (sv_env s) # new_changes (sv_env s) (sv_env s'))"
    using assms(3) by (rule moves_changes)
  then show ?thesis
    using assms(4) by (simp add: prompt_routines orderly_no_crash)
qed

text \<open>Handled late, the same change does count as a crash: when a start has failed and the routine for its stopping
  state runs only after the environment is offline, it finds the server gone from starting to offline and starts the
  crash handler, although the environment passed through stopping just to prevent that.\<close>

theorem late_handler_sees_crash:
  assumes "dmn_env D = docker_penv cfg K n" "env_Start cfg K e = (r, e')" "\<not> is_ok r" "env_ok e"
    "ev_st e = ProcessOfflineState" "ProcessStartingState \<in> set (new_changes e e')"
    "sv_env s = e'" "us_State (sv_usage s) = ProcessStartingState"
  shows "new_changes e e' = [ProcessStartingState, ProcessStoppingState, ProcessOfflineState] \<and>
    (\<exists>s'. handle_event D now (OnBus (StateChange ProcessStoppingState)) (lim, s) = Some (Ok (), lim, s') \<and>
      sv_routines s' = sv_routines s @ [CrashRoutine])"
proof -
  have abs: "abs_env e = (ProcessOfflineState, trail e)" using assms(5) by (simp add: abs_env_def)
  have path: "trail e' = trail e @ [ProcessStartingState, ProcessStoppingState, ProcessOfflineState]" "ev_st e' = ProcessOfflineState"
    using Start_path [OF assms(2)] assms(3,6) abs by (auto simp: goes_def abs_env_def new_changes_def)
  then have "srv_State D s = ProcessOfflineState"
    by (simp add: srv_State_def assms(1,7) docker_penv_def env_State_def)
  with path assms(8) show ?thesis
    by (simp add: new_changes_def handle_event_def change_routines looks_crashed_def)
qed

text \<open>A line of output equal to the stop command, seen while the server runs, sets the environment to offline and not
  to stopping: its handler finds the server gone from running to offline and starts the crash handler.\<close>

theorem stop_echo_sees_crash:
  assumes "dmn_env D = docker_penv cfg K n" "ev_st (sv_env s) = ProcessRunningState" "us_State (sv_usage s) = ProcessRunningState"
    "pc_StopType (sv_proc s) = ''command''" "pc_StripAnsi (sv_proc s) = False" "pc_StopValue (sv_proc s) = data"
  shows "\<exists>s1. onConsoleOutput D data s = (Ok (), s1) \<and> new_changes (sv_env s) (sv_env s1) = [ProcessOfflineState] \<and>
    sv_routines (handle_promptly [ProcessOfflineState] s1) = sv_routines s @ [CrashRoutine]"
proof -
  define t where "t = (case Option.bind (cfg_Features (sv_cfg s)) (\<lambda>f. feature_match f data) of
      Some (key, pat) \<Rightarrow> emit (EvFeature key pat data) s | None \<Rightarrow> s)"
  have t: "sv_env t = sv_env s" "sv_proc t = sv_proc s" "sv_usage t = sv_usage s" "sv_routines t = sv_routines s"
    by (auto simp: t_def emit_def split: option.splits)
  have st: "srv_State D x = ev_st (sv_env x)" for x :: "('a env, 'b) server"
    by (simp add: srv_State_def assms(1) docker_penv_def env_State_def)
  let ?s1 = "t\<lparr>sv_env := put_state ProcessOfflineState (sv_env t)\<rparr>"
  have "on_env (pe_SetState (dmn_env D) ProcessOfflineState) t = (Ok (), ?s1)"
    by (simp add: on_env_def assms(1) docker_penv_def SetState_constant)
  then have "onConsoleOutput D data s = (Ok (), ?s1)"
    using assms(2,4-6) t
    by (simp add: onConsoleOutput_def output_done_def st IsRunning_def Let_def t_def [symmetric])
  moreover have "new_changes (sv_env s) (sv_env ?s1) = [ProcessOfflineState]"
    using assms(2) by (simp add: t new_changes_def trail_put_state)
  moreover have "sv_routines (handle_promptly [ProcessOfflineState] ?s1) = sv_routines s @ [CrashRoutine]"
    using assms(3) by (simp add: prompt_routines t crashes_in_def looks_crashed_def)
  ultimately show ?thesis by blast
qed

section \<open>The disk limiter\<close>

definition limit_message :: string where
  "limit_message = ''Server is exceeding the assigned disk space limit, stopping process now.''"

fun handle_events ::
  "('e, 'w) daemon \<Rightarrow> (int \<times> listener_event) list \<Rightarrow> bool \<times> ('e, 'w) server \<Rightarrow> ((srv_error, unit) outcome \<times> bool \<times> ('e, 'w) server) option" where
  "handle_events D [] ls = Some (Ok (), ls)"
| "handle_events D ((now, ev) # evs) ls =
     (case handle_event D now ev ls of
        Some (Ok _, ls) \<Rightarrow> handle_events D evs ls
      | r \<Rightarrow> r)"

definition stops_for_space :: "('e, 'w) server \<Rightarrow> nat" where
  "stops_for_space s = count_list (sv_events s) (EvConsole limit_message)"

lemma stops_emit [simp]: "stops_for_space (emit x s) = stops_for_space s + (if x = EvConsole limit_message then 1 else 0)"
  by (simp add: stops_for_space_def emit_def)

lemma stops_frame [simp]:
  "stops_for_space (s\<lparr>sv_usage := u\<rparr>) = stops_for_space s" "stops_for_space (s\<lparr>sv_disk := d, sv_world := w\<rparr>) = stops_for_space s"
  "stops_for_space (start_routine t s) = stops_for_space s" "stops_for_space (s\<lparr>sv_panel := p\<rparr>) = stops_for_space s"
  "stops_for_space (publish_stats s) = stops_for_space s"
  by (simp_all add: stops_for_space_def start_routine_def publish_stats_def Proc_def Let_def emit_def)

lemma stops_change [simp]: "stops_for_space (OnStateChange a b c s) = stops_for_space s"
  by (simp add: OnStateChange_def Let_def)

lemma Trigger_once:
  "Trigger D lim s = (r, lim', s') \<Longrightarrow> lim' \<and> stops_for_space s' + of_bool (\<not> lim') = stops_for_space s + of_bool (\<not> lim)"
  by (auto simp: Trigger_def on_env_def PublishConsoleOutputFromDaemon_def stops_for_space_def emit_def limit_message_def
      split: if_splits prod.splits outcome.splits)

lemma handle_event_limiter:
  assumes "handle_event D now ev (lim, s) = Some (r, lim', s')" "ev \<noteq> OnBus (StateChange ProcessStartingState)"
  shows "stops_for_space s' + of_bool (\<not> lim') = stops_for_space s + of_bool (\<not> lim)"
proof (cases ev)
  case (OnBus b)
  with assms show ?thesis
    by (cases b) (auto simp: handle_event_def Let_def PublishConsoleOutputFromDaemon_def limit_message_def split: if_splits)
next
  case (OnResource st)
  let ?s0 = "s\<lparr>sv_usage := UpdateStats st (sv_usage s)\<rparr>"
  from assms OnResource obtain ok d lookup w where
    "HasSpaceAvailable (dmn_kernel D) (dmn_fs D) (dmn_fuel D) now True (sv_disk ?s0) (sv_world ?s0) = Some ((ok, d, lookup), w)"
    by (auto simp: handle_event_def Option.bind_eq_Some_conv)
  define s1 where "s1 = ?s0\<lparr>sv_disk := d, sv_world := w\<rparr>"
  define s2 where "s2 = (if lookup then start_routine LookupDisk s1 else s1)"
  have s2: "stops_for_space s2 = stops_for_space s" by (simp add: s2_def s1_def)
  obtain x l t where t: "(if \<not> ok then Trigger D lim s2 else (Ok (), lim, s2)) = (x, l, t)" by (meson prod_cases3)
  have "lim' = l \<and> (s' = t \<or> s' = publish_stats t)"
    using assms(1) OnResource \<open>HasSpaceAvailable _ _ _ _ _ _ _ = _\<close> t
    by (auto simp: handle_event_def s1_def [symmetric] s2_def [symmetric] split: outcome.splits)
  moreover have "stops_for_space t + of_bool (\<not> l) = stops_for_space s2 + of_bool (\<not> lim)"
    using t Trigger_once [of D lim s2 x l t] by (auto split: if_splits)
  ultimately show ?thesis using s2 by auto
qed


section \<open>The end of a server\<close>

text \<open>After a server was destroyed, a power action that does not wait panics: the lock it sends on is closed.\<close>

theorem destroyed_server_panics:
  assumes "CleanupForDestroy s = (Ok (), s')" "waits = [] \<or> hd waits \<le> 0"
    "\<not> (sv_installing s' \<or> sv_transferring s' \<or> sv_restoring s')"
  shows "HandlePowerAction D now acq action waits s' = Some (Panic, s')"
proof -
  have "lk_closed (sv_powerLock s')"
    using assms(1) by (auto simp: CleanupForDestroy_def Let_def Destroy_def split: outcome.splits prod.splits if_splits)
  then have "Acquire (sv_powerLock s') = (Panic, sv_powerLock s')" by (simp add: Acquire_def)
  with assms(2,3) show ?thesis by (auto simp: HandlePowerAction_def split: list.splits)
qed

section \<open>Examples\<close>

definition example_configuration :: configuration where
  "example_configuration = \<lparr>cfg_Uuid = ''u1'', cfg_Suspended = True, cfg_Invocation = ''run'', cfg_SkipEggScripts = False,
     cfg_EnvVars = [], cfg_Labels = [],
     cfg_Allocations = \<lparr>ForceOutgoingIP = False, DefaultIp = ''10.0.0.1'', DefaultPort = 25565, Mappings = []\<rparr>,
     cfg_Build = \<lparr>MemoryLimit = 1024, Swap = 0, IoWeight = 500, CpuLimit = 0, limit_DiskSpace = 0, Threads = [], OOMKiller = True\<rparr>,
     cfg_CrashDetection = True, cfg_Mounts = [], cfg_Denylist = [], cfg_Features = None, cfg_Image = ''img''\<rparr>"

definition example_daemon :: "unit docker \<Rightarrow> (unit env, nat) daemon" where
  "example_daemon K = \<lparr>dmn_env = docker_penv example_cfg K 1, dmn_kernel = counting_kernel,
     dmn_fs = \<lparr>fsys_unix = \<lparr>basePath = ''/srv'', useOpenat2 = True\<rparr>, fsys_interval = 0, fsys_isTest = False, fsys_uid = 988, fsys_gid = 988\<rparr>,
     dmn_fuel = 5, dmn_fetch = (\<lambda>_ w. (Inl (FetchFailed ''down''), w)),
     dmn_unmarshal = (\<lambda>_ _. Some example_configuration), dmn_parse = (\<lambda>_ _ w. (None, w)),
     dmn_write_file = (\<lambda>_ _ w. (None, w)), dmn_sprint = (\<lambda>_. []), dmn_zone = (\<lambda>_. True), dmn_missing = (\<lambda>_. False),
     dmn_strip = id, dmn_empty = example_configuration, dmn_crash_enabled = True, dmn_clean_exit_is_crash = True,
     dmn_crash_timeout = 60, dmn_log_lines = 2, dmn_check_permissions = False, dmn_timezone = ''UTC'',
     dmn_mounts = \<lparr>mc_passwd = False, mc_passwd_dir = [], mc_machine = False, mc_machine_dir = []\<rparr>,
     dmn_block_base = False, dmn_allowed_mounts = [], dmn_throttle_lines = 100, dmn_throttle_period = 100\<rparr>"

definition example_process :: process_config where
  "example_process = \<lparr>pc_Done = [], pc_StripAnsi = False, pc_StopType = ''command'', pc_StopValue = ''stop'', pc_Files = []\<rparr>"

definition example_server :: "(unit env, nat) server" where
  "example_server = NewServer example_configuration example_process fresh_env
     (\<lparr>lastLookupTime = None, lookupInProgress = False\<rparr>, NewQuota 10) 3 (\<lambda>_. \<lparr>ch_buf = [], ch_cap = 8, ch_closed = False\<rparr>)"

lemmas example_defs = example_daemon_def example_server_def example_process_def example_configuration_def NewServer_def
  NewEnvironment_def docker_penv_def

lemma example_facts [simp]: "dmn_env (example_daemon K) = docker_penv example_cfg K 1" "sv_powerLock example_server = NewLocker"
  "sv_env example_server = fresh_env" "sv_installing example_server = False" "sv_transferring example_server = False"
  "sv_restoring example_server = False" "us_State (sv_usage example_server) = ProcessOfflineState"
  "dmn_crash_timeout (example_daemon K) = 60" "sv_lastCrash example_server = None" "sv_activity example_server = []"
  "sv_routines example_server = []" "sv_cfg example_server = example_configuration" "sv_proc example_server = example_process"
  "dmn_clean_exit_is_crash (example_daemon K)" "dmn_log_lines (example_daemon K) = 2"
  by (simp_all add: example_daemon_def example_server_def NewServer_def)

lemma fresh_offline [simp]: "ev_st fresh_env = ProcessOfflineState"
  by (simp add: NewEnvironment_def)

lemma example_kill: "\<exists>r s'. HandlePowerAction (example_daemon busy_docker) 7 Acquire PowerActionTerminate [] example_server = Some (r, s')"
proof -
  have "HandlePowerAction (example_daemon busy_docker) 7 Acquire PowerActionTerminate [] example_server \<noteq> None"
    by (simp add: HandlePowerAction_def Acquire_def NewLocker_def release_after_def perform_def del: not_None_eq)
  then show ?thesis by auto
qed

theorem power_lock_released_witness:
  "\<exists>r s'. HandlePowerAction (example_daemon busy_docker) 7 Acquire PowerActionTerminate [] example_server = Some (r, s') \<and>
     \<not> IsLocked (sv_powerLock s')"
proof -
  obtain r s' where run: "HandlePowerAction (example_daemon busy_docker) 7 Acquire PowerActionTerminate [] example_server = Some (r, s')"
    using example_kill by blast
  have "TryAcquire (Some DeadlineExceeded) NewLocker (fst (Acquire NewLocker)) (snd (Acquire NewLocker))"
    by (simp add: Acquire_def NewLocker_def TryAcquire.simps)
  with power_lock_released [OF run, of DeadlineExceeded] have "sv_powerLock s' = NewLocker" by simp
  with run show ?thesis by auto
qed

theorem busy_server_untouched_witness:
  "\<exists>m. HandlePowerAction (example_daemon busy_docker) 7 Acquire PowerActionStart []
      (example_server\<lparr>sv_powerLock := \<lparr>lk_len = 1, lk_closed = False\<rparr>\<rparr>) =
    Some (Err (SrvMsg m (SrvLock ErrLockerLocked)), example_server\<lparr>sv_powerLock := \<lparr>lk_len = 1, lk_closed = False\<rparr>\<rparr>)"
proof -
  let ?s = "example_server\<lparr>sv_powerLock := \<lparr>lk_len = 1, lk_closed = False\<rparr>\<rparr>"
  have "locker_ok (sv_powerLock ?s)" "IsLocked (sv_powerLock ?s)"
    "TryAcquire (Some DeadlineExceeded) (sv_powerLock ?s) (fst (Acquire (sv_powerLock ?s))) (snd (Acquire (sv_powerLock ?s)))"
    by (simp_all add: locker_ok_def IsLocked_def Acquire_def TryAcquire.simps)
  with busy_server_untouched [of ?s DeadlineExceeded Acquire "example_daemon busy_docker" 7 PowerActionStart "[]"]
  show ?thesis by simp
qed

theorem suspended_never_started_witness:
  "\<not> (\<exists>t. HandlePowerAction ((example_daemon sleepy_docker)\<lparr>dmn_fetch := (\<lambda>_ w. (Inr ([], example_process), w))\<rparr>) 7 Acquire
       PowerActionStart [] example_server = Some (Ok (), t))"
proof -
  let ?D = "(example_daemon sleepy_docker)\<lparr>dmn_fetch := (\<lambda>_ w. (Inr ([], example_process), w))\<rparr>"
  have "panel_suspends ?D"
    by (simp add: panel_suspends_def example_daemon_def) (simp add: example_configuration_def)
  from suspended_never_started [OF this, of undefined 7 Acquire PowerActionStart "[]" example_server] show ?thesis
    by (simp add: pa_IsStart_def)
qed


theorem power_actions_are_no_crashes_witness:
  "\<exists>r s'. HandlePowerAction (example_daemon busy_docker) 7 Acquire PowerActionTerminate [] example_server = Some (r, s') \<and>
     sv_routines (handle_promptly (new_changes fresh_env (sv_env s')) example_server) = []"
proof -
  obtain r s' where run: "HandlePowerAction (example_daemon busy_docker) 7 Acquire PowerActionTerminate [] example_server = Some (r, s')"
    using example_kill by blast
  from power_actions_are_no_crashes [OF _ run, of example_cfg busy_docker 1 example_server] run show ?thesis
    by simp
qed

theorem late_handler_sees_crash_witness:
  "\<exists>e s'. snd (env_Start example_cfg sleepy_docker fresh_env) = e \<and>
     handle_event (example_daemon sleepy_docker) 7 (OnBus (StateChange ProcessStoppingState))
       (False, example_server\<lparr>sv_env := e, sv_usage := (sv_usage example_server)\<lparr>us_State := ProcessStartingState\<rparr>\<rparr>) =
       Some (Ok (), False, s') \<and> sv_routines s' = [CrashRoutine]"
proof -
  have "\<exists>e. env_Start example_cfg sleepy_docker fresh_env = (Err (Annotated (DockerError ''no'')), e) \<and>
      trail e = [ProcessOfflineState, ProcessStartingState, ProcessStoppingState, ProcessOfflineState]"
    by (simp add: env_Start_def sleepy_docker_def DockerEnv.on_def call_def boot_def boot_steps_def OnBeforeStart_def env_Create_def
        Attach_def IsAttached_def wrap_def SetStream_def put_state_def SetState_def publish_def env_State_def
        NewEnvironment_def trail_def after_failed_start_def)
  then obtain e where run: "env_Start example_cfg sleepy_docker fresh_env = (Err (Annotated (DockerError ''no'')), e)"
    and e: "trail e = [ProcessOfflineState, ProcessStartingState, ProcessStoppingState, ProcessOfflineState]" by blast
  have "ProcessStartingState \<in> set (new_changes fresh_env e)" by (simp add: new_changes_def e)
  from late_handler_sees_crash [OF example_facts(1) run _ _ _ this,
      of "example_server\<lparr>sv_env := e, sv_usage := (sv_usage example_server)\<lparr>us_State := ProcessStartingState\<rparr>\<rparr>" 7 False] run
  show ?thesis by simp
qed

theorem stop_echo_sees_crash_witness:
  "\<exists>s1. onConsoleOutput (example_daemon sleepy_docker) ''stop''
      (example_server\<lparr>sv_env := put_state ProcessRunningState fresh_env, sv_usage := (sv_usage example_server)\<lparr>us_State := ProcessRunningState\<rparr>\<rparr>) =
      (Ok (), s1) \<and> sv_routines (handle_promptly [ProcessOfflineState] s1) = [CrashRoutine]"
  using stop_echo_sees_crash [OF example_facts(1),
    of "example_server\<lparr>sv_env := put_state ProcessRunningState fresh_env, sv_usage := (sv_usage example_server)\<lparr>us_State := ProcessRunningState\<rparr>\<rparr>"
      "''stop''" sleepy_docker]
  by (auto simp: example_process_def)


theorem destroyed_server_panics_witness:
  "\<exists>s'. CleanupForDestroy example_server = (Ok (), s') \<and>
     HandlePowerAction (example_daemon sleepy_docker) 7 Acquire PowerActionStart [] s' = Some (Panic, s')"
proof -
  obtain s' where run: "CleanupForDestroy example_server = (Ok (), s')" and s': "\<not> (sv_installing s' \<or> sv_transferring s' \<or> sv_restoring s')"
    by (auto simp: CleanupForDestroy_def DestroyAllSinks_def pool_Destroy_def cancel_websockets_def Destroy_def Let_def
        example_server_def NewServer_def NewSinkPool_def NewLocker_def ws_CancelAll_def)
  from destroyed_server_panics [OF run _ s', of "[]" "example_daemon sleepy_docker" 7 Acquire PowerActionStart] run show ?thesis
    by simp
qed

end
