(* ===== verification/Strconv.thy ===== *)
theory Strconv
  imports Prelude
begin

text \<open>
  The functions of the Go packages \<open>strconv\<close> and \<open>bufio\<close> that several components use: reading integers and booleans,
  and splitting a text into lines.
\<close>

section \<open>Integers\<close>

definition digit_val :: "char \<Rightarrow> nat option" where
  "digit_val c = (if (48 :: nat) \<le> of_char c \<and> of_char c \<le> (57 :: nat) then Some (of_char c - 48) else None)"

fun digits_val :: "string \<Rightarrow> nat \<Rightarrow> nat option" where
  "digits_val [] acc = Some acc"
| "digits_val (c # cs) acc = (case digit_val c of None \<Rightarrow> None | Some d \<Rightarrow> digits_val cs (10 * acc + d))"

text \<open>\<open>strconv.Atoi\<close>, and \<open>strconv.ParseInt\<close> in base ten, on 64 bits; \<open>None\<close> is a syntax or a range error.\<close>

definition in_range :: "int \<Rightarrow> int option" where
  "in_range i = (if in_i64 i then Some i else None)"

definition Atoi :: "string \<Rightarrow> int option" where
  "Atoi s =
     (case s of
        [] \<Rightarrow> None
      | c # cs \<Rightarrow>
          if c = CHR ''-'' then (if cs = [] then None else Option.bind (digits_val cs 0) (\<lambda>n. in_range (- int n)))
          else if c = CHR ''+'' then (if cs = [] then None else Option.bind (digits_val cs 0) (\<lambda>n. in_range (int n)))
          else Option.bind (digits_val s 0) (\<lambda>n. in_range (int n)))"

lemma digit_val_char: "d < 10 \<Longrightarrow> digit_val (digit_char d) = Some d"
  by (simp add: digit_val_def digit_char_def take_bit_nat_eq_self)

lemma digits_val_append: "digits_val (xs @ ys) acc = Option.bind (digits_val xs acc) (digits_val ys)"
  by (induction xs arbitrary: acc) (auto split: option.splits)

lemma digits_val_nat: "digits_val (nat_digits n) acc = Some (acc * 10 ^ length (nat_digits n) + n)"
proof (induction n arbitrary: acc rule: nat_digits.induct)
  case (1 n)
  show ?case
  proof (cases "n < 10")
    case True
    then show ?thesis by (simp add: nat_digits.simps digit_val_char)
  next
    case False
    with 1 [OF False, of acc] show ?thesis
      by (subst (1 2) nat_digits.simps) (simp add: digits_val_append digit_val_char algebra_simps)
  qed
qed

lemma nat_digits_head: "hd (nat_digits n) \<notin> {CHR ''-'', CHR ''+''}"
proof -
  have sign: "digit_val CHR ''-'' = None" "digit_val CHR ''+'' = None" by (simp_all add: digit_val_def)
  show ?thesis
  proof
    assume "hd (nat_digits n) \<in> {CHR ''-'', CHR ''+''}"
    then obtain c cs where "nat_digits n = c # cs" "c \<in> {CHR ''-'', CHR ''+''}"
      by (cases "nat_digits n") auto
    with digits_val_nat [of n 0] sign show False by auto
  qed
qed

text \<open>What \<open>Itoa\<close> writes, \<open>Atoi\<close> reads.\<close>

lemma Atoi_Itoa: "in_i64 i \<Longrightarrow> Atoi (Itoa i) = Some i"
proof (cases "i < 0")
  case True
  assume "in_i64 i"
  with True digits_val_nat [of "nat (- i)" 0] show ?thesis
    by (simp add: Itoa_def Atoi_def in_range_def)
next
  case False
  assume "in_i64 i"
  with False digits_val_nat [of "nat i" 0] nat_digits_head [of "nat i"] show ?thesis
    by (cases "nat_digits (nat i)") (auto simp: Itoa_def Atoi_def in_range_def)
qed

definition ParseBool :: "string \<Rightarrow> bool option" where
  "ParseBool s =
     (if s \<in> set [''1'', ''t'', ''T'', ''TRUE'', ''true'', ''True''] then Some True
      else if s \<in> set [''0'', ''f'', ''F'', ''FALSE'', ''false'', ''False''] then Some False
      else None)"

section \<open>Lines\<close>

abbreviation newline :: char where "newline \<equiv> char_of (10 :: nat)"
abbreviation carriage :: char where "carriage \<equiv> char_of (13 :: nat)"

text \<open>
  \<open>bufio.Scanner\<close> with its default split and buffer: the lines without their end, a final carriage return dropped.
  A line of \<open>maxTokenSize\<close> bytes or more, its end not counted, stops the scan: the second component says so.
\<close>

definition maxTokenSize :: nat where "maxTokenSize = 65536"

definition drop_cr :: "string \<Rightarrow> string" where
  "drop_cr l = TrimSuffix l [carriage]"

fun raw_lines :: "string \<Rightarrow> string list" where
  "raw_lines [] = []"
| "raw_lines (c # cs) =
     (if c = newline then [] # raw_lines cs
      else (case raw_lines cs of [] \<Rightarrow> [[c]] | l # ls \<Rightarrow> (c # l) # ls))"

fun scan_tokens :: "string list \<Rightarrow> string list \<times> bool" where
  "scan_tokens [] = ([], False)"
| "scan_tokens (l # ls) =
     (if length l \<ge> maxTokenSize then ([], True)
      else (case scan_tokens ls of (ts, stopped) \<Rightarrow> (drop_cr l # ts, stopped)))"

definition scan_lines :: "string \<Rightarrow> string list \<times> bool" where
  "scan_lines s = scan_tokens (raw_lines s)"

definition unlines :: "string list \<Rightarrow> string" where
  "unlines ls = concat (map (\<lambda>l. l @ [newline]) ls)"

lemma raw_lines_line: "newline \<notin> set l \<Longrightarrow> raw_lines (l @ newline # s) = l # raw_lines s"
  by (induction l) auto

lemma raw_lines_unlines: "\<forall>l \<in> set ls. newline \<notin> set l \<Longrightarrow> raw_lines (unlines ls) = ls"
  by (induction ls) (simp_all add: unlines_def raw_lines_line)

lemma scan_tokens_short:
  "\<forall>l \<in> set ls. length l < maxTokenSize \<and> \<not> suffix [carriage] l \<Longrightarrow> scan_tokens ls = (ls, False)"
  by (induction ls) (simp_all add: drop_cr_def TrimSuffix_idle)

lemma scan_unlines:
  assumes "\<forall>l \<in> set ls. newline \<notin> set l \<and> length l < maxTokenSize \<and> \<not> suffix [carriage] l"
  shows "scan_lines (unlines ls) = (ls, False)"
  using assms by (simp add: scan_lines_def raw_lines_unlines scan_tokens_short)

lemma scan_tokens_stop:
  assumes "\<forall>l \<in> set ls. length l < maxTokenSize \<and> \<not> suffix [carriage] l" "maxTokenSize \<le> length l"
  shows "scan_tokens (ls @ l # ms) = (ls, True)"
  using assms by (induction ls) (simp_all add: drop_cr_def TrimSuffix_idle)

end
