(* ===== verification/Parser.thy ===== *)
theory Parser
  imports Strconv Invocation
begin

text \<open>
  The configuration parsers (\<open>wings/parser/parser.go\<close>, \<open>helpers.go\<close>), on the content of a file: an error leaves
  the file as it is, a result is what it is overwritten with. The libraries that read and write the formats (gjson,
  sjson, the YAML, TOML, INI and properties packages), JSON string unescaping and regular expressions given by the
  egg are parameters; the expression for references to the daemon's configuration is fixed in the code and modelled.
\<close>

section \<open>Replacement values\<close>

datatype vtype = VtString | VtNumber | VtBoolean | VtNull | VtOther

record replace_value =
  rv_value :: string
  rv_type :: vtype

record replacement =
  rp_Match :: string
  rp_IfValue :: string
  rp_With :: replace_value

record parser_file =
  pf_FileName :: string
  pf_Parser :: string
  pf_Replace :: "replacement list"
  pf_AllowCreate :: bool

text \<open>\<open>unescape\<close> is the JSON library's; the code panics when it fails.\<close>

definition rv_String :: "(string \<Rightarrow> string option) \<Rightarrow> replace_value \<Rightarrow> (string, string) outcome" where
  "rv_String unescape cv =
     (case rv_type cv of
        VtString \<Rightarrow> (case unescape (rv_value cv) of Some s \<Rightarrow> Ok s | None \<Rightarrow> Panic)
      | VtNull \<Rightarrow> Ok ''<nil>''
      | VtBoolean \<Rightarrow> Ok (rv_value cv)
      | VtNumber \<Rightarrow> Ok (rv_value cv)
      | VtOther \<Rightarrow> Ok ''<invalid>'')"

definition rv_Bytes :: "(string \<Rightarrow> string option) \<Rightarrow> replace_value \<Rightarrow> (string, string) outcome" where
  "rv_Bytes unescape cv =
     (case rv_type cv of
        VtString \<Rightarrow> (case unescape (rv_value cv) of Some s \<Rightarrow> Ok s | None \<Rightarrow> Panic)
      | VtNull \<Rightarrow> Ok ''<nil>''
      | VtBoolean \<Rightarrow> Ok (rv_value cv)
      | VtNumber \<Rightarrow> Ok (rv_value cv)
      | VtOther \<Rightarrow> Ok ''<invalid>'')"

section \<open>Decoding\<close>

text \<open>
  The custom decoders. \<open>members\<close> is the decoded object with the raw text of each member (\<open>None\<close> also for \<open>null\<close>:
  both leave a nil pointer in the map, which the code dereferences); the decoders of the members are the library's.
\<close>

definition file_UnmarshalJSON ::
  "(string \<Rightarrow> string option) option \<Rightarrow> (string \<Rightarrow> string option) \<Rightarrow> (string \<Rightarrow> replacement list option) \<Rightarrow> (string \<Rightarrow> bool option) \<Rightarrow>
    (string, parser_file) outcome" where
  "file_UnmarshalJSON members as_string as_replace as_bool =
     (case members of
        None \<Rightarrow> Err ''json''
      | Some m \<Rightarrow> (case m ''file'' of
          None \<Rightarrow> Panic
        | Some a \<Rightarrow> (case as_string a of
            None \<Rightarrow> Err ''file''
          | Some name \<Rightarrow> (case m ''parser'' of
              None \<Rightarrow> Panic
            | Some b \<Rightarrow> (case as_string b of
                None \<Rightarrow> Err ''parser''
              | Some kind \<Rightarrow> (case m ''replace'' of
                  None \<Rightarrow> Panic
                | Some r \<Rightarrow>
                    Ok \<lparr>pf_FileName = name, pf_Parser = kind,
                        pf_Replace = (case as_replace r of Some rs \<Rightarrow> rs | None \<Rightarrow> []),
                        pf_AllowCreate = (case m ''create_file'' of
                           None \<Rightarrow> True
                         | Some c \<Rightarrow> (case as_bool c of Some x \<Rightarrow> x | None \<Rightarrow> True))\<rparr>))))))"

datatype 'a member = Present 'a | Absent | Malformed string

definition replacement_UnmarshalJSON ::
  "(string \<Rightarrow> string member) \<Rightarrow> (string \<Rightarrow> replace_value member) \<Rightarrow> (string, replacement) outcome" where
  "replacement_UnmarshalJSON get_string get_value =
     (case get_string ''match'' of
        Absent \<Rightarrow> Err ''Key path not found''
      | Malformed e \<Rightarrow> Err e
      | Present mt \<Rightarrow> (case get_string ''if_value'' of
          Malformed e \<Rightarrow> Err e
        | iv \<Rightarrow>
            (let ifv = (case iv of Present x \<Rightarrow> x | _ \<Rightarrow> []);
                 rw = (case get_value ''replace_with'' of Absent \<Rightarrow> get_value ''value'' | r \<Rightarrow> r)
             in case rw of
                  Present v \<Rightarrow> Ok \<lparr>rp_Match = mt, rp_IfValue = ifv, rp_With = v\<rparr>
                | Absent \<Rightarrow> Err ''Key path not found''
                | Malformed e \<Rightarrow> Err e)))"

section \<open>References to the daemon's configuration\<close>

text \<open>
  \<open>configMatchRegex\<close>: two opening braces, at most one blank, \<open>config.\<close>, the longest run of word characters, dots and
  hyphens, at most one blank, two closing braces. No run can end earlier, for what follows it is none of its
  characters. A match is given with the text before it, its group and the text after it.
\<close>

definition is_blank :: "char \<Rightarrow> bool" where
  "is_blank c \<longleftrightarrow> c \<in> {CHR '' '', char_of (9 :: nat), char_of (10 :: nat), char_of (12 :: nat), char_of (13 :: nat)}"

definition is_word :: "char \<Rightarrow> bool" where
  "is_word c \<longleftrightarrow> (48 :: nat) \<le> of_char c \<and> of_char c \<le> (57 :: nat) \<or> (65 :: nat) \<le> of_char c \<and> of_char c \<le> (90 :: nat) \<or>
     (97 :: nat) \<le> of_char c \<and> of_char c \<le> (122 :: nat) \<or> c = CHR ''_''"

definition is_key_char :: "char \<Rightarrow> bool" where
  "is_key_char c \<longleftrightarrow> is_word c \<or> c = CHR ''.'' \<or> c = CHR ''-''"

definition skip_blank :: "string \<Rightarrow> string" where
  "skip_blank s = (case s of c # cs \<Rightarrow> if is_blank c then cs else s | [] \<Rightarrow> [])"

definition match_here :: "string \<Rightarrow> (string \<times> string) option" where
  "match_here s =
     (if \<not> HasPrefix s ''{{'' then None
      else (let s = skip_blank (drop 2 s)
            in if \<not> HasPrefix s ''config.'' then None
               else (let s = drop 7 s; key = takeWhile is_key_char s; s = skip_blank (dropWhile is_key_char s)
                     in if key = [] \<or> \<not> HasPrefix s ''}}'' then None else Some (key, drop 2 s))))"

fun find_match :: "string \<Rightarrow> (string \<times> string \<times> string) option" where
  "find_match [] = None"
| "find_match (c # cs) =
     (case match_here (c # cs) of
        Some (key, rest) \<Rightarrow> Some ([], key, rest)
      | None \<Rightarrow> map_option (\<lambda>(before, key, rest). (c # before, key, rest)) (find_match cs))"

lemma match_here_shrinks: "match_here s = Some (key, rest) \<Longrightarrow> length rest < length s"
proof -
  assume m: "match_here s = Some (key, rest)"
  have skip: "length (skip_blank t) \<le> length t" for t by (cases t) (auto simp: skip_blank_def)
  define t where "t = skip_blank (drop 2 s)"
  from m have "prefix ''{{'' s" and rest: "rest = drop 2 (skip_blank (dropWhile is_key_char (drop 7 t)))"
    by (auto simp: match_here_def t_def Let_def split: if_splits)
  then obtain u where s: "s = ''{{'' @ u" by (auto simp: prefix_def)
  have "length rest \<le> length (dropWhile is_key_char (drop 7 t))" using rest skip [of "dropWhile is_key_char (drop 7 t)"] by simp
  also have "\<dots> \<le> length (drop 7 t)" by (rule length_dropWhile_le)
  also have "\<dots> \<le> length (drop 2 s)" using skip [of "drop 2 s"] by (simp add: t_def)
  finally show "length rest < length s" by (simp add: s)
qed

lemma find_match_shrinks: "find_match s = Some (before, key, rest) \<Longrightarrow> length rest < length s"
  by (induction s arbitrary: before) (auto split: option.splits dest: match_here_shrinks)

text \<open>The template a match is replaced with: a dollar sign names the whole match or its group.\<close>

function expand :: "string \<Rightarrow> string \<Rightarrow> string \<Rightarrow> string" where
  "expand whole grp [] = []"
| "expand whole grp (c # cs) =
     (if c \<noteq> CHR ''$'' then c # expand whole grp cs
      else if HasPrefix cs ''$'' then CHR ''$'' # expand whole grp (drop 1 cs)
      else (let braced = HasPrefix cs ''{''; body = (if braced then drop 1 cs else cs);
                name = takeWhile is_word body; rest = dropWhile is_word body
            in if name = [] \<or> (braced \<and> \<not> HasPrefix rest ''}'') then CHR ''$'' # expand whole grp cs
               else (if name = ''0'' then whole else if name = ''1'' then grp else []) @
                 expand whole grp (if braced then drop 1 rest else drop (length name) cs)))"
  by pat_completeness auto
termination
proof (relation "measure (\<lambda>(_, _, s). length s)")
  fix whole grp :: string and c cs braced body name rest
  assume "braced = HasPrefix cs ''{''" "body = (if braced then drop 1 cs else cs)" "rest = dropWhile is_word body"
  moreover have "length (dropWhile is_word body) \<le> length body" by (rule length_dropWhile_le)
  ultimately show "((whole, grp, if braced then drop 1 rest else drop (length name) cs), whole, grp, c # cs) \<in> measure (\<lambda>(_, _, s). length s)"
    by (auto split: if_splits)
qed auto

declare expand.simps [simp del]

text \<open>\<open>ReplaceAllString\<close> with the expression above; \<open>matched\<close> is the text of a match.\<close>

definition matched :: "string \<Rightarrow> string \<Rightarrow> string" where
  "matched s rest = take (length s - length rest) s"

function replace_matches :: "string \<Rightarrow> string \<Rightarrow> string" where
  "replace_matches tpl s =
     (case find_match s of
        None \<Rightarrow> s
      | Some (before, key, rest) \<Rightarrow>
          before @ expand (matched (drop (length before) s) rest) key tpl @ replace_matches tpl rest)"
  by pat_completeness auto
termination
  by (relation "measure (length \<circ> snd)") (auto dest: find_match_shrinks)

declare replace_matches.simps [simp del]

text \<open>
  \<open>snake\<close> is \<open>strcase.ToSnake\<close>; \<open>get\<close> looks a path up in the encoded configuration of the daemon, and returns an
  empty value where there is none.
\<close>

datatype lookup_result = Found string | KeyNotFound | LookupFailed string

definition LookupConfigurationValue ::
  "(string \<Rightarrow> string option) \<Rightarrow> (string \<Rightarrow> string) \<Rightarrow> (string list \<Rightarrow> lookup_result) \<Rightarrow> replacement \<Rightarrow> (string, string) outcome" where
  "LookupConfigurationValue unescape snake get cfr =
     (if rv_type (rp_With cfr) \<noteq> VtString \<or> find_match (rv_value (rp_With cfr)) = None
      then rv_String unescape (rp_With cfr)
      else (case rv_String unescape (rp_With cfr) of
              Ok str \<Rightarrow>
                (let huntPath = (case find_match str of None \<Rightarrow> [] | Some (_, key, _) \<Rightarrow> key);
                     path = map snake (split_on (CHR ''.'') huntPath)
                 in case get path of
                      Found v \<Rightarrow> Ok (replace_matches v str)
                    | KeyNotFound \<Rightarrow> Ok []
                    | LookupFailed e \<Rightarrow> Err e)
            | r \<Rightarrow> r))"

section \<open>JSON documents\<close>

datatype jtype = JtNull | JtTrue | JtFalse | JtNumber | JtString | JtJson

datatype jset = SetBool bool | SetInt int | SetString string | SetRaw string

text \<open>
  gjson and sjson: validity, the value at a path (its type and its text), the paths of the children of an array or an
  object, whether a text is a number, and assignment.
\<close>

datatype jkind = NoValue | Children "string list" | Leaf

record json_lib =
  jl_valid :: "string \<Rightarrow> bool"
  jl_get :: "string \<Rightarrow> string \<Rightarrow> (jtype \<times> string) option"
  jl_kind :: "string \<Rightarrow> string \<Rightarrow> jkind"
  jl_is_number :: "string \<Rightarrow> bool"
  jl_set :: "string \<Rightarrow> string \<Rightarrow> jset \<Rightarrow> string + string"

text \<open>A regular expression the egg gives: whether it matches, and replacing all its matches.\<close>

type_synonym regex = "(string \<Rightarrow> bool) \<times> (string \<Rightarrow> string \<Rightarrow> string)"

definition typed_value :: "json_lib \<Rightarrow> vtype \<Rightarrow> string \<Rightarrow> string \<Rightarrow> string \<Rightarrow> jset" where
  "typed_value J t doc path val =
     (if t = VtBoolean then (case ParseBool val of Some b \<Rightarrow> SetBool b | None \<Rightarrow> SetString val)
      else (case jl_get J doc path of
              Some (JtTrue, _) \<Rightarrow> (case ParseBool val of Some b \<Rightarrow> SetBool b | None \<Rightarrow> SetString val)
            | Some (JtFalse, _) \<Rightarrow> (case ParseBool val of Some b \<Rightarrow> SetBool b | None \<Rightarrow> SetString val)
            | Some (JtNumber, _) \<Rightarrow> if jl_is_number J val then SetRaw val else SetString val
            | _ \<Rightarrow> (case Atoi val of Some i \<Rightarrow> SetInt i | None \<Rightarrow> SetString val)))"

definition setValueWithSjson ::
  "json_lib \<Rightarrow> (string \<Rightarrow> regex option) \<Rightarrow> replacement \<Rightarrow> string \<Rightarrow> string \<Rightarrow> string \<Rightarrow> string + string" where
  "setValueWithSjson J compile cfr doc path val =
     (let store = jl_set J doc path (typed_value J (rv_type (rp_With cfr)) doc path val)
      in if rp_IfValue cfr = [] then store
         else if HasPrefix (rp_IfValue cfr) ''regex:''
         then (case jl_get J doc path of
                 None \<Rightarrow> Inr doc
               | Some (_, v) \<Rightarrow>
                   (case compile (TrimPrefix (rp_IfValue cfr) ''regex:'') of
                      None \<Rightarrow> Inr doc
                    | Some (matches, subst) \<Rightarrow>
                        if matches v then jl_set J doc path (SetString (subst v val)) else Inr doc))
         else (case jl_get J doc path of
                 None \<Rightarrow> Inr doc
               | Some (_, v) \<Rightarrow> if v \<noteq> rp_IfValue cfr then Inr doc else store))"

text \<open>\<open>strings.Trim\<close> of dots, and splitting at the first wildcard.\<close>

definition trim_dots :: "string \<Rightarrow> string" where
  "trim_dots s = rev (dropWhile (\<lambda>c. c = CHR ''.'') (rev (dropWhile (\<lambda>c. c = CHR ''.'') s)))"

fun split_wild :: "string \<Rightarrow> (string \<times> string) option" where
  "split_wild [] = None"
| "split_wild (c # cs) =
     (if HasPrefix (c # cs) ''.*'' then Some ([], drop 1 cs)
      else map_option (\<lambda>(a, b). (c # a, b)) (split_wild cs))"

fun set_children ::
  "(string \<Rightarrow> string \<Rightarrow> string + string) \<Rightarrow> string \<Rightarrow> string \<Rightarrow> string list \<Rightarrow> string \<Rightarrow> string + string" where
  "set_children put base remaining [] doc = Inr doc"
| "set_children put base remaining (k # ks) doc =
     (let full = base @ ''.'' @ k @ (if remaining \<noteq> [] then ''.'' @ remaining else [])
      in case put doc full of Inl e \<Rightarrow> Inl e | Inr doc \<Rightarrow> set_children put base remaining ks doc)"

text \<open>One turn of the loop; \<open>Contains e ''path not found''\<close> is how the code tells a missing path.\<close>

definition replace_in_json ::
  "json_lib \<Rightarrow> (string \<Rightarrow> regex option) \<Rightarrow> replacement \<Rightarrow> string \<Rightarrow> string \<Rightarrow> string + string" where
  "replace_in_json J compile v val doc =
     (case split_wild (rp_Match v) of
        Some (a, b) \<Rightarrow>
          (case jl_kind J doc (trim_dots a) of
             Children ks \<Rightarrow> set_children (\<lambda>doc path. setValueWithSjson J compile v doc path val) (trim_dots a) (trim_dots b) ks doc
           | _ \<Rightarrow> Inr doc)
      | None \<Rightarrow>
          (case setValueWithSjson J compile v doc (rp_Match v) val of
             Inl e \<Rightarrow> if sublist ''path not found'' e then Inr doc else Inl e
           | Inr doc \<Rightarrow> Inr doc))"

fun json_loop ::
  "json_lib \<Rightarrow> (string \<Rightarrow> regex option) \<Rightarrow> (replacement \<Rightarrow> (string, string) outcome) \<Rightarrow> replacement list \<Rightarrow> string \<Rightarrow> (string, string) outcome" where
  "json_loop J compile look [] doc = Ok doc"
| "json_loop J compile look (v # vs) doc =
     (case look v of
        Ok val \<Rightarrow> (case replace_in_json J compile v val doc of Inr doc \<Rightarrow> json_loop J compile look vs doc | Inl e \<Rightarrow> Err e)
      | r \<Rightarrow> r)"

definition IterateOverJson ::
  "json_lib \<Rightarrow> (string \<Rightarrow> regex option) \<Rightarrow> (replacement \<Rightarrow> (string, string) outcome) \<Rightarrow> parser_file \<Rightarrow> string \<Rightarrow> (string, string) outcome" where
  "IterateOverJson J compile look f data =
     (if \<not> jl_valid J data then Err ''invalid JSON data'' else json_loop J compile look (pf_Replace f) data)"

end
