(* ===== verification/ParserFiles.thy ===== *)
theory ParserFiles
  imports Parser
begin

text \<open>
  The parsers of each file format (\<open>wings/parser/parser.go\<close>) over the replacement engine of \<open>Parser\<close>, and what
  they keep of a file.
\<close>

section \<open>Text files\<close>

fun text_replacements :: "(string \<Rightarrow> string option) \<Rightarrow> replacement list \<Rightarrow> string \<Rightarrow> (string, string \<times> bool) outcome" where
  "text_replacements unescape [] line = Ok ([], False)"
| "text_replacements unescape (r # rs) line =
     (if \<not> HasPrefix line (rp_Match r) then text_replacements unescape rs line
      else (case rv_Bytes unescape (rp_With r) of
              Ok b \<Rightarrow> (case text_replacements unescape rs line of Ok (out, _) \<Rightarrow> Ok (b @ out, True) | e \<Rightarrow> e)
            | Err e \<Rightarrow> Err e
            | Panic \<Rightarrow> Panic))"

fun text_lines :: "(string \<Rightarrow> string option) \<Rightarrow> replacement list \<Rightarrow> string list \<Rightarrow> (string, string) outcome" where
  "text_lines unescape reps [] = Ok []"
| "text_lines unescape reps (l # ls) =
     (case text_replacements unescape reps l of
        Ok (out, replaced) \<Rightarrow>
          (case text_lines unescape reps ls of
             Ok rest \<Rightarrow> Ok ((if replaced then out else l) @ newline # rest)
           | e \<Rightarrow> e)
      | Err e \<Rightarrow> Err e
      | Panic \<Rightarrow> Panic)"

definition parseTextFile :: "(string \<Rightarrow> string option) \<Rightarrow> parser_file \<Rightarrow> string \<Rightarrow> (string, string) outcome" where
  "parseTextFile unescape f content = text_lines unescape (pf_Replace f) (fst (scan_lines content))"

section \<open>Properties files\<close>

text \<open>The comment at the head of the file; an overlong line before its end is an error.\<close>

fun header_lines :: "string list \<Rightarrow> bool \<Rightarrow> string option" where
  "header_lines [] stopped = (if stopped then None else Some [])"
| "header_lines (l # ls) stopped =
     (if l \<noteq> [] \<and> hd l \<noteq> CHR ''#'' then Some [] else map_option ((@) (l @ [newline])) (header_lines ls stopped))"

definition hex_char :: "nat \<Rightarrow> char" where
  "hex_char d = (if d < 10 then char_of (48 + d) else char_of (87 + d))"

text \<open>
  \<open>strconv.QuoteToASCII\<close> without the quotes around it; \<open>wide\<close> escapes the character that starts with a byte above
  127 and tells how many bytes it has.
\<close>

definition quote_byte :: "char \<Rightarrow> string" where
  "quote_byte c =
     (let n = (of_char c :: nat) in
      if c = CHR 0x22 then [CHR 0x5C, CHR 0x22]
      else if c = CHR 0x5C then [CHR 0x5C, CHR 0x5C]
      else if 32 \<le> n \<and> n \<le> 126 then [c]
      else if n = 7 then [CHR 0x5C, CHR ''a''] else if n = 8 then [CHR 0x5C, CHR ''b'']
      else if n = 12 then [CHR 0x5C, CHR ''f''] else if n = 10 then [CHR 0x5C, CHR ''n'']
      else if n = 13 then [CHR 0x5C, CHR ''r''] else if n = 9 then [CHR 0x5C, CHR ''t'']
      else if n = 11 then [CHR 0x5C, CHR ''v'']
      else [CHR 0x5C, CHR ''x'', hex_char (n div 16), hex_char (n mod 16)])"

fun quote_ascii :: "(string \<Rightarrow> string \<times> nat) \<Rightarrow> string \<Rightarrow> string" where
  "quote_ascii wide [] = []"
| "quote_ascii wide (c # cs) =
     (if (of_char c :: nat) < 128 then quote_byte c @ quote_ascii wide cs
      else (case wide (c # cs) of (s, n) \<Rightarrow> s @ quote_ascii wide (drop (n - 1) cs)))"

definition QuoteToASCII :: "(string \<Rightarrow> string \<times> nat) \<Rightarrow> string \<Rightarrow> string" where
  "QuoteToASCII wide s = CHR 0x22 # quote_ascii wide s @ [CHR 0x22]"

definition trim_quotes :: "string \<Rightarrow> string" where
  "trim_quotes s = rev (dropWhile (\<lambda>c. c = CHR 0x22) (rev (dropWhile (\<lambda>c. c = CHR 0x22) s)))"

record 'p prop_lib =
  pl_load :: "string \<Rightarrow> string + 'p"
  pl_get :: "'p \<Rightarrow> string \<Rightarrow> string option"
  pl_set :: "'p \<Rightarrow> string \<Rightarrow> string \<Rightarrow> string + 'p"
  pl_keys :: "'p \<Rightarrow> string list"

fun replace_properties ::
  "'p prop_lib \<Rightarrow> (replacement \<Rightarrow> (string, string) outcome) \<Rightarrow> replacement list \<Rightarrow> 'p \<Rightarrow> (string, 'p) outcome" where
  "replace_properties L look [] p = Ok p"
| "replace_properties L look (r # rs) p =
     (case look r of
        Err e \<Rightarrow> Err e
      | Panic \<Rightarrow> Panic
      | Ok data \<Rightarrow>
          if rp_IfValue r \<noteq> [] \<and> pl_get L p (rp_Match r) \<noteq> Some (rp_IfValue r)
          then replace_properties L look rs p
          else (case pl_set L p (rp_Match r) data of Inl e \<Rightarrow> Err e | Inr p \<Rightarrow> replace_properties L look rs p))"

definition property_line :: "(string \<Rightarrow> string \<times> nat) \<Rightarrow> string \<Rightarrow> string \<Rightarrow> string" where
  "property_line wide key val = key @ ''='' @ trim_quotes (QuoteToASCII wide val) @ [newline]"

definition property_lines :: "'p prop_lib \<Rightarrow> (string \<Rightarrow> string \<times> nat) \<Rightarrow> 'p \<Rightarrow> string" where
  "property_lines L wide p =
     concat (map (\<lambda>key. case pl_get L p key of None \<Rightarrow> [] | Some v \<Rightarrow> property_line wide key v) (pl_keys L p))"

definition parsePropertiesFile ::
  "'p prop_lib \<Rightarrow> (string \<Rightarrow> string \<times> nat) \<Rightarrow> (replacement \<Rightarrow> (string, string) outcome) \<Rightarrow> parser_file \<Rightarrow> string \<Rightarrow> (string, string) outcome" where
  "parsePropertiesFile L wide look f content =
     (case (case scan_lines content of (ls, stopped) \<Rightarrow> header_lines ls stopped) of
        None \<Rightarrow> Err ''bufio.Scanner: token too long''
      | Some header \<Rightarrow>
          (case pl_load L content of
             Inl e \<Rightarrow> Err e
           | Inr p \<Rightarrow>
               (case replace_properties L look (pf_Replace f) p of
                  Ok p \<Rightarrow> Ok (header @ property_lines L wide p)
                | Err e \<Rightarrow> Err e
                | Panic \<Rightarrow> Panic)))"

section \<open>INI files\<close>

text \<open>The loop that splits a key: the finished parts, the nesting of brackets, the part being read.\<close>

fun ini_step :: "char \<Rightarrow> string list \<times> int \<times> string \<Rightarrow> string list \<times> int \<times> string" where
  "ini_step c (path, depth, v) =
     (if c = CHR ''['' then (path, depth + 1, v)
      else if c = CHR '']'' then (path, depth - 1, v)
      else if c = CHR ''.'' then (if depth > 0 \<or> length path = 1 then (path, depth, v @ [c]) else (path @ [v], depth, []))
      else (path, depth, v @ [c]))"

definition ini_path :: "string \<Rightarrow> string list" where
  "ini_path s = (case fold ini_step s ([], 0, []) of (path, _, v) \<Rightarrow> path @ [v])"

record 'c ini_lib =
  il_load :: "string \<Rightarrow> string + 'c"
  il_has_key :: "'c \<Rightarrow> string \<Rightarrow> string \<Rightarrow> bool"
  il_set_value :: "'c \<Rightarrow> string \<Rightarrow> string \<Rightarrow> string \<Rightarrow> 'c"
  il_new_key :: "'c \<Rightarrow> string \<Rightarrow> string \<Rightarrow> string \<Rightarrow> string + 'c"
  il_write :: "'c \<Rightarrow> string"

definition ini_target :: "string \<Rightarrow> string \<times> string" where
  "ini_target s = (let path = ini_path s in if length path = 2 then (path ! 0, path ! 1) else ([], path ! 0))"

fun replace_ini ::
  "'c ini_lib \<Rightarrow> (replacement \<Rightarrow> (string, string) outcome) \<Rightarrow> replacement list \<Rightarrow> 'c \<Rightarrow> (string, 'c) outcome" where
  "replace_ini L look [] c = Ok c"
| "replace_ini L look (r # rs) c =
     (case look r of
        Err e \<Rightarrow> Err e
      | Panic \<Rightarrow> Panic
      | Ok val \<Rightarrow>
          (case ini_target (rp_Match r) of (sect, k) \<Rightarrow>
             if il_has_key L c sect k then replace_ini L look rs (il_set_value L c sect k val)
             else (case il_new_key L c sect k val of Inl e \<Rightarrow> Err e | Inr c \<Rightarrow> replace_ini L look rs c)))"

definition parseIniFile ::
  "'c ini_lib \<Rightarrow> (replacement \<Rightarrow> (string, string) outcome) \<Rightarrow> parser_file \<Rightarrow> string \<Rightarrow> (string, string) outcome" where
  "parseIniFile L look f content =
     (case il_load L content of
        Inl e \<Rightarrow> Err e
      | Inr c \<Rightarrow> (case replace_ini L look (pf_Replace f) c of Ok c \<Rightarrow> Ok (il_write L c) | Err e \<Rightarrow> Err e | Panic \<Rightarrow> Panic))"

section \<open>JSON, YAML and TOML files\<close>

definition parseJsonFile ::
  "(string \<Rightarrow> (string, string) outcome) \<Rightarrow> (string \<Rightarrow> string) \<Rightarrow> string \<Rightarrow> (string, string) outcome" where
  "parseJsonFile iter prettyprint content = (case iter content of Ok d \<Rightarrow> Ok (prettyprint d) | r \<Rightarrow> r)"

text \<open>A value between the formats; a number read from JSON keeps its text.\<close>

datatype tree_val =
    TvNull | TvBool bool | TvNumber string | TvInt int | TvFloat string | TvString string | TvTime string
  | TvList "tree_val list" | TvMap "(string \<times> tree_val) list"

text \<open>
  \<open>ftime\<close> is \<open>time.Parse\<close> with either RFC 3339 layout, \<open>ffloat\<close> reads a floating-point number.
\<close>

fun normalizeTomlTypes :: "(string \<Rightarrow> string option) \<Rightarrow> (string \<Rightarrow> string option) \<Rightarrow> tree_val \<Rightarrow> tree_val" where
  "normalizeTomlTypes ftime ffloat (TvMap m) = TvMap (map (\<lambda>(k, v). (k, normalizeTomlTypes ftime ffloat v)) m)"
| "normalizeTomlTypes ftime ffloat (TvList vs) = TvList (map (normalizeTomlTypes ftime ffloat) vs)"
| "normalizeTomlTypes ftime ffloat (TvNumber n) =
     (case Atoi n of Some i \<Rightarrow> TvInt i | None \<Rightarrow> (case ffloat n of Some x \<Rightarrow> TvFloat x | None \<Rightarrow> TvString n))"
| "normalizeTomlTypes ftime ffloat (TvString s) = (case ftime s of Some t \<Rightarrow> TvTime t | None \<Rightarrow> TvString s)"
| "normalizeTomlTypes ftime ffloat v = v"

record format_lib =
  fl_read :: "string \<Rightarrow> string + tree_val"
  fl_write :: "tree_val \<Rightarrow> string + string"

definition through_json ::
  "format_lib \<Rightarrow> format_lib \<Rightarrow> (tree_val \<Rightarrow> tree_val) \<Rightarrow> (string \<Rightarrow> (string, string) outcome) \<Rightarrow> string \<Rightarrow> (string, string) outcome" where
  "through_json F J norm iter content =
     (case fl_read F content of
        Inl e \<Rightarrow> Err e
      | Inr v \<Rightarrow> (case fl_write J v of
          Inl e \<Rightarrow> Err e
        | Inr doc \<Rightarrow> (case iter doc of
            Ok doc \<Rightarrow> (case fl_read J doc of
                Inl e \<Rightarrow> Err e
              | Inr v \<Rightarrow> (case fl_write F (norm v) of Inl e \<Rightarrow> Err e | Inr out \<Rightarrow> Ok out))
          | r \<Rightarrow> r)))"

definition parseYamlFile :: "format_lib \<Rightarrow> format_lib \<Rightarrow> (string \<Rightarrow> (string, string) outcome) \<Rightarrow> string \<Rightarrow> (string, string) outcome" where
  "parseYamlFile Y J = through_json Y J id"

definition parseTomlFile ::
  "format_lib \<Rightarrow> format_lib \<Rightarrow> (string \<Rightarrow> string option) \<Rightarrow> (string \<Rightarrow> string option) \<Rightarrow> (string \<Rightarrow> (string, string) outcome) \<Rightarrow> string \<Rightarrow> (string, string) outcome" where
  "parseTomlFile T J ftime ffloat = through_json T J (normalizeTomlTypes ftime ffloat)"

section \<open>Dispatch\<close>

record ('p, 'c) parser_libs =
  ps_unescape :: "string \<Rightarrow> string option"
  ps_look :: "replacement \<Rightarrow> (string, string) outcome"
  ps_iter :: "string \<Rightarrow> (string, string) outcome"
  ps_pretty :: "string \<Rightarrow> string"
  ps_wide :: "string \<Rightarrow> string \<times> nat"
  ps_prop :: "'p prop_lib"
  ps_ini :: "'c ini_lib"
  ps_json :: format_lib
  ps_yaml :: format_lib
  ps_toml :: format_lib
  ps_time :: "string \<Rightarrow> string option"
  ps_float :: "string \<Rightarrow> string option"
  ps_xml :: "parser_file \<Rightarrow> string \<Rightarrow> (string, string) outcome"

text \<open>An unknown parser leaves the file alone.\<close>

definition Parse :: "('p, 'c) parser_libs \<Rightarrow> parser_file \<Rightarrow> string \<Rightarrow> (string, string) outcome" where
  "Parse L f content =
     (let p = pf_Parser f in
      if p = ''properties'' then parsePropertiesFile (ps_prop L) (ps_wide L) (ps_look L) f content
      else if p = ''file'' then parseTextFile (ps_unescape L) f content
      else if p = ''yaml'' \<or> p = ''yml'' then parseYamlFile (ps_yaml L) (ps_json L) (ps_iter L) content
      else if p = ''json'' then parseJsonFile (ps_iter L) (ps_pretty L) content
      else if p = ''ini'' then parseIniFile (ps_ini L) (ps_look L) f content
      else if p = ''xml'' then ps_xml L f content
      else if p = ''toml'' then parseTomlFile (ps_toml L) (ps_json L) (ps_time L) (ps_float L) (ps_iter L) content
      else Ok content)"

end
