(* ===== verification/ParserProps.thy ===== *)
theory ParserProps
  imports ParserFiles
begin

text \<open>
  What the configuration parsers guarantee: which lines of a text file change, how references to the daemon's
  configuration are resolved, how INI keys are split, what a TOML document may contain; and where they lose data.
\<close>

section \<open>Text files\<close>

text \<open>The values written for a line, and the line when there is none.\<close>

definition line_values :: "(string \<Rightarrow> string option) \<Rightarrow> replacement list \<Rightarrow> string \<Rightarrow> string list" where
  "line_values unescape reps l =
     [b. r \<leftarrow> reps, prefix (rp_Match r) l, b \<leftarrow> (case rv_Bytes unescape (rp_With r) of Ok b \<Rightarrow> [b] | _ \<Rightarrow> [])]"

definition new_line :: "(string \<Rightarrow> string option) \<Rightarrow> replacement list \<Rightarrow> string \<Rightarrow> string" where
  "new_line unescape reps l = (if \<exists>r \<in> set reps. prefix (rp_Match r) l then concat (line_values unescape reps l) else l)"

definition readable :: "(string \<Rightarrow> string option) \<Rightarrow> replacement list \<Rightarrow> bool" where
  "readable unescape reps \<longleftrightarrow> (\<forall>r \<in> set reps. \<exists>b. rv_Bytes unescape (rp_With r) = Ok b)"

definition plain_line :: "string \<Rightarrow> bool" where
  "plain_line l \<longleftrightarrow> newline \<notin> set l \<and> length l < maxTokenSize \<and> \<not> suffix [carriage] l"

lemma text_replacements_exact:
  "readable unescape reps \<Longrightarrow> text_replacements unescape reps l =
    Ok (concat (line_values unescape reps l), \<exists>r \<in> set reps. prefix (rp_Match r) l)"
  by (induction reps) (auto simp: readable_def line_values_def)

lemma text_lines_exact:
  "readable unescape reps \<Longrightarrow> text_lines unescape reps ls = Ok (unlines (map (new_line unescape reps) ls))"
  by (induction ls) (auto simp: text_replacements_exact new_line_def unlines_def)

text \<open>In a text file whose lines are shorter than the scanner's buffer, a line that starts with the match of
  some replacements becomes their values one after another, every other line stays as it is, and no line is added or
  lost.\<close>

theorem text_file_exact:
  assumes "readable unescape (pf_Replace f)" "\<forall>l \<in> set ls. plain_line l"
  shows "parseTextFile unescape f (unlines ls) = Ok (unlines (map (new_line unescape (pf_Replace f)) ls))"
  using assms scan_unlines [of ls] by (auto simp: parseTextFile_def text_lines_exact plain_line_def)

definition example_rep :: replacement where
  "example_rep = \<lparr>rp_Match = ''port='', rp_IfValue = [], rp_With = \<lparr>rv_value = ''port=7'', rv_type = VtString\<rparr>\<rparr>"

definition port_file :: parser_file where
  "port_file = \<lparr>pf_FileName = ''server.cfg'', pf_Parser = ''file'', pf_Replace = [example_rep], pf_AllowCreate = True\<rparr>"

theorem text_file_exact_witness:
  "parseTextFile Some port_file (unlines [''a=1'', ''port=25'']) = Ok (unlines [''a=1'', ''port=7''])"
proof -
  have "readable Some (pf_Replace port_file)"
    by (simp add: readable_def port_file_def example_rep_def rv_Bytes_def)
  moreover have "\<forall>l \<in> set [''a=1'', ''port=25'']. plain_line l"
    by (simp add: plain_line_def maxTokenSize_def suffix_def) code_simp
  moreover have "map (new_line Some (pf_Replace port_file)) [''a=1'', ''port=25''] = [''a=1'', ''port=7'']"
    by code_simp
  ultimately show ?thesis using text_file_exact [of Some port_file "[''a=1'', ''port=25'']"] by simp
qed

text \<open>An overlong line ends the scan and its error is not looked at: that line and all that follow are gone.\<close>

lemma text_file_truncated:
  assumes "readable unescape (pf_Replace f)" "\<forall>l \<in> set ls. plain_line l" "newline \<notin> set l" "maxTokenSize \<le> length l"
  shows "parseTextFile unescape f (unlines ls @ l @ newline # rest) = parseTextFile unescape f (unlines ls)"
proof -
  have "raw_lines (unlines ls @ s) = ls @ raw_lines s" for s
    using assms(2) by (induction ls) (auto simp: unlines_def raw_lines_line plain_line_def)
  then have "raw_lines (unlines ls @ l @ newline # rest) = ls @ l # raw_lines rest"
    using assms(3) by (simp add: raw_lines_line)
  then have "fst (scan_lines (unlines ls @ l @ newline # rest)) = ls"
    using assms(2,4) scan_tokens_stop [of ls l "raw_lines rest"] by (auto simp: scan_lines_def plain_line_def)
  moreover have "fst (scan_lines (unlines ls)) = ls"
    using assms(2) scan_unlines [of ls] by (auto simp: plain_line_def)
  ultimately show ?thesis by (simp add: parseTextFile_def)
qed

section \<open>References to the configuration\<close>

lemma match_here_other: "s = [] \<or> hd s \<noteq> CHR ''{'' \<Longrightarrow> match_here s = None"
  by (cases s) (auto simp: match_here_def)

lemma find_match_none: "CHR ''{'' \<notin> set s \<Longrightarrow> find_match s = None"
  by (induction s) (auto simp: match_here_other)

lemma find_match_skip:
  "CHR ''{'' \<notin> set pre \<Longrightarrow> find_match (pre @ s) = map_option (\<lambda>(before, key, rest). (pre @ before, key, rest)) (find_match s)"
  by (induction pre) (auto simp: match_here_other option.map_comp comp_def case_prod_unfold option.map_ident)

definition reference :: "string \<Rightarrow> string" where
  "reference key = ''{{config.'' @ key @ ''}}''"

lemma takeWhile_key:
  "\<forall>c \<in> set key. is_key_char c \<Longrightarrow> \<not> is_key_char c \<Longrightarrow> takeWhile is_key_char (key @ c # s) = key \<and> dropWhile is_key_char (key @ c # s) = c # s"
  by (induction key) auto

lemma match_reference:
  assumes "key \<noteq> []" "\<forall>c \<in> set key. is_key_char c"
  shows "match_here (reference key @ s) = Some (key, s)"
proof -
  have "\<not> is_key_char CHR ''}''" "\<not> is_blank CHR ''c''" "\<not> is_blank CHR ''}''" by code_simp+
  with takeWhile_key [OF assms(2), of "CHR ''}''" "''}'' @ s"] assms(1) show ?thesis
    by (simp add: match_here_def reference_def skip_blank_def Let_def)
qed

lemma find_reference:
  assumes "key \<noteq> []" "\<forall>c \<in> set key. is_key_char c" "CHR ''{'' \<notin> set pre"
  shows "find_match (pre @ reference key @ s) = Some (pre, key, s)"
proof -
  have "find_match (reference key @ s) = Some ([], key, s)"
    using match_reference [OF assms(1,2), of s] by (cases "reference key @ s") (auto simp: reference_def)
  with find_match_skip [OF assms(3)] show ?thesis by simp
qed

lemma expand_plain: "CHR ''$'' \<notin> set v \<Longrightarrow> expand whole grp v = v"
  by (induction v) (auto simp: expand.simps)

text \<open>A replacement value that refers to the daemon's configuration is looked up under the snake-cased parts of the
  key; the reference alone is replaced by the value found, the text around it kept.\<close>

theorem reference_resolved:
  assumes "key \<noteq> []" "\<forall>c \<in> set key. is_key_char c" "CHR ''{'' \<notin> set pre" "CHR ''{'' \<notin> set post"
    "rp_With cfr = \<lparr>rv_value = raw, rv_type = VtString\<rparr>" "find_match raw \<noteq> None" "unescape raw = Some (pre @ reference key @ post)"
    "get (map snake (split_on (CHR ''.'') key)) = Found v" "CHR ''$'' \<notin> set v"
  shows "LookupConfigurationValue unescape snake get cfr = Ok (pre @ v @ post)"
proof -
  have f: "find_match (pre @ reference key @ post) = Some (pre, key, post)"
    using assms(1-3) by (rule find_reference)
  have post: "replace_matches v post = post"
    using find_match_none [OF assms(4)] by (simp add: replace_matches.simps)
  have "replace_matches v (pre @ reference key @ post) = pre @ v @ post"
    using f post assms(9) by (subst replace_matches.simps) (simp add: expand_plain)
  with assms(5-8) f show ?thesis
    by (auto simp: LookupConfigurationValue_def rv_String_def)
qed

theorem reference_resolved_witness:
  "LookupConfigurationValue Some id (\<lambda>p. if p = [''docker'', ''interface''] then Found ''172.18.0.1'' else KeyNotFound)
     \<lparr>rp_Match = ''ip'', rp_IfValue = [], rp_With = \<lparr>rv_value = ''{{config.docker.interface}}:1'', rv_type = VtString\<rparr>\<rparr> =
   Ok ''172.18.0.1:1''"
proof -
  have "\<forall>c \<in> set ''docker.interface''. is_key_char c" "find_match ''{{config.docker.interface}}:1'' \<noteq> None"
    "split_on (CHR ''.'') ''docker.interface'' = [''docker'', ''interface'']" by code_simp+
  with reference_resolved [of "''docker.interface''" "[]" "'':1''"
      "\<lparr>rp_Match = ''ip'', rp_IfValue = [], rp_With = \<lparr>rv_value = ''{{config.docker.interface}}:1'', rv_type = VtString\<rparr>\<rparr>"
      "''{{config.docker.interface}}:1''" Some "\<lambda>p. if p = [''docker'', ''interface''] then Found ''172.18.0.1'' else KeyNotFound" id "''172.18.0.1''"]
  show ?thesis by (simp add: reference_def)
qed

text \<open>Where there is no such key, the value is lost: the comment in the code says that the original value is kept.\<close>

lemma unknown_reference_erased:
  assumes "key \<noteq> []" "\<forall>c \<in> set key. is_key_char c" "CHR ''{'' \<notin> set pre"
    "rp_With cfr = \<lparr>rv_value = raw, rv_type = VtString\<rparr>" "find_match raw \<noteq> None" "unescape raw = Some (pre @ reference key @ post)"
    "get (map snake (split_on (CHR ''.'') key)) = KeyNotFound"
  shows "LookupConfigurationValue unescape snake get cfr = Ok []"
  using find_reference [OF assms(1-3), of post] assms(4-)
  by (auto simp: LookupConfigurationValue_def rv_String_def)

section \<open>INI keys\<close>

lemma ini_rest:
  assumes "CHR ''['' \<notin> set s" "CHR '']'' \<notin> set s" "depth \<le> 0"
  shows "fold ini_step s ([a], depth, v) = ([a], depth, v @ s)"
  using assms by (induction s arbitrary: v) auto

lemma ini_start:
  assumes "CHR ''['' \<notin> set s" "CHR '']'' \<notin> set s"
  shows "fold ini_step s ([], 0, v) =
    (if CHR ''.'' \<in> set s then ([v @ takeWhile (\<lambda>x. x \<noteq> CHR ''.'') s], 0, tl (dropWhile (\<lambda>x. x \<noteq> CHR ''.'') s)) else ([], 0, v @ s))"
  using assms by (induction s arbitrary: v) (auto simp: ini_rest)

lemma ini_length: "length (fst (fold ini_step s (path, depth, v))) \<le> 1" if "length path \<le> 1"
  using that
proof (induction s arbitrary: path depth v)
  case (Cons c s)
  then show ?case by (cases path) auto
qed simp

text \<open>A key without brackets is split at its first dot into a section and a name, as the section and the rest of
  the key; with brackets it has at most two parts too, so that the code finds the parts it indexes.\<close>

theorem ini_key_split:
  "length (ini_path s) \<in> {1, 2} \<and>
   (if CHR ''['' \<in> set s \<or> CHR '']'' \<in> set s then True else ini_path s = SplitN2 (CHR ''.'') s)"
proof -
  have "length (ini_path s) \<in> {1, 2}"
    using ini_length [of "[]" s 0 "[]"] by (cases "fold ini_step s ([], 0, [])") (auto simp: ini_path_def le_Suc_eq)
  then show ?thesis by (auto simp: ini_path_def ini_start SplitN2_def)
qed

section \<open>TOML values\<close>

text \<open>The values a TOML document can hold: none is a number still in the notation of JSON.\<close>

fun toml_typed :: "tree_val \<Rightarrow> bool" where
  "toml_typed (TvMap m) = (\<forall>(k, v) \<in> set m. toml_typed v)"
| "toml_typed (TvList vs) = (\<forall>v \<in> set vs. toml_typed v)"
| "toml_typed (TvNumber n) = False"
| "toml_typed v = True"

fun toml_shape :: "tree_val \<Rightarrow> tree_val \<Rightarrow> bool" where
  "toml_shape (TvMap m) v = (case v of TvMap m' \<Rightarrow> map fst m' = map fst m \<and> list_all2 toml_shape (map snd m) (map snd m') | _ \<Rightarrow> False)"
| "toml_shape (TvList vs) v = (case v of TvList vs' \<Rightarrow> list_all2 toml_shape vs vs' | _ \<Rightarrow> False)"
| "toml_shape _ v = (case v of TvMap _ \<Rightarrow> False | TvList _ \<Rightarrow> False | _ \<Rightarrow> True)"

text \<open>C30: Whatever document the JSON step hands back, what is written as TOML holds no undecoded number and has the same
  keys and the same structure; an integer that \<open>Itoa\<close> wrote comes back as that integer.\<close>

theorem toml_values_typed:
  "toml_typed (normalizeTomlTypes ftime ffloat v) \<and> toml_shape v (normalizeTomlTypes ftime ffloat v) \<and>
   normalizeTomlTypes ftime ffloat (TvNumber (Itoa (wrap64 i))) = TvInt (wrap64 i)"
proof (intro conjI)
  show "toml_typed (normalizeTomlTypes ftime ffloat v)"
    by (induction v rule: toml_typed.induct) (auto split: option.splits)
  show "toml_shape v (normalizeTomlTypes ftime ffloat v)"
    by (induction v rule: toml_typed.induct)
      (auto split: option.splits simp: list_all2_map1 list_all2_map2 list_all2_same case_prod_unfold comp_def)
qed (simp add: Atoi_Itoa)

section \<open>Properties files\<close>

text \<open>A value that ends in a double quote is written to a properties file without that quote but with the backslash
  that escaped it: the line then ends in a backslash, which continues it with the next property.\<close>

theorem trailing_quote_breaks_line:
  assumes "\<forall>c \<in> set w. (of_char c :: nat) < 128 \<and> c \<noteq> CHR 0x22" "w \<noteq> []"
  shows "suffix [CHR 0x5C, newline] (property_line wide key (w @ [CHR 0x22]))"
proof -
  have app: "quote_ascii wide (w @ s) = concat (map quote_byte w) @ quote_ascii wide s" for s
    using assms(1) by (induction w) auto
  have first: "quote_byte c \<noteq> [] \<and> hd (quote_byte c) \<noteq> CHR 0x22" if "c \<noteq> CHR 0x22" for c
    using that by (auto simp: quote_byte_def Let_def)
  from assms obtain c cs where w: "w = c # cs" "c \<noteq> CHR 0x22" by (cases w) auto
  define body where "body = concat (map quote_byte w)"
  have body: "body \<noteq> []" "hd body \<noteq> CHR 0x22"
    using first [OF w(2)] by (auto simp: body_def w(1) hd_append)
  have q: "QuoteToASCII wide (w @ [CHR 0x22]) = CHR 0x22 # body @ [CHR 0x5C, CHR 0x22, CHR 0x22]"
    by (simp add: QuoteToASCII_def app body_def quote_byte_def)
  have "dropWhile (\<lambda>c. c = CHR 0x22) (body @ xs) = body @ xs" for xs
    using body by (cases body) auto
  then have "trim_quotes (QuoteToASCII wide (w @ [CHR 0x22])) = body @ [CHR 0x5C]"
    by (simp add: q trim_quotes_def)
  then show ?thesis by (simp add: property_line_def suffix_def)
qed

theorem trailing_quote_breaks_line_witness:
  "suffix [CHR 0x5C, newline] (property_line (\<lambda>s. (s, 1)) ''motd'' (''hi'' @ [CHR 0x22]))"
  by (rule trailing_quote_breaks_line) simp_all

end
