(* ===== verification/Tokens.thy ===== *)
theory Tokens
  imports Prelude
begin

text \<open>
  The tokens the panel signs and the daemon accepts (\<open>wings/router/tokens\<close>): the payload of a websocket token, the
  two deny lists and the permissions, and the store that makes the other tokens work once.

  Times are nanoseconds. The library that verifies signatures and the library that caches seen tokens are parameters;
  what is used of them is stated where it is used.
\<close>

section \<open>Websocket tokens\<close>

record payload =
  tk_IssuedAt :: "int option"
  tk_ExpirationTime :: "int option"
  tk_JWTID :: string
  tk_UserUUID :: string
  tk_ServerUUID :: string
  tk_Permissions :: "string list"

text \<open>The time the daemon was booted and the deny lists, two maps shared by all requests.\<close>

record denials =
  dn_boot :: int
  dn_denylist :: "string \<rightharpoonup> int"
  dn_users :: "string \<rightharpoonup> int"

definition user_key :: "string \<Rightarrow> string \<Rightarrow> string" where
  "user_key s u = join_with '':'' [s, u]"

definition DenyJTI :: "int \<Rightarrow> string \<Rightarrow> denials \<Rightarrow> denials" where
  "DenyJTI now jti d = d\<lparr>dn_denylist := (dn_denylist d)(jti \<mapsto> now)\<rparr>"

definition DenyForServer :: "int \<Rightarrow> string \<Rightarrow> string \<Rightarrow> denials \<Rightarrow> denials" where
  "DenyForServer now s u d = d\<lparr>dn_users := (dn_users d)(user_key s u \<mapsto> now)\<rparr>"

definition issued_before :: "int \<Rightarrow> int option \<Rightarrow> bool" where
  "issued_before i t = (case t of None \<Rightarrow> False | Some t \<Rightarrow> i < t)"

definition Denylisted :: "denials \<Rightarrow> payload \<Rightarrow> bool" where
  "Denylisted d p =
     (case tk_IssuedAt p of
        None \<Rightarrow> True
      | Some i \<Rightarrow>
          if i < dn_boot d then True
          else if issued_before i (dn_denylist d (tk_JWTID p)) then True
          else issued_before i (dn_users d (user_key (tk_ServerUUID p) (tk_UserUUID p))))"

fun permission_in :: "string list \<Rightarrow> string \<Rightarrow> bool" where
  "permission_in [] permission = False"
| "permission_in (k # ks) permission =
     (if k = permission \<or> \<not> HasPrefix permission ''admin'' \<and> k = ''*'' then True else permission_in ks permission)"

definition HasPermission :: "denials \<Rightarrow> payload \<Rightarrow> string \<Rightarrow> bool" where
  "HasPermission d p permission = (if permission_in (tk_Permissions p) permission then \<not> Denylisted d p else False)"

lemma permission_in_iff: "permission_in ks q \<longleftrightarrow> q \<in> set ks \<or> ''*'' \<in> set ks \<and> \<not> HasPrefix q ''admin''"
  by (induction ks) auto

lemma denied_has_no_permission: "Denylisted d p \<Longrightarrow> \<not> HasPermission d p q"
  by (simp add: HasPermission_def)

subsection \<open>Revocation\<close>

datatype deny_op = OpDenyJTI string | OpDenyForServer string string

fun run_deny :: "int \<times> deny_op \<Rightarrow> denials \<Rightarrow> denials" where
  "run_deny (t, OpDenyJTI j) d = DenyJTI t j d"
| "run_deny (t, OpDenyForServer s u) d = DenyForServer t s u d"

text \<open>\<open>revoked t s u d\<close>: the deny lists turn away the tokens issued before \<open>t\<close> for a server and a user.\<close>

definition revoked :: "int \<Rightarrow> string \<Rightarrow> string \<Rightarrow> denials \<Rightarrow> bool" where
  "revoked t s u d \<longleftrightarrow> (\<exists>t' \<ge> t. dn_users d (user_key s u) = Some t')"

lemma revoked_kept:
  assumes "revoked t s u d" "\<forall>op \<in> set ops. t \<le> fst op"
  shows "revoked t s u (fold run_deny ops d)"
  using assms
proof (induction ops arbitrary: d)
  case (Cons op ops)
  obtain now x where op: "op = (now, x)" by force
  have "revoked t s u (run_deny op d)"
    using Cons.prems op by (cases x) (auto simp: revoked_def DenyJTI_def DenyForServer_def)
  with Cons show ?case by simp
qed simp

lemma revoked_denied: "revoked t s u d \<Longrightarrow> tk_ServerUUID p = s \<Longrightarrow> tk_UserUUID p = u \<Longrightarrow>
    (case tk_IssuedAt p of None \<Rightarrow> True | Some i \<Rightarrow> i < t) \<Longrightarrow> Denylisted d p"
  by (auto simp: revoked_def Denylisted_def issued_before_def split: option.splits)

text \<open>C12: Once the tokens of a user are denied for a server, no token issued to that user for that server before then
  grants any permission again, whatever is denied later.\<close>

theorem denied_tokens_stay_denied:
  assumes "tk_ServerUUID p = s" "tk_UserUUID p = u" "tk_IssuedAt p = Some i" "i < t" "\<forall>op \<in> set ops. t \<le> fst op"
  shows "\<not> HasPermission (fold run_deny ops (DenyForServer t s u d)) p permission"
proof -
  have "revoked t s u (DenyForServer t s u d)"
    by (auto simp: revoked_def DenyForServer_def)
  then have "revoked t s u (fold run_deny ops (DenyForServer t s u d))"
    using assms(5) by (rule revoked_kept)
  then show ?thesis
    using assms by (intro denied_has_no_permission revoked_denied) auto
qed

theorem denied_tokens_stay_denied_witness:
  "\<not> HasPermission (fold run_deny [(9, OpDenyForServer ''s'' ''v''), (8, OpDenyJTI ''j'')]
      (DenyForServer 5 ''s'' ''u'' \<lparr>dn_boot = 1, dn_denylist = Map.empty, dn_users = Map.empty\<rparr>))
    \<lparr>tk_IssuedAt = Some 4, tk_ExpirationTime = Some 900, tk_JWTID = ''j'', tk_UserUUID = ''u'', tk_ServerUUID = ''s'',
     tk_Permissions = [''*'']\<rparr> ''control.start''"
  by (rule denied_tokens_stay_denied [where i = 4]) simp_all

text \<open>A token grants a permission exactly when it is not denied and lists it, or lists \<open>*\<close> and the permission is not
  one of the administrative ones.\<close>

theorem permission_exact:
  "HasPermission d p q \<longleftrightarrow> \<not> Denylisted d p \<and>
     (q \<in> set (tk_Permissions p) \<or> ''*'' \<in> set (tk_Permissions p) \<and> \<not> HasPrefix q ''admin'')"
  by (auto simp: HasPermission_def permission_in_iff)

section \<open>One-time tokens\<close>

text \<open>
  The cache of seen tokens is a third-party package: \<open>tc_Get\<close> and \<open>tc_Add\<close> are its operations, at a time;
  \<open>tc_Add\<close> gets the time an entry is to be kept.
\<close>

record 'c token_cache =
  tc_Get :: "int \<Rightarrow> string \<Rightarrow> 'c \<Rightarrow> bool"
  tc_Add :: "int \<Rightarrow> string \<Rightarrow> int \<Rightarrow> 'c \<Rightarrow> 'c"

abbreviation token_ttl :: int where "token_ttl \<equiv> 3600000000000"

definition IsValidToken :: "'c token_cache \<Rightarrow> int \<Rightarrow> string \<Rightarrow> 'c \<Rightarrow> bool \<times> 'c" where
  "IsValidToken C now token c =
     (let exists = tc_Get C now token c
      in (\<not> exists, if \<not> exists then tc_Add C now token token_ttl c else c))"

fun use_tokens :: "'c token_cache \<Rightarrow> (int \<times> string) list \<Rightarrow> 'c \<Rightarrow> bool list \<times> 'c" where
  "use_tokens C [] c = ([], c)"
| "use_tokens C ((now, t) # us) c =
     (case IsValidToken C now t c of (ok, c) \<Rightarrow> (case use_tokens C us c of (oks, c) \<Rightarrow> (ok # oks, c)))"

text \<open>What is documented of the cache: an entry added is found until its time is up, and adding one entry loses no other
  (\<open>tc_until C c t k\<close>: the entry \<open>k\<close> is kept at least until \<open>t\<close>).\<close>

definition cache_keeps :: "'c token_cache \<Rightarrow> ('c \<Rightarrow> int \<Rightarrow> string \<Rightarrow> bool) \<Rightarrow> bool" where
  "cache_keeps C until \<longleftrightarrow>
     (\<forall>c now k d. \<not> tc_Get C now k c \<longrightarrow> until (tc_Add C now k d c) (now + d) k) \<and>
     (\<forall>c now k k' d t. until c t k \<longrightarrow> \<not> tc_Get C now k' c \<longrightarrow> until (tc_Add C now k' d c) t k) \<and>
     (\<forall>c now t k. until c t k \<longrightarrow> now < t \<longrightarrow> tc_Get C now k c)"

lemma kept_refused:
  assumes "cache_keeps C until" "until c t k" "\<forall>u \<in> set us. snd u = k \<longrightarrow> fst u < t"
  shows "\<forall>i < length us. snd (us ! i) = k \<longrightarrow> \<not> fst (use_tokens C us c) ! i"
  using assms(2,3)
proof (induction us arbitrary: c)
  case (Cons u us)
  obtain now k' where u: "u = (now, k')" by force
  let ?c = "snd (IsValidToken C now k' c)"
  have "until ?c t k"
    using assms(1) Cons.prems(1) by (auto simp: IsValidToken_def Let_def cache_keeps_def)
  with Cons have rest: "\<forall>i < length us. snd (us ! i) = k \<longrightarrow> \<not> fst (use_tokens C us ?c) ! i"
    by simp
  have "k' = k \<Longrightarrow> \<not> fst (IsValidToken C now k' c)"
    using assms(1) Cons.prems u by (auto simp: IsValidToken_def Let_def cache_keeps_def)
  with rest u show ?case
    by (auto simp: nth_Cons split: nat.splits prod.splits)
qed simp

text \<open>A one-time token that has been accepted is not accepted again within sixty minutes, however many other tokens
  are used in between.\<close>

theorem token_accepted_once:
  assumes "cache_keeps C until" "fst (IsValidToken C now k c)" "\<forall>u \<in> set us. snd u = k \<longrightarrow> fst u < now + token_ttl"
  shows "\<forall>i < length us. snd (us ! i) = k \<longrightarrow> \<not> fst (use_tokens C us (snd (IsValidToken C now k c))) ! i"
proof -
  have "until (snd (IsValidToken C now k c)) (now + token_ttl) k"
    using assms(1,2) by (simp add: IsValidToken_def Let_def cache_keeps_def)
  with assms(1,3) show ?thesis by (intro kept_refused)
qed

definition list_cache :: "(string \<times> int) list token_cache" where
  "list_cache =
     \<lparr>tc_Get = (\<lambda>now k c. \<exists>(k', t) \<in> set c. k' = k \<and> now < t), tc_Add = (\<lambda>now k d c. (k, now + d) # c)\<rparr>"

definition list_until :: "(string \<times> int) list \<Rightarrow> int \<Rightarrow> string \<Rightarrow> bool" where
  "list_until c t k \<longleftrightarrow> (\<exists>(k', t') \<in> set c. k' = k \<and> t \<le> t')"

lemma list_cache_keeps: "cache_keeps list_cache list_until"
proof -
  have added: "list_until ((k, now + d) # c) (now + d) k" for c now k d
    by (simp add: list_until_def)
  have kept: "list_until c t k \<Longrightarrow> list_until ((k', now + d) # c) t k" for c now k k' d t
    by (auto simp: list_until_def)
  have found: "\<exists>(k', t) \<in> set c. k' = k \<and> now < t" if "list_until c t k" "now < t" for c now t k
  proof -
    from that obtain t' where "(k, t') \<in> set c" "now < t'" by (auto simp: list_until_def)
    then show ?thesis by blast
  qed
  show ?thesis
    unfolding cache_keeps_def list_cache_def token_cache.simps
    by (intro conjI allI impI) (rule added, erule kept, erule found)
qed

theorem token_accepted_once_witness:
  "fst (IsValidToken list_cache 0 ''a'' []) \<and>
   \<not> fst (use_tokens list_cache [(1, ''b''), (2, ''a'')] (snd (IsValidToken list_cache 0 ''a'' []))) ! 1"
proof -
  have ok: "fst (IsValidToken list_cache 0 ''a'' [])"
    by (simp add: IsValidToken_def list_cache_def Let_def)
  moreover have "\<forall>u \<in> set [(1, ''b''), (2, ''a'')]. snd u = ''a'' \<longrightarrow> fst u < 0 + token_ttl"
    by simp
  ultimately show ?thesis
    using token_accepted_once [OF list_cache_keeps, of 0 "''a''" "[]" "[(1, ''b''), (2, ''a'')]"] by auto
qed

section \<open>Parsing\<close>

text \<open>
  The JWT library decodes and verifies a token, running the checks it is given on the payload it decoded; the daemon
  asks for the check of the expiration time, also the library's. \<open>jw_Verify t vo\<close> is \<open>jwt.Verify\<close>,
  \<open>jw_expired now p\<close> tells that the expiration check fails at that time.
\<close>

datatype token_error = ErrExpValidation | ErrToken string

record 'p jwt =
  jw_Verify :: "string \<Rightarrow> ('p \<Rightarrow> token_error option) \<Rightarrow> token_error + 'p"
  jw_expired :: "int \<Rightarrow> 'p \<Rightarrow> bool"

definition ExpirationTimeValidator :: "'p jwt \<Rightarrow> int \<Rightarrow> 'p \<Rightarrow> token_error option" where
  "ExpirationTimeValidator J now p = (if jw_expired J now p then Some ErrExpValidation else None)"

definition ParseToken :: "'p jwt \<Rightarrow> int \<Rightarrow> string \<Rightarrow> token_error + 'p" where
  "ParseToken J now token = jw_Verify J token (ExpirationTimeValidator J now)"

text \<open>What is documented of the library: a payload is returned only when the signature is good (\<open>good\<close>) and the checks
  passed on it.\<close>

definition verifies :: "'p jwt \<Rightarrow> (string \<Rightarrow> 'p \<Rightarrow> bool) \<Rightarrow> bool" where
  "verifies J good \<longleftrightarrow> (\<forall>t vo p. jw_Verify J t vo = Inr p \<longrightarrow> good t p \<and> vo p = None)"

lemma ParseToken_verified:
  "verifies J good \<Longrightarrow> ParseToken J now t = Inr p \<Longrightarrow> good t p \<and> \<not> jw_expired J now p"
  unfolding verifies_def ParseToken_def by (fastforce simp: ExpirationTimeValidator_def split: if_splits)

end
