(* ===== verification/Websocket.thy ===== *)
theory Websocket
  imports Tokens ServerActions
begin

text \<open>
  The websocket of a server (\<open>wings/router/websocket\<close> and \<open>wings/router/router_server_ws.go\<close>): authentication, the
  limits on messages, the actions a client may ask for, and what is sent to it.

  A session is the \<open>Handler\<close> of one connection with the server it belongs to. Every message handed to the connection is
  recorded in \<open>ss_sent\<close>, whether or not writing it succeeds. The upgrade of the connection, the rate limiter, JSON and
  random identifiers are other people's code and are parameters (\<open>host\<close>).
\<close>

section \<open>Messages and sessions\<close>

record message =
  ms_Event :: string
  ms_Args :: "string list"

abbreviation AuthenticationSuccessEvent :: string where "AuthenticationSuccessEvent \<equiv> ''auth success''"
abbreviation TokenExpiringEvent :: string where "TokenExpiringEvent \<equiv> ''token expiring''"
abbreviation TokenExpiredEvent :: string where "TokenExpiredEvent \<equiv> ''token expired''"
abbreviation AuthenticationEvent :: string where "AuthenticationEvent \<equiv> ''auth''"
abbreviation SetStateEvent :: string where "SetStateEvent \<equiv> ''set state''"
abbreviation SendServerLogsEvent :: string where "SendServerLogsEvent \<equiv> ''send logs''"
abbreviation SendCommandEvent :: string where "SendCommandEvent \<equiv> ''send command''"
abbreviation SendStatsEvent :: string where "SendStatsEvent \<equiv> ''send stats''"
abbreviation ErrorEvent :: string where "ErrorEvent \<equiv> ''daemon error''"
abbreviation JwtErrorEvent :: string where "JwtErrorEvent \<equiv> ''jwt error''"
abbreviation ThrottledEvent :: string where "ThrottledEvent \<equiv> ''throttled''"

abbreviation StatusTopic :: string where "StatusTopic \<equiv> ''status''"
abbreviation StatsTopic :: string where "StatsTopic \<equiv> ''stats''"
abbreviation ConsoleOutputTopic :: string where "ConsoleOutputTopic \<equiv> ''console output''"
abbreviation InstallOutputTopic :: string where "InstallOutputTopic \<equiv> ''install output''"
abbreviation BackupCompletedTopic :: string where "BackupCompletedTopic \<equiv> ''backup completed''"
abbreviation TransferLogsTopic :: string where "TransferLogsTopic \<equiv> ''transfer logs''"

abbreviation PermissionConnect :: string where "PermissionConnect \<equiv> ''websocket.connect''"
abbreviation PermissionSendCommand :: string where "PermissionSendCommand \<equiv> ''control.console''"
abbreviation PermissionSendPowerStart :: string where "PermissionSendPowerStart \<equiv> ''control.start''"
abbreviation PermissionSendPowerStop :: string where "PermissionSendPowerStop \<equiv> ''control.stop''"
abbreviation PermissionSendPowerRestart :: string where "PermissionSendPowerRestart \<equiv> ''control.restart''"
abbreviation PermissionReceiveErrors :: string where "PermissionReceiveErrors \<equiv> ''admin.websocket.errors''"
abbreviation PermissionReceiveInstall :: string where "PermissionReceiveInstall \<equiv> ''admin.websocket.install''"
abbreviation PermissionReceiveTransfer :: string where "PermissionReceiveTransfer \<equiv> ''admin.websocket.transfer''"
abbreviation PermissionReceiveBackups :: string where "PermissionReceiveBackups \<equiv> ''backup.read''"

datatype ws_error =
  ErrJwtNotPresent | ErrJwtNoConnectPerm | ErrJwtUuidMismatch | ErrJwtOnDenylist | WsToken token_error | WsServer srv_error

definition IsJwtError :: "ws_error \<Rightarrow> bool" where
  "IsJwtError e \<longleftrightarrow> e = ErrJwtNotPresent \<or> e = ErrJwtNoConnectPerm \<or> e = ErrJwtUuidMismatch \<or> e = ErrJwtOnDenylist \<or>
     e = WsToken ErrExpValidation"

text \<open>Who is acting, and the entries of the activity log.\<close>

record request_activity =
  ra_server :: string
  ra_user :: string
  ra_ip :: string

definition ra_SetUser :: "string \<Rightarrow> request_activity \<Rightarrow> request_activity" where
  "ra_SetUser u ra = ra\<lparr>ra_user := u\<rparr>"

record activity =
  ac_by :: request_activity
  ac_event :: string
  ac_command :: "string option"

datatype ws_routine = ListenForServerEvents | ListenForExpiration

record ('e, 'w, 'l) session =
  ss_jwt :: "payload option"
  ss_server :: "('e, 'w) server"
  ss_ra :: request_activity
  ss_limits :: "string \<rightharpoonup> 'l"
  ss_throttles :: "string \<rightharpoonup> bool"
  ss_sent :: "message list"
  ss_routines :: "ws_routine list"
  ss_saved :: "activity list"

text \<open>Writing to a connection that is being closed is an error of its own; a limiter is made from the time between two
  tokens and the burst.\<close>

datatype write_error = ErrCloseSent | WriteFailed string

record ('e, 'w, 'l) host =
  wh_daemon :: "('e, 'w) daemon"
  wh_jwt :: "payload jwt"
  wh_NewLimiter :: "int \<Rightarrow> nat \<Rightarrow> 'l"
  wh_Allow :: "int \<Rightarrow> 'l \<Rightarrow> bool \<times> 'l"
  wh_write :: "message list \<Rightarrow> message \<Rightarrow> write_error option"
  wh_text :: "ws_error \<Rightarrow> string"
  wh_uuid :: "nat \<Rightarrow> string"
  wh_json :: "usage \<Rightarrow> string"
  wh_log_count :: int
  wh_panel :: string
  wh_origins :: "string list"

section \<open>Opening a connection\<close>

definition CheckOrigin :: "string \<Rightarrow> string list \<Rightarrow> string \<Rightarrow> bool" where
  "CheckOrigin panel origins org = (if org = panel then True else list_ex (\<lambda>origin. origin = ''*'' \<or> origin = org) origins)"

definition NewRequestActivity :: "('e, 'w) server \<Rightarrow> string \<Rightarrow> string \<Rightarrow> request_activity" where
  "NewRequestActivity s user ip = \<lparr>ra_server = cfg_Uuid (sv_cfg s), ra_user = user, ra_ip = ip\<rparr>"

text \<open>\<open>GetHandler\<close>: the upgrade is refused for other origins.\<close>

definition GetHandler :: "('e, 'w, 'l) host \<Rightarrow> ('e, 'w) server \<Rightarrow> string \<Rightarrow> string \<Rightarrow> ('e, 'w, 'l) session option" where
  "GetHandler W s origin ip =
     (if CheckOrigin (wh_panel W) (wh_origins W) origin
      then Some \<lparr>ss_jwt = None, ss_server = s, ss_ra = NewRequestActivity s [] ip, ss_limits = Map.empty,
                 ss_throttles = Map.empty, ss_sent = [], ss_routines = [], ss_saved = []\<rparr>
      else None)"

section \<open>Tokens\<close>

definition NewTokenPayload :: "('e, 'w, 'l) host \<Rightarrow> denials \<Rightarrow> int \<Rightarrow> string \<Rightarrow> ws_error + payload" where
  "NewTokenPayload W d now token =
     (case ParseToken (wh_jwt W) now token of
        Inl e \<Rightarrow> Inl (WsToken e)
      | Inr p \<Rightarrow>
          if Denylisted d p then Inl ErrJwtOnDenylist
          else if \<not> HasPermission d p PermissionConnect then Inl ErrJwtNoConnectPerm
          else Inr p)"

definition TokenValid :: "('e, 'w, 'l) host \<Rightarrow> denials \<Rightarrow> int \<Rightarrow> ('e, 'w, 'l) session \<Rightarrow> ws_error option" where
  "TokenValid W d now h =
     (case ss_jwt h of
        None \<Rightarrow> Some ErrJwtNotPresent
      | Some j \<Rightarrow>
          (case ExpirationTimeValidator (wh_jwt W) now j of
             Some e \<Rightarrow> Some (WsToken e)
           | None \<Rightarrow>
               if Denylisted d j then Some ErrJwtOnDenylist
               else if \<not> HasPermission d j PermissionConnect then Some ErrJwtNoConnectPerm
               else if cfg_Uuid (sv_cfg (ss_server h)) \<noteq> tk_ServerUUID j then Some ErrJwtUuidMismatch
               else None))"

definition setJwt :: "payload \<Rightarrow> ('e, 'w, 'l) session \<Rightarrow> ('e, 'w, 'l) session" where
  "setJwt p h = h\<lparr>ss_ra := ra_SetUser (tk_UserUUID p) (ss_ra h), ss_jwt := Some p\<rparr>"

section \<open>Sending\<close>

definition unsafeSendJson ::
  "('e, 'w, 'l) host \<Rightarrow> message \<Rightarrow> ('e, 'w, 'l) session \<Rightarrow> write_error option \<times> ('e, 'w, 'l) session" where
  "unsafeSendJson W m h = (wh_write W (ss_sent h) m, h\<lparr>ss_sent := ss_sent h @ [m]\<rparr>)"

definition unsafe_send :: "('e, 'w, 'l) host \<Rightarrow> message \<Rightarrow> ('e, 'w, 'l) session \<Rightarrow> ('e, 'w, 'l) session" where
  "unsafe_send W m h = snd (unsafeSendJson W m h)"

definition jwt_notice :: "('e, 'w, 'l) host \<Rightarrow> ws_error \<Rightarrow> message" where
  "jwt_notice W e = \<lparr>ms_Event = JwtErrorEvent, ms_Args = [wh_text W e]\<rparr>"

definition withheld :: "denials \<Rightarrow> payload \<Rightarrow> string \<Rightarrow> bool" where
  "withheld d j ev \<longleftrightarrow>
     ev = InstallOutputTopic \<and> \<not> HasPermission d j PermissionReceiveInstall \<or>
     HasPrefix ev BackupCompletedTopic \<and> \<not> HasPermission d j PermissionReceiveBackups \<or>
     ev = TransferLogsTopic \<and> \<not> HasPermission d j PermissionReceiveTransfer"

definition SendJson ::
  "('e, 'w, 'l) host \<Rightarrow> denials \<Rightarrow> int \<Rightarrow> message \<Rightarrow> ('e, 'w, 'l) session \<Rightarrow> write_error option \<times> ('e, 'w, 'l) session" where
  "SendJson W d now v h =
     (case TokenValid W d now h of
        Some e \<Rightarrow> (None, unsafe_send W (jwt_notice W e) h)
      | None \<Rightarrow>
          if (case ss_jwt h of Some j \<Rightarrow> withheld d j (ms_Event v) | None \<Rightarrow> False) then (None, h)
          else (case unsafeSendJson W v h of
                  (Some ErrCloseSent, h) \<Rightarrow> (None, h)
                | (e, h) \<Rightarrow> (e, h)))"

definition send :: "('e, 'w, 'l) host \<Rightarrow> denials \<Rightarrow> int \<Rightarrow> message \<Rightarrow> ('e, 'w, 'l) session \<Rightarrow> ('e, 'w, 'l) session" where
  "send W d now m h = snd (SendJson W d now m h)"

definition GetErrorMessage :: "('e, 'w, 'l) host \<Rightarrow> string \<Rightarrow> ('e, 'w, 'l) session \<Rightarrow> string" where
  "GetErrorMessage W msg h = ''Error Event ['' @ wh_uuid W (length (ss_sent h)) @ '']: '' @ msg"

definition SendErrorJson ::
  "('e, 'w, 'l) host \<Rightarrow> denials \<Rightarrow> ws_error \<Rightarrow> ('e, 'w, 'l) session \<Rightarrow> write_error option \<times> ('e, 'w, 'l) session" where
  "SendErrorJson W d e h =
     (let allowed = IsJwtError e \<or> (case ss_jwt h of Some j \<Rightarrow> HasPermission d j PermissionReceiveErrors | None \<Rightarrow> False);
          event = (if IsJwtError e then JwtErrorEvent else ErrorEvent);
          msg = (if allowed then wh_text W e else ''an unexpected error was encountered while handling this request'')
      in unsafeSendJson W \<lparr>ms_Event = event, ms_Args = [GetErrorMessage W msg h]\<rparr> h)"

section \<open>Limits\<close>

definition limiterName :: "string \<Rightarrow> string" where
  "limiterName e =
     (if e = AuthenticationEvent \<or> e = SendServerLogsEvent \<or> e = SendCommandEvent then e else ''_default'')"

definition limitValuesFor :: "string \<Rightarrow> int \<times> nat" where
  "limitValuesFor e =
     (if e = AuthenticationEvent \<or> e = SendServerLogsEvent then (5000000000, 2)
      else if e = SendCommandEvent then (1000000000, 10)
      else (1000000000, 4))"

definition For :: "('e, 'w, 'l) host \<Rightarrow> string \<Rightarrow> ('e, 'w, 'l) session \<Rightarrow> 'l \<times> ('e, 'w, 'l) session" where
  "For W e h =
     (case ss_limits h (limiterName e) of
        Some l \<Rightarrow> (l, h)
      | None \<Rightarrow>
          let l = (case limitValuesFor e of (limit, burst) \<Rightarrow> wh_NewLimiter W limit burst)
          in (l, h\<lparr>ss_limits := (ss_limits h)(limiterName e \<mapsto> l)\<rparr>))"

definition throttle_notice :: "string \<Rightarrow> message" where
  "throttle_notice e = \<lparr>ms_Event = ThrottledEvent, ms_Args = [e]\<rparr>"

definition IsThrottled ::
  "('e, 'w, 'l) host \<Rightarrow> int \<Rightarrow> string \<Rightarrow> ('e, 'w, 'l) session \<Rightarrow> bool \<times> ('e, 'w, 'l) session" where
  "IsThrottled W now e h =
     (case For W e h of (l, h) \<Rightarrow> (case wh_Allow W now l of (ok, l) \<Rightarrow>
        let h = h\<lparr>ss_limits := (ss_limits h)(limiterName e \<mapsto> l)\<rparr>
        in if ok then (False, h\<lparr>ss_throttles := (ss_throttles h)(e \<mapsto> False)\<rparr>)
           else if ss_throttles h e \<noteq> Some True
           then (True, unsafe_send W (throttle_notice e) (h\<lparr>ss_throttles := (ss_throttles h)(e \<mapsto> True)\<rparr>))
           else (True, h)))"

section \<open>Inbound messages\<close>

type_synonym ('e, 'w, 'l) wsop = "('e, 'w, 'l) session \<Rightarrow> ((ws_error, unit) outcome \<times> ('e, 'w, 'l) session) option"

definition stop_ok :: "('e, 'w, 'l) wsop" where
  "stop_ok h = Some (Ok (), h)"

definition stats_message :: "('e, 'w, 'l) host \<Rightarrow> usage \<Rightarrow> message" where
  "stats_message W u = \<lparr>ms_Event = StatsTopic, ms_Args = [wh_json W u]\<rparr>"

definition send_stats :: "('e, 'w, 'l) host \<Rightarrow> denials \<Rightarrow> int \<Rightarrow> ('e, 'w, 'l) wsop" where
  "send_stats W d now h =
     (case Proc (ss_server h) of (u, s) \<Rightarrow> stop_ok (send W d now (stats_message W u) (h\<lparr>ss_server := s\<rparr>)))"

definition authenticate :: "('e, 'w, 'l) host \<Rightarrow> denials \<Rightarrow> int \<Rightarrow> string \<Rightarrow> ('e, 'w, 'l) wsop" where
  "authenticate W d now args h =
     (case NewTokenPayload W d now args of
        Inl e \<Rightarrow> Some (Err e, h)
      | Inr token \<Rightarrow>
          let newConnection = (ss_jwt h = None);
              h = unsafe_send W \<lparr>ms_Event = AuthenticationSuccessEvent, ms_Args = []\<rparr> (setJwt token h)
          in if \<not> newConnection then stop_ok h
             else
               let h = h\<lparr>ss_routines := ss_routines h @ [ListenForServerEvents, ListenForExpiration]\<rparr>;
                   D = wh_daemon W;
                   state = srv_State D (ss_server h);
                   h = send W d now \<lparr>ms_Event = StatusTopic, ms_Args = [state]\<rparr> h;
                   s = ss_server h
               in if state = ProcessOfflineState \<and> \<not> sv_installing s \<and> \<not> sv_transferring s
                  then do {
                    ((_, disk, _), w) \<leftarrow> HasSpaceAvailable (dmn_kernel D) (dmn_fs D) (dmn_fuel D) now False (sv_disk s) (sv_world s);
                    send_stats W d now (h\<lparr>ss_server := s\<lparr>sv_disk := disk, sv_world := w\<rparr>\<rparr>) }
                  else stop_ok h)"

text \<open>The permission an action needs; other actions are not looked up here and are refused by the server.\<close>

definition power_permission :: "string \<Rightarrow> string option" where
  "power_permission action =
     (if action = PowerActionStart then Some PermissionSendPowerStart
      else if action = PowerActionStop then Some PermissionSendPowerStop
      else if action = PowerActionRestart then Some PermissionSendPowerRestart
      else if action = PowerActionTerminate then Some PermissionSendPowerStop
      else None)"

definition session_may :: "denials \<Rightarrow> ('e, 'w, 'l) session \<Rightarrow> string \<Rightarrow> bool" where
  "session_may d h q = (case ss_jwt h of Some j \<Rightarrow> HasPermission d j q | None \<Rightarrow> False)"

text \<open>\<open>errors.Is(err, system.ErrLockerLocked)\<close>.\<close>

fun is_locked :: "srv_error \<Rightarrow> bool" where
  "is_locked (SrvLock e) = (e = ErrLockerLocked)"
| "is_locked (SrvMsg m e) = is_locked e"
| "is_locked _ = False"

definition SaveActivity :: "string \<Rightarrow> string option \<Rightarrow> ('e, 'w, 'l) session \<Rightarrow> ('e, 'w, 'l) session" where
  "SaveActivity event command h = h\<lparr>ss_saved := ss_saved h @ [\<lparr>ac_by = ss_ra h, ac_event = event, ac_command = command\<rparr>]\<rparr>"

definition set_state :: "('e, 'w, 'l) host \<Rightarrow> denials \<Rightarrow> int \<Rightarrow> string \<Rightarrow> ('e, 'w, 'l) wsop" where
  "set_state W d now action h =
     (if (case power_permission action of Some q \<Rightarrow> \<not> session_may d h q | None \<Rightarrow> False) then stop_ok h
      else (case HandlePowerAction (wh_daemon W) now Acquire action [] (ss_server h) of
              None \<Rightarrow> None
            | Some (Panic, s) \<Rightarrow> Some (Panic, h\<lparr>ss_server := s\<rparr>)
            | Some (Ok _, s) \<Rightarrow> stop_ok (SaveActivity (''server:power.'' @ action) None (h\<lparr>ss_server := s\<rparr>))
            | Some (Err e, s) \<Rightarrow>
                let h = h\<lparr>ss_server := s\<rparr>
                in if is_locked e
                   then stop_ok (send W d now \<lparr>ms_Event = ErrorEvent, ms_Args = [GetErrorMessage W
                          ''another power action is currently being processed for this server, please try again later'' h]\<rparr> h)
                   else Some (Err (WsServer e), h)))"

definition send_logs :: "('e, 'w, 'l) host \<Rightarrow> denials \<Rightarrow> int \<Rightarrow> ('e, 'w, 'l) wsop" where
  "send_logs W d now h =
     (let E = dmn_env (wh_daemon W) in case on_env (pe_IsRunning E) (ss_server h) of
        (Panic, s) \<Rightarrow> Some (Panic, h\<lparr>ss_server := s\<rparr>)
      | (Err _, s) \<Rightarrow> stop_ok (h\<lparr>ss_server := s\<rparr>)
      | (Ok running, s) \<Rightarrow>
          if \<not> running then stop_ok (h\<lparr>ss_server := s\<rparr>)
          else (case on_env (pe_Readlog E (wh_log_count W)) s of
                  (Panic, s) \<Rightarrow> Some (Panic, h\<lparr>ss_server := s\<rparr>)
                | (Err e, s) \<Rightarrow> Some (Err (WsServer e), h\<lparr>ss_server := s\<rparr>)
                | (Ok logs, s) \<Rightarrow>
                    stop_ok (fold (\<lambda>line. send W d now \<lparr>ms_Event = ConsoleOutputTopic, ms_Args = [line]\<rparr>) logs
                               (h\<lparr>ss_server := s\<rparr>))))"

definition send_command :: "('e, 'w, 'l) host \<Rightarrow> denials \<Rightarrow> string \<Rightarrow> ('e, 'w, 'l) wsop" where
  "send_command W d command h =
     (let D = wh_daemon W; s = ss_server h in
      if \<not> session_may d h PermissionSendCommand then stop_ok h
      else if srv_State D s = ProcessOfflineState then stop_ok h
      else if srv_State D s = ProcessStartingState \<and>
              (case pe_docker_attached (dmn_env D) of Some attached \<Rightarrow> \<not> attached (sv_env s) | None \<Rightarrow> False)
           then stop_ok h
      else (case on_env (pe_SendCommand (dmn_env D) command) s of
              (Panic, s) \<Rightarrow> Some (Panic, h\<lparr>ss_server := s\<rparr>)
            | (Err e, s) \<Rightarrow> Some (Err (WsServer e), h\<lparr>ss_server := s\<rparr>)
            | (Ok _, s) \<Rightarrow> stop_ok (SaveActivity ''server:console.command'' (Some command) (h\<lparr>ss_server := s\<rparr>))))"

definition dispatch :: "('e, 'w, 'l) host \<Rightarrow> denials \<Rightarrow> int \<Rightarrow> message \<Rightarrow> ('e, 'w, 'l) wsop" where
  "dispatch W d now m h =
     (let e = ms_Event m; args = concat (ms_Args m) in
      if e = AuthenticationEvent then authenticate W d now args h
      else if e = SetStateEvent then set_state W d now args h
      else if e = SendServerLogsEvent then send_logs W d now h
      else if e = SendStatsEvent then send_stats W d now h
      else if e = SendCommandEvent then send_command W d args h
      else stop_ok h)"

text \<open>\<open>now\<close> is the time of the message; the checks of one message read the clock within moments of each other.\<close>

definition HandleInbound :: "('e, 'w, 'l) host \<Rightarrow> denials \<Rightarrow> int \<Rightarrow> message \<Rightarrow> ('e, 'w, 'l) wsop" where
  "HandleInbound W d now m h =
     (if IsSuspended (ss_server h) then Some (Err (WsServer ErrSuspended), h)
      else (case IsThrottled W now (ms_Event m) h of (throttled, h) \<Rightarrow>
        if throttled then stop_ok h
        else (case (if ms_Event m \<noteq> AuthenticationEvent then TokenValid W d now h else None) of
                Some e \<Rightarrow> stop_ok (unsafe_send W (jwt_notice W e) h)
              | None \<Rightarrow>
                  if IsSuspended (ss_server h) then Some (Err (WsServer ErrSuspended), h)
                  else dispatch W d now m h)))"

text \<open>
  What the reading loop does with the answer: a suspended server ends the connection, other errors are reported. The
  first component tells whether the connection goes on.
\<close>

definition handle_message ::
  "('e, 'w, 'l) host \<Rightarrow> denials \<Rightarrow> int \<Rightarrow> message \<Rightarrow> ('e, 'w, 'l) session \<Rightarrow> ((ws_error, bool) outcome \<times> ('e, 'w, 'l) session) option" where
  "handle_message W d now m h =
     (case HandleInbound W d now m h of
        None \<Rightarrow> None
      | Some (Panic, h) \<Rightarrow> Some (Panic, h)
      | Some (Ok _, h) \<Rightarrow> Some (Ok True, h)
      | Some (Err e, h) \<Rightarrow>
          if e = WsServer ErrSuspended then Some (Ok False, h)
          else Some (Ok True, snd (SendErrorJson W d e h)))"

section \<open>Listeners\<close>

text \<open>What reaches a connection from its server: a line of one of the two outputs, or an event with its data as text.\<close>

datatype feed = LogLine string | InstallLine string | Published string string

fun feed_message :: "feed \<Rightarrow> message" where
  "feed_message (LogLine b) = \<lparr>ms_Event = ConsoleOutputTopic, ms_Args = [b]\<rparr>"
| "feed_message (InstallLine b) = \<lparr>ms_Event = InstallOutputTopic, ms_Args = [b]\<rparr>"
| "feed_message (Published topic data) = \<lparr>ms_Event = topic, ms_Args = [data]\<rparr>"

text \<open>The first error ends the routine.\<close>

fun listen_feeds ::
  "('e, 'w, 'l) host \<Rightarrow> (denials \<times> int \<times> feed) list \<Rightarrow> ('e, 'w, 'l) session \<Rightarrow> write_error option \<times> ('e, 'w, 'l) session" where
  "listen_feeds W [] h = (None, h)"
| "listen_feeds W ((d, now, f) # fs) h =
     (case SendJson W d now (feed_message f) h of
        (None, h) \<Rightarrow> listen_feeds W fs h
      | (Some e, h) \<Rightarrow> (Some e, h))"

text \<open>One tick of the routine that watches the expiration; a token without an expiration time would make it panic.\<close>

definition unix_seconds :: "int \<Rightarrow> int" where
  "unix_seconds t = t div 1000000000"

definition expiration_tick ::
  "('e, 'w, 'l) host \<Rightarrow> denials \<Rightarrow> int \<Rightarrow> ('e, 'w, 'l) session \<Rightarrow> (ws_error, unit) outcome \<times> ('e, 'w, 'l) session" where
  "expiration_tick W d now h =
     (case ss_jwt h of
        None \<Rightarrow> (Ok (), h)
      | Some j \<Rightarrow>
          (case tk_ExpirationTime j of
             None \<Rightarrow> (Panic, h)
           | Some t \<Rightarrow>
               if unix_seconds t - unix_seconds now \<le> 0
               then (Ok (), send W d now \<lparr>ms_Event = TokenExpiredEvent, ms_Args = []\<rparr> h)
               else if unix_seconds t - unix_seconds now \<le> 60
               then (Ok (), send W d now \<lparr>ms_Event = TokenExpiringEvent, ms_Args = []\<rparr> h)
               else (Ok (), h)))"

section \<open>The reading loop\<close>

datatype received = Dropped | ThrottledHere bool | Deliver message

text \<open>
  What the loop does with one frame: \<open>allow\<close> is the answer of the connection's own limiter, \<open>throttled\<close> whether a
  notice has been sent already, \<open>text\<close> whether it is a text frame, \<open>parsed\<close> its JSON; the second component is the new
  value of \<open>throttled\<close>.
\<close>

definition read_frame :: "bool \<Rightarrow> bool \<Rightarrow> bool \<Rightarrow> string \<Rightarrow> message option \<Rightarrow> received \<times> bool" where
  "read_frame allow throttled text p parsed =
     (if \<not> allow then (ThrottledHere (\<not> throttled), True)
      else if \<not> text \<or> length p > 32768 then (Dropped, False)
      else (case parsed of None \<Rightarrow> (Dropped, False) | Some m \<Rightarrow> (Deliver m, False)))"

text \<open>At most thirty connections: the count is read before the connection is made and registered after.\<close>

definition open_connection :: "nat \<Rightarrow> nat \<Rightarrow> ('e, 'w) server \<Rightarrow> ('e, 'w) server option" where
  "open_connection uuid cancel s =
     (let b = Websockets (sv_ws s) in if ws_Len b \<ge> 30 then None else Some (s\<lparr>sv_ws := Some (ws_Push uuid cancel b)\<rparr>))"

end
