(* ===== verification/WebsocketProps.thy ===== *)
theory WebsocketProps
  imports Websocket
begin

text \<open>
  The guarantees of the websocket: where the token of a session comes from, what a client can do with it, what it is
  shown, and how its messages are limited.
\<close>

section \<open>What the steps leave alone\<close>

lemma unsafe_send_frame [simp]:
  "ss_server (unsafe_send W m h) = ss_server h" "ss_jwt (unsafe_send W m h) = ss_jwt h"
  "ss_saved (unsafe_send W m h) = ss_saved h" "ss_sent (unsafe_send W m h) = ss_sent h @ [m]"
  "ss_throttles (unsafe_send W m h) = ss_throttles h" "ss_limits (unsafe_send W m h) = ss_limits h"
  by (simp_all add: unsafe_send_def unsafeSendJson_def)

lemma SendJson_frame:
  assumes "SendJson W d now m h = (e, h')"
  shows "ss_server h' = ss_server h \<and> ss_jwt h' = ss_jwt h \<and> ss_saved h' = ss_saved h"
  using assms by (auto simp: SendJson_def unsafeSendJson_def split: option.splits if_splits prod.splits write_error.splits)

lemma send_frame [simp]:
  "ss_server (send W d now m h) = ss_server h" "ss_jwt (send W d now m h) = ss_jwt h"
  "ss_saved (send W d now m h) = ss_saved h"
  using SendJson_frame [of W d now m h "fst (SendJson W d now m h)" "send W d now m h"] by (simp_all add: send_def)

lemma sends_frame [simp]:
  "ss_server (fold (\<lambda>x. send W d now (f x)) xs h) = ss_server h" "ss_jwt (fold (\<lambda>x. send W d now (f x)) xs h) = ss_jwt h"
  "ss_saved (fold (\<lambda>x. send W d now (f x)) xs h) = ss_saved h"
  by (induction xs arbitrary: h) simp_all

lemma IsThrottled_frame:
  assumes "IsThrottled W now e h = (b, h')"
  shows "ss_server h' = ss_server h \<and> ss_jwt h' = ss_jwt h \<and> ss_saved h' = ss_saved h"
  using assms
  by (auto simp: IsThrottled_def For_def Let_def split: option.splits if_splits prod.splits)

lemma TokenValid_depends: "ss_jwt h' = ss_jwt h \<Longrightarrow> ss_server h' = ss_server h \<Longrightarrow>
    TokenValid W d now h' = TokenValid W d now h"
  by (simp add: TokenValid_def split: option.split)

lemma SaveActivity_frame [simp]: "ss_server (SaveActivity e c h) = ss_server h" "ss_jwt (SaveActivity e c h) = ss_jwt h"
  by (simp_all add: SaveActivity_def)

section \<open>Permissions\<close>

text \<open>What \<open>TokenValid\<close> accepts, spelled out.\<close>

definition token_good :: "('e, 'w, 'l) host \<Rightarrow> denials \<Rightarrow> int \<Rightarrow> ('e, 'w, 'l) session \<Rightarrow> payload \<Rightarrow> bool" where
  "token_good W d now h p \<longleftrightarrow>
     ss_jwt h = Some p \<and> \<not> jw_expired (wh_jwt W) now p \<and> \<not> Denylisted d p \<and> HasPermission d p PermissionConnect \<and>
     tk_ServerUUID p = cfg_Uuid (sv_cfg (ss_server h))"

lemma TokenValid_good: "TokenValid W d now h = None \<Longrightarrow> \<exists>p. token_good W d now h p"
  by (auto simp: TokenValid_def token_good_def ExpirationTimeValidator_def split: option.splits if_splits)

lemma unknown_action_idle:
  assumes "HandlePowerAction D now Acquire action [] s = Some (r, s')" "locker_ok (sv_powerLock s)"
    "power_permission action = None"
  shows "s' = s \<and> \<not> is_ok r"
proof -
  have unknown: "perform D now action t = Some (Err UnknownAction, t)" for t
    using assms(3) by (auto simp: perform_def power_permission_def split: if_splits)
  have "action \<noteq> PowerActionTerminate"
    using assms(3) by (auto simp: power_permission_def)
  with assms(1,2) unknown show ?thesis
    by (auto simp: HandlePowerAction_def Acquire_answers [OF assms(2)] release_after_def Release_acquired split: if_splits)
qed

lemma send_stats_frame: "send_stats W d now h = Some (r, h') \<Longrightarrow> ss_jwt h' = ss_jwt h \<and> ss_saved h' = ss_saved h"
  by (auto simp: send_stats_def stop_ok_def split: prod.splits)

text \<open>What a message that is not an authentication may do to the server and to the activity log of a session with the
  token \<open>p\<close>.\<close>

definition licensed :: "denials \<Rightarrow> message \<Rightarrow> payload \<Rightarrow> bool" where
  "licensed d m p \<longleftrightarrow>
     ms_Event m = SetStateEvent \<and> (\<exists>q. power_permission (concat (ms_Args m)) = Some q \<and> HasPermission d p q) \<or>
     ms_Event m = SendCommandEvent \<and> HasPermission d p PermissionSendCommand \<or>
     ms_Event m = SendStatsEvent \<or> ms_Event m = SendServerLogsEvent"

lemma dispatch_licensed:
  assumes "dispatch W d now m h = Some (r, h')" "ms_Event m \<noteq> AuthenticationEvent" "ss_jwt h = Some p"
    "locker_ok (sv_powerLock (ss_server h))" "\<not> licensed d m p"
  shows "ss_server h' = ss_server h \<and> ss_saved h' = ss_saved h"
proof -
  consider "ms_Event m = SetStateEvent" | "ms_Event m = SendCommandEvent"
    | "ms_Event m \<noteq> SetStateEvent" "ms_Event m \<noteq> SendCommandEvent"
    by blast
  then show ?thesis
  proof cases
    case 1
    let ?a = "concat (ms_Args m)"
    from 1 assms(1) have run: "set_state W d now ?a h = Some (r, h')" by (simp add: dispatch_def)
    show ?thesis
    proof (cases "power_permission ?a")
      case None
      with run obtain x s where act: "HandlePowerAction (wh_daemon W) now Acquire ?a [] (ss_server h) = Some (x, s)"
        by (auto simp: set_state_def split: option.splits)
      from unknown_action_idle [OF act assms(4) None] have s: "s = ss_server h" and x: "\<not> is_ok x" by auto
      with run None act show ?thesis
        by (cases x) (auto simp: set_state_def Let_def stop_ok_def split: if_splits)
    next
      case (Some q)
      with 1 assms(5) have "\<not> session_may d h q" by (simp add: licensed_def session_may_def assms(3))
      with run Some show ?thesis by (simp add: set_state_def stop_ok_def)
    qed
  next
    case 2
    with assms(1,3,5) show ?thesis
      by (simp add: dispatch_def send_command_def session_may_def licensed_def stop_ok_def)
  next
    case 3
    with assms(1,2,5) show ?thesis by (simp add: dispatch_def licensed_def stop_ok_def)
  qed
qed

text \<open>C2: A message other than an authentication changes nothing of the server and records no activity unless the session's
  token is unexpired, not denied, for this server and allowed to connect, and, for a power action or a command, grants
  the permission of that action; an action the daemon does not know is never one.\<close>

theorem server_touched_only_with_permission:
  assumes "HandleInbound W d now m h = Some (r, h')" "ms_Event m \<noteq> AuthenticationEvent"
    "locker_ok (sv_powerLock (ss_server h))" "ss_server h' \<noteq> ss_server h \<or> ss_saved h' \<noteq> ss_saved h"
  shows "\<exists>p. token_good W d now h p \<and> licensed d m p"
proof -
  obtain b g where t: "IsThrottled W now (ms_Event m) h = (b, g)" by force
  note same = IsThrottled_frame [OF t]
  then have valid: "TokenValid W d now g = TokenValid W d now h"
    by (intro TokenValid_depends) auto
  have "HandleInbound W d now m h =
      (if IsSuspended (ss_server h) then Some (Err (WsServer ErrSuspended), h)
       else if b then stop_ok g
       else (case TokenValid W d now h of
               Some e \<Rightarrow> stop_ok (unsafe_send W (jwt_notice W e) g)
             | None \<Rightarrow> dispatch W d now m g))"
    using same by (simp add: HandleInbound_def t valid assms(2) split: option.split)
  with assms(1) have "h' = h \<or> h' = g \<or> (\<exists>e. h' = unsafe_send W (jwt_notice W e) g) \<or>
      dispatch W d now m g = Some (r, h') \<and> TokenValid W d now h = None"
    by (simp add: stop_ok_def split: if_splits option.splits) blast
  then have run: "dispatch W d now m g = Some (r, h')" and ok: "TokenValid W d now h = None"
    using same assms(4) by auto
  from TokenValid_good [OF ok] obtain p where p: "token_good W d now h p" by blast
  have "licensed d m p"
  proof (rule ccontr)
    assume "\<not> licensed d m p"
    with run assms(2,3) p same have "ss_server h' = ss_server g \<and> ss_saved h' = ss_saved g"
      by (intro dispatch_licensed) (auto simp: token_good_def)
    with same assms(4) show False by simp
  qed
  with p show ?thesis by blast
qed

section \<open>The origin of tokens\<close>

text \<open>The steps of a session: a message handled, feeds of its server sent on, a tick of the expiration watch. The server
  may change in between.\<close>

inductive session_reaches :: "('e, 'w, 'l) host \<Rightarrow> ('e, 'w, 'l) session \<Rightarrow> ('e, 'w, 'l) session \<Rightarrow> bool" for W where
  opened: "session_reaches W h h"
| message: "session_reaches W h0 h \<Longrightarrow> handle_message W d now m h = Some (r, h') \<Longrightarrow> session_reaches W h0 h'"
| feeds: "session_reaches W h0 h \<Longrightarrow> listen_feeds W fs h = (e, h') \<Longrightarrow> session_reaches W h0 h'"
| tick: "session_reaches W h0 h \<Longrightarrow> expiration_tick W d now h = (r, h') \<Longrightarrow> session_reaches W h0 h'"
| server: "session_reaches W h0 h \<Longrightarrow> session_reaches W h0 (h\<lparr>ss_server := s\<rparr>)"

inductive_cases session_reaches_openedE: "session_reaches W h0 h"

lemma dispatch_jwt:
  assumes "dispatch W d now m h = Some (r, h')"
  shows "ss_jwt h' = ss_jwt h \<or> (\<exists>t p. NewTokenPayload W d now t = Inr p \<and> ss_jwt h' = Some p)"
proof -
  have auth: "ss_jwt h' = ss_jwt h \<or> (\<exists>p. NewTokenPayload W d now t = Inr p \<and> ss_jwt h' = Some p)"
    if "authenticate W d now t h = Some (r, h')" for t
    using that
    by (auto simp: authenticate_def Let_def stop_ok_def setJwt_def Option.bind_eq_Some_conv dest!: send_stats_frame
        split: sum.splits if_splits)
  have "set_state W d now t h = Some (r, h') \<Longrightarrow> ss_jwt h' = ss_jwt h" for t
    by (auto simp: set_state_def stop_ok_def Let_def split: if_splits option.splits prod.splits outcome.splits)
  moreover have "send_logs W d now h = Some (r, h') \<Longrightarrow> ss_jwt h' = ss_jwt h"
    by (auto simp: send_logs_def stop_ok_def Let_def split: if_splits option.splits prod.splits outcome.splits)
  moreover have "send_command W d t h = Some (r, h') \<Longrightarrow> ss_jwt h' = ss_jwt h" for t
    by (auto simp: send_command_def stop_ok_def Let_def split: if_splits option.splits prod.splits outcome.splits)
  ultimately show ?thesis
    using assms auth send_stats_frame [of W d now h r h'] unfolding dispatch_def Let_def
    by (auto simp: stop_ok_def dest!: auth split: if_splits)
qed

lemma handle_message_jwt:
  assumes "handle_message W d now m h = Some (r, h')"
  shows "ss_jwt h' = ss_jwt h \<or> (\<exists>t p. NewTokenPayload W d now t = Inr p \<and> ss_jwt h' = Some p)"
proof -
  obtain x g where run: "HandleInbound W d now m h = Some (x, g)"
    using assms by (auto simp: handle_message_def split: option.splits)
  have g: "ss_jwt h' = ss_jwt g"
    using assms run by (cases x) (auto simp: handle_message_def SendErrorJson_def unsafeSendJson_def Let_def split: if_splits)
  obtain b k where t: "IsThrottled W now (ms_Event m) h = (b, k)" by force
  have "g = h \<or> ss_jwt g = ss_jwt k \<or> dispatch W d now m k = Some (x, g)"
    using run t by (auto simp: HandleInbound_def stop_ok_def split: if_splits option.splits)
  with IsThrottled_frame [OF t] g show ?thesis using dispatch_jwt [of W d now m k x g] by auto
qed

lemma listen_feeds_jwt: "listen_feeds W fs h = (e, h') \<Longrightarrow> ss_jwt h' = ss_jwt h"
  by (induction W fs h rule: listen_feeds.induct) (auto dest!: SendJson_frame split: prod.splits option.splits)

lemma tick_jwt: "expiration_tick W d now h = (r, h') \<Longrightarrow> ss_jwt h' = ss_jwt h"
  by (auto simp: expiration_tick_def split: option.splits if_splits)

text \<open>However long a session lasts, the token it holds is one whose signature verified and which allowed to connect
  when it was presented.\<close>

theorem session_tokens_verified:
  assumes "session_reaches W h0 h" "ss_jwt h0 = None" "verifies (wh_jwt W) good" "ss_jwt h = Some p"
  shows "(\<exists>t. good t p) \<and> (\<exists>d now. HasPermission d p PermissionConnect \<and> \<not> jw_expired (wh_jwt W) now p)"
  using assms(1,2,4)
proof (induction rule: session_reaches.induct)
  case (message h0 h d now m r h')
  from handle_message_jwt [OF message(2)] show ?case
  proof (elim disjE exE conjE)
    fix t q
    assume "NewTokenPayload W d now t = Inr q" "ss_jwt h' = Some q"
    with message.prems have "ParseToken (wh_jwt W) now t = Inr p" "HasPermission d p PermissionConnect"
      by (auto simp: NewTokenPayload_def split: sum.splits if_splits)
    with ParseToken_verified [OF assms(3)] show ?thesis by blast
  qed (use message in auto)
qed (auto dest: listen_feeds_jwt tick_jwt)

section \<open>What a client is shown\<close>

lemma SendJson_shows:
  assumes "SendJson W d now m h = (e, h')"
  shows "ss_sent h' = ss_sent h \<or> (\<exists>er. ss_sent h' = ss_sent h @ [jwt_notice W er]) \<or>
    ss_sent h' = ss_sent h @ [m] \<and> (\<exists>p. token_good W d now h p \<and> \<not> withheld d p (ms_Event m))"
proof (cases "TokenValid W d now h")
  case None
  then obtain p where p: "token_good W d now h p" using TokenValid_good by blast
  with None assms show ?thesis
    by (auto simp: SendJson_def unsafeSendJson_def token_good_def split: if_splits prod.splits option.splits write_error.splits)
next
  case (Some er)
  with assms show ?thesis by (auto simp: SendJson_def)
qed


text \<open>The watch of the expiration tells a client that its token expired only while the token still passes the
  library's check; once it does not, the notice it sends is that the token is not valid.\<close>

theorem expired_token_not_announced:
  assumes "expiration_tick W d now h = (r, h')" "ss_jwt h = Some p" "jw_expired (wh_jwt W) now p"
  shows "ss_sent h' = ss_sent h \<or> ss_sent h' = ss_sent h @ [jwt_notice W (WsToken ErrExpValidation)]"
proof -
  have "TokenValid W d now h = Some (WsToken ErrExpValidation)"
    using assms by (simp add: TokenValid_def ExpirationTimeValidator_def)
  with assms show ?thesis
    by (auto simp: expiration_tick_def send_def SendJson_def split: option.splits if_splits)
qed

section \<open>Limits\<close>

fun throttled_run ::
  "('e, 'w, 'l) host \<Rightarrow> (int \<times> string) list \<Rightarrow> ('e, 'w, 'l) session \<Rightarrow> bool list \<times> ('e, 'w, 'l) session" where
  "throttled_run W [] h = ([], h)"
| "throttled_run W ((now, e) # us) h =
     (case IsThrottled W now e h of (b, h) \<Rightarrow> (case throttled_run W us h of (bs, h) \<Rightarrow> (b # bs, h)))"

definition notices :: "string \<Rightarrow> ('e, 'w, 'l) session \<Rightarrow> nat" where
  "notices e h = count_list (ss_sent h) (throttle_notice e)"

definition due :: "string \<Rightarrow> ('e, 'w, 'l) session \<Rightarrow> nat" where
  "due e h = (if ss_throttles h e = Some True then 0 else 1)"

definition allowed_of :: "string \<Rightarrow> (int \<times> string) list \<Rightarrow> bool list \<Rightarrow> nat" where
  "allowed_of e us bs = length (filter (\<lambda>((_, x), b). x = e \<and> \<not> b) (zip us bs))"

lemma IsThrottled_step:
  assumes "IsThrottled W now e h = (b, h')"
  shows "ss_throttles h' = (ss_throttles h)(e \<mapsto> b)"
    "ss_sent h' = ss_sent h @ (if b \<and> ss_throttles h e \<noteq> Some True then [throttle_notice e] else [])"
  using assms by (auto simp: IsThrottled_def For_def Let_def split: option.splits if_splits prod.splits)

lemma IsThrottled_notices:
  assumes "IsThrottled W now x h = (b, h')"
  shows "notices e h' + due e h' \<le> notices e h + due e h + (if x = e \<and> \<not> b then 1 else 0)"
  using IsThrottled_step [OF assms] by (auto simp: notices_def due_def throttle_notice_def)

text \<open>A client is told about an event being throttled at most once more than messages of that event have been let
  through since: once for every stretch of refused messages.\<close>

theorem throttled_told_once:
  assumes "throttled_run W us h = (bs, h')"
  shows "notices e h' \<le> notices e h + 1 + allowed_of e us bs"
proof -
  have "notices e h' + due e h' \<le> notices e h + due e h + allowed_of e us bs"
    using assms
  proof (induction us arbitrary: h bs)
    case (Cons u us)
    obtain now x where u: "u = (now, x)" by force
    obtain b g where g: "IsThrottled W now x h = (b, g)" by force
    from Cons.prems u g obtain bs' where bs: "bs = b # bs'" "throttled_run W us g = (bs', h')"
      by (auto split: prod.splits)
    from Cons.IH [OF bs(2)] IsThrottled_notices [OF g, of e] show ?case
      by (auto simp: bs u allowed_of_def split: if_splits)
  qed (simp add: allowed_of_def)
  then show ?thesis by (simp add: due_def split: if_splits)
qed

end
