(* ===== verification/WebsocketExamples.thy ===== *)
theory WebsocketExamples
  imports WebsocketProps ServerCrash
begin

text \<open>
  The properties of the websocket at concrete sessions.
\<close>

definition example_payload :: payload where
  "example_payload = \<lparr>tk_IssuedAt = Some 4, tk_ExpirationTime = Some 900, tk_JWTID = ''j'', tk_UserUUID = ''u'',
     tk_ServerUUID = ''u1'', tk_Permissions = [''websocket.connect'']\<rparr>"

definition example_denials :: denials where
  "example_denials = \<lparr>dn_boot = 1, dn_denylist = Map.empty, dn_users = Map.empty\<rparr>"

definition example_jwt :: "payload jwt" where
  "example_jwt =
     \<lparr>jw_Verify = (\<lambda>t vo. if t = ''tok'' then (case vo example_payload of None \<Rightarrow> Inr example_payload | Some e \<Rightarrow> Inl e)
                         else Inl (ErrToken ''bad signature'')),
      jw_expired = (\<lambda>now p. case tk_ExpirationTime p of None \<Rightarrow> True | Some t \<Rightarrow> now > t)\<rparr>"

text \<open>A host whose limiter lets through the given number of messages.\<close>

definition example_host :: "(unit env, nat, nat) host" where
  "example_host =
     \<lparr>wh_daemon = example_daemon busy_docker, wh_jwt = example_jwt, wh_NewLimiter = (\<lambda>_ burst. burst),
      wh_Allow = (\<lambda>_ n. (0 < n, n - 1)), wh_write = (\<lambda>_ _. None), wh_text = (\<lambda>_. ''error''), wh_uuid = Itoa \<circ> int,
      wh_json = (\<lambda>_. ''{}''), wh_log_count = 3, wh_panel = ''https://panel'', wh_origins = []\<rparr>"

definition example_session :: "(unit env, nat, nat) session" where
  "example_session =
     \<lparr>ss_jwt = Some example_payload,
      ss_server = example_server\<lparr>sv_cfg := example_configuration\<lparr>cfg_Suspended := False\<rparr>,
                    sv_usage := \<lparr>us_Stats = no_stats, us_State = ProcessOfflineState, us_Disk = 9\<rparr>\<rparr>,
      ss_ra = \<lparr>ra_server = ''u1'', ra_user = ''u'', ra_ip = ''ip''\<rparr>, ss_limits = Map.empty, ss_throttles = Map.empty,
      ss_sent = [], ss_routines = [], ss_saved = []\<rparr>"

lemmas session_defs = example_payload_def example_denials_def example_jwt_def example_host_def example_session_def

lemma example_verifies: "verifies (wh_jwt example_host) (\<lambda>t p. t = ''tok'' \<and> p = example_payload)"
  by (auto simp: verifies_def example_host_def example_jwt_def split: if_splits option.splits)

lemma example_permitted: "HasPermission example_denials example_payload PermissionConnect"
  by (simp add: HasPermission_def Denylisted_def issued_before_def session_defs)

lemma example_uuid: "cfg_Uuid (sv_cfg (ss_server example_session)) = ''u1''"
  by (simp add: example_session_def example_configuration_def)

lemma example_valid: "TokenValid example_host example_denials 7 example_session = None"
  using example_permitted example_uuid
  by (auto simp: TokenValid_def ExpirationTimeValidator_def HasPermission_def example_host_def example_jwt_def
      example_payload_def example_session_def split: if_splits)

lemma example_unthrottled: "ss_limits h = Map.empty \<Longrightarrow> \<exists>g. IsThrottled example_host 7 e h = (False, g)"
  by (simp add: IsThrottled_def For_def limitValuesFor_def example_host_def)

lemma example_stats: "\<exists>r h'. HandleInbound example_host example_denials 7 \<lparr>ms_Event = SendStatsEvent, ms_Args = []\<rparr> example_session = Some (r, h') \<and>
    us_Disk (sv_usage (ss_server h')) = Usage (snd (sv_disk (ss_server example_session)))"
proof -
  obtain g where g: "IsThrottled example_host 7 SendStatsEvent example_session = (False, g)"
    using example_unthrottled [of example_session] by (auto simp: example_session_def)
  note same = IsThrottled_frame [OF g]
  then have "TokenValid example_host example_denials 7 g = None"
    using TokenValid_depends [of g example_session] example_valid by simp
  moreover have "\<not> IsSuspended (ss_server example_session)"
    by (simp add: IsSuspended_def example_session_def)
  ultimately show ?thesis
    using same g by (simp add: HandleInbound_def dispatch_def send_stats_def stop_ok_def Proc_def Let_def)
qed

theorem server_touched_only_with_permission_witness:
  "\<exists>p. token_good example_host example_denials 7 example_session p \<and>
     licensed example_denials \<lparr>ms_Event = SendStatsEvent, ms_Args = []\<rparr> p"
proof -
  from example_stats obtain r h' where
    run: "HandleInbound example_host example_denials 7 \<lparr>ms_Event = SendStatsEvent, ms_Args = []\<rparr> example_session = Some (r, h')"
    and disk: "us_Disk (sv_usage (ss_server h')) = Usage (snd (sv_disk (ss_server example_session)))" by blast
  have "Usage (snd (sv_disk (ss_server example_session))) \<noteq> us_Disk (sv_usage (ss_server example_session))"
    by (simp add: example_session_def example_server_def NewServer_def NewQuota_def Usage_def)
  with disk have "ss_server h' \<noteq> ss_server example_session" by auto
  moreover have "locker_ok (sv_powerLock (ss_server example_session))" by (simp add: example_session_def)
  ultimately show ?thesis using server_touched_only_with_permission [OF run] by simp
qed

text \<open>A fresh session that presents a token.\<close>

lemma example_token: "NewTokenPayload example_host example_denials 7 ''tok'' = Inr example_payload"
  using example_permitted
  by (auto simp: NewTokenPayload_def ParseToken_def ExpirationTimeValidator_def HasPermission_def example_host_def example_jwt_def
      example_payload_def split: if_splits)

theorem session_tokens_verified_witness:
  "\<exists>h. session_reaches example_host (example_session\<lparr>ss_jwt := None\<rparr>) h \<and> ss_jwt h = Some example_payload \<and>
     (\<exists>t. t = ''tok'')"
proof -
  let ?h = "example_session\<lparr>ss_jwt := None, ss_server := (ss_server example_session)\<lparr>sv_installing := True\<rparr>\<rparr>"
  let ?m = "\<lparr>ms_Event = AuthenticationEvent, ms_Args = [''t'', ''ok'']\<rparr>"
  have "\<exists>h'. HandleInbound example_host example_denials 7 ?m ?h = Some (Ok (), h') \<and> ss_jwt h' = Some example_payload"
  proof -
    obtain g where g: "IsThrottled example_host 7 AuthenticationEvent ?h = (False, g)"
      using example_unthrottled [of ?h] by (auto simp: example_session_def)
    from IsThrottled_frame [OF g] have same: "ss_jwt g = None" "ss_server g = ss_server ?h" by simp_all
    then have "\<not> IsSuspended (ss_server g)" "sv_installing (ss_server g)"
      by (simp_all add: IsSuspended_def example_session_def)
    with g same show ?thesis
      by (simp add: HandleInbound_def dispatch_def authenticate_def example_token Let_def stop_ok_def setJwt_def)
  qed
  then obtain h' where run: "HandleInbound example_host example_denials 7 ?m ?h = Some (Ok (), h')"
    and jwt: "ss_jwt h' = Some example_payload" by blast
  have "session_reaches example_host (example_session\<lparr>ss_jwt := None\<rparr>) ?h"
    using session_reaches.server [OF session_reaches.opened, of example_host "example_session\<lparr>ss_jwt := None\<rparr>"] by simp
  then have reach: "session_reaches example_host (example_session\<lparr>ss_jwt := None\<rparr>) h'"
    by (rule session_reaches.message [where r = "Ok True" and d = example_denials and now = 7 and m = ?m])
      (simp add: handle_message_def run)
  from session_tokens_verified [OF reach _ example_verifies jwt] reach jwt show ?thesis by auto
qed


theorem expired_token_not_announced_witness:
  "ss_sent (snd (expiration_tick example_host example_denials 901 example_session)) =
     [jwt_notice example_host (WsToken ErrExpValidation)]"
proof -
  obtain r h' where run: "expiration_tick example_host example_denials 901 example_session = (r, h')" by force
  have "ss_jwt example_session = Some example_payload" "jw_expired (wh_jwt example_host) 901 example_payload"
    by (simp_all add: example_host_def example_jwt_def) (simp_all add: example_session_def example_payload_def)
  note sent = expired_token_not_announced [OF run this]
  have "ss_sent (snd (expiration_tick example_host example_denials 901 example_session)) \<noteq> []"
    by (simp add: expiration_tick_def example_session_def example_payload_def unix_seconds_def send_def SendJson_def
        TokenValid_def ExpirationTimeValidator_def example_host_def example_jwt_def)
  with sent run show ?thesis by (simp add: example_session_def)
qed

theorem throttled_told_once_witness:
  "notices SetStateEvent (snd (throttled_run example_host (replicate 7 (1, SetStateEvent)) example_session)) \<le> 5"
proof -
  obtain bs h' where run: "throttled_run example_host (replicate 7 (1, SetStateEvent)) example_session = (bs, h')" by force
  have "bs = [False, False, False, False, True, True, True]"
    using run
    by (auto simp: numeral_eq_Suc IsThrottled_def For_def limitValuesFor_def limiterName_def example_host_def Let_def
        example_session_def)
  with throttled_told_once [OF run, of SetStateEvent] run show ?thesis
    by (simp add: allowed_of_def numeral_eq_Suc notices_def example_session_def)
qed

end
