(* ===== verification/RouterFiles.thy ===== *)
theory RouterFiles
  imports FsFilesConfined Tokens
begin

text \<open>
  The HTTP handlers for the files of a server (\<open>wings/router/router_server_files.go\<close>, \<open>router_download.go\<close>) over the
  filesystem of \<open>FsFiles\<close>, with the errors of \<open>wings/server/filesystem/errors.go\<close> and what a client gets for them
  (\<open>wings/router/middleware\<close>). The requests are decoded already; the state is the disk counters and the host.
\<close>

section \<open>Opening and reading a file\<close>

text \<open>
  What a handler works with: the kernel, open files, the server's filesystem, its compiled denylist, reading and
  rewinding a descriptor, the depth allowed to recursive deletions, the time written into the names of copies, and the
  text of a system error.
\<close>

record 'w site =
  si_kernel :: "'w kernel"
  si_io :: "'w file_io"
  si_fs :: filesystem
  si_ignored :: "string \<Rightarrow> bool"
  si_seek :: "int \<Rightarrow> 'w \<Rightarrow> err option \<times> 'w"
  si_read :: "int \<Rightarrow> 'w \<Rightarrow> string \<times> 'w"
  si_fuel :: nat
  si_now :: string
  si_text :: "err \<Rightarrow> string"

definition IsIgnored :: "'w site \<Rightarrow> string list \<Rightarrow> fs_error option" where
  "IsIgnored H paths = map_option FsDenylist (find (si_ignored H) paths)"

definition statFromFile :: "'w site \<Rightarrow> string \<Rightarrow> int \<Rightarrow> (fs_error + entry_stat, quota \<times> 'w) fsop" where
  "statFromFile H name fd w = do {
     (s, w) \<leftarrow> io_op (fio_stat (si_io H) fd) w;
     case s of
       Inl e \<Rightarrow> Some (Inl (FsUnder (Errno e)), w)
     | Inr s \<Rightarrow>
         (let info = fillFileStatFromSys s name
          in if fi_IsDir info then Some (Inr \<lparr>es_info = info, es_mime = ''inode/directory''\<rparr>, w)
             else do {
               (m, w) \<leftarrow> io_op (fio_mime (si_io H) fd) w;
               case m of
                 None \<Rightarrow> Some (Inl (FsMsg ''mimetype''), w)
               | Some m \<Rightarrow> do {
                   (e, w) \<leftarrow> io_op (si_seek H fd) w;
                   Some (case e of Some e \<Rightarrow> Inl (FsUnder e) | None \<Rightarrow> Inr \<lparr>es_info = info, es_mime = m\<rparr>, w) } }) }"

text \<open>\<open>Filesystem.File\<close>: for a directory the error comes with the open file, which no caller closes.\<close>

definition fs_File :: "'w site \<Rightarrow> string \<Rightarrow> (fs_error + int \<times> entry_stat, quota \<times> 'w) fsop" where
  "fs_File H p w = do {
     (f, w) \<leftarrow> Open (lifted (si_kernel H)) (fsys_unix (si_fs H)) p w;
     case f of
       Inl e \<Rightarrow> Some (Inl (FsUnder e), w)
     | Inr fd \<Rightarrow> do {
         (st, w) \<leftarrow> statFromFile H p fd w;
         case st of
           Inl e \<Rightarrow> do { (_, w) \<leftarrow> do_close (lifted (si_kernel H)) [fd] w; Some (Inl e, w) }
         | Inr st \<Rightarrow>
             if es_IsDir st then Some (Inl (FsMsg ''filesystem: is a directory''), w)
             else Some (Inr (fd, st), w) } }"

definition fs_Stat :: "'w site \<Rightarrow> string \<Rightarrow> (fs_error + entry_stat, quota \<times> 'w) fsop" where
  "fs_Stat H p w = do {
     (f, w) \<leftarrow> Open (lifted (si_kernel H)) (fsys_unix (si_fs H)) p w;
     case f of
       Inl e \<Rightarrow> Some (Inl (FsUnder e), w)
     | Inr fd \<Rightarrow> do {
         (st, w) \<leftarrow> statFromFile H p fd w;
         (_, w) \<leftarrow> do_close (lifted (si_kernel H)) [fd] w;
         Some (st, w) } }"

section \<open>Errors\<close>

fun fs_is :: "sentinel \<Rightarrow> fs_error \<Rightarrow> bool" where
  "fs_is s (FsUnder e) = is_sentinel s e"
| "fs_is s (FsWrapped _ e) = fs_is s e"
| "fs_is s _ = False"

datatype error_code = ErrCodeIsDirectory | ErrCodeDiskSpace | ErrCodeUnknownArchive | ErrCodePathResolution | ErrCodeDenylistFile

text \<open>The filesystem error along the chain of causes.\<close>

fun code_of :: "fs_error \<Rightarrow> error_code option" where
  "code_of (FsIsDirectory _) = Some ErrCodeIsDirectory"
| "code_of FsNoDiskSpace = Some ErrCodeDiskSpace"
| "code_of FsUnknownArchive = Some ErrCodeUnknownArchive"
| "code_of (FsDenylist _) = Some ErrCodeDenylistFile"
| "code_of (FsWrapped _ e) = code_of e"
| "code_of _ = None"

definition IsErrorCode :: "fs_error \<Rightarrow> error_code \<Rightarrow> bool" where
  "IsErrorCode e c \<longleftrightarrow> code_of e = Some c"

definition IsFilesystemError :: "fs_error \<Rightarrow> bool" where
  "IsFilesystemError e \<longleftrightarrow> code_of e \<noteq> None"

fun fs_Error :: "(err \<Rightarrow> string) \<Rightarrow> fs_error \<Rightarrow> string" where
  "fs_Error t (FsIsDirectory r) = ''filesystem: cannot perform action: ['' @ r @ ''] is a directory''"
| "fs_Error t FsNoDiskSpace = ''filesystem: not enough disk space''"
| "fs_Error t FsUnknownArchive = ''filesystem: unknown archive format''"
| "fs_Error t (FsDenylist r) =
     ''filesystem: file access prohibited: ['' @ (if r = [] then ''<empty>'' else r) @ ''] is on the denylist''"
| "fs_Error t (FsMsg m) = m"
| "fs_Error t (FsUnder e) = t e"
| "fs_Error t (FsWrapped m e) = m @ '': '' @ fs_Error t e"

definition Has :: "string \<Rightarrow> string \<Rightarrow> bool" where
  "Has s part = sublist part s"

text \<open>The last test of the code, for a bare system-call error, meets none: the error it gets carries a stack trace.\<close>

definition asFilesystemError :: "(err \<Rightarrow> string) \<Rightarrow> fs_error \<Rightarrow> (nat \<times> string) option" where
  "asFilesystemError t e =
     (let text = fs_Error t e in
      if IsErrorCode e ErrCodePathResolution \<or> Has text ''file does not exist'' \<or>
         Has text ''resolves to a location outside the server root''
      then Some (404, ''The requested resources was not found on the system.'')
      else if IsErrorCode e ErrCodeDenylistFile \<or> Has text ''filesystem: file access prohibited''
      then Some (403, ''This file cannot be modified: present in egg denylist.'')
      else if IsErrorCode e ErrCodeIsDirectory \<or> Has text ''filesystem: is a directory''
      then Some (400, ''Cannot perform that action: file is a directory.'')
      else if IsErrorCode e ErrCodeDiskSpace \<or> Has text ''filesystem: not enough disk space''
      then Some (400, ''There is not enough disk space available to perform that action.'')
      else if HasSuffix text ''file name too long''
      then Some (400, ''Cannot perform that action: file name is too long.'')
      else None)"

section \<open>Responses\<close>

text \<open>\<open>Captured\<close> is an error left to the error middleware.\<close>

datatype request_error = ReqFs fs_error | ReqToken token_error | ReqMode | ReqOther string

datatype response =
    NoContent
  | Refused nat string
  | Captured request_error
  | Listing "entry_stat list"
  | Content int string "string option" string
  | Uploaded

definition captured :: "fs_error \<Rightarrow> response" where
  "captured e = Captured (ReqFs e)"

text \<open>The status a client gets.\<close>

definition status_of :: "(err \<Rightarrow> string) \<Rightarrow> response \<Rightarrow> nat" where
  "status_of t r =
     (case r of
        NoContent \<Rightarrow> 204
      | Refused n _ \<Rightarrow> n
      | Captured (ReqFs e) \<Rightarrow> (case asFilesystemError t e of Some (n, _) \<Rightarrow> n | None \<Rightarrow> 500)
      | Captured _ \<Rightarrow> 500
      | _ \<Rightarrow> 200)"

definition finish :: "fs_error option \<Rightarrow> response" where
  "finish e = (case e of Some e \<Rightarrow> captured e | None \<Rightarrow> NoContent)"

text \<open>
  \<open>errgroup\<close>: the functions run in routines of their own and the first error cancels the others, which look once
  before they start. The list is in the order they start; the flag tells that a routine looked before an error came.
\<close>

fun group :: "('a \<Rightarrow> ('e option, 's) fsop) \<Rightarrow> (bool \<times> 'a) list \<Rightarrow> 'e option \<Rightarrow> ('e option, 's) fsop" where
  "group f [] failed w = Some (failed, w)"
| "group f ((early, x) # xs) failed w =
     (if failed \<noteq> None \<and> \<not> early then group f xs failed w
      else do {
        (e, w) \<leftarrow> f x w;
        group f xs (if failed = None then e else failed) w })"

section \<open>Handlers\<close>

definition getServerFileContents :: "'w site \<Rightarrow> string \<Rightarrow> bool \<Rightarrow> (response, quota \<times> 'w) fsop" where
  "getServerFileContents H file_query download w =
     (let p = dropWhile (\<lambda>c. c = slash) file_query
      in case IsIgnored H [p] of
           Some e \<Rightarrow> Some (captured e, w)
         | None \<Rightarrow> do {
             (r, w) \<leftarrow> fs_File H p w;
             case r of
               Inl e \<Rightarrow>
                 Some (if fs_is ErrNotExist e then Refused 404 ''The requested resources was not found on the system.''
                       else if Has (fs_Error (si_text H) e) ''filesystem: is a directory''
                       then Refused 400 ''Cannot perform that action: file is a directory.''
                       else captured e, w)
             | Inr (fd, st) \<Rightarrow> do {
                 (resp, w) \<leftarrow> (if fi_mode (es_info st) AND ModeNamedPipe \<noteq> 0
                   then Some (Refused 400 ''Cannot open files of this type.'', w)
                   else do {
                     (data, w) \<leftarrow> io_op (si_read H fd) w;
                     let size = fi_size (es_info st);
                     Some (Content size (es_mime st) (if download then Some (fi_name (es_info st)) else None)
                             (take (nat size) data), w) });
                 (_, w) \<leftarrow> do_close (lifted (si_kernel H)) [fd] w;
                 Some (resp, w) } })"

definition getServerListDirectory :: "'w site \<Rightarrow> string \<Rightarrow> (response, quota \<times> 'w) fsop" where
  "getServerListDirectory H dir w = do {
     (r, w) \<leftarrow> ListDirectory (lifted (si_kernel H)) (lifted_io (si_io H)) (si_fs H) dir w;
     Some (case r of
       Inl e \<Rightarrow> if is_sentinel ErrNotExist e then Refused 404 ''The requested directory was not found on the server.''
                else captured (FsUnder e)
     | Inr out \<Rightarrow> Listing out, w) }"

record rename_file =
  rn_To :: string
  rn_From :: string

definition rename_one :: "'w site \<Rightarrow> string \<Rightarrow> rename_file \<Rightarrow> (fs_error option, quota \<times> 'w) fsop" where
  "rename_one H root p w =
     (let pf = Join [root, rn_From p]; pt = Join [root, rn_To p]
      in case IsIgnored H [pf, pt] of
           Some e \<Rightarrow> Some (Some e, w)
         | None \<Rightarrow> do {
             (e, w) \<leftarrow> Rename (lifted (si_kernel H)) (fsys_unix (si_fs H)) pf pt w;
             Some (case e of
               None \<Rightarrow> None
             | Some e \<Rightarrow> if is_sentinel ErrNotExist e then None else Some (FsUnder e), w) })"

definition putServerRenameFiles :: "'w site \<Rightarrow> string \<Rightarrow> (bool \<times> rename_file) list \<Rightarrow> (response, quota \<times> 'w) fsop" where
  "putServerRenameFiles H root files w =
     (if files = [] then Some (Refused 422 ''No files to move or rename were provided.'', w)
      else do {
        (e, w) \<leftarrow> group (rename_one H root) files None w;
        Some (case e of
          None \<Rightarrow> NoContent
        | Some e \<Rightarrow> if fs_is ErrExist e then Refused 400 ''Cannot move or rename file, destination already exists.''
                    else captured e, w) })"

definition postServerCopyFile :: "'w site \<Rightarrow> string \<Rightarrow> (response, quota \<times> 'w) fsop" where
  "postServerCopyFile H location w =
     (case IsIgnored H [location] of
        Some e \<Rightarrow> Some (captured e, w)
      | None \<Rightarrow> do {
          (e, w) \<leftarrow> Copy (si_kernel H) (si_io H) (si_fs H) (si_now H) location w;
          Some (finish e, w) })"

definition delete_one :: "'w site \<Rightarrow> string \<Rightarrow> string \<Rightarrow> (fs_error option, quota \<times> 'w) fsop" where
  "delete_one H root p w = do {
     (e, w) \<leftarrow> SafeDeleteRecursively (si_kernel H) (si_fs H) (si_fuel H) (si_ignored H) (si_fuel H) (Join [root, p]) w;
     Some (map_option FsUnder e, w) }"

definition postServerDeleteFiles :: "'w site \<Rightarrow> string \<Rightarrow> (bool \<times> string) list \<Rightarrow> (response, quota \<times> 'w) fsop" where
  "postServerDeleteFiles H root files w =
     (if files = [] then Some (Refused 422 ''No files were specified for deletion.'', w)
      else do {
        (e, w) \<leftarrow> group (delete_one H root) files None w;
        Some (finish e, w) })"

definition postServerWriteFile :: "'w site \<Rightarrow> string \<Rightarrow> int \<Rightarrow> (response, quota \<times> 'w) fsop" where
  "postServerWriteFile H file_query contentLength w =
     (let f = ''/'' @ dropWhile (\<lambda>c. c = slash) file_query
      in case IsIgnored H [f] of
           Some e \<Rightarrow> Some (captured e, w)
         | None \<Rightarrow>
             if contentLength = -1 then Some (Refused 400 ''Missing Content-Length'', w)
             else do {
               (e, w) \<leftarrow> Write (si_kernel H) (si_io H) (si_fs H) f contentLength 0x1A4 w;
               Some (case e of
                 None \<Rightarrow> NoContent
               | Some e \<Rightarrow>
                   if IsErrorCode e ErrCodeIsDirectory
                   then Refused 400 ''Cannot write file, name conflicts with an existing directory by the same name.''
                   else captured e, w) })"

definition postServerCreateDirectory :: "'w site \<Rightarrow> string \<Rightarrow> string \<Rightarrow> (response, quota \<times> 'w) fsop" where
  "postServerCreateDirectory H name path w = do {
     (e, w) \<leftarrow> CreateDirectory (lifted (si_kernel H)) (si_fs H) name path w;
     case e of
       Some e \<Rightarrow>
         Some (if is_sentinel ErrNotDirectory e then Refused 400 ''Part of the path being created is not a directory (ENOTDIR).''
               else if is_sentinel ErrExist e
               then Refused 400 ''Cannot create directory, name conflicts with an existing file by the same name.''
               else captured (FsUnder e), w)
     | None \<Rightarrow> do {
         (e, w) \<leftarrow> fs_Chown (lifted (si_kernel H)) (si_fs H) (si_fuel H) (Join [path, name]) w;
         Some (finish e, w) } }"

text \<open>\<open>strconv.ParseUint\<close> to base eight with thirty-two bits.\<close>

definition octal_digit :: "char \<Rightarrow> bool" where
  "octal_digit c \<longleftrightarrow> c \<in> set ''01234567''"

definition ParseUint8 :: "string \<Rightarrow> nat option" where
  "ParseUint8 s =
     (let n = foldl (\<lambda>n c. 8 * n + (of_char c - 48)) 0 s
      in if s \<noteq> [] \<and> list_all octal_digit s \<and> n < 2 ^ 32 then Some n else None)"

text \<open>\<open>strconv.FormatUint\<close> to base eight: how \<open>Stat.MarshalJSON\<close> shows the permission bits of a file.\<close>

fun FormatUint8 :: "nat \<Rightarrow> string" where
  "FormatUint8 n = (if n < 8 then [digit_char n] else FormatUint8 (n div 8) @ [digit_char (n mod 8)])"

declare FormatUint8.simps [simp del]

definition mode_bits :: "entry_stat \<Rightarrow> string" where
  "mode_bits s = FormatUint8 (unat (fi_mode (es_info s) AND ModePerm))"

record chmod_file =
  ch_File :: string
  ch_Mode :: string

definition chmod_one :: "'w site \<Rightarrow> string \<Rightarrow> chmod_file \<Rightarrow> (request_error option, quota \<times> 'w) fsop" where
  "chmod_one H root p w =
     (case ParseUint8 (ch_Mode p) of
        None \<Rightarrow> Some (Some ReqMode, w)
      | Some mode \<Rightarrow> do {
          (e, w) \<leftarrow> Chmod (lifted (si_kernel H)) (fsys_unix (si_fs H)) (Join [root, ch_File p]) (of_nat mode) w;
          Some (case e of
            None \<Rightarrow> None
          | Some e \<Rightarrow> if is_sentinel ErrNotExist e then None else Some (ReqFs (FsUnder e)), w) })"

definition postServerChmodFile :: "'w site \<Rightarrow> string \<Rightarrow> (bool \<times> chmod_file) list \<Rightarrow> (response, quota \<times> 'w) fsop" where
  "postServerChmodFile H root files w =
     (if files = [] then Some (Refused 422 ''No files to chmod were provided.'', w)
      else do {
        (e, w) \<leftarrow> group (chmod_one H root) files None w;
        Some (case e of
          None \<Rightarrow> NoContent
        | Some ReqMode \<Rightarrow> Refused 400 ''Invalid file mode.''
        | Some e \<Rightarrow> Captured e, w) })"

section \<open>Signed links\<close>

text \<open>The tokens of downloads and uploads: the server, the one-time identifier, the user and the path of the file.\<close>

record link_payload =
  lk_ServerUuid :: string
  lk_UniqueId :: string
  lk_UserUuid :: string
  lk_FilePath :: string

text \<open>
  What the three handlers begin with. \<open>known\<close> are the servers of the node; a token for another server is not marked
  as used.
\<close>

definition redeem ::
  "link_payload jwt \<Rightarrow> 'c token_cache \<Rightarrow> (string \<Rightarrow> bool) \<Rightarrow> int \<Rightarrow> string \<Rightarrow> 'c \<Rightarrow> (response + link_payload) \<times> 'c" where
  "redeem J C known now token c =
     (case ParseToken J now token of
        Inl e \<Rightarrow> (Inl (Captured (ReqToken e)), c)
      | Inr p \<Rightarrow>
          let missing = Inl (Refused 404 ''The requested resource was not found on this server.'')
          in if \<not> known (lk_ServerUuid p) then (missing, c)
             else (case IsValidToken C now (lk_UniqueId p) c of (ok, c) \<Rightarrow> (if ok then Inr p else missing, c)))"

definition getDownloadFile :: "'w site \<Rightarrow> link_payload \<Rightarrow> (response, quota \<times> 'w) fsop" where
  "getDownloadFile H token w =
     (case IsIgnored H [lk_FilePath token] of
        Some e \<Rightarrow> Some (captured e, w)
      | None \<Rightarrow> do {
          (r, w) \<leftarrow> fs_File H (lk_FilePath token) w;
          case r of
            Inl e \<Rightarrow> Some (captured e, w)
          | Inr (fd, st) \<Rightarrow> do {
              (resp, w) \<leftarrow> (if es_IsDir st then Some (Refused 404 ''The requested resource was not found on this server.'', w)
                else do {
                  (data, w) \<leftarrow> io_op (si_read H fd) w;
                  Some (Content (fi_size (es_info st)) ''application/octet-stream'' (Some (fi_name (es_info st))) data, w) });
              (_, w) \<leftarrow> do_close (lifted (si_kernel H)) [fd] w;
              Some (resp, w) } })"

text \<open>The headers of a multipart form; \<open>uh_open\<close> is the error of opening a part.\<close>

record upload =
  uh_Filename :: string
  uh_Size :: int
  uh_open :: "err option"

definition handleFileUpload :: "'w site \<Rightarrow> string \<Rightarrow> upload \<Rightarrow> (fs_error option, quota \<times> 'w) fsop" where
  "handleFileUpload H p header w =
     (case uh_open header of
        Some e \<Rightarrow> Some (Some (FsUnder e), w)
      | None \<Rightarrow> (case IsIgnored H [p] of
          Some e \<Rightarrow> Some (Some e, w)
        | None \<Rightarrow> Write (si_kernel H) (si_io H) (si_fs H) p (uh_Size header) 0x1A4 w))"

text \<open>The files are stored one after another up to the first error; the names stored so far go into the activity log.\<close>

fun store_uploads :: "'w site \<Rightarrow> string \<Rightarrow> upload list \<Rightarrow> string list \<Rightarrow> (response \<times> string list, quota \<times> 'w) fsop" where
  "store_uploads H directory [] stored w = Some ((Uploaded, stored), w)"
| "store_uploads H directory (h # hs) stored w = do {
     (e, w) \<leftarrow> handleFileUpload H (Join [directory, uh_Filename h]) h w;
     case e of
       Some e \<Rightarrow> Some ((captured e, stored), w)
     | None \<Rightarrow> store_uploads H directory hs (stored @ [uh_Filename h]) w }"

definition max_upload :: "int \<Rightarrow> int" where
  "max_upload limit = wrap64 (wrap64 (limit * 1024) * 1024)"

text \<open>\<open>form\<close> is the decoded form, \<open>None\<close> when that failed; its files are \<open>None\<close> when the field is missing.\<close>

definition postServerUploadFiles ::
  "'w site \<Rightarrow> int \<Rightarrow> string \<Rightarrow> upload list option option \<Rightarrow> (response \<times> string list, quota \<times> 'w) fsop" where
  "postServerUploadFiles H limit directory form w =
     (case form of
        None \<Rightarrow> Some ((Refused 400 ''Failed to get multipart form data from request.'', []), w)
      | Some None \<Rightarrow> Some ((Refused 400 ''No files were found on the request body.'', []), w)
      | Some (Some headers) \<Rightarrow>
          (case find (\<lambda>h. uh_Size h > max_upload limit) headers of
             Some h \<Rightarrow> Some ((Refused 400 (''File '' @ uh_Filename h @ '' is larger than the maximum file upload size of '' @
                                 Itoa limit @ '' MB.''), []), w)
           | None \<Rightarrow> store_uploads H directory headers [] w))"

section \<open>Authorization\<close>

text \<open>\<open>RequireAuthorization\<close>: the header must be the word Bearer, one blank and the token of the node.\<close>

definition RequireAuthorization :: "string \<Rightarrow> string \<Rightarrow> response option" where
  "RequireAuthorization secret header =
     (case SplitN2 (CHR '' '') header of
        [scheme, t] \<Rightarrow>
          if scheme \<noteq> ''Bearer'' then Some (Refused 401 ''The required authorization heads were not present in the request.'')
          else if t \<noteq> secret then Some (Refused 403 ''You are not authorized to access this endpoint.'')
          else None
      | _ \<Rightarrow> Some (Refused 401 ''The required authorization heads were not present in the request.''))"

definition ServerExists :: "('s \<Rightarrow> string) \<Rightarrow> 's list \<Rightarrow> string \<Rightarrow> 's option" where
  "ServerExists uuid servers param = (if param \<noteq> [] then find (\<lambda>s. param = uuid s) servers else None)"

text \<open>\<open>SetAccessControlHeaders\<close>: the origin a browser is told to allow.\<close>

definition allowed_origin :: "string \<Rightarrow> string list \<Rightarrow> string \<Rightarrow> string" where
  "allowed_origin location origins origin =
     (if origin \<noteq> location
      then (case find (\<lambda>x. \<not> (x \<noteq> ''*'' \<and> x \<noteq> origin)) origins of Some x \<Rightarrow> x | None \<Rightarrow> location)
      else location)"

end
