(* ===== verification/RouterFilesProps.thy ===== *)
theory RouterFilesProps
  imports RouterFiles
begin

text \<open>
  The guarantees of the file handlers: they stay inside the server's directory whatever they are asked, respect the
  denylist for the path they are given, store uploads only when all of them are small enough, and honour a signed link
  once.
\<close>

section \<open>Confinement\<close>

datatype file_request =
    ReqContents string bool | ReqListing string | ReqRename string "(bool \<times> rename_file) list" | ReqCopy string
  | ReqDelete string "(bool \<times> string) list" | ReqWrite string int | ReqCreateDirectory string string
  | ReqChmod string "(bool \<times> chmod_file) list" | ReqDownload link_payload | ReqUpload int string "upload list option option"

fun serve :: "'w site \<Rightarrow> file_request \<Rightarrow> (response, quota \<times> 'w) fsop" where
  "serve H (ReqContents f d) = getServerFileContents H f d"
| "serve H (ReqListing d) = getServerListDirectory H d"
| "serve H (ReqRename root fs) = putServerRenameFiles H root fs"
| "serve H (ReqCopy l) = postServerCopyFile H l"
| "serve H (ReqDelete root fs) = postServerDeleteFiles H root fs"
| "serve H (ReqWrite f n) = postServerWriteFile H f n"
| "serve H (ReqCreateDirectory name p) = postServerCreateDirectory H name p"
| "serve H (ReqChmod root fs) = postServerChmodFile H root fs"
| "serve H (ReqDownload t) = getDownloadFile H t"
| "serve H (ReqUpload limit d form) =
     (\<lambda>w. do { ((r, _), w) \<leftarrow> postServerUploadFiles H limit d form w; Some (r, w) })"

fun serve_all :: "'w site \<Rightarrow> file_request list \<Rightarrow> (response list, quota \<times> 'w) fsop" where
  "serve_all H [] w = Some ([], w)"
| "serve_all H (r # rs) w = do { (a, w) \<leftarrow> serve H r w; (as, w) \<leftarrow> serve_all H rs w; Some (a # as, w) }"

definition traced_site :: "'w site \<Rightarrow> ('w \<times> call list) site" where
  "traced_site H =
     \<lparr>si_kernel = traced (si_kernel H), si_io = traced_io (si_io H), si_fs = si_fs H, si_ignored = si_ignored H,
      si_seek = (\<lambda>d. beneath (si_seek H d)), si_read = (\<lambda>d. beneath (si_read H d)), si_fuel = si_fuel H,
      si_now = si_now H, si_text = si_text H\<rparr>"

lemma traced_site_simps [simp]:
  "si_kernel (traced_site H) = traced (si_kernel H)" "si_io (traced_site H) = traced_io (si_io H)"
  "si_fs (traced_site H) = si_fs H" "si_seek (traced_site H) d = beneath (si_seek H d)"
  "si_read (traced_site H) d = beneath (si_read H d)" "si_now (traced_site H) = si_now H"
  "si_fuel (traced_site H) = si_fuel H" "IsIgnored (traced_site H) = IsIgnored H"
  by (simp_all add: traced_site_def IsIgnored_def fun_eq_iff)

text \<open>\<open>placed\<close>: the server's directory is the base of the confined kernel and the clock of copies writes no slash.\<close>

definition placed :: "string \<Rightarrow> 'w site \<Rightarrow> bool" where
  "placed base H \<longleftrightarrow> beside.on_base base (fsys_unix (si_fs H)) \<and> slash \<notin> set (si_now H)"

lemma placed_base: "placed base H \<Longrightarrow> beside.on_base base (fsys_unix (si_fs H))"
  by (simp add: placed_def)

lemma keeps_statFromFile [keeps_intros]: "beside.keeps base ns (statFromFile (traced_site H) name fd)"
  unfolding statFromFile_def Let_def traced_site_simps traced_io_simps by (auto intro!: keeps_intros)

lemma keeps_fs_File [keeps_intros]: "placed base H \<Longrightarrow> beside.keeps base ns (fs_File (traced_site H) p)"
  unfolding fs_File_def traced_site_simps by (auto intro!: keeps_intros dest: placed_base)

lemma keeps_group:
  assumes "\<And>x. beside.keeps base ns (f x)"
  shows "beside.keeps base ns (group f xs failed)"
proof (induction xs arbitrary: failed)
  case Nil
  show ?case by (simp add: beside.keeps_def)
next
  case (Cons x xs)
  obtain early y where x: "x = (early, y)" by force
  have "beside.keeps base ns (\<lambda>w. group f ((early, y) # xs) failed w)"
    unfolding group.simps using assms Cons by (auto intro!: keeps_intros)
  with x show ?case by simp
qed

lemma keeps_rename_one: "placed base H \<Longrightarrow> beside.keeps base ns (rename_one (traced_site H) root p)"
  unfolding rename_one_def Let_def traced_site_simps by (auto intro!: keeps_intros dest: placed_base)

lemma keeps_delete_one: "placed base H \<Longrightarrow> beside.keeps base ns (delete_one (traced_site H) root p)"
  unfolding delete_one_def traced_site_simps by (auto intro!: keeps_intros keeps_SafeDelete dest: placed_base)

lemma keeps_chmod_one: "placed base H \<Longrightarrow> beside.keeps base ns (chmod_one (traced_site H) root p)"
  unfolding chmod_one_def traced_site_simps by (auto intro!: keeps_intros dest: placed_base)

lemma keeps_upload_one: "placed base H \<Longrightarrow> beside.keeps base ns (handleFileUpload (traced_site H) p h)"
  unfolding handleFileUpload_def traced_site_simps by (auto intro!: keeps_intros keeps_Write dest: placed_base)

lemma keeps_store_uploads: "placed base H \<Longrightarrow> beside.keeps base ns (store_uploads (traced_site H) d hs stored)"
proof (induction hs arbitrary: stored)
  case Nil
  show ?case by (simp add: beside.keeps_def)
next
  case (Cons h hs)
  have "beside.keeps base ns (\<lambda>w. store_uploads (traced_site H) d (h # hs) stored w)"
    unfolding store_uploads.simps using Cons by (auto intro!: keeps_intros keeps_upload_one)
  then show ?case by simp
qed

lemma keeps_serve:
  assumes "placed base H"
  shows "beside.keeps base {} (serve (traced_site H) r)"
proof (cases r)
  case (ReqContents f d)
  with assms show ?thesis
    unfolding serve.simps getServerFileContents_def Let_def traced_site_simps ReqContents by (auto intro!: keeps_intros)
next
  case (ReqListing d)
  with placed_base [OF assms] show ?thesis
    unfolding serve.simps getServerListDirectory_def traced_site_simps ReqListing
    by (auto intro!: keeps_intros keeps_ListDirectory)
next
  case (ReqRename root fs)
  with assms show ?thesis
    unfolding serve.simps putServerRenameFiles_def ReqRename by (auto intro!: keeps_intros keeps_group keeps_rename_one)
next
  case (ReqCopy l)
  with assms show ?thesis
    unfolding serve.simps postServerCopyFile_def traced_site_simps ReqCopy placed_def
    by (auto intro!: keeps_intros keeps_Copy)
next
  case (ReqDelete root fs)
  with assms show ?thesis
    unfolding serve.simps postServerDeleteFiles_def ReqDelete by (auto intro!: keeps_intros keeps_group keeps_delete_one)
next
  case (ReqWrite f n)
  with placed_base [OF assms] show ?thesis
    unfolding serve.simps postServerWriteFile_def Let_def traced_site_simps ReqWrite by (auto intro!: keeps_intros keeps_Write)
next
  case (ReqCreateDirectory name p)
  with placed_base [OF assms] show ?thesis
    unfolding serve.simps postServerCreateDirectory_def CreateDirectory_def traced_site_simps ReqCreateDirectory
    by (auto intro!: keeps_intros beside.keeps_fs_Chown)
next
  case (ReqChmod root fs)
  with assms show ?thesis
    unfolding serve.simps postServerChmodFile_def ReqChmod by (auto intro!: keeps_intros keeps_group keeps_chmod_one)
next
  case (ReqDownload t)
  with assms show ?thesis
    unfolding serve.simps getDownloadFile_def traced_site_simps ReqDownload by (auto intro!: keeps_intros)
next
  case (ReqUpload limit d form)
  with assms show ?thesis
    unfolding serve.simps postServerUploadFiles_def ReqUpload by (auto intro!: keeps_intros keeps_store_uploads)
qed

lemma keeps_serve_all: "placed base H \<Longrightarrow> beside.keeps base {} (serve_all (traced_site H) rs)"
proof (induction rs)
  case Nil
  show ?case by (simp add: beside.keeps_def)
next
  case (Cons r rs)
  then have "beside.keeps base {} (\<lambda>w. serve_all (traced_site H) (r # rs) w)"
    unfolding serve_all.simps by (auto intro!: keeps_intros keeps_serve)
  then show ?case by simp
qed


definition example_site :: "nat site" where
  "example_site =
     \<lparr>si_kernel = counting_kernel, si_io = still_io, si_fs = example_fs, si_ignored = (\<lambda>p. p = ''config/secret''),
      si_seek = (\<lambda>_ w. (None, w)), si_read = (\<lambda>_ w. (''data'', w)), si_fuel = 5, si_now = ''now'', si_text = (\<lambda>_. ''error'')\<rparr>"

lemma example_site_simps [simp]: "si_kernel example_site = counting_kernel" "si_io example_site = still_io"
  "si_fs example_site = example_fs" "si_ignored example_site = (\<lambda>p. p = ''config/secret'')"
  "si_seek example_site = (\<lambda>_ w. (None, w))" "si_read example_site = (\<lambda>_ w. (''data'', w))"
  by (simp_all add: example_site_def)


section \<open>The denylist\<close>

text \<open>The path a request gives for the file it reads or writes.\<close>

fun subject :: "file_request \<Rightarrow> string option" where
  "subject (ReqContents f d) = Some (dropWhile (\<lambda>c. c = slash) f)"
| "subject (ReqCopy l) = Some l"
| "subject (ReqWrite f n) = Some (''/'' @ dropWhile (\<lambda>c. c = slash) f)"
| "subject (ReqDownload t) = Some (lk_FilePath t)"
| "subject (ReqRename root [(early, p)]) = Some (Join [root, rn_From p])"
| "subject _ = None"

lemma denied_status: "status_of t (captured (FsDenylist p)) = 403 \<or> status_of t (captured (FsDenylist p)) = 404"
  by (auto simp: status_of_def captured_def asFilesystemError_def Let_def IsErrorCode_def)

text \<open>A request to read, write, copy, download or rename a path on the denylist is refused, as forbidden or as not
  found, and nothing changes.\<close>

theorem denylist_respected:
  assumes "subject r = Some p" "si_ignored H p"
  shows "\<exists>a. serve H r w = Some (a, w) \<and> status_of t a \<in> {403, 404}"
proof -
  have ignored: "IsIgnored H [p] = Some (FsDenylist p)" "IsIgnored H [p, p'] = Some (FsDenylist p)" for p'
    using assms(2) by (simp_all add: IsIgnored_def)
  have "serve H r w = Some (captured (FsDenylist p), w)"
    using assms(1) ignored
    by (cases r rule: subject.cases)
      (auto simp: getServerFileContents_def postServerCopyFile_def postServerWriteFile_def getDownloadFile_def
        putServerRenameFiles_def rename_one_def Let_def)
  with denied_status show ?thesis by (cases w) auto
qed

theorem denylist_respected_witness:
  "\<exists>a. serve example_site (ReqCopy ''config/secret'') (NewQuota 0, 3) = Some (a, (NewQuota 0, 3)) \<and> status_of (\<lambda>_. []) a \<in> {403, 404}"
  by (rule denylist_respected [where p = "''config/secret''"]) simp_all

lemma with_path_alias: "unsafePath (basePath fs) p = unsafePath (basePath fs) q \<Longrightarrow>
    with_path K fs p f b = with_path K fs q f b"
  by (simp add: with_path_def safePath_def fun_eq_iff)

text \<open>The denylist sees the path as it was spelled: another spelling of a denied path opens the same file, from the
  same directory and with the same name, and is not refused.\<close>

theorem denylist_sees_spelling:
  assumes "unsafePath (basePath (fsys_unix (si_fs H))) p = unsafePath (basePath (fsys_unix (si_fs H))) q"
    "si_ignored H p" "\<not> si_ignored H q"
  shows "IsIgnored H [p] \<noteq> None \<and> IsIgnored H [q] = None \<and>
    Open K (fsys_unix (si_fs H)) q = Open K (fsys_unix (si_fs H)) p"
proof -
  have "openFile K (fsys_unix (si_fs H)) q = openFile K (fsys_unix (si_fs H)) p" 
    by (intro ext) (simp only: openFile_def with_path_alias [OF assms(1)])
  then show ?thesis
    using assms(2,3) by (simp add: IsIgnored_def Open_def OpenFile_def fun_eq_iff)
qed

theorem denylist_sees_spelling_witness:
  "IsIgnored example_site [''config/x/../secret''] = None \<and>
   Open counting_kernel (fsys_unix example_fs) ''config/x/../secret'' = Open counting_kernel (fsys_unix example_fs) ''config/secret''"
proof -
  have "unsafePath ''/srv'' ''config/secret'' = unsafePath ''/srv'' ''config/x/../secret''" by code_simp
  then show ?thesis
    using denylist_sees_spelling [of example_site "''config/secret''" "''config/x/../secret''" counting_kernel]
    by (simp add: example_fs_def)
qed

section \<open>Directories opened as files\<close>

text \<open>Reading the contents of a directory is refused, but the descriptor that was opened for it is not closed: nothing
  happens on the system between reading its attributes and the end of the request.\<close>

theorem directory_left_open:
  assumes "Open (lifted (si_kernel H)) (fsys_unix (si_fs H)) p w = Some (Inr fd, (q, v))"
    "fio_stat (si_io H) fd v = (Inr s, v')" "fi_IsDir (fillFileStatFromSys s p)"
    "p = dropWhile (\<lambda>c. c = slash) f" "\<not> si_ignored H p"
  shows "getServerFileContents H f d w =
    Some (Refused 400 ''Cannot perform that action: file is a directory.'', (q, v'))"
proof -
  have "sublist ''filesystem: is a directory'' ''filesystem: is a directory''" by simp
  with assms show ?thesis
    by (simp add: getServerFileContents_def fs_File_def statFromFile_def IsIgnored_def io_op_def sys_def lift_call_def
        es_IsDir_def Has_def)
qed

text \<open>The kernel has handed out the descriptors 3 and 4, and only the one of the base directory was closed.\<close>

definition directory_io :: "(nat \<times> call list) file_io" where
  "directory_io = still_io\<lparr>fio_stat :=
    (\<lambda>d w. (Inr \<lparr>st_mode = S_IFDIR, st_size = 0, st_mtime = 0, st_ino = 1, st_nlink = 1\<rparr>, w))\<rparr>"

definition directory_site :: "(nat \<times> call list) site" where
  "directory_site = (traced_site example_site)\<lparr>si_io := directory_io\<rparr>"

theorem directory_left_open_witness:
  "getServerFileContents directory_site ''d'' False (NewQuota 0, 3, []) =
     Some (Refused 400 ''Cannot perform that action: file is a directory.'',
       (NewQuota 0, 5, [CallClose 3, CallOpen 3 ''d'' (O_NOFOLLOW OR O_CLOEXEC) (Some 4),
          CallOpen AT_EMPTY_PATH ''/srv'' (O_DIRECTORY OR O_CLOEXEC) (Some 3)]))"
proof -
  let ?H = directory_site
  let ?v = "(5, [CallClose 3, CallOpen 3 ''d'' (O_NOFOLLOW OR O_CLOEXEC) (Some 4),
          CallOpen AT_EMPTY_PATH ''/srv'' (O_DIRECTORY OR O_CLOEXEC) (Some 3)])"
  have path: "unsafePath ''/srv'' ''d'' = Ok ''d''" "Split ''d'' = ([], ''d'')" by code_simp+
  have opened: "Open (lifted (si_kernel ?H)) (fsys_unix (si_fs ?H)) ''d'' (NewQuota 0, 3, []) = Some (Inr 4, (NewQuota 0, ?v))"
    by (simp add: directory_site_def example_fs_def path Open_def OpenFile_def openFile_def with_path_def safePath_def raw_openat_def raw_openat2_def
        openat_def open_loop.simps Let_def do_close_def close_all_def sys_def traced_def lifted_def lift_call_def
        record_call_def opened_def counting_kernel_def errno_err_def flag_defs)
  have dir: "fi_IsDir (fillFileStatFromSys \<lparr>st_mode = S_IFDIR, st_size = 0, st_mtime = 0, st_ino = 1, st_nlink = 1\<rparr> ''d'')"
    by (simp add: fi_IsDir_def fillFileStatFromSys_def mode_from_sys_def type_bits_def mode_defs)
  show ?thesis
    by (rule directory_left_open [OF opened _ dir]) (simp_all add: directory_site_def directory_io_def traced_site_def)
qed

section \<open>Modes\<close>

lemma octal_value:
  assumes "n < 8"
  shows "octal_digit (digit_char n) \<and> of_char (digit_char n) = n + 48"
proof -
  have "of_char (digit_char n) = n + 48"
    using assms by (simp add: digit_char_def)
  moreover have "\<forall>k \<in> set [0..<8]. octal_digit (digit_char k)"
    unfolding octal_digit_def digit_char_def by code_simp
  ultimately show ?thesis using assms by simp
qed

lemma FormatUint8_value: "foldl (\<lambda>n c. 8 * n + (of_char c - 48)) 0 (FormatUint8 n) = n \<and>
    list_all octal_digit (FormatUint8 n) \<and> FormatUint8 n \<noteq> []"
proof (induction n rule: FormatUint8.induct)
  case (1 n)
  show ?case
  proof (cases "n < 8")
    case True
    then have "FormatUint8 n = [digit_char n]" by (subst FormatUint8.simps) simp
    with True octal_value [of n] show ?thesis by simp
  next
    case False
    then have eq: "FormatUint8 n = FormatUint8 (n div 8) @ [digit_char (n mod 8)]" by (subst FormatUint8.simps) simp
    have "octal_digit (digit_char (n mod 8)) \<and> of_char (digit_char (n mod 8)) = n mod 8 + 48" by (rule octal_value) simp
    with 1 [OF False] show ?thesis by (simp add: eq)
  qed
qed

text \<open>The permissions a listing shows for a file, sent back as a mode, are read as the same permissions.\<close>

theorem mode_bits_roundtrip:
  "ParseUint8 (mode_bits s) = Some (unat (fi_mode (es_info s) AND ModePerm))"
proof -
  have "unat (fi_mode (es_info s) AND ModePerm) < 2 ^ 32"
    using unsigned_less [of "fi_mode (es_info s) AND ModePerm"] by simp
  then show ?thesis
    using FormatUint8_value [of "unat (fi_mode (es_info s) AND ModePerm)"]
    by (simp add: mode_bits_def ParseUint8_def Let_def)
qed

section \<open>Uploads\<close>

text \<open>If one of the files of an upload is larger than the limit, the upload is refused and none of its files is
  stored.\<close>

theorem oversized_upload_refused:
  assumes "0 \<le> limit" "limit < 2 ^ 40" "h \<in> set hs" "uh_Size h > limit * 1024 * 1024"
  shows "\<exists>m. postServerUploadFiles H limit d (Some (Some hs)) w = Some ((Refused 400 m, []), w)"
proof -
  have "max_upload limit = limit * 1024 * 1024"
    using assms(1,2) by (simp add: max_upload_def wrap64_mono_nonneg)
  with assms(3,4) have "find (\<lambda>h. uh_Size h > max_upload limit) hs \<noteq> None"
    by (auto simp: find_None_iff)
  then show ?thesis by (auto simp: postServerUploadFiles_def split: option.split)
qed

theorem oversized_upload_refused_witness:
  "\<exists>m. postServerUploadFiles example_site 1 ''d'' (Some (Some [\<lparr>uh_Filename = ''a'', uh_Size = 3, uh_open = None\<rparr>,
      \<lparr>uh_Filename = ''b'', uh_Size = 1048577, uh_open = None\<rparr>])) (NewQuota 0, 3) = Some ((Refused 400 m, []), (NewQuota 0, 3))"
  by (rule oversized_upload_refused [where h = "\<lparr>uh_Filename = ''b'', uh_Size = 1048577, uh_open = None\<rparr>"]) simp_all

section \<open>Signed links\<close>

fun redeem_all :: "link_payload jwt \<Rightarrow> 'c token_cache \<Rightarrow> (string \<Rightarrow> bool) \<Rightarrow> (int \<times> string) list \<Rightarrow> 'c \<Rightarrow>
    (response + link_payload) list \<times> 'c" where
  "redeem_all J C known [] c = ([], c)"
| "redeem_all J C known ((now, t) # us) c =
     (case redeem J C known now t c of (r, c) \<Rightarrow> (case redeem_all J C known us c of (rs, c) \<Rightarrow> (r # rs, c)))"

lemma redeem_until:
  assumes "cache_keeps C until" "redeem J C known now t c = (r, c')"
  shows "until c x k \<longrightarrow> until c' x k" "r = Inr p \<longrightarrow> until c' (now + token_ttl) (lk_UniqueId p)"
    "until c x k \<longrightarrow> now < x \<longrightarrow> r = Inr p \<longrightarrow> lk_UniqueId p \<noteq> k"
  using assms by (auto simp: redeem_def IsValidToken_def Let_def cache_keeps_def split: sum.splits if_splits)

text \<open>C4: A signed link is honoured once: after it has been, no link with the same identifier is honoured for the next
  sixty minutes, whatever links are presented in between.\<close>

theorem link_honoured_once:
  assumes "cache_keeps C until" "redeem J C known now t c = (Inr p, c')"
    "redeem_all J C known us c' = (rs, c'')" "i < length us" "fst (us ! i) < now + token_ttl" "rs ! i = Inr p'"
  shows "lk_UniqueId p' \<noteq> lk_UniqueId p"
proof -
  have "until c' (now + token_ttl) (lk_UniqueId p)"
    using redeem_until(2) [OF assms(1,2)] by simp
  with assms(3-6) show ?thesis
  proof (induction us arbitrary: i c' rs)
    case (Cons u us)
    obtain at t where u: "u = (at, t)" by force
    obtain r c1 where r: "redeem J C known at t c' = (r, c1)" by force
    note facts = redeem_until [OF assms(1) r]
    from Cons.prems(1) u r obtain rs' where rs: "rs = r # rs'" "redeem_all J C known us c1 = (rs', c'')"
      by (auto split: prod.splits)
    show ?case
    proof (cases i)
      case 0
      with Cons.prems u rs facts(3) show ?thesis by auto
    next
      case (Suc j)
      with Cons.prems rs facts(1) show ?thesis by (intro Cons.IH [OF rs(2), of j]) auto
    qed
  qed simp
qed

definition example_link :: "link_payload jwt" where
  "example_link = \<lparr>jw_Verify = (\<lambda>t vo. Inr \<lparr>lk_ServerUuid = ''s'', lk_UniqueId = t, lk_UserUuid = ''u'', lk_FilePath = ''f''\<rparr>),
     jw_expired = (\<lambda>_ _. False)\<rparr>"

theorem link_honoured_once_witness:
  "fst (redeem_all example_link list_cache (\<lambda>_. True) [(1, ''b''), (2, ''a'')]
      (snd (redeem example_link list_cache (\<lambda>_. True) 0 ''a'' []))) ! 1 \<noteq>
    Inr \<lparr>lk_ServerUuid = ''s'', lk_UniqueId = ''a'', lk_UserUuid = ''u'', lk_FilePath = ''f''\<rparr>"
proof
  let ?p = "\<lparr>lk_ServerUuid = ''s'', lk_UniqueId = ''a'', lk_UserUuid = ''u'', lk_FilePath = ''f''\<rparr>"
  let ?c = "snd (redeem example_link list_cache (\<lambda>_. True) 0 ''a'' [])"
  have first: "redeem example_link list_cache (\<lambda>_. True) 0 ''a'' [] = (Inr ?p, ?c)"
    by (simp add: redeem_def ParseToken_def example_link_def IsValidToken_def list_cache_def Let_def)
  obtain rs c where all: "redeem_all example_link list_cache (\<lambda>_. True) [(1, ''b''), (2, ''a'')] ?c = (rs, c)" by force
  assume "fst (redeem_all example_link list_cache (\<lambda>_. True) [(1, ''b''), (2, ''a'')] ?c) ! 1 = Inr ?p"
  with all have "rs ! 1 = Inr ?p" by simp
  from link_honoured_once [OF list_cache_keeps first all _ _ this] show False by simp
qed

section \<open>Authorization\<close>

text \<open>A request to the panel's endpoints is let through exactly when its header is the word Bearer, one blank and the
  token of the node.\<close>

theorem authorization_exact: "RequireAuthorization secret header = None \<longleftrightarrow> header = ''Bearer '' @ secret"
proof
  assume "RequireAuthorization secret header = None"
  then have "SplitN2 (CHR '' '') header = [''Bearer'', secret]"
    by (auto simp: RequireAuthorization_def split: list.splits if_splits)
  moreover from this have "CHR '' '' \<in> set header" by (auto simp: SplitN2_def split: if_splits)
  ultimately show "header = ''Bearer '' @ secret" using SplitN2_join by fastforce
next
  assume "header = ''Bearer '' @ secret"
  then show "RequireAuthorization secret header = None"
    by (simp add: RequireAuthorization_def SplitN2_def)
qed

end
