(* ===== verification/Remote.thy ===== *)
theory Remote
  imports Prelude Strconv "HOL-Library.Multiset"
begin

text \<open>
  The client of the panel's API (\<open>wings/remote\<close>): how a request is made, which failures are tried again, what errors
  become, and the calls the daemon makes. The network, the pauses between attempts and JSON are parameters; a request
  of the model is what goes over the wire.
\<close>

section \<open>Requests\<close>

record http_request =
  rq_method :: string
  rq_url :: string
  rq_query :: "(string \<times> string) list"
  rq_headers :: "string \<rightharpoonup> string"
  rq_body :: string

record http_response =
  rs_status :: int
  rs_body :: string

record panel_client =
  cl_baseUrl :: string
  cl_tokenId :: string
  cl_token :: string
  cl_version :: string
  cl_customHeaders :: "(string \<times> string) list"

text \<open>\<open>http.Header.Set\<close> spells the key canonically: capitals at the start and after a dash, small letters elsewhere. Keys
  with other characters than those of a token are kept as they are; they are left out here.\<close>

definition upper :: "char \<Rightarrow> char" where
  "upper c = (if (of_char c :: nat) \<in> {97..122} then char_of ((of_char c :: nat) - 32) else c)"

definition lower :: "char \<Rightarrow> char" where
  "lower c = (if (of_char c :: nat) \<in> {65..90} then char_of ((of_char c :: nat) + 32) else c)"

fun canonical_from :: "bool \<Rightarrow> string \<Rightarrow> string" where
  "canonical_from up [] = []"
| "canonical_from up (c # cs) = (if up then upper c else lower c) # canonical_from (c = CHR ''-'') cs"

definition canonical :: "string \<Rightarrow> string" where
  "canonical k = canonical_from True k"

definition header_Set :: "string \<Rightarrow> string \<Rightarrow> (string \<rightharpoonup> string) \<Rightarrow> (string \<rightharpoonup> string)" where
  "header_Set k v h = h(canonical k \<mapsto> v)"

definition criticalHeaders :: "string list" where
  "criticalHeaders = [''Authorization'', ''User-Agent'', ''Accept'', ''Content-Type'']"

definition own_headers :: "panel_client \<Rightarrow> (string \<rightharpoonup> string)" where
  "own_headers c =
     header_Set ''Authorization'' (''Bearer '' @ cl_tokenId c @ ''.'' @ cl_token c)
     (header_Set ''Content-Type'' ''application/json''
     (header_Set ''Accept'' ''application/json''
     (header_Set ''User-Agent'' (''Pelican Wings/v'' @ cl_version c @ '' (id:'' @ cl_tokenId c @ '')'') Map.empty)))"

definition request_headers :: "panel_client \<Rightarrow> (string \<rightharpoonup> string)" where
  "request_headers c =
     fold (\<lambda>(k, v) h. if k \<notin> set criticalHeaders then header_Set k v h else h) (cl_customHeaders c) (own_headers c)"

definition new_request :: "panel_client \<Rightarrow> string \<Rightarrow> string \<Rightarrow> (string \<times> string) list \<Rightarrow> string \<Rightarrow> http_request" where
  "new_request c method path query body =
     \<lparr>rq_method = method, rq_url = cl_baseUrl c @ path, rq_query = query, rq_headers = request_headers c, rq_body = body\<rparr>"

definition NewClient :: "string \<Rightarrow> string \<Rightarrow> string \<Rightarrow> string \<Rightarrow> (string \<times> string) list \<Rightarrow> panel_client" where
  "NewClient base ident token version custom =
     \<lparr>cl_baseUrl = TrimSuffix base ''/'' @ ''/api/remote'', cl_tokenId = ident, cl_token = token, cl_version = version,
      cl_customHeaders = custom\<rparr>"

section \<open>Attempts\<close>

datatype transport_error = CtxCanceled | CtxDeadline | Transport string

text \<open>\<open>PanelError\<close> is \<open>RequestError\<close>: its code, its detail and the status of the response.\<close>

datatype remote_error =
    PanelError string string int
  | Unreached transport_error
  | RemoteWrapped string remote_error
  | Unparsable
  | InvalidCredentials

text \<open>What the backoff answers after a failure.\<close>

datatype again = Again | GiveUp | ContextDone transport_error

record 'w network =
  nw_Do :: "http_request \<Rightarrow> 'w \<Rightarrow> (transport_error + http_response) \<times> 'w"
  nw_again :: "nat \<Rightarrow> 'w \<Rightarrow> again \<times> 'w"
  nw_errors :: "string \<Rightarrow> (string \<times> string) list"

definition HasError :: "http_response \<Rightarrow> bool" where
  "HasError r \<longleftrightarrow> rs_status r \<ge> 300 \<or> rs_status r < 200"

definition response_error :: "'w network \<Rightarrow> http_response \<Rightarrow> remote_error" where
  "response_error N r =
     (case nw_errors N (rs_body r) of
        [] \<Rightarrow> PanelError ''_MissingResponseCode'' ''No error response returned from API endpoint.'' (rs_status r)
      | (code, detail) # _ \<Rightarrow> PanelError code detail (rs_status r))"

text \<open>One attempt: its result, or the error it may be tried again for.\<close>

definition attempt :: "'w network \<Rightarrow> transport_error + http_response \<Rightarrow> remote_error + (remote_error + http_response)" where
  "attempt N x =
     (case x of
        Inl e \<Rightarrow>
          if e = CtxCanceled \<or> e = CtxDeadline then Inr (Inl (Unreached e))
          else Inl (RemoteWrapped ''http: request creation failed'' (Unreached e))
      | Inr r \<Rightarrow>
          if HasError r
          then (if rs_status r \<ge> 400 \<and> rs_status r < 500 then Inr (Inl (response_error N r)) else Inl (response_error N r))
          else Inr (Inr r))"

text \<open>\<open>backoff.Retry\<close>; nothing in the code bounds the number of attempts, so a loop that goes on is \<open>None\<close>.\<close>

partial_function (option) retry ::
  "'w network \<Rightarrow> http_request \<Rightarrow> nat \<Rightarrow> 'w \<Rightarrow> ((remote_error + http_response) \<times> 'w) option" where
  "retry N rq n w =
     (case nw_Do N rq w of (x, w) \<Rightarrow> (case attempt N x of
        Inr r \<Rightarrow> Some (r, w)
      | Inl e \<Rightarrow> (case nw_again N n w of (a, w) \<Rightarrow> (case a of
          Again \<Rightarrow> retry N rq (Suc n) w
        | GiveUp \<Rightarrow> Some (Inl e, w)
        | ContextDone c \<Rightarrow> Some (Inl (Unreached c), w)))))"

definition request :: "'w network \<Rightarrow> http_request \<Rightarrow> 'w \<Rightarrow> ((remote_error + http_response) \<times> 'w) option" where
  "request N rq w = retry N rq 0 w"

fun as_request_error :: "remote_error \<Rightarrow> (string \<times> string \<times> int) option" where
  "as_request_error (PanelError c t st) = Some (c, t, st)"
| "as_request_error (RemoteWrapped _ e) = as_request_error e"
| "as_request_error _ = None"

definition IsRequestError :: "remote_error \<Rightarrow> bool" where
  "IsRequestError e \<longleftrightarrow> as_request_error e \<noteq> None"

definition request_error_text :: "string \<times> string \<times> int \<Rightarrow> string" where
  "request_error_text = (\<lambda>(code, detail, status).
     ''Error response from Panel: '' @ code @ '': '' @ detail @ '' (HTTP/'' @ Itoa status @ '')'')"

section \<open>Calls\<close>

type_synonym ('r, 'w) call_result = "((remote_error + 'r) \<times> 'w) option"

definition Get :: "'w network \<Rightarrow> panel_client \<Rightarrow> string \<Rightarrow> (string \<times> string) list \<Rightarrow> 'w \<Rightarrow> (http_response, 'w) call_result" where
  "Get N c path query w = request N (new_request c ''GET'' path query []) w"

definition Post :: "'w network \<Rightarrow> panel_client \<Rightarrow> string \<Rightarrow> string \<Rightarrow> 'w \<Rightarrow> (http_response, 'w) call_result" where
  "Post N c path body w = request N (new_request c ''POST'' path [] body) w"

text \<open>A call whose answer is decoded, and one whose answer is not looked at.\<close>

definition bound :: "(string \<Rightarrow> 'r option) \<Rightarrow> (http_response, 'w) call_result \<Rightarrow> ('r, 'w) call_result" where
  "bound decode m = map_option (\<lambda>(r, w). ((case r of
     Inl e \<Rightarrow> Inl e
   | Inr res \<Rightarrow> (case decode (rs_body res) of Some x \<Rightarrow> Inr x | None \<Rightarrow> Inl Unparsable)), w)) m"

definition done_call :: "(http_response, 'w) call_result \<Rightarrow> (unit, 'w) call_result" where
  "done_call m = map_option (\<lambda>(r, w). ((case r of Inl e \<Rightarrow> Inl e | Inr _ \<Rightarrow> Inr ()), w)) m"

definition GetServerConfiguration :: "'w network \<Rightarrow> panel_client \<Rightarrow> (string \<Rightarrow> 'r option) \<Rightarrow> string \<Rightarrow> 'w \<Rightarrow> ('r, 'w) call_result" where
  "GetServerConfiguration N c decode uuid w = bound decode (Get N c (''/servers/'' @ uuid) [] w)"

definition GetInstallationScript :: "'w network \<Rightarrow> panel_client \<Rightarrow> (string \<Rightarrow> 'r option) \<Rightarrow> string \<Rightarrow> 'w \<Rightarrow> ('r, 'w) call_result" where
  "GetInstallationScript N c decode uuid w = bound decode (Get N c (''/servers/'' @ uuid @ ''/install'') [] w)"

definition GetBackupRemoteUploadURLs ::
  "'w network \<Rightarrow> panel_client \<Rightarrow> (string \<Rightarrow> 'r option) \<Rightarrow> string \<Rightarrow> int \<Rightarrow> 'w \<Rightarrow> ('r, 'w) call_result" where
  "GetBackupRemoteUploadURLs N c decode backup sz w =
     bound decode (Get N c (''/backups/'' @ backup) [(''size'', Itoa sz)] w)"

definition ResetServersState :: "'w network \<Rightarrow> panel_client \<Rightarrow> 'w \<Rightarrow> (unit, 'w) call_result" where
  "ResetServersState N c w = map_option (\<lambda>(r, w). ((case r of
     Inl e \<Rightarrow> Inl (RemoteWrapped ''remote: failed to reset server state on Panel'' e) | Inr _ \<Rightarrow> Inr ()), w))
     (Post N c ''/servers/reset'' ''null'' w)"

text \<open>The bodies are encoded already.\<close>

definition SetInstallationStatus :: "'w network \<Rightarrow> panel_client \<Rightarrow> string \<Rightarrow> string \<Rightarrow> 'w \<Rightarrow> (unit, 'w) call_result" where
  "SetInstallationStatus N c uuid data w = done_call (Post N c (''/servers/'' @ uuid @ ''/install'') data w)"

definition SetArchiveStatus :: "'w network \<Rightarrow> panel_client \<Rightarrow> string \<Rightarrow> string \<Rightarrow> 'w \<Rightarrow> (unit, 'w) call_result" where
  "SetArchiveStatus N c uuid data w = done_call (Post N c (''/servers/'' @ uuid @ ''/archive'') data w)"

definition SetTransferStatus :: "'w network \<Rightarrow> panel_client \<Rightarrow> string \<Rightarrow> bool \<Rightarrow> 'w \<Rightarrow> (unit, 'w) call_result" where
  "SetTransferStatus N c uuid successful w =
     done_call (Post N c (''/servers/'' @ uuid @ ''/transfer/'' @ (if successful then ''success'' else ''failure'')) ''null'' w)"

definition SetBackupStatus :: "'w network \<Rightarrow> panel_client \<Rightarrow> string \<Rightarrow> string \<Rightarrow> 'w \<Rightarrow> (unit, 'w) call_result" where
  "SetBackupStatus N c backup data w = done_call (Post N c (''/backups/'' @ backup) data w)"

definition SendRestorationStatus :: "'w network \<Rightarrow> panel_client \<Rightarrow> string \<Rightarrow> string \<Rightarrow> 'w \<Rightarrow> (unit, 'w) call_result" where
  "SendRestorationStatus N c backup data w = done_call (Post N c (''/backups/'' @ backup @ ''/restore'') data w)"

definition SendActivityLogs :: "'w network \<Rightarrow> panel_client \<Rightarrow> string \<Rightarrow> 'w \<Rightarrow> (unit, 'w) call_result" where
  "SendActivityLogs N c data w = done_call (Post N c ''/activity'' data w)"

definition PushServerStateChange :: "'w network \<Rightarrow> panel_client \<Rightarrow> string \<Rightarrow> string \<Rightarrow> 'w \<Rightarrow> (unit, 'w) call_result" where
  "PushServerStateChange N c sid data w = done_call (Post N c (''/servers/'' @ sid @ ''/container/status'') data w)"

text \<open>Wrong credentials are every client error of the panel.\<close>

definition ValidateSftpCredentials :: "'w network \<Rightarrow> panel_client \<Rightarrow> (string \<Rightarrow> 'r option) \<Rightarrow> string \<Rightarrow> 'w \<Rightarrow> ('r, 'w) call_result" where
  "ValidateSftpCredentials N c decode data w =
     map_option (\<lambda>(r, w). ((case r of
        Inr x \<Rightarrow> Inr x
      | Inl e \<Rightarrow> (case as_request_error e of
          Some (_, _, st) \<Rightarrow> if st \<ge> 400 \<and> st < 500 then Inl InvalidCredentials else Inl e
        | None \<Rightarrow> Inl e)), w))
     (bound decode (Post N c ''/sftp/auth'' data w))"

section \<open>The list of servers\<close>

text \<open>A page: its servers, the number of the page and of the last one.\<close>

definition getServersPaged ::
  "'w network \<Rightarrow> panel_client \<Rightarrow> (string \<Rightarrow> ('s list \<times> nat \<times> nat) option) \<Rightarrow> nat \<Rightarrow> nat \<Rightarrow> 'w \<Rightarrow> ('s list \<times> nat \<times> nat, 'w) call_result" where
  "getServersPaged N c decode page limit w =
     bound decode (Get N c ''/servers'' [(''page'', Itoa (int page)), (''per_page'', Itoa (int limit))] w)"

text \<open>The other pages are asked for at the same time and added in the order \<open>ps\<close> they arrive; the first error is the
  answer, once all of them have ended.\<close>

fun collect_pages ::
  "'w network \<Rightarrow> panel_client \<Rightarrow> (string \<Rightarrow> ('s list \<times> nat \<times> nat) option) \<Rightarrow> nat \<Rightarrow> nat list \<Rightarrow> remote_error option \<Rightarrow> 's list \<Rightarrow>
    'w \<Rightarrow> ('s list, 'w) call_result" where
  "collect_pages N c decode limit [] failed servers w = Some ((case failed of Some e \<Rightarrow> Inl e | None \<Rightarrow> Inr servers), w)"
| "collect_pages N c decode limit (p # ps) failed servers w =
     (case getServersPaged N c decode p limit w of
        None \<Rightarrow> None
      | Some (Inl e, w) \<Rightarrow> collect_pages N c decode limit ps (if failed = None then Some e else failed) servers w
      | Some (Inr (found, _), w) \<Rightarrow> collect_pages N c decode limit ps failed (servers @ found) w)"

definition GetServers ::
  "'w network \<Rightarrow> panel_client \<Rightarrow> (string \<Rightarrow> ('s list \<times> nat \<times> nat) option) \<Rightarrow> (nat list \<Rightarrow> nat list) \<Rightarrow> nat \<Rightarrow> 'w \<Rightarrow>
    ('s list, 'w) call_result" where
  "GetServers N c decode order limit w =
     (case getServersPaged N c decode 0 limit w of
        None \<Rightarrow> None
      | Some (Inl e, w) \<Rightarrow> Some (Inl e, w)
      | Some (Inr (servers, current, last_page), w) \<Rightarrow>
          if last_page > 1 then collect_pages N c decode limit (order [current + 1 ..< last_page + 1]) None servers w
          else Some (Inr servers, w))"

end
