(* ===== verification/RemoteProps.thy ===== *)
theory RemoteProps
  imports Remote
begin

text \<open>
  The guarantees of the panel client: which failures are tried again, that a request ends when its backoff does, that the
  list of servers is complete, and what custom headers can change.
\<close>

section \<open>Attempts\<close>

text \<open>The network with a log of what every attempt was answered, the newest first.\<close>

definition logged :: "'w network \<Rightarrow> ('w \<times> (http_request \<times> (transport_error + http_response)) list) network" where
  "logged N =
     \<lparr>nw_Do = (\<lambda>rq (w, l). case nw_Do N rq w of (x, w) \<Rightarrow> (x, w, (rq, x) # l)),
      nw_again = (\<lambda>n (w, l). case nw_again N n w of (a, w) \<Rightarrow> (a, w, l)), nw_errors = nw_errors N\<rparr>"

text \<open>What may be tried again: a failure of the transport that is not the end of the context, and an error of the server.\<close>

definition retryable :: "transport_error + http_response \<Rightarrow> bool" where
  "retryable x \<longleftrightarrow> (case x of Inl e \<Rightarrow> (\<exists>m. e = Transport m) | Inr r \<Rightarrow> HasError r \<and> \<not> (400 \<le> rs_status r \<and> rs_status r < 500))"

lemma attempt_retryable: "(\<exists>e. attempt N x = Inl e) \<longleftrightarrow> retryable x"
  by (cases x) (auto simp: attempt_def retryable_def, metis transport_error.exhaust)

lemma attempt_logged [simp]: "attempt (logged N) x = attempt N x"
proof -
  have "response_error (logged N) r = response_error N r" for r
    by (simp add: response_error_def logged_def)
  then show ?thesis by (simp add: attempt_def split: sum.split)
qed

text \<open>The log of a run: what is added answers the same request, and all but the last answer may be tried again.\<close>

definition orderly_log :: "http_request \<Rightarrow> (remote_error + http_response) \<Rightarrow> (http_request \<times> (transport_error + http_response)) list \<Rightarrow> bool" where
  "orderly_log rq r l \<longleftrightarrow>
     (\<exists>x older. l = (rq, x) # older \<and> (\<forall>(q, y) \<in> set older. q = rq \<and> retryable y) \<and>
        (case r of Inr res \<Rightarrow> x = Inr res \<and> \<not> HasError res | Inl _ \<Rightarrow> (case x of Inl _ \<Rightarrow> True | Inr res \<Rightarrow> HasError res)))"

lemma retry_log:
  assumes "retry M rq n v = Some y"
  shows "M = logged N \<longrightarrow> v = (w, l) \<longrightarrow> (\<forall>(q, x) \<in> set l. q = rq \<and> retryable x) \<longrightarrow>
    (\<forall>r w' l'. y = (r, w', l') \<longrightarrow> orderly_log rq r l')"
  using assms
proof (induction arbitrary: w l rule: retry.raw_induct [rotated, consumes 1])
  case (1 f M rq n v y)
  show ?case
  proof (intro impI allI)
    fix r w' l'
    assume M: "M = logged N" and v: "v = (w, l)" and old: "\<forall>(q, x) \<in> set l. q = rq \<and> retryable x"
      and y: "y = (r, w', l')"
    obtain x w1 where x: "nw_Do N rq w = (x, w1)" by force
    note att = attempt_logged [of N x]
    show "orderly_log rq r l'"
    proof (cases "attempt N x")
      case (Inr res)
      with 1(2) M v x y att have l': "l' = (rq, x) # l" and r: "r = res"
        by (auto simp: logged_def)
      have "case r of Inr res \<Rightarrow> x = Inr res \<and> \<not> HasError res | Inl _ \<Rightarrow> (case x of Inl _ \<Rightarrow> True | Inr res \<Rightarrow> HasError res)"
        using Inr r by (auto simp: attempt_def split: sum.splits if_splits)
      with old l' show ?thesis by (auto simp: orderly_log_def)
    next
      case (Inl e)
      then have again: "retryable x" using attempt_retryable by blast
      then have ends: "case x of Inl _ \<Rightarrow> True | Inr res \<Rightarrow> HasError res"
        by (auto simp: retryable_def split: sum.splits)
      obtain a w2 where a: "nw_again N n w1 = (a, w2)" by force
      show ?thesis
      proof (cases a)
        case Again
        with 1(2) M v x a Inl att have "f (logged N) rq (Suc n) (w2, (rq, x) # l) = Some y"
          by (auto simp: logged_def)
        from 1(1) [OF this, of w2 "(rq, x) # l"] old again y show ?thesis by auto
      next
        case GiveUp
        with 1(2) M v x a Inl att y have "l' = (rq, x) # l" "r = Inl e" by (auto simp: logged_def)
        with old ends show ?thesis by (auto simp: orderly_log_def)
      next
        case (ContextDone c)
        with 1(2) M v x a Inl att y have "l' = (rq, x) # l" "r = Inl (Unreached c)" by (auto simp: logged_def)
        with old ends show ?thesis by (auto simp: orderly_log_def)
      qed
    qed
  qed
qed


section \<open>Requests end\<close>

lemma retry_ends:
  assumes "\<And>n w. M \<le> n \<Longrightarrow> fst (nw_again N n w) \<noteq> Again"
  shows "\<exists>y. retry N rq n w = Some y"
proof (induction "M - n" arbitrary: n w)
  case 0
  then have "fst (nw_again N n v) \<noteq> Again" for v using assms by simp
  then show ?case
    by (subst retry.simps) (auto split: prod.splits sum.splits again.splits, metis fst_conv)
next
  case (Suc k)
  then have "\<exists>y. retry N rq (Suc n) v = Some y" for v by simp
  then show ?case
    by (subst retry.simps) (auto split: prod.splits sum.splits again.splits)
qed


section \<open>The list of servers\<close>

text \<open>\<open>answers\<close>: every page is answered, whenever it is asked for, with the servers \<open>pg p\<close>.\<close>

definition answers ::
  "'w network \<Rightarrow> panel_client \<Rightarrow> (string \<Rightarrow> ('s list \<times> nat \<times> nat) option) \<Rightarrow> nat \<Rightarrow> (nat \<Rightarrow> 's list) \<Rightarrow> nat \<Rightarrow> nat \<Rightarrow> bool" where
  "answers N c decode limit pg current last_page \<longleftrightarrow>
     (\<forall>p w. \<exists>w' cur. getServersPaged N c decode p limit w = Some (Inr (pg p, cur, last_page), w') \<and> (p = 0 \<longrightarrow> cur = current))"

lemma collect_all:
  assumes "answers N c decode limit pg current last_page"
  shows "\<exists>w'. collect_pages N c decode limit ps None servers w = Some (Inr (servers @ concat (map pg ps)), w')"
proof (induction ps arbitrary: servers w)
  case (Cons p ps)
  from assms obtain w' cur where "getServersPaged N c decode p limit w = Some (Inr (pg p, cur, last_page), w')"
    unfolding answers_def by blast
  with Cons [of "servers @ pg p" w'] show ?case by simp
qed simp

lemma mset_concat_map: "mset (concat (map f xs)) = (\<Sum>x \<in># mset xs. mset (f x))"
  by (induction xs) simp_all


lemma collect_failed: "collect_pages N c decode limit ps (Some e) servers w = Some (r, w') \<Longrightarrow> r = Inl e"
proof (induction ps arbitrary: servers w)
  case (Cons p ps)
  then show ?case by (auto split: option.splits sum.splits prod.splits)
qed simp

section \<open>Headers\<close>

lemma upper_upper: "upper (upper c) = upper c"
  by (auto simp: upper_def)

lemma critical_canonical: "k \<in> set criticalHeaders \<Longrightarrow> canonical k = k"
proof -
  have "\<forall>k \<in> set criticalHeaders. canonical k = k" by code_simp
  then show "k \<in> set criticalHeaders \<Longrightarrow> canonical k = k" by blast
qed

lemma custom_keeps:
  assumes "\<And>k v. (k, v) \<in> set custom \<Longrightarrow> canonical k = k" "h \<in> set criticalHeaders"
  shows "fold (\<lambda>(k, v) m. if k \<notin> set criticalHeaders then header_Set k v m else m) custom m h = m h"
  using assms(1)
proof (induction custom arbitrary: m)
  case (Cons x custom)
  obtain k v where x: "x = (k, v)" by force
  have k: "canonical k = k" by (rule Cons.prems [of k v]) (simp add: x)
  have "(if k \<notin> set criticalHeaders then header_Set k v m else m) h = m h"
    using assms(2) by (auto simp: header_Set_def k)
  moreover have "fold (\<lambda>(k, v) m. if k \<notin> set criticalHeaders then header_Set k v m else m) custom m' h = m' h" for m'
    using Cons.prems by (intro Cons.IH) (meson list.set_intros(2))
  ultimately show ?case by (simp add: x del: not_not)
qed simp

text \<open>Custom headers whose names are spelled canonically never change the credentials or the other headers the client
  sets itself.\<close>

theorem custom_headers_keep_credentials:
  assumes "\<And>k v. (k, v) \<in> set (cl_customHeaders c) \<Longrightarrow> canonical k = k" "h \<in> set criticalHeaders"
  shows "request_headers c h = own_headers c h"
  unfolding request_headers_def using assms by (rule custom_keeps)

theorem custom_headers_keep_credentials_witness:
  "request_headers (NewClient ''https://panel/'' ''id'' ''secret'' ''1'' [(''X-Proxy'', ''a''), (''Authorization'', ''b'')]) ''Authorization'' =
   own_headers (NewClient ''https://panel/'' ''id'' ''secret'' ''1'' [(''X-Proxy'', ''a''), (''Authorization'', ''b'')]) ''Authorization''"
proof (rule custom_headers_keep_credentials)
  have "canonical ''X-Proxy'' = ''X-Proxy''" "canonical ''Authorization'' = ''Authorization''" by code_simp+
  then show "canonical k = k"
    if "(k, v) \<in> set (cl_customHeaders (NewClient ''https://panel/'' ''id'' ''secret'' ''1'' [(''X-Proxy'', ''a''), (''Authorization'', ''b'')]))" for k v
    using that by (auto simp add: NewClient_def)
qed (simp add: criticalHeaders_def)

text \<open>The guard of the client's own headers compares names as they are written: a custom header that spells one of them
  differently, as in small letters, replaces it, the credentials included.\<close>

theorem respelled_header_replaces_credentials:
  assumes "canonical k = h" "k \<noteq> h" "h \<in> set criticalHeaders" "cl_customHeaders c = custom @ [(k, v)]"
  shows "request_headers c h = Some v"
proof -
  have "k \<notin> set criticalHeaders" using assms(1,2) critical_canonical by auto
  then show ?thesis using assms(1,4) by (simp add: request_headers_def header_Set_def)
qed

theorem respelled_header_replaces_credentials_witness:
  "request_headers (NewClient ''https://panel'' ''id'' ''secret'' ''1'' [(''authorization'', ''b'')]) ''Authorization'' = Some ''b''"
proof (rule respelled_header_replaces_credentials)
  show "canonical ''authorization'' = ''Authorization''" by code_simp
qed (simp_all add: criticalHeaders_def NewClient_def)

section \<open>Examples\<close>

text \<open>A network that fails twice and then answers; the backoff gives up after nine failures.\<close>

definition flaky :: "nat network" where
  "flaky =
     \<lparr>nw_Do = (\<lambda>rq n. (if n = 0 then Inl (Transport ''refused'') else if n = 1 then Inr \<lparr>rs_status = 502, rs_body = []\<rparr>
                       else Inr \<lparr>rs_status = 200, rs_body = rq_url rq\<rparr>, Suc n)),
      nw_again = (\<lambda>k n. (if k < 9 then Again else GiveUp, n)), nw_errors = (\<lambda>_. [])\<rparr>"

definition example_request :: http_request where
  "example_request = \<lparr>rq_method = ''GET'', rq_url = ''u'', rq_query = [], rq_headers = Map.empty, rq_body = []\<rparr>"



definition paging :: "nat network" where
  "paging = \<lparr>nw_Do = (\<lambda>rq n. (Inr \<lparr>rs_status = 200, rs_body = snd (hd (rq_query rq))\<rparr>, Suc n)),
     nw_again = (\<lambda>_ n. (GiveUp, n)), nw_errors = (\<lambda>_. [])\<rparr>"


end
