(* ===== verification/Install.thy ===== *)
theory Install
  imports ServerEvents ServerDocker
begin

text \<open>
  Installing a server (\<open>wings/server/install.go\<close>): the script of the panel is run in a container of its own while the
  server's install lock is held, and the panel is told how it ended.

  The Docker client, the files on the host outside the server's directory and the panel are parameters
  (\<open>installer\<close>) that act on the host's state; the steps and their errors are the code's.
\<close>

section \<open>What installing works with\<close>

record script =
  scr_ContainerImage :: string
  scr_Entrypoint :: string
  scr_Script :: string

record install_container =
  in_Image :: string
  in_Cmd :: "string list"
  in_Env :: "string list"
  in_Mounts :: "(string \<times> string) list"
  in_Resources :: container_resources
  in_Tmpfs :: string
  in_Dns :: "string list"
  in_NetworkMode :: string
  in_UsernsMode :: string
  in_Networking :: "endpoint option"

text \<open>How waiting for the container ends: with an error of the wait or with the exit status.\<close>

datatype wait_result = WaitError "string option" | WaitStatus int

text \<open>An error of the Docker client, \<open>NotFound\<close> apart.\<close>

datatype client_error = NotFound | ClientError string

record 'w installer =
  ins_GetScript :: "string \<Rightarrow> 'w \<Rightarrow> (srv_error + script) \<times> 'w"
  ins_Docker :: "srv_error option"
  ins_MkdirAll :: "string \<Rightarrow> 'w \<Rightarrow> err option \<times> 'w"
  ins_OpenFile :: "string \<Rightarrow> 'w \<Rightarrow> err option \<times> 'w"
  ins_Write :: "string \<Rightarrow> string \<Rightarrow> 'w \<Rightarrow> err option \<times> 'w"
  ins_RemoveAll :: "string \<Rightarrow> 'w \<Rightarrow> 'w"
  ins_Lstat :: "string \<Rightarrow> 'w \<Rightarrow> err option \<times> 'w"
  ins_ImagePull :: "string \<Rightarrow> string option \<Rightarrow> 'w \<Rightarrow> string option \<times> 'w"
  ins_Scan :: "'w \<Rightarrow> string option \<times> 'w"
  ins_ImageList :: "'w \<Rightarrow> (string + string list list) \<times> 'w"
  ins_Remove :: "string \<Rightarrow> 'w \<Rightarrow> client_error option \<times> 'w"
  ins_Create :: "install_container \<Rightarrow> string \<Rightarrow> 'w \<Rightarrow> (string + string) \<times> 'w"
  ins_Start :: "string \<Rightarrow> 'w \<Rightarrow> string option \<times> 'w"
  ins_Wait :: "string \<Rightarrow> 'w \<Rightarrow> wait_result \<times> 'w"
  ins_Lines :: "string \<Rightarrow> 'w \<Rightarrow> string list"
  ins_Logs :: "string \<Rightarrow> 'w \<Rightarrow> (client_error + string) \<times> 'w"
  ins_Kernel :: "string option"
  ins_Header :: "script \<Rightarrow> string list \<Rightarrow> string \<Rightarrow> string"
  ins_Report :: "string \<Rightarrow> bool \<Rightarrow> bool \<Rightarrow> 'w \<Rightarrow> 'w"
  ins_cfg :: docker_cfg
  ins_TmpDirectory :: string
  ins_LogDirectory :: string
  ins_Memory :: int
  ins_Cpu :: int

definition on_world :: "('w \<Rightarrow> 'r \<times> 'w) \<Rightarrow> ('e, 'w) server \<Rightarrow> 'r \<times> ('e, 'w) server" where
  "on_world f s = (case f (sv_world s) of (r, w) \<Rightarrow> (r, s\<lparr>sv_world := w\<rparr>))"

definition server_id :: "('e, 'w) server \<Rightarrow> string" where
  "server_id s = cfg_Uuid (sv_cfg s)"

definition install_name :: "('e, 'w) server \<Rightarrow> string" where
  "install_name s = server_id s @ ''_installer''"

section \<open>Preparing\<close>

definition RemoveContainer :: "'w installer \<Rightarrow> (unit, 'e, 'w) srvop" where
  "RemoveContainer I s =
     (case on_world (ins_Remove I (install_name s)) s of
        (Some (ClientError m), s) \<Rightarrow> Some (Err (SrvText m), s)
      | (_, s) \<Rightarrow> Some (Ok (), s))"

definition tempDir :: "'w installer \<Rightarrow> ('e, 'w) server \<Rightarrow> string" where
  "tempDir I s = Join [ins_TmpDirectory I, server_id s]"

definition fs_err :: "err \<Rightarrow> srv_error" where
  "fs_err e = SrvFs (FsUnder e)"

definition writeScriptToDisk :: "'w installer \<Rightarrow> script \<Rightarrow> (unit, 'e, 'w) srvop" where
  "writeScriptToDisk I scr s =
     (case on_world (ins_MkdirAll I (tempDir I s)) s of
        (Some e, s) \<Rightarrow> Some (Err (SrvMsg ''could not create temporary directory for install process'' (fs_err e)), s)
      | (None, s) \<Rightarrow>
          let path = Join [tempDir I s, ''install.sh'']
          in case on_world (ins_OpenFile I path) s of
               (Some e, s) \<Rightarrow>
                 Some (Err (SrvMsg ''failed to write server installation script to disk before mount'' (fs_err e)), s)
             | (None, s) \<Rightarrow>
                 (case on_world (ins_Write I path (ReplaceAll (scr_Script scr) [CHR 0x0D, CHR 0x0A] [CHR 0x0A])) s of
                    (Some e, s) \<Rightarrow> Some (Err (fs_err e), s)
                  | (None, s) \<Rightarrow> Some (Ok (), s)))"

text \<open>An image that cannot be pulled is good enough if the host has it.\<close>

definition pullInstallationImage :: "'w installer \<Rightarrow> script \<Rightarrow> (unit, 'e, 'w) srvop" where
  "pullInstallationImage I scr s =
     (let img = scr_ContainerImage scr
      in case on_world (ins_ImagePull I img (registry_auth (ins_cfg I) img)) s of
           (Some e, s) \<Rightarrow>
             (case on_world (ins_ImageList I) s of
                (Inl ie, s) \<Rightarrow> Some (Err (SrvText ie), s)
              | (Inr images, s) \<Rightarrow>
                  if \<exists>tags \<in> set images. img \<in> set tags then Some (Ok (), s) else Some (Err (SrvText e), s))
         | (None, s) \<Rightarrow>
             (case on_world (ins_Scan I) s of
                (Some e, s) \<Rightarrow> Some (Err (SrvText e), s)
              | (None, s) \<Rightarrow> Some (Ok (), s)))"

definition with_message :: "string \<Rightarrow> ((srv_error, 'a) outcome \<times> 's) option \<Rightarrow> ((srv_error, 'a) outcome \<times> 's) option" where
  "with_message m x = map_option (\<lambda>(r, s). (case r of Err e \<Rightarrow> Err (SrvMsg m e) | _ \<Rightarrow> r, s)) x"

definition BeforeExecute :: "'w installer \<Rightarrow> script \<Rightarrow> (unit, 'e, 'w) srvop" where
  "BeforeExecute I scr s =
     andthen (with_message ''failed to write installation script to disk'' (writeScriptToDisk I scr s)) (\<lambda>_ s.
     andthen (with_message ''failed to pull updated installation container image for server'' (pullInstallationImage I scr s)) (\<lambda>_ s.
       with_message ''failed to remove existing install container for server'' (RemoveContainer I s)))"

section \<open>Running the script\<close>

definition installer_limits :: "'w installer \<Rightarrow> limits \<Rightarrow> limits" where
  "installer_limits I l =
     (let l = (if MemoryLimit l < ins_Memory I then l\<lparr>MemoryLimit := ins_Memory I\<rparr> else l)
      in if ins_Cpu I = 0 then l\<lparr>CpuLimit := 0\<rparr>
         else if CpuLimit l \<noteq> 0 \<and> CpuLimit l < ins_Cpu I then l\<lparr>CpuLimit := ins_Cpu I\<rparr>
         else l)"

text \<open>The process limit is taken away again.\<close>

definition resourceLimits :: "'w installer \<Rightarrow> limits \<Rightarrow> container_resources" where
  "resourceLimits I l =
     (let l = installer_limits I l; cfg = ins_cfg I
      in (AsContainerResources (dc_bounded cfg l) (dc_PidLimit cfg) l)\<lparr>res_PidsLimit := 0\<rparr>)"

definition EnsureDataDirectoryExists :: "'w installer \<Rightarrow> ('e, 'w) daemon \<Rightarrow> (unit, 'e, 'w) srvop" where
  "EnsureDataDirectoryExists I D s =
     (let p = basePath (fsys_unix (dmn_fs D))
      in case on_world (ins_Lstat I p) s of
           (None, s) \<Rightarrow> Some (Ok (), s)
         | (Some e, s) \<Rightarrow>
             if is_sentinel ErrNotExist e
             then (case on_world (ins_MkdirAll I p) s of
                     (Some e, s) \<Rightarrow> Some (Err (fs_err e), s)
                   | (None, s) \<Rightarrow> do {
                       (_, w) \<leftarrow> fs_Chown (dmn_kernel D) (dmn_fs D) (dmn_fuel D) ''/'' (sv_world s);
                       Some (Ok (), s\<lparr>sv_world := w\<rparr>) })
             else Some (Err (SrvMsg ''server: failed to stat server root directory'' (fs_err e)), s))"

definition install_container :: "'w installer \<Rightarrow> ('e, 'w) daemon \<Rightarrow> script \<Rightarrow> string list \<Rightarrow> ('e, 'w) server \<Rightarrow> install_container" where
  "install_container I D scr vars s =
     (let cfg = ins_cfg I in
      \<lparr>in_Image = scr_ContainerImage scr, in_Cmd = [scr_Entrypoint scr, ''/mnt/install/install.sh''], in_Env = vars,
       in_Mounts = [(basePath (fsys_unix (dmn_fs D)), ''/mnt/server''), (tempDir I s, ''/mnt/install'')],
       in_Resources = resourceLimits I (cfg_Build (sv_cfg s)),
       in_Tmpfs = ''rw,exec,nosuid,size='' @ Itoa (dc_TmpfsSize cfg) @ ''M'', in_Dns = dc_Dns cfg,
       in_NetworkMode = dc_Mode cfg, in_UsernsMode = dc_UsernsMode cfg,
       in_Networking = networking cfg (cfg_Allocations (sv_cfg s))\<rparr>)"

text \<open>The temporary directory is removed however the container ends, once the data directory exists.\<close>

definition run_container :: "'w installer \<Rightarrow> install_container \<Rightarrow> (string, 'e, 'w) srvop" where
  "run_container I c s =
     (case on_world (ins_Create I c (install_name s)) s of
        (Inl e, s) \<Rightarrow> Some (Err (SrvText e), s)
      | (Inr i, s) \<Rightarrow>
          (case on_world (ins_Start I i) s of
             (Some e, s) \<Rightarrow> Some (Err (SrvText e), s)
           | (None, s) \<Rightarrow>
               let s = start_routine (StreamInstallOutput (ins_Lines I i (sv_world s))) s
               in case on_world (ins_Wait I i) s of
                    (WaitError None, s) \<Rightarrow>
                      Some (Ok i, emit (EvPublished ''daemon message'' ''Installation process completed.'') s)
                  | (WaitError (Some e), s) \<Rightarrow> Some (Err (SrvText e), s)
                  | (WaitStatus n, s) \<Rightarrow> Some (Ok i, s)))"

definition Execute :: "'w installer \<Rightarrow> ('e, 'w) daemon \<Rightarrow> script \<Rightarrow> (string, 'e, 'w) srvop" where
  "Execute I D scr s =
     (case server_variables D s of
        Ok vars \<Rightarrow>
          (let c = install_container I D scr vars s
           in andthen (EnsureDataDirectoryExists I D s) (\<lambda>_ s.
             map_option (\<lambda>(r, s). (r, s\<lparr>sv_world := ins_RemoveAll I (tempDir I s) (sv_world s)\<rparr>)) (run_container I c s)))
      | _ \<Rightarrow> Some (Panic, s))"

section \<open>Cleaning up\<close>

definition GetLogPath :: "'w installer \<Rightarrow> ('e, 'w) server \<Rightarrow> string" where
  "GetLogPath I s = Join [ins_LogDirectory I, ''/install'', server_id s @ ''.log'']"

text \<open>Logs that are not found are no error, but then there is no reader to copy from, and copying panics.\<close>

definition write_install_log :: "'w installer \<Rightarrow> ('e, 'w) daemon \<Rightarrow> script \<Rightarrow> string \<Rightarrow> (unit, 'e, 'w) srvop" where
  "write_install_log I D scr i s =
     (case on_world (ins_Logs I i) s of
        (Inl (ClientError e), s) \<Rightarrow> Some (Err (SrvText e), s)
      | (logs, s) \<Rightarrow>
          (case ins_Kernel I of
             None \<Rightarrow> Some (Err (SrvText ''kernel version''), s)
           | Some v \<Rightarrow>
               (case on_world (ins_OpenFile I (GetLogPath I s)) s of
                  (Some e, s) \<Rightarrow> Some (Err (fs_err e), s)
                | (None, s) \<Rightarrow>
                    (case server_variables D s of
                       Ok vars \<Rightarrow>
                         (case on_world (ins_Write I (GetLogPath I s) (ins_Header I scr vars v)) s of
                            (Some e, s) \<Rightarrow> Some (Err (fs_err e), s)
                          | (None, s) \<Rightarrow>
                              (case logs of
                                 Inl _ \<Rightarrow> Some (Panic, s)
                               | Inr out \<Rightarrow>
                                   (case on_world (ins_Write I (GetLogPath I s) out) s of
                                      (Some e, s) \<Rightarrow> Some (Err (fs_err e), s)
                                    | (None, s) \<Rightarrow> Some (Ok (), s))))
                     | _ \<Rightarrow> Some (Panic, s)))))"

definition AfterExecute :: "'w installer \<Rightarrow> ('e, 'w) daemon \<Rightarrow> script \<Rightarrow> string \<Rightarrow> (unit, 'e, 'w) srvop" where
  "AfterExecute I D scr i s =
     map_option (\<lambda>(r, s). (r, snd (on_world (ins_Remove I (install_name s)) s))) (write_install_log I D scr i s)"

section \<open>The process\<close>

text \<open>The lock is released by a deferred call.\<close>

definition locked :: "(unit, 'e, 'w) srvop \<Rightarrow> (unit, 'e, 'w) srvop" where
  "locked m s =
     (case SwapIf True (sv_installing s) of
        (False, _) \<Rightarrow> Some (Err (SrvText ''install: cannot obtain installation lock''), s)
      | (True, b) \<Rightarrow> map_option (\<lambda>(r, s). (r, s\<lparr>sv_installing := False\<rparr>)) (m (s\<lparr>sv_installing := b\<rparr>)))"

definition run_steps :: "'w installer \<Rightarrow> ('e, 'w) daemon \<Rightarrow> script \<Rightarrow> (unit, 'e, 'w) srvop" where
  "run_steps I D scr s =
     andthen (BeforeExecute I scr s) (\<lambda>_ s.
       case Execute I D scr s of
         None \<Rightarrow> None
       | Some (Panic, s) \<Rightarrow> Some (Panic, s)
       | Some (Err e, s) \<Rightarrow> map_option (\<lambda>(_, s). (Err e, s)) (RemoveContainer I s)
       | Some (Ok i, s) \<Rightarrow> map_option (\<lambda>(r, s). (case r of Panic \<Rightarrow> Panic | _ \<Rightarrow> Ok (), s)) (AfterExecute I D scr i s))"

definition Run :: "'w installer \<Rightarrow> ('e, 'w) daemon \<Rightarrow> script \<Rightarrow> (unit, 'e, 'w) srvop" where
  "Run I D scr = locked (run_steps I D scr)"

definition internalInstall :: "'w installer \<Rightarrow> ('e, 'w) daemon \<Rightarrow> (unit, 'e, 'w) srvop" where
  "internalInstall I D s =
     (case on_world (ins_GetScript I (server_id s)) s of
        (Inl e, s) \<Rightarrow> Some (Err e, s)
      | (Inr scr, s) \<Rightarrow>
          (case ins_Docker I of Some e \<Rightarrow> Some (Err e, s) | None \<Rightarrow> Run I D scr s))"

text \<open>After the script: the panel is told, the environment is marked offline, the end is announced.\<close>

definition conclude :: "'w installer \<Rightarrow> ('e, 'w) daemon \<Rightarrow> bool \<Rightarrow> (srv_error, unit) outcome \<Rightarrow> (unit, 'e, 'w) srvop" where
  "conclude I D reinstall r s =
     (let s = s\<lparr>sv_world := ins_Report I (server_id s) (is_ok r) reinstall (sv_world s)\<rparr>
      in case on_env (pe_SetState (dmn_env D) ProcessOfflineState) s of
           (Panic, s) \<Rightarrow> Some (Panic, s)
         | (_, s) \<Rightarrow> Some (r, emit (EvPublished ''install completed'' []) s))"

definition install :: "'w installer \<Rightarrow> ('e, 'w) daemon \<Rightarrow> bool \<Rightarrow> (unit, 'e, 'w) srvop" where
  "install I D reinstall s =
     (case (if \<not> cfg_SkipEggScripts (sv_cfg s) then internalInstall I D (emit (EvPublished ''install started'' []) s)
            else pure_ok s) of
        None \<Rightarrow> None
      | Some (Panic, s) \<Rightarrow> Some (Panic, s)
      | Some (r, s) \<Rightarrow> conclude I D reinstall r s)"

definition Install :: "'w installer \<Rightarrow> ('e, 'w) daemon \<Rightarrow> (unit, 'e, 'w) srvop" where
  "Install I D = install I D False"

definition Reinstall :: "'w installer \<Rightarrow> ('e, 'w) daemon \<Rightarrow> (unit, 'e, 'w) srvop" where
  "Reinstall I D s =
     andthen (if srv_State D s \<noteq> ProcessOfflineState
              then with_message ''install: failed to stop running environment'' (Some (on_env (pe_WaitForStop (dmn_env D) 10 True) s))
              else pure_ok s) (\<lambda>_ s.
     andthen (with_message ''install: failed to sync server state with Panel'' (Sync D s)) (\<lambda>_ s. install I D True s))"

end
