(* ===== verification/InstallProps.thy ===== *)
theory InstallProps
  imports Install ServerCrash
begin

text \<open>
  The guarantees of an installation: the lock, what the panel is told, and what the process does not look at.
\<close>

section \<open>What the steps leave alone\<close>

definition same_id :: "('e, 'w) server \<Rightarrow> ('e, 'w) server \<Rightarrow> bool" where
  "same_id s s' \<longleftrightarrow> sv_cfg s' = sv_cfg s \<and> sv_installing s' = sv_installing s"

lemma same_id_refl [simp]: "same_id s s"
  by (simp add: same_id_def)

lemma same_id_trans: "same_id a b \<Longrightarrow> same_id b c \<Longrightarrow> same_id a c"
  by (simp add: same_id_def)

lemma on_world_id [dest]: "on_world f s = (r, s') \<Longrightarrow> same_id s s'"
  by (auto simp: on_world_def same_id_def split: prod.splits)

lemma on_env_id [dest]: "on_env f s = (r, s') \<Longrightarrow> same_id s s'"
  by (auto simp: on_env_def same_id_def split: prod.splits outcome.splits)

lemma same_id_updates [simp]: "same_id s (s'\<lparr>sv_world := w\<rparr>) = same_id s s'" "same_id s (emit x s') = same_id s s'"
  "same_id s (start_routine t s') = same_id s s'"
  by (simp_all add: same_id_def emit_def start_routine_def)

lemmas id_splits = prod.splits sum.splits option.splits client_error.splits wait_result.splits outcome.splits if_splits

lemma keptI: "(\<And>s r s'. m s = Some (r, s') \<Longrightarrow> Q s s') \<Longrightarrow> kept Q m"
  by (simp add: kept_def)

lemma kept_message: "kept Q m \<Longrightarrow> kept Q (\<lambda>s. with_message t (m s))"
  by (auto simp: kept_def with_message_def)

lemma kept_seq_id: "kept same_id m \<Longrightarrow> (\<And>a. kept same_id (f a)) \<Longrightarrow> kept same_id (\<lambda>s. andthen (m s) f)"
  using same_id_trans by (rule kept_andthen)

lemma id_RemoveContainer: "kept same_id (RemoveContainer I)"
  by (rule keptI) (auto simp: RemoveContainer_def split: id_splits)

lemma id_writeScript: "kept same_id (writeScriptToDisk I scr)"
  by (rule keptI) (auto simp: writeScriptToDisk_def Let_def same_id_def on_world_def split: id_splits)

lemma id_pullImage: "kept same_id (pullInstallationImage I scr)"
  by (rule keptI) (auto simp: pullInstallationImage_def Let_def same_id_def on_world_def split: id_splits)

lemma id_BeforeExecute: "kept same_id (BeforeExecute I scr)"
  unfolding BeforeExecute_def
  by (intro kept_seq_id kept_message id_writeScript id_pullImage id_RemoveContainer)

lemma id_EnsureData: "kept same_id (EnsureDataDirectoryExists I D)"
  by (rule keptI) (auto simp: EnsureDataDirectoryExists_def Let_def same_id_def on_world_def Option.bind_eq_Some_conv split: id_splits)

lemma id_run_container: "kept same_id (run_container I c)"
  by (rule keptI) (auto simp: run_container_def Let_def same_id_def on_world_def emit_def start_routine_def split: id_splits)

lemma id_Execute: "kept same_id (Execute I D scr)"
proof (rule keptI)
  fix s r s'
  assume run: "Execute I D scr s = Some (r, s')"
  have clean: "kept same_id (\<lambda>s. map_option (\<lambda>(r, s). (r, s\<lparr>sv_world := ins_RemoveAll I (tempDir I s) (sv_world s)\<rparr>)) (run_container I c s))" for c
  proof (rule keptI)
    fix a x b
    assume "map_option (\<lambda>(r, s). (r, s\<lparr>sv_world := ins_RemoveAll I (tempDir I s) (sv_world s)\<rparr>)) (run_container I c a) = Some (x, b)"
    then obtain t where "run_container I c a = Some (x, t)" "b = t\<lparr>sv_world := ins_RemoveAll I (tempDir I t) (sv_world t)\<rparr>"
      by auto
    with keptD [OF id_run_container] show "same_id a b" by simp
  qed
  show "same_id s s'"
  proof (cases "server_variables D s")
    case (Ok vars)
    with run keptD [OF kept_seq_id [OF id_EnsureData clean]] show ?thesis by (auto simp: Execute_def Let_def)
  qed (use run in \<open>auto simp: Execute_def\<close>)
qed

lemma id_write_log: "kept same_id (write_install_log I D scr i)"
  by (rule keptI) (auto simp: write_install_log_def same_id_def on_world_def split: id_splits)

lemma id_AfterExecute: "kept same_id (AfterExecute I D scr i)"
proof (rule keptI)
  fix s r s'
  assume "AfterExecute I D scr i s = Some (r, s')"
  then obtain t where t: "write_install_log I D scr i s = Some (r, t)" and s': "s' = snd (on_world (ins_Remove I (install_name t)) t)"
    by (auto simp: AfterExecute_def)
  have "same_id t s'" by (cases "on_world (ins_Remove I (install_name t)) t") (auto simp: s')
  with keptD [OF id_write_log t] show "same_id s s'" by (rule same_id_trans)
qed

lemma id_run_steps: "kept same_id (run_steps I D scr)"
proof -
  have "kept same_id (\<lambda>s. case Execute I D scr s of
         None \<Rightarrow> None
       | Some (Panic, s) \<Rightarrow> Some (Panic, s)
       | Some (Err e, s) \<Rightarrow> map_option (\<lambda>(_, s). (Err e, s)) (RemoveContainer I s)
       | Some (Ok i, s) \<Rightarrow> map_option (\<lambda>(r, s). (case r of Panic \<Rightarrow> Panic | _ \<Rightarrow> Ok (), s)) (AfterExecute I D scr i s))"
  proof (rule keptI)
    fix s r s'
    assume run: "(case Execute I D scr s of
         None \<Rightarrow> None
       | Some (Panic, s) \<Rightarrow> Some (Panic, s)
       | Some (Err e, s) \<Rightarrow> map_option (\<lambda>(_, s). (Err e, s)) (RemoveContainer I s)
       | Some (Ok i, s) \<Rightarrow> map_option (\<lambda>(r, s). (case r of Panic \<Rightarrow> Panic | _ \<Rightarrow> Ok (), s)) (AfterExecute I D scr i s)) = Some (r, s')"
    then obtain x t where x: "Execute I D scr s = Some (x, t)" by (auto split: option.splits)
    note 1 = keptD [OF id_Execute x]
    from run x have "s' = t \<or> (\<exists>a. RemoveContainer I t = Some (a, s')) \<or> (\<exists>i a. AfterExecute I D scr i t = Some (a, s'))"
      by (cases x) auto
    with 1 show "same_id s s'"
      using keptD [OF id_RemoveContainer, of I t] keptD [OF id_AfterExecute, of I D scr _ t] same_id_trans by blast
  qed
  then show ?thesis unfolding run_steps_def by (intro kept_seq_id id_BeforeExecute)
qed

lemma locked_id: "kept same_id m \<Longrightarrow> kept same_id (locked m)"
proof (rule keptI)
  fix s r s'
  assume m: "kept same_id m" and run: "locked m s = Some (r, s')"
  show "same_id s s'"
  proof (cases "sv_installing s")
    case True
    with run show ?thesis by (simp add: locked_def SwapIf_def)
  next
    case False
    with run obtain t where t: "m (s\<lparr>sv_installing := True\<rparr>) = Some (r, t)" and s': "s' = t\<lparr>sv_installing := False\<rparr>"
      by (auto simp: locked_def SwapIf_def)
    from keptD [OF m t] s' False show ?thesis by (simp add: same_id_def)
  qed
qed

lemma id_internalInstall: "kept same_id (internalInstall I D)"
proof (rule keptI)
  fix s r s'
  assume run: "internalInstall I D s = Some (r, s')"
  obtain x t where x: "on_world (ins_GetScript I (server_id s)) s = (x, t)" by force
  from x have t: "same_id s t" by auto
  from run x have "s' = t \<or> (\<exists>scr. Run I D scr t = Some (r, s'))"
    by (auto simp: internalInstall_def split: sum.splits option.splits)
  moreover have "same_id t s'" if "Run I D scr t = Some (r, s')" for scr
    using that unfolding Run_def by (rule keptD [OF locked_id [OF id_run_steps]])
  ultimately show "same_id s s'" using same_id_trans [OF t] t by auto
qed

section \<open>The lock and the report\<close>

lemma install_split:
  assumes "install I D reinstall s = Some (r, s')"
  shows "\<exists>x t. same_id s t \<and> (x = Panic \<and> r = Panic \<and> s' = t \<or> x \<noteq> Panic \<and> conclude I D reinstall x t = Some (r, s'))"
proof -
  let ?m = "if \<not> cfg_SkipEggScripts (sv_cfg s) then internalInstall I D (emit (EvPublished ''install started'' []) s) else pure_ok s"
  from assms obtain x t where x: "?m = Some (x, t)"
    by (auto simp: install_def split: option.splits)
  have t: "same_id s t"
    using x keptD [OF id_internalInstall, of I D "emit (EvPublished ''install started'' []) s" x t]
    by (auto simp: pure_ok_def same_id_def emit_def split: if_splits)
  from assms have "(case x of Panic \<Rightarrow> Some (Panic, t) | _ \<Rightarrow> conclude I D reinstall x t) = Some (r, s')"
    unfolding install_def x by (cases x) simp_all
  with t show ?thesis by (cases x) auto
qed

lemma conclude_id: "kept same_id (conclude I D reinstall r)"
  by (rule keptI) (auto simp: conclude_def Let_def same_id_def on_env_def emit_def split: prod.splits outcome.splits)

text \<open>C14: However an installation ends, with success, an error or a panic, the install lock is as it was: one that was taken
  is released, and one held by another installation is not, which refuses the second.\<close>

theorem install_lock_released:
  assumes "install I D reinstall s = Some (r, s')"
  shows "sv_installing s' = sv_installing s"
proof -
  from install_split [OF assms] obtain x t where "same_id s t" "s' = t \<or> conclude I D reinstall x t = Some (r, s')" by blast
  with keptD [OF conclude_id, of I D reinstall x t r s'] show ?thesis by (auto simp: same_id_def)
qed

text \<open>Unless it panics, an installation ends by telling the panel, for the right server, that it was successful exactly
  when it returns no error, and by announcing that it is completed; the environment is then offline.\<close>

theorem install_outcome_reported:
  assumes "install I D reinstall s = Some (r, s')" "r \<noteq> Panic"
  shows "(\<exists>w. sv_world s' = ins_Report I (server_id s) (is_ok r) reinstall w) \<and>
    (\<exists>evs. sv_events s' = evs @ [EvPublished ''install completed'' []])"
proof -
  from install_split [OF assms(1)] assms(2) obtain x t where t: "same_id s t" and c: "conclude I D reinstall x t = Some (r, s')"
    by auto
  let ?t = "t\<lparr>sv_world := ins_Report I (server_id t) (is_ok x) reinstall (sv_world t)\<rparr>"
  obtain y u where y: "on_env (pe_SetState (dmn_env D) ProcessOfflineState) ?t = (y, u)" by force
  with c assms(2) have "y \<noteq> Panic" "r = x" "s' = emit (EvPublished ''install completed'' []) u"
    by (auto simp: conclude_def Let_def split: outcome.splits)
  moreover have "sv_world u = sv_world ?t"
    using y by (auto simp: on_env_def split: prod.splits outcome.splits)
  moreover have "server_id t = server_id s" using t by (simp add: same_id_def server_id_def)
  ultimately show ?thesis by (auto simp: emit_def)
qed

section \<open>What is not looked at\<close>

text \<open>The exit status of the installation script is not looked at: whatever it is, the script's container ends the same
  way, and an installation that fails only by it is reported as successful.\<close>

theorem exit_status_ignored:
  assumes "ins_Create I c (install_name s) (sv_world s) = (Inr i, w1)" "ins_Start I i w1 = (None, w2)"
    "ins_Wait I i w2 = (WaitStatus n, w3)"
  shows "run_container I c s =
    Some (Ok i, start_routine (StreamInstallOutput (ins_Lines I i w2)) s\<lparr>sv_world := w3\<rparr>)"
  using assms by (simp add: run_container_def on_world_def start_routine_def Let_def)

text \<open>The higher of the installer's memory limit and the server's is used, except that a server without a limit is given
  the installer's: the missing limit is compared as zero.\<close>

theorem installer_memory_exact:
  assumes "0 < ins_Memory I" "0 \<le> MemoryLimit l"
  shows "MemoryLimit (installer_limits I l) = max (MemoryLimit l) (ins_Memory I) \<and>
    (MemoryLimit l = 0 \<longrightarrow> MemoryLimit (installer_limits I l) = ins_Memory I)"
  using assms by (simp add: installer_limits_def Let_def)

text \<open>If the container's logs are gone when they are fetched, the installation panics, after the lock was released and
  without the panel being told.\<close>

theorem missing_logs_panic:
  assumes "on_world (ins_Logs I i) s = (Inl NotFound, s1)" "ins_Kernel I = Some v"
    "on_world (ins_OpenFile I (GetLogPath I s1)) s1 = (None, s2)" "server_variables D s2 = Ok vars"
    "on_world (ins_Write I (GetLogPath I s2) (ins_Header I scr vars v)) s2 = (None, s3)"
  shows "AfterExecute I D scr i s = Some (Panic, snd (on_world (ins_Remove I (install_name s3)) s3))"
  using assms by (simp add: AfterExecute_def write_install_log_def)

section \<open>An example\<close>

definition quiet_installer :: "nat installer" where
  "quiet_installer =
     \<lparr>ins_GetScript = (\<lambda>_ w. (Inl (SrvText ''no script''), w)), ins_Docker = None, ins_MkdirAll = (\<lambda>_ w. (None, w)),
      ins_OpenFile = (\<lambda>_ w. (None, w)), ins_Write = (\<lambda>_ _ w. (None, w)), ins_RemoveAll = (\<lambda>_ w. w),
      ins_Lstat = (\<lambda>_ w. (None, w)), ins_ImagePull = (\<lambda>_ _ w. (None, w)), ins_Scan = (\<lambda>w. (None, w)),
      ins_ImageList = (\<lambda>w. (Inr [], w)), ins_Remove = (\<lambda>_ w. (None, w)), ins_Create = (\<lambda>_ _ w. (Inr ''c'', w)),
      ins_Start = (\<lambda>_ w. (None, w)), ins_Wait = (\<lambda>_ w. (WaitStatus 1, w)), ins_Lines = (\<lambda>_ _. []),
      ins_Logs = (\<lambda>_ w. (Inl NotFound, w)), ins_Kernel = Some ''6.1'', ins_Header = (\<lambda>_ _ _. []),
      ins_Report = (\<lambda>_ ok _ w. if ok then w + 1 else w), ins_cfg = example_cfg, ins_TmpDirectory = ''/tmp'',
      ins_LogDirectory = ''/log'', ins_Memory = 1024, ins_Cpu = 100\<rparr>"

lemma example_install: "\<exists>s'. install quiet_installer (example_daemon busy_docker) False example_server =
    Some (Err (SrvText ''no script''), s')"
proof -
  have "on_env (pe_SetState (docker_penv example_cfg busy_docker 1) ProcessOfflineState) t \<noteq> (Panic, u)" for t u :: "(unit env, nat) server"
    by (auto simp: on_env_def docker_penv_def SetState_constant split: prod.splits outcome.splits)
  then show ?thesis
    by (simp add: install_def example_configuration_def internalInstall_def quiet_installer_def on_world_def emit_def
        conclude_def Let_def split: prod.split outcome.split)
qed

theorem install_lock_released_witness:
  "\<exists>r s'. install quiet_installer (example_daemon busy_docker) False example_server = Some (r, s') \<and> \<not> sv_installing s'"
proof -
  from example_install obtain s' where run: "install quiet_installer (example_daemon busy_docker) False example_server =
    Some (Err (SrvText ''no script''), s')" by blast
  from run install_lock_released [OF run] show ?thesis by simp
qed

theorem install_outcome_reported_witness:
  "\<exists>r s' w. install quiet_installer (example_daemon busy_docker) False example_server = Some (r, s') \<and>
     sv_world s' = ins_Report quiet_installer ''u1'' False False w"
proof -
  from example_install obtain s' where run: "install quiet_installer (example_daemon busy_docker) False example_server =
    Some (Err (SrvText ''no script''), s')" by blast
  from install_outcome_reported [OF run] run show ?thesis by (auto simp: server_id_def example_configuration_def)
qed

theorem exit_status_ignored_witness:
  "\<exists>s'. run_container quiet_installer undefined example_server = Some (Ok ''c'', s')"
proof -
  have "ins_Create quiet_installer undefined (install_name example_server) (sv_world example_server) = (Inr ''c'', sv_world example_server)"
    "ins_Start quiet_installer ''c'' (sv_world example_server) = (None, sv_world example_server)"
    "ins_Wait quiet_installer ''c'' (sv_world example_server) = (WaitStatus 1, sv_world example_server)"
    by (simp_all add: quiet_installer_def)
  from exit_status_ignored [OF this] show ?thesis by blast
qed

theorem installer_memory_exact_witness:
  "MemoryLimit (installer_limits quiet_installer ((cfg_Build example_configuration)\<lparr>MemoryLimit := 0\<rparr>)) = 1024"
  using installer_memory_exact [of quiet_installer "(cfg_Build example_configuration)\<lparr>MemoryLimit := 0\<rparr>"]
  by (simp add: quiet_installer_def)

end
