(* ===== verification/Manager.thy ===== *)
theory Manager
  imports InstallProps Tokens Strconv
begin

text \<open>
  The collection of the servers of a node (\<open>wings/server/manager.go\<close>) and the HTTP handlers that act on servers as a
  whole (\<open>wings/router/router_server.go\<close>, \<open>router_system.go\<close>, \<open>wings/server/installer\<close>): power, commands,
  installation, deletion and the revocation of a user's access.

  Handlers that continue in a routine of their own leave a job; running it is a step of its own.
\<close>

section \<open>The collection\<close>

type_synonym ('e, 'w) servers = "('e, 'w) server list"

definition mgr_Keys :: "('e, 'w) servers \<Rightarrow> string list" where
  "mgr_Keys ss = map server_id ss"

definition mgr_Find :: "(('e, 'w) server \<Rightarrow> bool) \<Rightarrow> ('e, 'w) servers \<Rightarrow> ('e, 'w) server option" where
  "mgr_Find f ss = find f ss"

definition mgr_Get :: "string \<Rightarrow> ('e, 'w) servers \<Rightarrow> ('e, 'w) server option" where
  "mgr_Get uuid ss = mgr_Find (\<lambda>s. server_id s = uuid) ss"

definition mgr_Filter :: "(('e, 'w) server \<Rightarrow> bool) \<Rightarrow> ('e, 'w) servers \<Rightarrow> ('e, 'w) servers" where
  "mgr_Filter f ss = filter f ss"

definition mgr_Add :: "('e, 'w) server \<Rightarrow> ('e, 'w) servers \<Rightarrow> ('e, 'w) servers" where
  "mgr_Add s ss = ss @ [s]"

definition mgr_Remove :: "(('e, 'w) server \<Rightarrow> bool) \<Rightarrow> ('e, 'w) servers \<Rightarrow> ('e, 'w) servers" where
  "mgr_Remove f ss = filter (\<lambda>s. \<not> f s) ss"

text \<open>Servers are shared by reference: what is done to the one with a given identifier is seen through the collection.\<close>

fun modify :: "string \<Rightarrow> (('e, 'w) server \<Rightarrow> ('e, 'w) server) \<Rightarrow> ('e, 'w) servers \<Rightarrow> ('e, 'w) servers" where
  "modify uuid f [] = []"
| "modify uuid f (s # ss) = (if server_id s = uuid then f s # ss else s # modify uuid f ss)"

section \<open>Saved states\<close>

text \<open>The map from identifiers to states, and the file it is kept in; JSON and the file are parameters.\<close>

definition states_of :: "('e, 'w) daemon \<Rightarrow> ('e, 'w) servers \<Rightarrow> (string \<rightharpoonup> string)" where
  "states_of D ss = fold (\<lambda>s m. m(server_id s \<mapsto> srv_State D s)) ss Map.empty"

definition PersistStates ::
  "('e, 'w) daemon \<Rightarrow> ((string \<rightharpoonup> string) \<Rightarrow> string) \<Rightarrow> (string \<Rightarrow> 'f \<Rightarrow> err option \<times> 'f) \<Rightarrow> ('e, 'w) servers \<Rightarrow> 'f \<Rightarrow> err option \<times> 'f" where
  "PersistStates D encode write ss file_state = write (encode (states_of D ss)) file_state"

text \<open>An empty file is no map at all; states of servers that are not in the collection are dropped.\<close>

definition ReadStates ::
  "(string \<Rightarrow> (string \<rightharpoonup> string) option) \<Rightarrow> ('f \<Rightarrow> err + string) \<Rightarrow> ('e, 'w) servers \<Rightarrow> 'f \<Rightarrow> err option + (string \<rightharpoonup> string)" where
  "ReadStates decode read ss file_state =
     (case read file_state of
        Inl e \<Rightarrow> Inl (Some e)
      | Inr data \<Rightarrow>
          (case (if data = [] then Some Map.empty else decode data) of
             None \<Rightarrow> Inl None
           | Some states \<Rightarrow> Inr (\<lambda>i. if mgr_Get i ss \<noteq> None then states i else None)))"

section \<open>Loading the servers\<close>

text \<open>
  A new server from the panel's data: \<open>mkdir\<close> makes its directory and opens it, \<open>new_env\<close> is the constructor of the
  environment; \<open>blank\<close> is the server of \<open>New\<close> with the defaults of its structures.
\<close>

definition InitServer ::
  "('e, 'w) daemon \<Rightarrow> ('e, 'w) server \<Rightarrow> (string \<Rightarrow> 'w \<Rightarrow> err option \<times> 'w) \<Rightarrow>
    (string \<Rightarrow> string \<Rightarrow> env_settings \<Rightarrow> string list \<Rightarrow> (srv_error + 'e)) \<Rightarrow> string \<times> process_config \<Rightarrow>
    ((srv_error, ('e, 'w) server) outcome \<times> ('e, 'w) server) option" where
  "InitServer D blank mkdir new_env data =
     andthen (SyncWithConfiguration D data blank) (\<lambda>_ s.
       case mkdir (server_id s) (sv_world s) of
         (Some e, w) \<Rightarrow> Some (Err (fs_err e), s\<lparr>sv_world := w\<rparr>)
       | (None, w) \<Rightarrow>
           let s = s\<lparr>sv_world := w, sv_disk := (\<lparr>lastLookupTime = None, lookupInProgress = False\<rparr>, NewQuota (sv_DiskSpace s))\<rparr>;
               settings = \<lparr>set_Mounts = server_mounts D s, set_Allocations = cfg_Allocations (sv_cfg s),
                 set_Limits = cfg_Build (sv_cfg s), set_Labels = cfg_Labels (sv_cfg s)\<rparr>
           in case server_variables D s of
                Ok vars \<Rightarrow>
                  (case new_env (server_id s) (cfg_Image (sv_cfg s)) settings vars of
                     Inl e \<Rightarrow> Some (Err e, s)
                   | Inr e \<Rightarrow> Some (Ok (s\<lparr>sv_env := e\<rparr>), s\<lparr>sv_env := e\<rparr>))
              | _ \<Rightarrow> Some (Panic, s))"

text \<open>
  Loading the list of the panel: a server whose process configuration cannot be read (\<open>parse\<close>) or that cannot be set
  up (\<open>init\<close>) is skipped. The workers add the others as they finish, here in the order of the list.
\<close>

fun load_servers :: "('d \<Rightarrow> 'p option) \<Rightarrow> ('d \<Rightarrow> 'p \<Rightarrow> ('e, 'w) server option) \<Rightarrow> 'd list \<Rightarrow> ('e, 'w) servers \<Rightarrow> ('e, 'w) servers" where
  "load_servers parse init [] ss = ss"
| "load_servers parse init (d # ds) ss =
     (case parse d of
        None \<Rightarrow> load_servers parse init ds ss
      | Some p \<Rightarrow>
          (case init d p of
             None \<Rightarrow> load_servers parse init ds ss
           | Some s \<Rightarrow> load_servers parse init ds (mgr_Add s ss)))"

section \<open>Power, commands and logs\<close>

datatype job = JobPower string int | JobInstall | JobReinstall | JobCreate bool

text \<open>A handler answers with a status and may leave a job.\<close>

definition postServerPower :: "string \<Rightarrow> int \<Rightarrow> ('e, 'w) server \<Rightarrow> nat \<times> job option" where
  "postServerPower action wait s =
     (if \<not> pa_IsValid action then (422, None)
      else if (action = PowerActionStart \<or> action = PowerActionRestart) \<and> IsSuspended s then (400, None)
      else (202, Some (JobPower action wait)))"

definition wait_seconds :: "int \<Rightarrow> int" where
  "wait_seconds wait = (if wait < 0 \<or> wait > 300 then 30 else wait)"

definition log_size :: "string \<Rightarrow> int" where
  "log_size query =
     (let l = (case Atoi query of Some n \<Rightarrow> n | None \<Rightarrow> 0) in if l \<le> 0 then 100 else if l > 100 then 100 else l)"

definition getServerLogs :: "('e, 'w) daemon \<Rightarrow> string option \<Rightarrow> ('e, 'w) server \<Rightarrow> (srv_error, string list) outcome \<times> ('e, 'w) server" where
  "getServerLogs D q s =
     on_env (pe_Readlog (dmn_env D) (log_size (case q of Some n \<Rightarrow> n | None \<Rightarrow> ''100''))) s"

text \<open>\<open>strings.SplitN\<close> into two at the first occurrence of a separator.\<close>

fun cut_at :: "string \<Rightarrow> string \<Rightarrow> (string \<times> string) option" where
  "cut_at sep [] = (if sep = [] then Some ([], []) else None)"
| "cut_at sep (c # cs) =
     (if HasPrefix (c # cs) sep then Some ([], drop (length sep) (c # cs))
      else map_option (\<lambda>(a, b). (c # a, b)) (cut_at sep cs))"

definition script_output_header :: string where
  "script_output_header = ''| Script Output'' @ [CHR 0x0A] @ ''| ------------------------------'' @ [CHR 0x0A]"

definition install_log_output :: "string \<Rightarrow> string" where
  "install_log_output content = (case cut_at script_output_header content of Some (_, b) \<Rightarrow> b | None \<Rightarrow> content)"

fun send_commands :: "('e, 'w) daemon \<Rightarrow> string list \<Rightarrow> (unit, 'e, 'w) srvop" where
  "send_commands D [] s = Some (Ok (), s)"
| "send_commands D (c # cs) s =
     (case on_env (pe_SendCommand (dmn_env D) c) s of
        (Panic, s) \<Rightarrow> Some (Panic, s)
      | (_, s) \<Rightarrow> send_commands D cs s)"

definition postServerCommands :: "('e, 'w) daemon \<Rightarrow> string list \<Rightarrow> (nat, 'e, 'w) srvop" where
  "postServerCommands D commands s =
     (case on_env (pe_IsRunning (dmn_env D)) s of
        (Panic, s) \<Rightarrow> Some (Panic, s)
      | (Err e, s) \<Rightarrow> Some (Err e, s)
      | (Ok running, s) \<Rightarrow>
          if \<not> running then Some (Ok 502, s)
          else andthen (send_commands D commands s) (\<lambda>_ s. Some (Ok 204, s)))"

definition postServerSync :: "('e, 'w) daemon \<Rightarrow> (nat, 'e, 'w) srvop" where
  "postServerSync D s = andthen (Sync D s) (\<lambda>_ s. Some (Ok 204, s))"

definition postServerReinstall :: "('e, 'w) server \<Rightarrow> nat \<times> job option" where
  "postServerReinstall s = (if ExecutingPowerAction s then (409, None) else (202, Some JobReinstall))"

record api_response =
  ar_State :: string
  ar_IsSuspended :: bool
  ar_Utilization :: usage
  ar_Configuration :: configuration

definition ToAPIResponse :: "('e, 'w) daemon \<Rightarrow> ('e, 'w) server \<Rightarrow> api_response \<times> ('e, 'w) server" where
  "ToAPIResponse D s =
     (let st = srv_State D s in case Proc s of (u, s) \<Rightarrow>
        (\<lparr>ar_State = st, ar_IsSuspended = IsSuspended s, ar_Utilization = u, ar_Configuration = sv_cfg s\<rparr>, s))"

section \<open>Creating\<close>

definition CreateEnvironment :: "'w installer \<Rightarrow> ('e, 'w) daemon \<Rightarrow> (unit, 'e, 'w) srvop" where
  "CreateEnvironment I D s =
     andthen (EnsureDataDirectoryExists I D s) (\<lambda>_ s.
     andthen (if mc_machine (dmn_mounts D) then CreateMachineID D s else pure_ok s) (\<lambda>_ s.
       Some (on_env (pe_Create (dmn_env D)) s)))"

text \<open>
  What the jobs do; their errors are logged. \<open>acq\<close> answers the attempt to get the power lock in time.
\<close>

definition quiet :: "((srv_error, 'a) outcome \<times> ('e, 'w) server) option \<Rightarrow> ((srv_error, unit) outcome \<times> ('e, 'w) server) option" where
  "quiet m = map_option (\<lambda>(r, s). (case r of Panic \<Rightarrow> Panic | _ \<Rightarrow> Ok (), s)) m"

definition run_job ::
  "'w installer \<Rightarrow> ('e, 'w) daemon \<Rightarrow> int \<Rightarrow> (locker \<Rightarrow> (lock_err, unit) outcome \<times> locker) \<Rightarrow> job \<Rightarrow> (unit, 'e, 'w) srvop" where
  "run_job I D now acq j s =
     (case j of
        JobPower action wait \<Rightarrow> quiet (HandlePowerAction D now acq action [wait_seconds wait] s)
      | JobInstall \<Rightarrow> quiet (andthen (Sync D s) (\<lambda>_ s. Install I D s))
      | JobReinstall \<Rightarrow> quiet (Reinstall I D s)
      | JobCreate start \<Rightarrow>
          quiet (andthen (CreateEnvironment I D s) (\<lambda>_ s.
                 andthen (Install I D s) (\<lambda>_ s.
                   if start then HandlePowerAction D now acq PowerActionStart [30] s else pure_ok s))))"

text \<open>
  A server is created for a well-formed identifier whose configuration the panel knows: \<open>fetch\<close> asks the panel,
  \<open>init\<close> is \<open>InitServer\<close>. It is in the collection before its installation starts.
\<close>

definition new_installer ::
  "(string \<Rightarrow> bool) \<Rightarrow> (string \<Rightarrow> srv_error + 'd) \<Rightarrow> ('d \<Rightarrow> srv_error + ('e, 'w) server) \<Rightarrow> string \<Rightarrow> srv_error + ('e, 'w) server" where
  "new_installer is_uuid fetch init uuid =
     (if \<not> is_uuid uuid then Inl (SrvText ''uuid provided was not in a valid format'')
      else case fetch uuid of
             Inl e \<Rightarrow> Inl (SrvMsg ''installer: could not get server configuration from remote API'' e)
           | Inr c \<Rightarrow>
               (case init c of
                  Inl e \<Rightarrow> Inl (SrvMsg ''installer: could not init server instance'' e)
                | Inr s \<Rightarrow> Inr s))"

definition postCreateServer ::
  "(string \<Rightarrow> bool) \<Rightarrow> (string \<Rightarrow> srv_error + 'd) \<Rightarrow> ('d \<Rightarrow> srv_error + ('e, 'w) server) \<Rightarrow> string \<Rightarrow> bool \<Rightarrow> ('e, 'w) servers \<Rightarrow>
    (srv_error + nat \<times> job option) \<times> ('e, 'w) servers" where
  "postCreateServer is_uuid fetch init uuid start ss =
     (case new_installer is_uuid fetch init uuid of
        Inl e \<Rightarrow> (if \<not> is_uuid uuid then (Inr (422, None), ss) else (Inl e, ss))
      | Inr s \<Rightarrow> (Inr (202, Some (JobCreate start)), mgr_Add s ss))"

text \<open>The overview of all servers; computing it updates the recorded disk usage of each.\<close>

definition getAllServers :: "('e, 'w) daemon \<Rightarrow> ('e, 'w) servers \<Rightarrow> api_response list \<times> ('e, 'w) servers" where
  "getAllServers D ss = (map (fst \<circ> ToAPIResponse D) ss, map (snd \<circ> ToAPIResponse D) ss)"

section \<open>Deleting\<close>

text \<open>
  What deletion reaches besides the server: its downloads, its install log, its backups (\<open>del_Backups\<close> is \<open>None\<close>
  when they are to be kept).
\<close>

record 'w deletion =
  del_MachineID :: "string \<Rightarrow> 'w \<Rightarrow> 'w"
  del_Downloads :: "string \<Rightarrow> 'w \<Rightarrow> 'w"
  del_Log :: "string \<Rightarrow> 'w \<Rightarrow> 'w"
  del_Backups :: "(string \<Rightarrow> 'w \<Rightarrow> srv_error option \<times> 'w) option"

definition announce_deletion :: "('e, 'w) server \<Rightarrow> ('e, 'w) server" where
  "announce_deletion s =
     (let s = s\<lparr>sv_cfg := SetSuspended True (sv_cfg s)\<rparr>;
          s = (if sv_transferring s then emit (EvPublished ''transfer status'' ''completed'') s else s)
      in emit (EvPublished ''deleted'' []) s)"

text \<open>The server, and whether it is to be removed from the collection.\<close>

definition deleteServer :: "'w deletion \<Rightarrow> ('e, 'w) daemon \<Rightarrow> (bool, 'e, 'w) srvop" where
  "deleteServer L D s =
     (let uuid = server_id s in case CleanupForDestroy (announce_deletion s) of
        (Ok _, s) \<Rightarrow>
          (let s = s\<lparr>sv_world := del_Log L uuid (del_Downloads L uuid (sv_world s))\<rparr>
           in case (case del_Backups L of None \<Rightarrow> (None, s) | Some f \<Rightarrow> on_world (f uuid) s) of
                (Some e, s) \<Rightarrow> Some (Err e, s)
              | (None, s) \<Rightarrow>
                  (case on_env (pe_Destroy (dmn_env D)) s of
                     (Ok _, s) \<Rightarrow> Some (Ok True, s)
                   | (Err e, s) \<Rightarrow> Some (Err e, s)
                   | (Panic, s) \<Rightarrow> Some (Panic, s)))
      | (_, s) \<Rightarrow> Some (Panic, s))"

definition remove_server :: "'w deletion \<Rightarrow> ('e, 'w) daemon \<Rightarrow> string \<Rightarrow> ('e, 'w) servers \<Rightarrow>
    ((srv_error, unit) outcome \<times> ('e, 'w) servers) option" where
  "remove_server L D uuid ss =
     (case mgr_Get uuid ss of
        None \<Rightarrow> Some (Err ServerDoesNotExist, ss)
      | Some s \<Rightarrow>
          (case deleteServer L D s of
             None \<Rightarrow> None
           | Some (Ok _, s) \<Rightarrow> Some (Ok (), mgr_Remove (\<lambda>x. server_id x = uuid) (modify uuid (\<lambda>_. s) ss))
           | Some (Err e, s) \<Rightarrow> Some (Err e, modify uuid (\<lambda>_. s) ss)
           | Some (Panic, s) \<Rightarrow> Some (Panic, modify uuid (\<lambda>_. s) ss)))"

text \<open>The two routines that are started when the environment is gone.\<close>

definition remove_files :: "'w installer \<Rightarrow> ('e, 'w) daemon \<Rightarrow> ('e, 'w) server \<Rightarrow> ('e, 'w) server" where
  "remove_files I D s = s\<lparr>sv_world := ins_RemoveAll I (basePath (fsys_unix (dmn_fs D))) (sv_world s)\<rparr>"

definition remove_machine_id :: "'w deletion \<Rightarrow> ('e, 'w) server \<Rightarrow> ('e, 'w) server" where
  "remove_machine_id L s = s\<lparr>sv_world := del_MachineID L (server_id s) (sv_world s)\<rparr>"

text \<open>\<open>RemoveAllServerBackups\<close> removes the directory of the server's backups.\<close>

definition RemoveAllServerBackups :: "string \<Rightarrow> (string \<Rightarrow> 'w \<Rightarrow> err option \<times> 'w) \<Rightarrow> string \<Rightarrow> 'w \<Rightarrow> srv_error option \<times> 'w" where
  "RemoveAllServerBackups dir remove_all uuid w =
     (let sp = Join [dir, uuid]
      in if sp = dir then (Some (SrvText ''invalid server, cannot delete backup dir''), w)
         else (case remove_all sp w of (e, w) \<Rightarrow> (map_option fs_err e, w)))"

section \<open>Revoking access\<close>

definition disconnect_user :: "string \<Rightarrow> ('e, 'w) server \<Rightarrow> ('e, 'w) server" where
  "disconnect_user user s = (let s = cancel_websockets s in s\<lparr>sv_sftp := Cancel user (sv_sftp s)\<rparr>)"

definition deauthorize_on :: "int \<Rightarrow> string \<Rightarrow> string \<Rightarrow> ('e, 'w) servers \<times> denials \<Rightarrow> ('e, 'w) servers \<times> denials" where
  "deauthorize_on now user uuid = (\<lambda>(ss, d).
     (case mgr_Get uuid ss of
        Some s \<Rightarrow> (modify uuid (disconnect_user user) ss, DenyForServer now (server_id s) user d)
      | None \<Rightarrow> (ss, d)))"

text \<open>Without a list of servers the user is disconnected everywhere.\<close>

definition postDeauthorizeUser :: "int \<Rightarrow> string \<Rightarrow> string list \<Rightarrow> ('e, 'w) servers \<times> denials \<Rightarrow> ('e, 'w) servers \<times> denials" where
  "postDeauthorizeUser now user uuids = (\<lambda>(ss, d).
     (if uuids \<noteq> [] then fold (deauthorize_on now user) uuids (ss, d)
      else (map (disconnect_user user) ss, d)))"

definition postServerDenyWSTokens :: "int \<Rightarrow> string list \<Rightarrow> denials \<Rightarrow> denials" where
  "postServerDenyWSTokens now jtis d = fold (DenyJTI now) jtis d"

end
