(* ===== verification/ManagerProps.thy ===== *)
theory ManagerProps
  imports Manager
begin

text \<open>
  What holds of the collection of servers and of the handlers that act on whole servers: loading, the saved states,
  deletion, power requests, logs and the revocation of access.
\<close>

section \<open>The collection\<close>

lemma mgr_Get_Cons: "mgr_Get u (s # ss) = (if server_id s = u then Some s else mgr_Get u ss)"
  by (simp add: mgr_Get_def mgr_Find_def)

lemma mgr_Get_Nil [simp]: "mgr_Get u [] = None"
  by (simp add: mgr_Get_def mgr_Find_def)

lemma mgr_Get_modify:
  assumes "\<And>s. server_id s = uuid \<Longrightarrow> server_id (f s) = uuid"
  shows "mgr_Get u (modify uuid f ss) = (if u = uuid then map_option f (mgr_Get u ss) else mgr_Get u ss)"
  using assms by (induction ss) (auto simp: mgr_Get_Cons)

lemma mgr_Get_Remove:
  "mgr_Get u (mgr_Remove (\<lambda>x. server_id x = uuid) ss) = (if u = uuid then None else mgr_Get u ss)"
  by (induction ss) (auto simp: mgr_Get_Cons mgr_Remove_def)

lemma mgr_Get_id: "mgr_Get u ss = Some s \<Longrightarrow> server_id s = u"
  by (induction ss) (auto simp: mgr_Get_Cons split: if_splits)

lemma mgr_Get_map:
  assumes "\<And>s. server_id (f s) = server_id s"
  shows "mgr_Get u (map f ss) = map_option f (mgr_Get u ss)"
  by (induction ss) (auto simp: mgr_Get_Cons assms)

text \<open>Loading the panel's list adds, in order, exactly the servers whose configuration can be read and which can be set
  up; a broken server never keeps another from being loaded.\<close>

theorem only_broken_servers_skipped:
  "load_servers parse init ds ss = ss @ List.map_filter (\<lambda>d. Option.bind (parse d) (init d)) ds"
  by (induction ds arbitrary: ss) (simp_all add: mgr_Add_def map_filter_simps split: option.split)

section \<open>Saved states\<close>

lemma states_of_acc:
  assumes "distinct (map server_id ss)"
  shows "fold (\<lambda>s m. m(server_id s \<mapsto> srv_State D s)) ss m u =
    (case mgr_Get u ss of Some s \<Rightarrow> Some (srv_State D s) | None \<Rightarrow> m u)"
  using assms
proof (induction ss arbitrary: m)
  case (Cons s ss)
  moreover have "mgr_Get (server_id s) ss = None" if "server_id s \<notin> set (map server_id ss)"
    using that by (induction ss) (auto simp: mgr_Get_Cons)
  ultimately show ?case by (auto simp: mgr_Get_Cons split: option.split)
qed simp

text \<open>The states written to the file are read back after a restart: every server that is still in the collection gets the
  state it had when the file was written, and no other identifier has a state. The codec returns the map that was
  encoded, and the file what was written.\<close>

theorem states_survive_restart:
  assumes codec: "decode (encode (states_of D ss)) = Some (states_of D ss)" "encode (states_of D ss) \<noteq> []"
    and disk: "\<And>data f f'. put data f = (None, f') \<Longrightarrow> read f' = Inr data"
    and ids: "distinct (map server_id ss)"
    and saved: "PersistStates D encode put ss f = (None, f')"
  shows "\<exists>states. ReadStates decode read ss2 f' = Inr states \<and>
    (\<forall>u. states u = (if mgr_Get u ss2 = None then None else map_option (srv_State D) (mgr_Get u ss)))"
proof -
  have "read f' = Inr (encode (states_of D ss))" using saved disk by (simp add: PersistStates_def)
  moreover have "states_of D ss u = map_option (srv_State D) (mgr_Get u ss)" for u
    using states_of_acc [OF ids] by (simp add: states_of_def split: option.split)
  ultimately show ?thesis by (auto simp: ReadStates_def codec)
qed

section \<open>Deletion\<close>

lemma DestroyAllSinks_keeps:
  "DestroyAllSinks s = (r, s') \<Longrightarrow> sv_cfg s' = sv_cfg s \<and> sv_powerLock s' = sv_powerLock s \<and>
    sv_installing s' = sv_installing s \<and> sv_transferring s' = sv_transferring s \<and> sv_restoring s' = sv_restoring s"
  by (auto simp: DestroyAllSinks_def split: outcome.splits)

lemma CleanupForDestroy_keeps:
  "CleanupForDestroy s = (r, s') \<Longrightarrow> sv_cfg s' = sv_cfg s \<and>
    sv_installing s' = sv_installing s \<and> sv_transferring s' = sv_transferring s \<and> sv_restoring s' = sv_restoring s \<and>
    (r = Ok () \<longrightarrow> lk_closed (sv_powerLock s'))"
  by (auto simp: CleanupForDestroy_def Let_def cancel_websockets_def Destroy_def split: outcome.splits prod.splits if_splits
      dest!: DestroyAllSinks_keeps)

lemma on_env_keeps_control:
  "on_env f s = (r, s') \<Longrightarrow> sv_cfg s' = sv_cfg s \<and> sv_powerLock s' = sv_powerLock s \<and>
    sv_installing s' = sv_installing s \<and> sv_transferring s' = sv_transferring s \<and> sv_restoring s' = sv_restoring s"
  by (auto simp: on_env_def split: prod.splits outcome.splits)

lemma on_world_control:
  "on_world f s = (r, s') \<Longrightarrow> sv_cfg s' = sv_cfg s \<and> sv_powerLock s' = sv_powerLock s \<and>
    sv_installing s' = sv_installing s \<and> sv_transferring s' = sv_transferring s \<and> sv_restoring s' = sv_restoring s"
  by (auto simp: on_world_def split: prod.splits)

lemma announce_deletion_keeps:
  "sv_cfg (announce_deletion s) = SetSuspended True (sv_cfg s)" "sv_installing (announce_deletion s) = sv_installing s"
  "sv_transferring (announce_deletion s) = sv_transferring s" "sv_restoring (announce_deletion s) = sv_restoring s"
  by (simp_all add: announce_deletion_def emit_def Let_def)

text \<open>What deletion leaves, unless it panicked: the lock is closed, the server is suspended, and it is the same server.\<close>

definition same_server :: "('e, 'w) server \<Rightarrow> ('e, 'w) server \<Rightarrow> bool" where
  "same_server s s' \<longleftrightarrow> sv_cfg s' = sv_cfg s \<and> sv_powerLock s' = sv_powerLock s \<and>
    sv_installing s' = sv_installing s \<and> sv_transferring s' = sv_transferring s \<and> sv_restoring s' = sv_restoring s"

lemma same_server_trans: "same_server a b \<Longrightarrow> same_server b c \<Longrightarrow> same_server a c"
  by (simp add: same_server_def)

lemma deleteServer_after_cleanup:
  assumes "CleanupForDestroy (announce_deletion s) = (Ok (), s1)" "deleteServer L D s = Some (r, s')"
  shows "same_server s1 s'"
proof -
  define s2 where "s2 = s1\<lparr>sv_world := del_Log L (server_id s) (del_Downloads L (server_id s) (sv_world s1))\<rparr>"
  have s2: "same_server s1 s2" by (simp add: s2_def same_server_def)
  obtain b s3 where b: "(case del_Backups L of None \<Rightarrow> (None, s2) | Some f \<Rightarrow> on_world (f (server_id s)) s2) = (b, s3)" by fastforce
  have s3: "same_server s2 s3"
    using b by (auto simp: same_server_def split: option.splits dest!: on_world_control)
  obtain d s4 where d: "on_env (pe_Destroy (dmn_env D)) s3 = (d, s4)" by fastforce
  have s4: "same_server s3 s4" using on_env_keeps_control [OF d] by (simp add: same_server_def)
  have "deleteServer L D s = (case b of Some e \<Rightarrow> Some (Err e, s3) | None \<Rightarrow>
      (case d of Ok _ \<Rightarrow> Some (Ok True, s4) | Err e \<Rightarrow> Some (Err e, s4) | Panic \<Rightarrow> Some (Panic, s4)))"
    by (simp add: deleteServer_def Let_def assms(1) b [unfolded s2_def] d split: option.split)
  with assms(2) have "s' = s3 \<or> s' = s4" by (simp split: option.splits outcome.splits)
  with s2 s3 s4 show ?thesis by (blast intro: same_server_trans)
qed

lemma deleteServer_leaves:
  assumes "deleteServer L D s = Some (r, s')" "r \<noteq> Panic"
  shows "lk_closed (sv_powerLock s')" "sv_cfg s' = SetSuspended True (sv_cfg s)" "sv_installing s' = sv_installing s"
    "sv_transferring s' = sv_transferring s" "sv_restoring s' = sv_restoring s"
proof -
  obtain c s1 where c: "CleanupForDestroy (announce_deletion s) = (c, s1)" by fastforce
  with assms have "c = Ok ()" by (cases c) (simp_all add: deleteServer_def Let_def)
  with c have same: "same_server s1 s'" using assms(1) deleteServer_after_cleanup by blast
  from CleanupForDestroy_keeps [OF c] \<open>c = Ok ()\<close> announce_deletion_keeps [of s] same
  show "lk_closed (sv_powerLock s')" "sv_cfg s' = SetSuspended True (sv_cfg s)" "sv_installing s' = sv_installing s"
    "sv_transferring s' = sv_transferring s" "sv_restoring s' = sv_restoring s"
    by (simp_all add: same_server_def)
qed

lemma server_id_SetSuspended: "sv_cfg s' = SetSuspended b (sv_cfg s) \<Longrightarrow> server_id s' = server_id s"
  by (simp add: server_id_def SetSuspended_def)

text \<open>C31: A successful deletion takes exactly the deleted server out of the collection.\<close>

theorem removed_server_is_gone:
  assumes "remove_server L D uuid ss = Some (Ok (), ss')"
  shows "mgr_Get u ss' = (if u = uuid then None else mgr_Get u ss)"
proof -
  from assms obtain s b s' where s: "mgr_Get uuid ss = Some s" and del: "deleteServer L D s = Some (Ok b, s')"
    and ss': "ss' = mgr_Remove (\<lambda>x. server_id x = uuid) (modify uuid (\<lambda>_. s') ss)"
    by (auto simp: remove_server_def split: option.splits outcome.splits prod.splits)
  have "server_id s' = uuid"
    using deleteServer_leaves(2) [OF del] mgr_Get_id [OF s] by (simp add: server_id_SetSuspended)
  then show ?thesis by (simp add: ss' mgr_Get_Remove mgr_Get_modify)
qed

text \<open>A deletion that fails because the environment cannot be destroyed, or because its backups cannot be removed, leaves
  the server in the collection, suspended and with its power lock destroyed: the next power action that does not wait for
  the lock panics, killing the server included.\<close>

theorem failed_deletion_breaks_server:
  assumes "mgr_Get uuid ss = Some s" "remove_server L D uuid ss = Some (Err e, ss')"
    "\<not> (sv_installing s \<or> sv_transferring s \<or> sv_restoring s)" "waits = [] \<or> hd waits \<le> 0"
  shows "\<exists>s'. mgr_Get uuid ss' = Some s' \<and> IsSuspended s' \<and> HandlePowerAction D2 now acq action waits s' = Some (Panic, s')"
proof -
  from assms(1,2) obtain s' where del: "deleteServer L D s = Some (Err e, s')" and ss': "ss' = modify uuid (\<lambda>_. s') ss"
    by (auto simp: remove_server_def split: option.splits outcome.splits prod.splits)
  note leaves = deleteServer_leaves [OF del]
  have "server_id s' = uuid"
    using leaves(2) mgr_Get_id [OF assms(1)] by (simp add: server_id_SetSuspended)
  then have get: "mgr_Get uuid ss' = Some s'" by (simp add: ss' mgr_Get_modify assms(1))
  have susp: "IsSuspended s'" using leaves(2) by (simp add: IsSuspended_def SetSuspended_def)
  have "Acquire (sv_powerLock s') = (Panic, sv_powerLock s')" using leaves(1) by (simp add: Acquire_def)
  then have "HandlePowerAction D2 now acq action waits s' = Some (Panic, s')"
    using assms(3,4) leaves(3-5) by (auto simp: HandlePowerAction_def split: list.splits)
  with get susp show ?thesis by blast
qed

section \<open>Requests\<close>

text \<open>A power request is queued only for a known action and never starts a suspended server; the time the queued action
  waits for the lock lies within five minutes.\<close>

theorem power_request_exact:
  assumes "postServerPower action wait s = (code, Some j)"
  shows "pa_IsValid action \<and> (pa_IsStart action \<longrightarrow> \<not> IsSuspended s) \<and>
    run_job I D now acq j t = quiet (HandlePowerAction D now acq action [wait_seconds wait] t) \<and>
    0 \<le> wait_seconds wait \<and> wait_seconds wait \<le> 300"
  using assms by (auto simp: postServerPower_def run_job_def wait_seconds_def pa_IsStart_def split: if_splits)

text \<open>However many lines of the log are asked for, between one and a hundred are read.\<close>

theorem log_request_bounded: "1 \<le> log_size q \<and> log_size q \<le> 100"
  by (simp add: log_size_def Let_def)

lemma cut_at_first:
  assumes "sep \<noteq> []" "\<forall>k < length pre. \<not> HasPrefix (drop k (pre @ sep @ out)) sep"
  shows "cut_at sep (pre @ sep @ out) = Some (pre, out)"
  using assms(2)
proof (induction pre)
  case Nil
  show ?case using assms(1) by (cases sep) simp_all
next
  case (Cons c pre)
  have "\<not> HasPrefix (c # pre @ sep @ out) sep" using Cons.prems by force
  moreover have "cut_at sep (pre @ sep @ out) = Some (pre, out)"
    by (rule Cons.IH) (use Cons.prems in force)
  ultimately show ?case by simp
qed

text \<open>What is shown of an installation log is what follows the first heading of the script's output.\<close>

theorem install_log_shows_output:
  assumes "\<forall>k < length pre. \<not> HasPrefix (drop k (pre @ script_output_header @ out)) script_output_header"
  shows "install_log_output (pre @ script_output_header @ out) = out"
proof -
  have "script_output_header \<noteq> []" by (simp add: script_output_header_def)
  from cut_at_first [OF this assms] show ?thesis by (simp add: install_log_output_def)
qed

section \<open>Revoking access\<close>

lemma server_id_disconnect [simp]: "server_id (disconnect_user user s) = server_id s"
  by (auto simp: disconnect_user_def cancel_websockets_def server_id_def Let_def split: prod.split)

lemma mgr_Get_deauthorize_on:
  "mgr_Get u (fst (deauthorize_on now user uuid sd)) = (if u = uuid then map_option (disconnect_user user) (mgr_Get u (fst sd)) else mgr_Get u (fst sd))"
proof (cases sd)
  case (Pair ss d)
  then show ?thesis
    by (auto simp: deauthorize_on_def mgr_Get_modify split: option.split)
qed

text \<open>The deny list after a revocation: one denial for each server named that exists.\<close>

lemma deauthorize_denials:
  assumes "mgr_Get uuid (fst sd) = Some s" "uuid \<in> set uuids"
  shows "dn_users (snd (fold (deauthorize_on now user) uuids sd)) (user_key uuid user) = Some now"
proof -
  have keep: "dn_users (snd (fold (deauthorize_on now user) us sd)) k = Some now"
    if "dn_users (snd sd) k = Some now" for us sd k
    using that
  proof (induction us arbitrary: sd)
    case (Cons u us)
    then show ?case
      by (cases sd) (auto simp: deauthorize_on_def DenyForServer_def split: option.splits intro!: Cons.IH)
  qed simp
  have known: "mgr_Get uuid (fst (deauthorize_on now user v sd)) \<noteq> None" if "mgr_Get uuid (fst sd) \<noteq> None" for v sd
    using that by (auto simp: mgr_Get_deauthorize_on)
  from assms(1) have "mgr_Get uuid (fst sd) \<noteq> None" by simp
  then show ?thesis using assms(2)
  proof (induction uuids arbitrary: sd)
    case (Cons v us)
    show ?case
    proof (cases "uuid = v")
      case True
      obtain s where s: "mgr_Get v (fst sd) = Some s" using Cons.prems(1) True by blast
      have "dn_users (snd (deauthorize_on now user v sd)) (user_key v user) = Some now"
        using s mgr_Get_id [OF s] by (cases sd) (simp add: deauthorize_on_def DenyForServer_def)
      then show ?thesis using True keep by simp
    next
      case False
      then have "uuid \<in> set us" using Cons.prems(2) by simp
      with Cons.IH [OF known [OF Cons.prems(1)]] show ?thesis by simp
    qed
  qed simp
qed

text \<open>Revoking a user's access to a list of servers denies the user's tokens for each of them that exists; revoking it
  without a list disconnects the user from every server but denies no token, so the same tokens open new sessions.\<close>

theorem revocation_without_list_denies_nothing:
  assumes "tk_IssuedAt p = Some i" "i < now" "mgr_Get (tk_ServerUUID p) ss \<noteq> None" "tk_ServerUUID p \<in> set uuids"
  shows "\<not> HasPermission (snd (postDeauthorizeUser now (tk_UserUUID p) uuids (ss, d))) p q \<and>
    HasPermission (snd (postDeauthorizeUser now (tk_UserUUID p) [] (ss, d))) p q = HasPermission d p q"
proof
  show "HasPermission (snd (postDeauthorizeUser now (tk_UserUUID p) [] (ss, d))) p q = HasPermission d p q"
    by (simp add: postDeauthorizeUser_def)
  obtain s where s: "mgr_Get (tk_ServerUUID p) (fst (ss, d)) = Some s" using assms(3) by auto
  from assms(4) have "uuids \<noteq> []" by auto
  with deauthorize_denials [OF s assms(4), of now "tk_UserUUID p"]
  have "dn_users (snd (postDeauthorizeUser now (tk_UserUUID p) uuids (ss, d))) (user_key (tk_ServerUUID p) (tk_UserUUID p)) = Some now"
    by (simp add: postDeauthorizeUser_def)
  then show "\<not> HasPermission (snd (postDeauthorizeUser now (tk_UserUUID p) uuids (ss, d))) p q"
    using assms(1,2) by (simp add: HasPermission_def Denylisted_def issued_before_def)
qed

section \<open>Examples\<close>

definition stubborn_penv :: "unit env penv" where
  "stubborn_penv = (docker_penv example_cfg busy_docker 1)\<lparr>pe_Destroy := (\<lambda>e. (Err (DockerError ''busy''), e))\<rparr>"

definition stubborn_daemon :: "(unit env, nat) daemon" where
  "stubborn_daemon = (example_daemon busy_docker)\<lparr>dmn_env := stubborn_penv\<rparr>"

definition gone_daemon :: "(unit env, nat) daemon" where
  "gone_daemon = (example_daemon busy_docker)\<lparr>dmn_env := stubborn_penv\<lparr>pe_Destroy := (\<lambda>e. (Ok (), e))\<rparr>\<rparr>"

definition example_deletion :: "nat deletion" where
  "example_deletion = \<lparr>del_MachineID = (\<lambda>_ w. w), del_Downloads = (\<lambda>_ w. w), del_Log = (\<lambda>_ w. w), del_Backups = None\<rparr>"

lemma example_cleanup:
  "\<exists>s'. CleanupForDestroy (announce_deletion example_server) = (Ok (), s')"
  by (simp add: CleanupForDestroy_def DestroyAllSinks_def pool_Destroy_def cancel_websockets_def Destroy_def Let_def
      announce_deletion_def emit_def example_server_def NewServer_def NewSinkPool_def NewLocker_def ws_CancelAll_def split: prod.split)

lemma example_Get: "mgr_Get ''u1'' [example_server] = Some example_server"
  by (simp add: mgr_Get_Cons server_id_def example_server_def NewServer_def example_configuration_def)

lemma example_removals:
  "\<exists>ss'. remove_server example_deletion gone_daemon ''u1'' [example_server] = Some (Ok (), ss')"
  "\<exists>ss'. remove_server example_deletion stubborn_daemon ''u1'' [example_server] = Some (Err (SrvEnv (DockerError ''busy'')), ss')"
proof -
  obtain s' where "CleanupForDestroy (announce_deletion example_server) = (Ok (), s')" using example_cleanup by blast
  then show "\<exists>ss'. remove_server example_deletion gone_daemon ''u1'' [example_server] = Some (Ok (), ss')"
    "\<exists>ss'. remove_server example_deletion stubborn_daemon ''u1'' [example_server] = Some (Err (SrvEnv (DockerError ''busy'')), ss')"
    by (simp_all add: remove_server_def example_Get deleteServer_def Let_def example_deletion_def on_env_def gone_daemon_def
        stubborn_daemon_def stubborn_penv_def)
qed

theorem removed_server_is_gone_witness:
  "\<exists>ss'. remove_server example_deletion gone_daemon ''u1'' [example_server] = Some (Ok (), ss') \<and> mgr_Get ''u1'' ss' = None"
  using example_removals(1) removed_server_is_gone [of example_deletion gone_daemon "''u1''" "[example_server]"] by fastforce

theorem failed_deletion_breaks_server_witness:
  "\<exists>ss' s'. remove_server example_deletion stubborn_daemon ''u1'' [example_server] = Some (Err (SrvEnv (DockerError ''busy'')), ss') \<and>
     mgr_Get ''u1'' ss' = Some s' \<and> HandlePowerAction stubborn_daemon 7 Acquire PowerActionTerminate [] s' = Some (Panic, s')"
proof -
  obtain ss' where run: "remove_server example_deletion stubborn_daemon ''u1'' [example_server] =
    Some (Err (SrvEnv (DockerError ''busy'')), ss')" using example_removals(2) by blast
  from failed_deletion_breaks_server [OF example_Get run, of "[]" stubborn_daemon 7 Acquire PowerActionTerminate] run
  show ?thesis by (auto simp: example_server_def NewServer_def)
qed

text \<open>A codec for the states of a single server and a disk of one file.\<close>

definition example_encode :: "(string \<rightharpoonup> string) \<Rightarrow> string" where
  "example_encode m = (case m ''u1'' of Some st \<Rightarrow> st | None \<Rightarrow> [])"

definition example_decode :: "string \<Rightarrow> (string \<rightharpoonup> string) option" where
  "example_decode st = Some [''u1'' \<mapsto> st]"

lemma example_state: "srv_State stubborn_daemon example_server = ProcessOfflineState"
  by (simp add: srv_State_def stubborn_daemon_def stubborn_penv_def docker_penv_def env_State_def example_server_def NewServer_def
      NewEnvironment_def)

theorem states_survive_restart_witness:
  "\<exists>states. ReadStates example_decode (\<lambda>f. Inr f) [example_server] ProcessOfflineState = Inr states \<and>
     states ''u1'' = Some ProcessOfflineState"
proof -
  have saved: "states_of stubborn_daemon [example_server] = [''u1'' \<mapsto> ProcessOfflineState]"
    by (simp add: states_of_def example_state) (simp add: server_id_def example_server_def NewServer_def example_configuration_def)
  have "\<exists>states. ReadStates example_decode (\<lambda>f. Inr f) [example_server] ProcessOfflineState = Inr states \<and>
    (\<forall>u. states u = (if mgr_Get u [example_server] = None then None
       else map_option (srv_State stubborn_daemon) (mgr_Get u [example_server])))"
    by (rule states_survive_restart [where encode = example_encode and put = "\<lambda>d f. (None, d)" and f = "[]"])
      (simp_all add: saved example_encode_def example_decode_def PersistStates_def ProcessOfflineState_def)
  then show ?thesis by (auto simp: example_Get example_state)
qed

theorem power_request_exact_witness:
  "run_job quiet_installer stubborn_daemon 7 Acquire (JobPower PowerActionTerminate 900) example_server =
     quiet (HandlePowerAction stubborn_daemon 7 Acquire PowerActionTerminate [30] example_server)"
proof -
  have "postServerPower PowerActionTerminate 900 example_server = (202, Some (JobPower PowerActionTerminate 900))"
    by (simp add: postServerPower_def pa_IsValid_def)
  from power_request_exact [OF this, of quiet_installer stubborn_daemon 7 Acquire example_server] show ?thesis
    by (simp add: wait_seconds_def)
qed

theorem install_log_shows_output_witness:
  "install_log_output (''ok'' @ script_output_header @ ''done'') = ''done''"
  by (rule install_log_shows_output) (simp add: script_output_header_def less_Suc_eq)

definition example_token :: payload where
  "example_token = \<lparr>tk_IssuedAt = Some 4, tk_ExpirationTime = None, tk_JWTID = ''j'', tk_UserUUID = ''u'', tk_ServerUUID = ''u1'',
     tk_Permissions = [''*'']\<rparr>"

definition no_denials :: denials where
  "no_denials = \<lparr>dn_boot = 1, dn_denylist = Map.empty, dn_users = Map.empty\<rparr>"

theorem revocation_without_list_denies_nothing_witness:
  "\<not> HasPermission (snd (postDeauthorizeUser 9 ''u'' [''u1''] ([example_server], no_denials))) example_token ''x'' \<and>
   HasPermission (snd (postDeauthorizeUser 9 ''u'' [] ([example_server], no_denials))) example_token ''x''"
proof -
  have "HasPermission no_denials example_token ''x''"
    by (simp add: HasPermission_def Denylisted_def issued_before_def no_denials_def example_token_def)
  moreover have u: "tk_UserUUID example_token = ''u''" and s: "tk_ServerUUID example_token = ''u1''"
    and i: "tk_IssuedAt example_token = Some 4" by (simp_all add: example_token_def)
  ultimately show ?thesis
    using revocation_without_list_denies_nothing [OF i, of 9 "[example_server]" "[''u1'']" no_denials "''x''", unfolded u s]
    by (simp add: example_Get)
qed

end
