(* ===== verification/ActivityLog.thy ===== *)
theory ActivityLog
  imports Prelude
begin

text \<open>
  The activity log of the daemon (\<open>wings/internal/models\<close>): the entries, the address stored in them, and the parts of
  the package \<open>net\<close> they need: splitting a host from its port and recognising an address.
\<close>

section \<open>Entries\<close>

text \<open>The metadata of an entry is a map of JSON values; texts and lists of texts are what the daemon writes.\<close>

datatype meta = MText string | MList "string list" | MOther

record entry =
  en_ID :: nat
  en_User :: "string option"
  en_Server :: string
  en_Event :: string
  en_Metadata :: "(string \<rightharpoonup> meta) option"
  en_IP :: string
  en_Timestamp :: "int option"

text \<open>\<open>SetUser\<close> casts an empty user into a null value.\<close>

definition en_SetUser :: "string \<Rightarrow> entry \<Rightarrow> entry" where
  "en_SetUser u a = a\<lparr>en_User := (if u = [] then None else Some u)\<rparr>"

text \<open>The user as JSON: \<open>None\<close> is null.\<close>

definition user_json :: "entry \<Rightarrow> string option" where
  "user_json a = en_User a"

section \<open>Host and port\<close>

text \<open>\<open>strings.TrimSpace\<close> on the bytes of an address.\<close>

definition is_blank :: "char \<Rightarrow> bool" where
  "is_blank c \<longleftrightarrow> c \<in> {CHR 0x09, CHR 0x0A, CHR 0x0B, CHR 0x0C, CHR 0x0D, CHR 0x20}"

definition trim_blanks :: "string \<Rightarrow> string" where
  "trim_blanks s = rev (dropWhile is_blank (rev (dropWhile is_blank s)))"

text \<open>The text before and after the last colon.\<close>

definition cut_last :: "char \<Rightarrow> string \<Rightarrow> (string \<times> string) option" where
  "cut_last c s =
     (if c \<in> set s
      then Some (rev (tl (dropWhile (\<lambda>x. x \<noteq> c) (rev s))), rev (takeWhile (\<lambda>x. x \<noteq> c) (rev s)))
      else None)"

text \<open>
  \<open>net.SplitHostPort\<close>; all its errors are \<open>None\<close>. In brackets the host ends at the first closing bracket, which must be
  followed by the last colon of the text.
\<close>

definition SplitHostPort :: "string \<Rightarrow> (string \<times> string) option" where
  "SplitHostPort hp =
     (case cut_last CHR '':'' hp of
        None \<Rightarrow> None
      | Some (before, port) \<Rightarrow>
          if hp \<noteq> [] \<and> hd hp = CHR ''[''
          then let rest = tl hp; host = takeWhile (\<lambda>x. x \<noteq> CHR '']'') rest
               in if CHR '']'' \<notin> set rest then None
                  else if before \<noteq> CHR ''['' # host @ '']'' then None
                  else if CHR ''['' \<in> set rest \<or> CHR '']'' \<in> set port then None
                  else Some (host, port)
          else if CHR '':'' \<in> set before then None
          else if CHR ''['' \<in> set hp \<or> CHR '']'' \<in> set hp then None
          else Some (before, port))"

text \<open>
  \<open>BeforeCreate\<close>: the port is taken off the address, a missing time is the time now, missing metadata is an empty map.
\<close>

definition BeforeCreate :: "int \<Rightarrow> entry \<Rightarrow> entry" where
  "BeforeCreate now a =
     (let a = (case SplitHostPort (trim_blanks (en_IP a)) of Some (ip, _) \<Rightarrow> a\<lparr>en_IP := ip\<rparr> | None \<Rightarrow> a);
          a = (if en_Timestamp a = None then a\<lparr>en_Timestamp := Some now\<rparr> else a)
      in if en_Metadata a = None then a\<lparr>en_Metadata := Some Map.empty\<rparr> else a)"

lemma cut_last_append:
  assumes "c \<notin> set port"
  shows "cut_last c (host @ c # port) = Some (host, port)"
proof -
  have "takeWhile (\<lambda>x. x \<noteq> c) (rev port @ c # rev host) = rev port"
    using assms by (subst takeWhile_append2) auto
  moreover have "dropWhile (\<lambda>x. x \<noteq> c) (rev port @ c # rev host) = c # rev host"
    using assms by (subst dropWhile_append2) auto
  ultimately show ?thesis by (simp add: cut_last_def)
qed

lemma trim_blanks_id: "list_all (\<lambda>c. \<not> is_blank c) s \<Longrightarrow> trim_blanks s = s"
proof -
  assume s: "list_all (\<lambda>c. \<not> is_blank c) s"
  have id: "dropWhile is_blank t = t" if "list_all (\<lambda>c. \<not> is_blank c) t" for t
    using that by (cases t) auto
  from s have "list_all (\<lambda>c. \<not> is_blank c) (rev s)" by (simp add: list_all_iff)
  with s show ?thesis by (simp add: trim_blanks_def id)
qed

text \<open>An address with a port is stored without it, whether it is written plainly or in brackets.\<close>

lemma SplitHostPort_plain:
  assumes "CHR '':'' \<notin> set port" "{CHR '':'', CHR ''['', CHR '']''} \<inter> set host = {}" "{CHR ''['', CHR '']''} \<inter> set port = {}"
  shows "SplitHostPort (host @ CHR '':'' # port) = Some (host, port)"
proof -
  have "CHR ''['' \<notin> set (host @ CHR '':'' # port) \<and> CHR '']'' \<notin> set (host @ CHR '':'' # port) \<and> CHR '':'' \<notin> set host"
    using assms by auto
  then show ?thesis
    unfolding SplitHostPort_def cut_last_append [OF assms(1)] by (cases host) auto
qed

lemma SplitHostPort_bracketed:
  assumes "CHR '':'' \<notin> set port" "{CHR ''['', CHR '']''} \<inter> set host = {}" "{CHR ''['', CHR '']''} \<inter> set port = {}"
  shows "SplitHostPort (CHR ''['' # host @ CHR '']'' # CHR '':'' # port) = Some (host, port)"
proof -
  have "cut_last CHR '':'' (CHR ''['' # host @ CHR '']'' # CHR '':'' # port) = Some (CHR ''['' # host @ '']'', port)"
    using cut_last_append [OF assms(1), of "CHR ''['' # host @ '']''"] by simp
  moreover have "takeWhile (\<lambda>x. x \<noteq> CHR '']'') (host @ CHR '']'' # CHR '':'' # port) = host"
    using assms(2) by (subst takeWhile_append2) auto
  ultimately show ?thesis using assms by (simp add: SplitHostPort_def Let_def)
qed

section \<open>Addresses\<close>

text \<open>\<open>net.ParseIP\<close>, as far as whether it succeeds: four decimal numbers, or groups of hexadecimal digits.\<close>

definition dec_digit :: "char \<Rightarrow> bool" where
  "dec_digit c \<longleftrightarrow> c \<in> set ''0123456789''"

definition hex_digit :: "char \<Rightarrow> bool" where
  "hex_digit c \<longleftrightarrow> c \<in> set ''0123456789abcdefABCDEF''"

definition octet :: "string \<Rightarrow> bool" where
  "octet s \<longleftrightarrow> s \<noteq> [] \<and> list_all dec_digit s \<and> (hd s = CHR ''0'' \<longrightarrow> length s = 1) \<and>
     foldl (\<lambda>n c. 10 * n + (of_char c - 48)) 0 s \<le> (255 :: nat)"

definition ipv4 :: "string \<Rightarrow> bool" where
  "ipv4 s \<longleftrightarrow> length (split_on CHR ''.'' s) = 4 \<and> list_all octet (split_on CHR ''.'' s)"

text \<open>
  The groups of an IPv6 address from byte \<open>i\<close> of sixteen; \<open>ellipsis\<close> tells that a double colon was seen. The last four
  bytes may be written as an IPv4 address.
\<close>

function ipv6_groups :: "nat \<Rightarrow> bool \<Rightarrow> string \<Rightarrow> bool" where
  "ipv6_groups i ellipsis s =
     (if i \<ge> 16 then s = [] \<and> \<not> ellipsis
      else let ds = takeWhile hex_digit s; s' = dropWhile hex_digit s
      in if ds = [] \<or> length ds > 4 then False
         else if s' \<noteq> [] \<and> hd s' = CHR ''.''
         then (ellipsis \<or> i = 12) \<and> i + 4 \<le> 16 \<and> ipv4 s \<and> (i + 4 < 16 \<or> \<not> ellipsis)
         else (case s' of
             [] \<Rightarrow> i + 2 < 16 \<and> ellipsis \<or> i + 2 = 16 \<and> \<not> ellipsis
           | [c] \<Rightarrow> False
           | c # d # r \<Rightarrow>
               if c \<noteq> CHR '':'' then False
               else if d = CHR '':''
               then \<not> ellipsis \<and> (if r = [] then i + 2 < 16 else ipv6_groups (i + 2) True r)
               else ipv6_groups (i + 2) ellipsis (d # r)))"
  by pat_completeness auto
termination by (relation "measure (\<lambda>(i, _, _). 16 - i)") auto

declare ipv6_groups.simps [simp del]

definition ipv6 :: "string \<Rightarrow> bool" where
  "ipv6 s \<longleftrightarrow> (if HasPrefix s ''::'' then length s = 2 \<or> ipv6_groups 0 True (drop 2 s) else ipv6_groups 0 False s)"

text \<open>The first dot or colon tells which kind it is; a zone makes it no address.\<close>

fun first_mark :: "string \<Rightarrow> char option" where
  "first_mark [] = None"
| "first_mark (c # cs) = (if c = CHR ''.'' \<or> c = CHR '':'' \<or> c = CHR ''%'' then Some c else first_mark cs)"

definition ParseIP :: "string \<Rightarrow> bool" where
  "ParseIP s \<longleftrightarrow>
     (case first_mark s of
        None \<Rightarrow> False
      | Some c \<Rightarrow> if c = CHR ''.'' then ipv4 s else if c = CHR '':'' then CHR ''%'' \<notin> set s \<and> ipv6 s else False)"

lemma ParseIP_examples:
  "ParseIP ''10.0.0.1''" "\<not> ParseIP ''10.0.0.01''" "\<not> ParseIP ''10.0.0.256''" "\<not> ParseIP ''10.0.0''" "ParseIP ''::1''"
  "ParseIP ''2001:db8::ff00:42:8329''" "\<not> ParseIP ''2001:db8::ff00::1''" "ParseIP ''::ffff:10.0.0.1''" "\<not> ParseIP ''fe80::1%eth0''"
  "ParseIP ''1:2:3:4:5:6:7:8''" "\<not> ParseIP ''1:2:3:4:5:6:7''" "\<not> ParseIP ''1:2:3:4:5:6:7:''" "ParseIP ''1::''" "\<not> ParseIP []"
  "\<not> ParseIP ''1:2:3:4:5:6:7:8::''" "\<not> ParseIP ''12345::''"
  by code_simp+

end
