(* ===== verification/Sftp.thy ===== *)
theory Sftp
  imports RouterFiles ActivityLog
begin

text \<open>
  The SFTP server (\<open>wings/sftp\<close>): who is let in, what a session may do with the files of its server, and what is logged
  of it. The files are those of \<open>FsFiles\<close>; the SSH and SFTP protocols are libraries, of which the model keeps the
  requests and the status codes.
\<close>

section \<open>Sessions\<close>

abbreviation PermissionFileRead :: string where "PermissionFileRead \<equiv> ''file.read''"
abbreviation PermissionFileReadContent :: string where "PermissionFileReadContent \<equiv> ''file.read-content''"
abbreviation PermissionFileCreate :: string where "PermissionFileCreate \<equiv> ''file.create''"
abbreviation PermissionFileUpdate :: string where "PermissionFileUpdate \<equiv> ''file.update''"
abbreviation PermissionFileDelete :: string where "PermissionFileDelete \<equiv> ''file.delete''"

abbreviation ActivitySftpWrite :: string where "ActivitySftpWrite \<equiv> ''server:sftp.write''"
abbreviation ActivitySftpCreate :: string where "ActivitySftpCreate \<equiv> ''server:sftp.create''"
abbreviation ActivitySftpCreateDirectory :: string where "ActivitySftpCreateDirectory \<equiv> ''server:sftp.create-directory''"
abbreviation ActivitySftpRename :: string where "ActivitySftpRename \<equiv> ''server:sftp.rename''"
abbreviation ActivitySftpDelete :: string where "ActivitySftpDelete \<equiv> ''server:sftp.delete''"

text \<open>\<open>SftpFs\<close> is an error of the filesystem handed on as it is.\<close>

datatype sftp_status =
  SshOk | SshPermissionDenied | SshFailure | SshNoSuchFile | SshOpUnsupported | SshQuotaExceeded | SftpFs fs_error

record event_handler =
  eh_ip :: string
  eh_user :: string
  eh_server :: string

text \<open>\<open>sh_suspended\<close> is the suspension of the server at the time of the request.\<close>

record 'w sftp_handler =
  sh_site :: "'w site"
  sh_events :: event_handler
  sh_permissions :: "string list"
  sh_suspended :: bool
  sh_ro :: bool

record sftp_request =
  rq_Method :: string
  rq_Filepath :: string
  rq_Target :: string
  rq_mode :: file_mode

record file_action =
  fa_Entity :: string
  fa_Target :: string

text \<open>
  The connection's permissions: the extensions set at login, a map of texts. A handler needs a user; the permissions are
  one text split at commas.
\<close>

definition NewHandler :: "'w site \<Rightarrow> bool \<Rightarrow> bool \<Rightarrow> string \<Rightarrow> string \<Rightarrow> (string \<rightharpoonup> string) \<Rightarrow> 'w sftp_handler option" where
  "NewHandler H ro suspended addr server ext =
     (case ext ''user'' of
        None \<Rightarrow> None
      | Some uuid \<Rightarrow>
          Some \<lparr>sh_site = H, sh_events = \<lparr>eh_ip = addr, eh_user = uuid, eh_server = server\<rparr>,
                sh_permissions = split_on CHR '','' (case ext ''permissions'' of Some p \<Rightarrow> p | None \<Rightarrow> []),
                sh_suspended = suspended, sh_ro = ro\<rparr>)"

fun can_in :: "string list \<Rightarrow> string \<Rightarrow> bool" where
  "can_in [] permission = False"
| "can_in (p # ps) permission = (if p = permission \<or> p = ''*'' then True else can_in ps permission)"

definition can :: "'w sftp_handler \<Rightarrow> string \<Rightarrow> bool" where
  "can h permission = (if sh_suspended h then False else can_in (sh_permissions h) permission)"

definition sh_User :: "'w sftp_handler \<Rightarrow> string" where
  "sh_User h = eh_user (sh_events h)"

section \<open>Logging\<close>

definition action_metadata :: "file_action \<Rightarrow> string \<rightharpoonup> meta" where
  "action_metadata fa =
     (if fa_Target fa \<noteq> [] then [''from'' \<mapsto> MText (fa_Entity fa), ''to'' \<mapsto> MText (fa_Target fa)]
      else [''files'' \<mapsto> MList [fa_Entity fa]])"

text \<open>The entry handed to the database; that it could not be stored is only logged.\<close>

definition log_entry :: "event_handler \<Rightarrow> string \<Rightarrow> file_action \<Rightarrow> entry" where
  "log_entry eh e fa =
     en_SetUser (eh_user eh)
       \<lparr>en_ID = 0, en_User = None, en_Server = eh_server eh, en_Event = e, en_Metadata = Some (action_metadata fa),
        en_IP = eh_ip eh, en_Timestamp = None\<rparr>"

definition logs :: "'w sftp_handler \<Rightarrow> string \<Rightarrow> string \<Rightarrow> string \<Rightarrow> entry list" where
  "logs h e entity target = [log_entry (sh_events h) e \<lparr>fa_Entity = entity, fa_Target = target\<rparr>]"

section \<open>Reading\<close>

definition Fileread :: "'w sftp_handler \<Rightarrow> sftp_request \<Rightarrow> (sftp_status + int, quota \<times> 'w) fsop" where
  "Fileread h rq w =
     (if \<not> can h PermissionFileReadContent then Some (Inl SshPermissionDenied, w)
      else case IsIgnored (sh_site h) [rq_Filepath rq] of
             Some e \<Rightarrow> Some (Inl (SftpFs e), w)
           | None \<Rightarrow> do {
               (r, w) \<leftarrow> fs_File (sh_site h) (rq_Filepath rq) w;
               Some (case r of
                 Inl e \<Rightarrow> Inl (if \<not> fs_is ErrNotExist e then SshFailure else SshNoSuchFile)
               | Inr (fd, _) \<Rightarrow> Inr fd, w) })"

section \<open>Writing\<close>

text \<open>The space check with a stale value allowed, on the counters of the filesystem.\<close>

definition space_check :: "'w site \<Rightarrow> int \<Rightarrow> disk_cache \<Rightarrow> (bool \<times> disk_cache \<times> bool, quota \<times> 'w) fsop" where
  "space_check H now c = (\<lambda>(q, w). do {
     ((ok, (c, q), spawned), w) \<leftarrow> HasSpaceAvailable (si_kernel H) (si_fs H) (si_fuel H) now True (c, q) w;
     Some ((ok, c, spawned), (q, w)) })"

definition write_permission :: "(fs_error + entry_stat) \<Rightarrow> sftp_status + string" where
  "write_permission st =
     (case st of
        Inr _ \<Rightarrow> Inr PermissionFileUpdate
      | Inl e \<Rightarrow> if \<not> fs_is ErrNotExist e then Inl SshFailure else Inr PermissionFileCreate)"

definition Filewrite ::
  "'w sftp_handler \<Rightarrow> int \<Rightarrow> disk_cache \<Rightarrow> sftp_request \<Rightarrow> ((sftp_status + int) \<times> entry list \<times> disk_cache, quota \<times> 'w) fsop" where
  "Filewrite h now c rq w =
     (if sh_ro h then Some ((Inl SshOpUnsupported, [], c), w)
      else do {
        ((ok, c, _), w) \<leftarrow> space_check (sh_site h) now c w;
        if \<not> ok then Some ((Inl SshQuotaExceeded, [], c), w)
        else case IsIgnored (sh_site h) [rq_Filepath rq] of
               Some e \<Rightarrow> Some ((Inl (SftpFs e), [], c), w)
             | None \<Rightarrow> do {
                 (st, w) \<leftarrow> fs_Stat (sh_site h) (rq_Filepath rq) w;
                 case write_permission st of
                   Inl e \<Rightarrow> Some ((Inl e, [], c), w)
                 | Inr permission \<Rightarrow>
                     if \<not> can h permission then Some ((Inl SshPermissionDenied, [], c), w)
                     else do {
                       (f, w) \<leftarrow> Touch (lifted (si_kernel (sh_site h))) (fsys_unix (si_fs (sh_site h))) (rq_Filepath rq)
                                    (O_RDWR OR O_TRUNC) 0x1A4 w;
                       case f of
                         Inl _ \<Rightarrow> Some ((Inl SshFailure, [], c), w)
                       | Inr fd \<Rightarrow> do {
                           (_, w) \<leftarrow> fs_Chown (lifted (si_kernel (sh_site h))) (si_fs (sh_site h)) (si_fuel (sh_site h)) (rq_Filepath rq) w;
                           Some ((Inr fd,
                             logs h (if permission = PermissionFileCreate then ActivitySftpCreate else ActivitySftpWrite) (rq_Filepath rq) [], c), w) } } } })"

section \<open>Commands\<close>

text \<open>A command ends the request, or goes on to the change of the owner; either way with what it logs.\<close>

datatype command_end = Ended sftp_status | Goes_on

definition setstat_mode :: "file_mode \<Rightarrow> file_mode" where
  "setstat_mode m =
     (let mode = m AND ModePerm; mode = (if mode = 0 then 0x1A4 else mode)
      in if m AND ModeDir \<noteq> 0 then 0x1ED else mode)"

definition on_error :: "bool \<Rightarrow> err option \<Rightarrow> command_end \<Rightarrow> entry list \<Rightarrow> command_end \<times> entry list" where
  "on_error not_found e done evs =
     (case e of
        None \<Rightarrow> (done, evs)
      | Some e \<Rightarrow> (Ended (if not_found \<and> is_sentinel ErrNotExist e then SshNoSuchFile else SshFailure), []))"

definition run_command :: "'w sftp_handler \<Rightarrow> sftp_request \<Rightarrow> (command_end \<times> entry list, quota \<times> 'w) fsop" where
  "run_command h rq w =
     (let H = sh_site h; K = lifted (si_kernel H); fs = fsys_unix (si_fs H); p = rq_Filepath rq; method = rq_Method rq in
      if method = ''Setstat'' then
        (if \<not> can h PermissionFileUpdate then Some ((Ended SshPermissionDenied, []), w)
         else do { (e, w) \<leftarrow> Chmod K fs p (setstat_mode (rq_mode rq)) w; Some (on_error True e Goes_on [], w) })
      else if method = ''Rename'' then
        (if \<not> can h PermissionFileUpdate then Some ((Ended SshPermissionDenied, []), w)
         else do {
           (e, w) \<leftarrow> Rename K fs p (rq_Target rq) w;
           Some (on_error True e Goes_on (logs h ActivitySftpRename p (rq_Target rq)), w) })
      else if method = ''Rmdir'' then
        (if \<not> can h PermissionFileDelete then Some ((Ended SshPermissionDenied, []), w)
         else do {
           (e, w) \<leftarrow> Delete (si_kernel H) (si_fs H) (si_fuel H) (Clean p) w;
           Some (on_error False e (Ended SshOk) (logs h ActivitySftpDelete p []), w) })
      else if method = ''Mkdir'' then
        (if \<not> can h PermissionFileCreate then Some ((Ended SshPermissionDenied, []), w)
         else let name = split_on slash (Clean p) in do {
           (e, w) \<leftarrow> CreateDirectory K (si_fs H) (last name) (join_with ''/'' (butlast name)) w;
           Some (on_error False e Goes_on (logs h ActivitySftpCreateDirectory p []), w) })
      else if method = ''Symlink'' then
        (if \<not> can h PermissionFileCreate then Some ((Ended SshPermissionDenied, []), w)
         else do { (e, w) \<leftarrow> Symlink K fs p (rq_Target rq) w; Some (on_error False e Goes_on [], w) })
      else if method = ''Remove'' then
        (if \<not> can h PermissionFileDelete then Some ((Ended SshPermissionDenied, []), w)
         else do {
           (e, w) \<leftarrow> Delete (si_kernel H) (si_fs H) (si_fuel H) p w;
           Some (on_error True e (Ended SshOk) (logs h ActivitySftpDelete p []), w) })
      else Some ((Ended SshOpUnsupported, []), w))"

definition Filecmd :: "'w sftp_handler \<Rightarrow> sftp_request \<Rightarrow> (sftp_status \<times> entry list, quota \<times> 'w) fsop" where
  "Filecmd h rq w =
     (if sh_ro h then Some ((SshOpUnsupported, []), w)
      else case IsIgnored (sh_site h) [rq_Filepath rq] of
             Some e \<Rightarrow> Some ((SftpFs e, []), w)
           | None \<Rightarrow> do {
               ((x, evs), w) \<leftarrow> run_command h rq w;
               case x of
                 Ended st \<Rightarrow> Some ((st, evs), w)
               | Goes_on \<Rightarrow> do {
                   (_, w) \<leftarrow> fs_Chown (lifted (si_kernel (sh_site h))) (si_fs (sh_site h)) (si_fuel (sh_site h))
                                (if rq_Target rq \<noteq> [] then rq_Target rq else rq_Filepath rq) w;
                   Some ((SshOk, evs), w) } })"

section \<open>Listing\<close>

definition Filelist :: "'w sftp_handler \<Rightarrow> sftp_request \<Rightarrow> (sftp_status + file_stat list, quota \<times> 'w) fsop" where
  "Filelist h rq w =
     (let H = sh_site h in
      if \<not> can h PermissionFileRead then Some (Inl SshPermissionDenied, w)
      else if rq_Method rq = ''List'' then do {
        (r, w) \<leftarrow> ReadDirMap (lifted (si_kernel H)) (fsys_unix (si_fs H)) (rq_Filepath rq) (de_Info (lifted (si_kernel H))) w;
        Some (case r of Inl _ \<Rightarrow> Inl SshFailure | Inr entries \<Rightarrow> Inr entries, w) }
      else if rq_Method rq = ''Stat'' then do {
        (r, w) \<leftarrow> fs_Stat H (rq_Filepath rq) w;
        Some (case r of
          Inl e \<Rightarrow> Inl (if fs_is ErrNotExist e then SshNoSuchFile else SshFailure)
        | Inr st \<Rightarrow> Inr [es_info st], w) }
      else Some (Inl SshOpUnsupported, w))"

text \<open>\<open>ListAt\<close>: up to \<open>n\<close> entries from an offset, and whether the end of the list was reached.\<close>

definition ListAt :: "'a list \<Rightarrow> nat \<Rightarrow> nat \<Rightarrow> 'a list \<times> bool" where
  "ListAt l n offset =
     (if offset \<ge> length l then ([], True)
      else (take n (drop offset l), length (take n (drop offset l)) < n))"

section \<open>Logging in\<close>

text \<open>
  A user name is any non-empty text without a line break, a dot, and eight letters or digits. Letters match regardless of
  case, which in Unicode lets in the long s and the Kelvin sign, here in their bytes.
\<close>

fun name_chars :: "nat \<Rightarrow> string \<Rightarrow> bool" where
  "name_chars 0 s = (s = [])"
| "name_chars (Suc n) [] = False"
| "name_chars (Suc n) (c # cs) =
     (c \<in> set ''abcdefghijklmnopqrstuvwxyzABCDEFGHIJKLMNOPQRSTUVWXYZ0123456789'' \<and> name_chars n cs \<or>
      HasPrefix (c # cs) [CHR 0xC5, CHR 0xBF] \<and> name_chars n (drop 1 cs) \<or>
      HasPrefix (c # cs) [CHR 0xE2, CHR 0x84, CHR 0xAA] \<and> name_chars n (drop 2 cs))"

definition valid_username :: "string \<Rightarrow> bool" where
  "valid_username s =
     (case cut_last CHR ''.'' s of
        None \<Rightarrow> False
      | Some (user, server) \<Rightarrow> user \<noteq> [] \<and> CHR 0x0A \<notin> set user \<and> name_chars 8 server)"

datatype auth_type = SftpAuthPassword | SftpAuthPublicKey

datatype login_error = InvalidFormat | KeyOnly | PanelRefused string

text \<open>\<open>validate\<close> asks the panel and answers the server, the user and the permissions.\<close>

definition makeCredentialsRequest ::
  "(auth_type \<Rightarrow> string \<Rightarrow> string \<Rightarrow> 'w \<Rightarrow> (string + string \<times> string \<times> string list) \<times> 'w) \<Rightarrow> bool \<Rightarrow> string \<Rightarrow> string \<Rightarrow> auth_type \<Rightarrow> string \<Rightarrow>
    'w \<Rightarrow> (login_error + (string \<rightharpoonup> string)) \<times> 'w" where
  "makeCredentialsRequest validate key_only addr user t p w =
     (if \<not> valid_username user then (Inl InvalidFormat, w)
      else if t = SftpAuthPassword \<and> key_only then (Inl KeyOnly, w)
      else case validate t user p w of
             (Inl e, w) \<Rightarrow> (Inl (PanelRefused e), w)
           | (Inr (server, uuid, permissions), w) \<Rightarrow>
               (Inr [''ip'' \<mapsto> addr, ''uuid'' \<mapsto> server, ''user'' \<mapsto> uuid, ''permissions'' \<mapsto> join_with '','' permissions], w))"

text \<open>A channel is served for the server of the connection if the daemon has it; \<open>None\<close> is a channel left alone.\<close>

definition accept_channel :: "(string \<Rightarrow> 's option) \<Rightarrow> string \<Rightarrow> (string \<rightharpoonup> string) \<Rightarrow> 's option" where
  "accept_channel get type ext =
     (if type \<noteq> ''session'' then None else get (case ext ''uuid'' of Some u \<Rightarrow> u | None \<Rightarrow> []))"

text \<open>The reply to a request on a channel; the name of the subsystem follows its length, four bytes.\<close>

definition subsystem_reply :: "string \<Rightarrow> string \<Rightarrow> (unit, bool) outcome" where
  "subsystem_reply type payload =
     (if type \<noteq> ''subsystem'' then Ok False
      else if length payload < 4 then Panic
      else Ok (drop 4 payload = ''sftp''))"

definition PrivateKeyPath :: "string \<Rightarrow> string" where
  "PrivateKeyPath dir = Join [dir, ''.sftp/id_ed25519'']"

end
