(* ===== verification/Cron.thy ===== *)
theory Cron
  imports ActivityLog Locks
begin

text \<open>
  The two jobs that send the activity log to the panel (\<open>wings/internal/cron\<close>): one for ordinary activity, one that
  merges the events of SFTP sessions.

  The database and the panel are reached through \<open>activity_store\<close>: the two queries, the deletion by identifiers and the
  request to the panel. A job is guarded by an atomic flag.
\<close>

section \<open>The store\<close>

record 'w activity_store =
  as_find_other :: "nat \<Rightarrow> 'w \<Rightarrow> (string + entry list) \<times> 'w"
  as_find_sftp :: "nat \<Rightarrow> nat \<Rightarrow> 'w \<Rightarrow> (string + entry list) \<times> 'w"
  as_delete :: "nat list \<Rightarrow> 'w \<Rightarrow> string option \<times> 'w"
  as_send :: "entry list \<Rightarrow> 'w \<Rightarrow> string option \<times> 'w"

datatype cron_error = ErrCronRunning | CronStore string | CronSend string

definition chunk :: nat where
  "chunk = 32000"

text \<open>The database takes a limited number of parameters, so deletions are made in chunks.\<close>

function delete_chunks :: "'w activity_store \<Rightarrow> nat list \<Rightarrow> 'w \<Rightarrow> cron_error option \<times> 'w" where
  "delete_chunks S ids w =
     (if ids = [] then (None, w)
      else case as_delete S (take chunk ids) w of
             (Some e, w) \<Rightarrow> (Some (CronStore e), w)
           | (None, w) \<Rightarrow> delete_chunks S (drop chunk ids) w)"
  by pat_completeness auto
termination by (relation "measure (\<lambda>(_, ids, _). length ids)") (auto simp: chunk_def)

declare delete_chunks.simps [simp del]

section \<open>Ordinary activity\<close>

text \<open>Entries whose address is none are deleted unsent.\<close>

definition activity_steps :: "'w activity_store \<Rightarrow> nat \<Rightarrow> 'w \<Rightarrow> cron_error option \<times> 'w" where
  "activity_steps S count w =
     (case as_find_other S count w of
        (Inl e, w) \<Rightarrow> (Some (CronStore e), w)
      | (Inr activity, w) \<Rightarrow>
          if activity = [] then (None, w)
          else
            let ids = map en_ID (filter (\<lambda>v. \<not> ParseIP (en_IP v)) activity);
                activities = filter (\<lambda>v. ParseIP (en_IP v)) activity
            in case (if ids \<noteq> [] then as_delete S ids w else (None, w)) of
                 (Some e, w) \<Rightarrow> (Some (CronStore e), w)
               | (None, w) \<Rightarrow>
                   if activities = [] then (None, w)
                   else (case as_send S activities w of
                           (Some e, w) \<Rightarrow> (Some (CronSend e), w)
                         | (None, w) \<Rightarrow> delete_chunks S (map en_ID activities) w))"

definition activity_Run :: "'w activity_store \<Rightarrow> nat \<Rightarrow> bool \<times> 'w \<Rightarrow> cron_error option \<times> bool \<times> 'w" where
  "activity_Run S count = (\<lambda>(mu, w).
     (case SwapIf True mu of
        (False, mu) \<Rightarrow> (Some ErrCronRunning, mu, w)
      | (True, _) \<Rightarrow> (case activity_steps S count w of (e, w) \<Rightarrow> (e, False, w))))"

section \<open>Merging\<close>

record map_key =
  mk_User :: string
  mk_Server :: string
  mk_IP :: string
  mk_Event :: string
  mk_Timestamp :: string

text \<open>The map of events with the order in which its keys were added.\<close>

record event_map =
  em_max :: nat
  em_ids :: "nat list"
  em_m :: "(map_key \<times> entry) list"

definition no_events :: "nat \<Rightarrow> event_map" where
  "no_events count = \<lparr>em_max = count, em_ids = [], em_m = []\<rparr>"

text \<open>\<open>fmt\<close> is the format of a time to the minute.\<close>

definition key_of :: "(int option \<Rightarrow> string) \<Rightarrow> entry \<Rightarrow> map_key" where
  "key_of fmt a =
     \<lparr>mk_User = (case en_User a of Some u \<Rightarrow> u | None \<Rightarrow> []), mk_Server = en_Server a, mk_IP = en_IP a,
      mk_Event = en_Event a, mk_Timestamp = fmt (en_Timestamp a)\<rparr>"

text \<open>The key of the entry to merge with, added if there is room.\<close>

definition forActivity :: "(int option \<Rightarrow> string) \<Rightarrow> entry \<Rightarrow> event_map \<Rightarrow> event_map option" where
  "forActivity fmt a em =
     (if key_of fmt a \<in> fst ` set (em_m em) then Some em
      else if length (em_m em) \<ge> em_max em then None
      else Some (em\<lparr>em_m := em_m em @ [(key_of fmt a, a\<lparr>en_Metadata := Some [''files'' \<mapsto> MList []]\<rparr>)]\<rparr>))"

definition before :: "int option \<Rightarrow> int option \<Rightarrow> bool" where
  "before s t = (case t of None \<Rightarrow> False | Some t \<Rightarrow> (case s of None \<Rightarrow> True | Some s \<Rightarrow> s < t))"

definition files_of :: "entry \<Rightarrow> string list" where
  "files_of a =
     (case en_Metadata a of
        None \<Rightarrow> []
      | Some m \<Rightarrow> (case m ''files'' of Some (MList xs) \<Rightarrow> xs | _ \<Rightarrow> []))"

definition merge_into :: "entry \<Rightarrow> entry \<Rightarrow> entry" where
  "merge_into a m =
     (let m = (if before (en_Timestamp a) (en_Timestamp m) then m\<lparr>en_Timestamp := en_Timestamp a\<rparr> else m)
      in case en_Metadata m of
           None \<Rightarrow> m
         | Some md \<Rightarrow> m\<lparr>en_Metadata := Some (md(''files'' \<mapsto> MList (files_of m @ files_of a)))\<rparr>)"

definition em_Push :: "(int option \<Rightarrow> string) \<Rightarrow> entry \<Rightarrow> event_map \<Rightarrow> event_map" where
  "em_Push fmt a em =
     (case forActivity fmt a em of
        None \<Rightarrow> em
      | Some em \<Rightarrow> em\<lparr>em_ids := em_ids em @ [en_ID a],
          em_m := map (\<lambda>(k, v). (k, if k = key_of fmt a then merge_into a v else v)) (em_m em)\<rparr>)"

definition Elements :: "event_map \<Rightarrow> entry list" where
  "Elements em = map snd (em_m em)"

section \<open>SFTP activity\<close>

text \<open>
  Batches are fetched at growing offsets as long as they add entries; nothing in the code bounds their number.
  \<open>order\<close> is the order in which the map is iterated.
\<close>

partial_function (option) gather ::
  "'w activity_store \<Rightarrow> (int option \<Rightarrow> string) \<Rightarrow> nat \<Rightarrow> event_map \<Rightarrow> entry list \<Rightarrow> nat \<Rightarrow> 'w \<Rightarrow> ((string + event_map) \<times> 'w) option" where
  "gather S fmt count em activity off w =
     (if activity = [] then Some (Inr em, w)
      else let em' = fold (em_Push fmt) activity em
      in if length (em_ids em') > length (em_ids em)
         then (case as_find_sftp S off count w of (r, w) \<Rightarrow> (case r of
                 Inl e \<Rightarrow> Some (Inl e, w)
               | Inr activity \<Rightarrow> gather S fmt count em' activity (off + length activity) w))
         else Some (Inr em', w))"

definition sftp_steps ::
  "'w activity_store \<Rightarrow> (int option \<Rightarrow> string) \<Rightarrow> (entry list \<Rightarrow> entry list) \<Rightarrow> nat \<Rightarrow> 'w \<Rightarrow> (cron_error option \<times> 'w) option" where
  "sftp_steps S fmt order count w =
     (case as_find_sftp S 0 count w of
        (Inl e, w) \<Rightarrow> Some (Some (CronStore e), w)
      | (Inr activity, w) \<Rightarrow>
          (case gather S fmt count (no_events count) activity (length activity) w of
             None \<Rightarrow> None
           | Some (Inl e, w) \<Rightarrow> Some (Some (CronStore e), w)
           | Some (Inr em, w) \<Rightarrow>
               if em_m em = [] then Some (None, w)
               else (case as_send S (order (Elements em)) w of
                       (Some e, w) \<Rightarrow> Some (Some (CronSend e), w)
                     | (None, w) \<Rightarrow> Some (delete_chunks S (em_ids em) w))))"

definition sftp_Run ::
  "'w activity_store \<Rightarrow> (int option \<Rightarrow> string) \<Rightarrow> (entry list \<Rightarrow> entry list) \<Rightarrow> nat \<Rightarrow> bool \<times> 'w \<Rightarrow> (cron_error option \<times> bool \<times> 'w) option" where
  "sftp_Run S fmt order count = (\<lambda>(mu, w).
     (case SwapIf True mu of
        (False, mu) \<Rightarrow> Some (Some ErrCronRunning, mu, w)
      | (True, _) \<Rightarrow> map_option (\<lambda>(e, w). (e, False, w)) (sftp_steps S fmt order count w)))"

end
