(* ===== verification/CronProps.thy ===== *)
theory CronProps
  imports Cron
begin

text \<open>
  What the jobs that send the activity log guarantee: merging is grouping by user, server, address, event and minute;
  nothing is deleted that was not sent; the job for SFTP events ends. And what they lose: the two paths of a rename.
\<close>

section \<open>Merging is grouping\<close>

text \<open>The different elements of a list in the order of their first occurrence.\<close>

definition firsts :: "'a list \<Rightarrow> 'a list" where
  "firsts xs = rev (remdups (rev xs))"

lemma firsts_snoc: "firsts (xs @ [x]) = (if x \<in> set xs then firsts xs else firsts xs @ [x])"
  by (simp add: firsts_def)

lemma firsts_set [simp]: "set (firsts xs) = set xs" and firsts_distinct [simp]: "distinct (firsts xs)"
  by (simp_all add: firsts_def)

definition earliest :: "entry list \<Rightarrow> int option" where
  "earliest g = fold (\<lambda>a t. if before (en_Timestamp a) t then en_Timestamp a else t) (tl g) (en_Timestamp (hd g))"

text \<open>The entry that stands for a group: its first entry, with the earliest time and the files of all.\<close>

definition group_entry :: "entry list \<Rightarrow> entry" where
  "group_entry g = (hd g)\<lparr>en_Timestamp := earliest g, en_Metadata := Some [''files'' \<mapsto> MList (concat (map files_of g))]\<rparr>"

definition same_key :: "(int option \<Rightarrow> string) \<Rightarrow> map_key \<Rightarrow> entry list \<Rightarrow> entry list" where
  "same_key fmt k as = filter (\<lambda>a. key_of fmt a = k) as"

definition grouped :: "(int option \<Rightarrow> string) \<Rightarrow> nat \<Rightarrow> entry list \<Rightarrow> event_map" where
  "grouped fmt count as =
     (let ks = take count (firsts (map (key_of fmt) as))
      in \<lparr>em_max = count, em_ids = map en_ID (filter (\<lambda>a. key_of fmt a \<in> set ks) as),
          em_m = map (\<lambda>k. (k, group_entry (same_key fmt k as))) ks\<rparr>)"

lemma earliest_snoc: "g \<noteq> [] \<Longrightarrow>
    earliest (g @ [a]) = (if before (en_Timestamp a) (earliest g) then en_Timestamp a else earliest g)"
  by (cases g) (simp_all add: earliest_def)

lemma merge_group: "g \<noteq> [] \<Longrightarrow> merge_into a (group_entry g) = group_entry (g @ [a])"
  by (simp add: merge_into_def group_entry_def earliest_snoc Let_def files_of_def)

lemma before_irrefl [simp]: "\<not> before t t"
  by (simp add: before_def split: option.split)

lemma merge_first: "merge_into a (a\<lparr>en_Metadata := Some [''files'' \<mapsto> MList []]\<rparr>) = group_entry [a]"
  by (simp add: merge_into_def group_entry_def earliest_def files_of_def Let_def)

lemma same_key_snoc: "same_key fmt k (as @ [a]) = same_key fmt k as @ (if key_of fmt a = k then [a] else [])"
  by (simp add: same_key_def)

lemma same_key_not_Nil: "k \<in> set (map (key_of fmt) as) \<Longrightarrow> same_key fmt k as \<noteq> []"
  by (auto simp: same_key_def filter_empty_conv)

lemma Push_grouped: "em_Push fmt a (grouped fmt count as) = grouped fmt count (as @ [a])"
proof -
  let ?k = "key_of fmt a" and ?fs = "firsts (map (key_of fmt) as)"
  let ?ks = "take count ?fs"
  have keys: "fst ` set (em_m (grouped fmt count as)) = set ?ks"
    by (simp add: grouped_def Let_def image_image)
  have len: "length (em_m (grouped fmt count as)) = min count (length ?fs)"
    by (simp add: grouped_def Let_def min.commute)
  have nonempty: "same_key fmt k as \<noteq> []" if "k \<in> set ?ks" for k
    using that by (intro same_key_not_Nil) (auto dest: in_set_takeD)
  consider (there) "?k \<in> set ?ks" | (full) "?k \<notin> set ?ks" "count \<le> length ?fs" | (new) "?k \<notin> set ?fs" "length ?fs < count"
    by fastforce
  then show ?thesis
  proof cases
    case there
    then have "?k \<in> set (map (key_of fmt) as)" using in_set_takeD by fastforce
    then have fs: "firsts (map (key_of fmt) as @ [?k]) = ?fs" by (simp add: firsts_snoc)
    have merged: "map ((\<lambda>(k, v). (k, if k = ?k then merge_into a v else v)) \<circ> (\<lambda>k. (k, group_entry (same_key fmt k as)))) ?ks =
        map (\<lambda>k. (k, group_entry (same_key fmt k (as @ [a])))) ?ks"
      using nonempty by (auto simp: merge_group same_key_snoc)
    from there keys have "em_Push fmt a (grouped fmt count as) = (grouped fmt count as)\<lparr>em_ids := em_ids (grouped fmt count as) @ [en_ID a],
        em_m := map (\<lambda>(k, v). (k, if k = ?k then merge_into a v else v)) (em_m (grouped fmt count as))\<rparr>"
      by (simp add: em_Push_def forActivity_def)
    with there merged show ?thesis by (simp add: grouped_def fs Let_def)
  next
    case full
    have "take count (firsts (map (key_of fmt) as @ [?k])) = ?ks" using full(2) by (simp add: firsts_snoc)
    moreover have "same_key fmt k (as @ [a]) = same_key fmt k as" if "k \<in> set ?ks" for k
      using that full(1) by (auto simp: same_key_snoc)
    ultimately have "grouped fmt count (as @ [a]) = grouped fmt count as"
      using full(1) by (simp add: grouped_def Let_def)
    moreover have "em_Push fmt a (grouped fmt count as) = grouped fmt count as"
      using full keys len by (simp add: em_Push_def forActivity_def) (simp add: grouped_def Let_def)
    ultimately show ?thesis by simp
  next
    case new
    then have ks: "?ks = ?fs" and fs: "take count (firsts (map (key_of fmt) as @ [?k])) = ?fs @ [?k]"
      by (simp_all add: firsts_snoc)
    have none: "same_key fmt ?k as = []" using new(1) by (force simp: same_key_def filter_empty_conv image_iff)
    have neq: "key_of fmt x \<noteq> ?k" if "x \<in> set as" for x
      using that new(1) by (auto simp: image_iff)
    have old: "group_entry (same_key fmt k (as @ [a])) = group_entry (same_key fmt k as)" if "k \<in> set ?fs" for k
      using that new(1) by (auto simp: same_key_snoc)
    have "\<not> length (em_m (grouped fmt count as)) \<ge> count" using len new(2) by simp
    then have "em_Push fmt a (grouped fmt count as) = (grouped fmt count as)\<lparr>em_ids := em_ids (grouped fmt count as) @ [en_ID a],
        em_m := map (\<lambda>(k, v). (k, if k = ?k then merge_into a v else v))
          (em_m (grouped fmt count as) @ [(?k, a\<lparr>en_Metadata := Some [''files'' \<mapsto> MList []]\<rparr>)])\<rparr>"
      using new(1) keys ks by (simp add: em_Push_def forActivity_def) (simp add: grouped_def Let_def)?
    also have "\<dots> = grouped fmt count (as @ [a])"
      using none old neq by (auto simp: grouped_def Let_def fs ks merge_first same_key_snoc filter_id_conv)
    finally show ?thesis .
  qed
qed

lemma fold_Push: "fold (em_Push fmt) as (grouped fmt count bs) = grouped fmt count (bs @ as)"
  by (induction as arbitrary: bs) (simp_all add: Push_grouped)

lemma no_events_grouped: "no_events count = grouped fmt count []"
  by (simp add: no_events_def grouped_def firsts_def Let_def)


lemma grouped_simps:
  "em_ids (grouped fmt count as) = map en_ID (filter (\<lambda>a. key_of fmt a \<in> set (take count (firsts (map (key_of fmt) as)))) as)"
  "Elements (grouped fmt count as) = map (\<lambda>k. group_entry (same_key fmt k as)) (take count (firsts (map (key_of fmt) as)))"
  by (simp_all add: grouped_def Elements_def Let_def)

text \<open>A group of renames, which are logged with \<open>from\<close> and \<open>to\<close> and no \<open>files\<close>, is merged to an empty list.\<close>

lemma renames_merged:
  assumes "(k, v) \<in> set (em_m (fold (em_Push fmt) as (no_events count)))"
    "\<forall>a \<in> set (same_key fmt k as). \<exists>from to. en_Metadata a = Some [''from'' \<mapsto> MText from, ''to'' \<mapsto> MText to]"
  shows "en_Metadata v = Some [''files'' \<mapsto> MList []]"
proof -
  have "fold (em_Push fmt) as (no_events count) = grouped fmt count as"
    using fold_Push [of fmt as count "[]"] by (simp flip: no_events_grouped)
  with assms(1) have v: "v = group_entry (same_key fmt k as)" by (auto simp: grouped_def Let_def)
  have "files_of a = []" if "a \<in> set (same_key fmt k as)" for a
    using that assms(2) by (fastforce simp: files_of_def)
  then have "concat (map files_of (same_key fmt k as)) = []" by simp
  then show ?thesis by (simp only: v group_entry_def) simp
qed

section \<open>The store\<close>

text \<open>
  What is relied on of the database and the panel: a query returns the rows it asks for, those of SFTP events in a fixed
  order, a deletion that succeeds removes the rows it names, a request that succeeds delivers the entries it is given, and
  nothing else changes.
\<close>

definition faithful ::
  "'w activity_store \<Rightarrow> ('w \<Rightarrow> entry list) \<Rightarrow> ('w \<Rightarrow> entry list) \<Rightarrow> (entry \<Rightarrow> bool) \<Rightarrow> (entry list \<Rightarrow> entry list) \<Rightarrow> bool" where
  "faithful S rows sent is_sftp by_event \<longleftrightarrow>
     (\<forall>n w. rows (snd (as_find_other S n w)) = rows w \<and> sent (snd (as_find_other S n w)) = sent w \<and>
        (\<forall>as. fst (as_find_other S n w) = Inr as \<longrightarrow> as = take n (filter (\<lambda>a. \<not> is_sftp a) (rows w)))) \<and>
     (\<forall>off n w. rows (snd (as_find_sftp S off n w)) = rows w \<and> sent (snd (as_find_sftp S off n w)) = sent w \<and>
        (\<forall>as. fst (as_find_sftp S off n w) = Inr as \<longrightarrow> as = take n (drop off (by_event (filter is_sftp (rows w)))))) \<and>
     (\<forall>ids w. sent (snd (as_delete S ids w)) = sent w \<and>
        rows (snd (as_delete S ids w)) =
          (if fst (as_delete S ids w) = None then filter (\<lambda>a. en_ID a \<notin> set ids) (rows w) else rows w)) \<and>
     (\<forall>as w. rows (snd (as_send S as w)) = rows w \<and>
        sent (snd (as_send S as w)) = (if fst (as_send S as w) = None then sent w @ as else sent w)) \<and>
     (\<forall>xs. set (by_event xs) = set xs)"

lemma faithful_other:
  assumes "faithful S rows sent is_sftp by_event" "as_find_other S n w = (r, w')"
  shows "rows w' = rows w" "sent w' = sent w" "r = Inr as \<Longrightarrow> as = take n (filter (\<lambda>a. \<not> is_sftp a) (rows w))"
proof -
  from assms(1) have "rows (snd (as_find_other S n w)) = rows w \<and> sent (snd (as_find_other S n w)) = sent w \<and>
      (\<forall>as. fst (as_find_other S n w) = Inr as \<longrightarrow> as = take n (filter (\<lambda>a. \<not> is_sftp a) (rows w)))"
    unfolding faithful_def by blast
  with assms(2) show "rows w' = rows w" "sent w' = sent w" "r = Inr as \<Longrightarrow> as = take n (filter (\<lambda>a. \<not> is_sftp a) (rows w))" by auto
qed

lemma faithful_sftp:
  assumes "faithful S rows sent is_sftp by_event" "as_find_sftp S off n w = (r, w')"
  shows "rows w' = rows w" "sent w' = sent w" "r = Inr as \<Longrightarrow> as = take n (drop off (by_event (filter is_sftp (rows w))))"
proof -
  from assms(1) have "rows (snd (as_find_sftp S off n w)) = rows w \<and> sent (snd (as_find_sftp S off n w)) = sent w \<and>
      (\<forall>as. fst (as_find_sftp S off n w) = Inr as \<longrightarrow> as = take n (drop off (by_event (filter is_sftp (rows w)))))"
    unfolding faithful_def by blast
  with assms(2) show "rows w' = rows w" "sent w' = sent w" "r = Inr as \<Longrightarrow> as = take n (drop off (by_event (filter is_sftp (rows w))))" by auto
qed

lemma faithful_delete:
  assumes "faithful S rows sent is_sftp by_event" "as_delete S ids w = (r, w')"
  shows "sent w' = sent w" "rows w' = (if r = None then filter (\<lambda>a. en_ID a \<notin> set ids) (rows w) else rows w)"
proof -
  from assms(1) have "rows (snd (as_delete S ids w)) = (if fst (as_delete S ids w) = None then filter (\<lambda>a. en_ID a \<notin> set ids) (rows w) else rows w) \<and> sent (snd (as_delete S ids w)) = sent w"
    unfolding faithful_def by blast
  with assms(2) show "sent w' = sent w" "rows w' = (if r = None then filter (\<lambda>a. en_ID a \<notin> set ids) (rows w) else rows w)" by auto
qed

lemma faithful_send:
  assumes "faithful S rows sent is_sftp by_event" "as_send S as w = (r, w')"
  shows "rows w' = rows w" "sent w' = (if r = None then sent w @ as else sent w)"
proof -
  from assms(1) have "rows (snd (as_send S as w)) = rows w \<and> sent (snd (as_send S as w)) = (if fst (as_send S as w) = None then sent w @ as else sent w)"
    unfolding faithful_def by blast
  with assms(2) show "rows w' = rows w" "sent w' = (if r = None then sent w @ as else sent w)" by auto
qed

lemma delete_chunks_spec:
  assumes "faithful S rows sent is_sftp by_event" "delete_chunks S ids w = (e, w')"
  shows "sent w' = sent w \<and> {a \<in> set (rows w). en_ID a \<notin> set ids} \<subseteq> set (rows w') \<and>
    (e = None \<longrightarrow> rows w' = filter (\<lambda>a. en_ID a \<notin> set ids) (rows w))"
  using assms
proof (induction S ids w rule: delete_chunks.induct)
  case (1 S ids w)
  show ?case
  proof (cases "ids = []")
    case True
    with "1.prems"(2) show ?thesis by (simp add: delete_chunks.simps)
  next
    case False
    obtain x w1 where x: "as_delete S (take chunk ids) w = (x, w1)" by fastforce
    note del = faithful_delete [OF "1.prems"(1) x]
    have ids: "set ids = set (take chunk ids) \<union> set (drop chunk ids)"
      by (metis append_take_drop_id set_append)
    show ?thesis
    proof (cases x)
      case (Some er)
      with "1.prems"(2) False x have "e = Some (CronStore er)" "w' = w1"
        by (simp_all add: delete_chunks.simps)
      with del Some show ?thesis by auto
    next
      case None
      with "1.prems"(2) False x have rest: "delete_chunks S (drop chunk ids) w1 = (e, w')"
        by (simp add: delete_chunks.simps)
      from "1.IH" [OF False x [symmetric] None "1.prems"(1) rest] del None ids show ?thesis
        by (auto simp: conj_commute)
    qed
  qed
qed

section \<open>Ordinary activity\<close>

lemma filter_ids:
  assumes "distinct (map en_ID xs)" "set bs \<subseteq> set xs"
  shows "filter (\<lambda>a. en_ID a \<notin> set (map en_ID bs)) xs = filter (\<lambda>a. a \<notin> set bs) xs"
proof (rule filter_cong [OF refl])
  fix a assume "a \<in> set xs"
  with assms show "(en_ID a \<notin> set (map en_ID bs)) = (a \<notin> set bs)"
    by (auto simp: distinct_map dest: inj_onD)
qed

lemma optional_delete:
  assumes "faithful S rows sent is_sftp by_event" "(if ids \<noteq> [] then as_delete S ids w else (None, w)) = (d, w')"
  shows "sent w' = sent w \<and> rows w' = (if d = None then filter (\<lambda>a. en_ID a \<notin> set ids) (rows w) else rows w)"
  using faithful_delete [OF assms(1), of ids w d w'] assms(2) by (cases "ids = []") auto

text \<open>The job for ordinary activity loses nothing: whatever fails, an entry with a valid address is still stored or was
  sent; and when it succeeds exactly the batch it fetched is gone, its entries with a valid address sent once, in order.\<close>

theorem activity_cron_exact:
  assumes "faithful S rows sent is_sftp by_event" "distinct (map en_ID (rows w))" "activity_steps S count w = (e, w')"
  shows "{a \<in> set (rows w). ParseIP (en_IP a)} \<subseteq> set (rows w') \<union> set (sent w') \<and>
    (e = None \<longrightarrow> rows w' = filter (\<lambda>a. a \<notin> set (take count (filter (\<lambda>a. \<not> is_sftp a) (rows w)))) (rows w) \<and>
       sent w' = sent w @ filter (\<lambda>a. ParseIP (en_IP a)) (take count (filter (\<lambda>a. \<not> is_sftp a) (rows w))))"
proof -
  define as where "as = take count (filter (\<lambda>a. \<not> is_sftp a) (rows w))"
  define bad where "bad = filter (\<lambda>v. \<not> ParseIP (en_IP v)) as"
  define good where "good = filter (\<lambda>v. ParseIP (en_IP v)) as"
  have "set as \<subseteq> set (rows w)" unfolding as_def by (meson filter_is_subset set_take_subset subset_trans)
  then have subs: "set bad \<subseteq> set (rows w)" "set good \<subseteq> set (rows w)" by (auto simp: bad_def good_def)
  note gone = subs [THEN filter_ids [OF assms(2)]]
  have split: "filter (\<lambda>a. a \<notin> set good) (filter (\<lambda>a. a \<notin> set bad) (rows w)) = filter (\<lambda>a. a \<notin> set as) (rows w)"
    by (auto simp: good_def bad_def intro!: filter_cong)
  have valid: "a \<notin> set bad" if "ParseIP (en_IP a)" for a using that by (simp add: bad_def)
  obtain r w1 where r: "as_find_other S count w = (r, w1)" by fastforce
  note f = faithful_other [OF assms(1) r]
  have "{a \<in> set (rows w). ParseIP (en_IP a)} \<subseteq> set (rows w') \<union> set (sent w') \<and>
    (e = None \<longrightarrow> rows w' = filter (\<lambda>a. a \<notin> set as) (rows w) \<and> sent w' = sent w @ good)"
  proof (cases "(\<exists>e. r = Inl e) \<or> as = []")
    case True
    with assms(3) r f have "w' = w1" "e = None \<Longrightarrow> as = []"
      by (auto simp: activity_steps_def as_def split: sum.splits)
    with f show ?thesis by (auto simp: good_def)
  next
    case False
    then have as: "r = Inr as" "as \<noteq> []" using f(3) by (cases r; auto simp: as_def)+
    obtain d w2 where d: "(if map en_ID bad \<noteq> [] then as_delete S (map en_ID bad) w1 else (None, w1)) = (d, w2)" by fastforce
    from optional_delete [OF assms(1) d] f gone(1)
    have w2: "sent w2 = sent w" "rows w2 = (if d = None then filter (\<lambda>a. a \<notin> set bad) (rows w) else rows w)" by simp_all
    have run: "activity_steps S count w = (case d of Some e \<Rightarrow> (Some (CronStore e), w2)
        | None \<Rightarrow> if good = [] then (None, w2)
            else (case as_send S good w2 of (Some e, w) \<Rightarrow> (Some (CronSend e), w)
                  | (None, w) \<Rightarrow> delete_chunks S (map en_ID good) w))"
      unfolding activity_steps_def r as(1) prod.case sum.case Let_def bad_def [symmetric] good_def [symmetric] d
      using as(2) by (simp split: option.split)
    show ?thesis
    proof (cases d)
      case (Some x)
      with run assms(3) w2 show ?thesis by auto
    next
      case None
      obtain x w3 where x: "as_send S good w2 = (x, w3)" by fastforce
      note s = faithful_send [OF assms(1) x]
      consider "good = []" | y where "good \<noteq> []" "x = Some y" | "good \<noteq> []" "x = None" by fastforce
      then show ?thesis
      proof cases
        case 1
        with run None assms(3) w2 have w': "rows w' = filter (\<lambda>a. a \<notin> set bad) (rows w)" "sent w' = sent w" by simp_all
        then have "{a \<in> set (rows w). ParseIP (en_IP a)} \<subseteq> set (rows w')" using valid by auto
        with w' split 1 show ?thesis by auto
      next
        case 2
        with run None assms(3) x have "w' = w3" "e \<noteq> None" by auto
        with None w2 s 2 valid show ?thesis by auto
      next
        case 3
        with run None assms(3) x have del: "delete_chunks S (map en_ID good) w3 = (e, w')" by simp
        from delete_chunks_spec [OF assms(1) del] have sent: "sent w' = sent w @ good"
          and kept: "{a \<in> set (rows w3). en_ID a \<notin> set (map en_ID good)} \<subseteq> set (rows w')"
          and all: "e = None \<longrightarrow> rows w' = filter (\<lambda>a. en_ID a \<notin> set (map en_ID good)) (rows w3)"
          using s 3 w2 by auto
        have w3: "rows w3 = filter (\<lambda>a. a \<notin> set bad) (rows w)" using s w2 None by simp
        have ids: "(en_ID a \<notin> set (map en_ID good)) = (a \<notin> set good)" if "a \<in> set (rows w)" for a
          using that subs(2) assms(2) by (auto simp: distinct_map dest: inj_onD)
        have "filter (\<lambda>a. en_ID a \<notin> set (map en_ID good)) (rows w3) = filter (\<lambda>a. a \<notin> set good) (rows w3)"
          by (rule filter_cong [OF refl]) (use ids in \<open>auto simp: w3\<close>)
        with all have "e = None \<longrightarrow> rows w' = filter (\<lambda>a. a \<notin> set as) (rows w)" using split w3 by simp
        moreover have "a \<in> set (rows w') \<union> set (sent w')" if "a \<in> set (rows w)" "ParseIP (en_IP a)" for a
          using that kept sent ids [OF that(1)] valid by (cases "a \<in> set good") (auto simp: w3)
        ultimately show ?thesis using sent by auto
      qed
    qed
  qed
  then show ?thesis by (simp add: as_def good_def)
qed

section \<open>SFTP activity\<close>

text \<open>The batches that are fetched one after the other are a prefix of the stored events.\<close>

lemma gather_prefix:
  assumes "faithful S rows sent is_sftp by_event"
  shows "\<exists>r w'. gather S fmt count em activity off w = Some (r, w') \<and> rows w' = rows w \<and> sent w' = sent w \<and>
    (\<forall>em'. r = Inr em' \<longrightarrow> (\<exists>m. em' = fold (em_Push fmt) (activity @ take m (drop off (by_event (filter is_sftp (rows w))))) em))"
proof (induction "length (by_event (filter is_sftp (rows w))) - off" arbitrary: em activity off w rule: less_induct)
  case less
  let ?xs = "by_event (filter is_sftp (rows w))" and ?em = "fold (em_Push fmt) activity em"
  show ?case
  proof (cases "activity = [] \<or> \<not> length (em_ids em) < length (em_ids ?em)")
    case True
    then have "gather S fmt count em activity off w = Some (Inr ?em, w)"
      by (subst gather.simps) auto
    moreover have "?em = fold (em_Push fmt) (activity @ take 0 (drop off ?xs)) em" by simp
    ultimately show ?thesis by blast
  next
    case False
    obtain r w1 where r: "as_find_sftp S off count w = (r, w1)" by fastforce
    note f = faithful_sftp [OF assms r]
    have run: "gather S fmt count em activity off w =
        (case r of Inl e \<Rightarrow> Some (Inl e, w1) | Inr bs \<Rightarrow> gather S fmt count ?em bs (off + length bs) w1)"
      using False by (subst gather.simps) (simp add: r Let_def)
    show ?thesis
    proof (cases r)
      case (Inl e)
      with run f show ?thesis by auto
    next
      case (Inr bs)
      then have bs: "bs = take count (drop off ?xs)" by (rule f(3))
      show ?thesis
      proof (cases "bs = []")
        case True
        then have "gather S fmt count em activity off w = Some (Inr ?em, w1)"
          using run Inr by (simp add: gather.simps)
        moreover have "?em = fold (em_Push fmt) (activity @ take 0 (drop off ?xs)) em" by simp
        ultimately show ?thesis using f by blast
      next
        case nonempty: False
        then have "length ?xs - (off + length bs) < length ?xs - off" using bs by auto
        then have "length (by_event (filter is_sftp (rows w1))) - (off + length bs) < length ?xs - off" using f(1) by simp
        from less [OF this, of ?em bs] obtain r' w' where
          r': "gather S fmt count ?em bs (off + length bs) w1 = Some (r', w')" "rows w' = rows w" "sent w' = sent w"
          and em': "\<And>em'. r' = Inr em' \<Longrightarrow>
            \<exists>m. em' = fold (em_Push fmt) (bs @ take m (drop (off + length bs) ?xs)) ?em"
          using f by auto
        have "bs @ take m (drop (off + length bs) ?xs) = take (length bs + m) (drop off ?xs)" for m
        proof -
          have "take (length bs) (drop off ?xs) = bs" using bs by (metis length_take min.commute take_all_iff take_take order_refl)
          then show ?thesis using take_add [of "length bs" m "drop off ?xs"] by (simp add: add.commute)
        qed
        with em' have "\<exists>m. em' = fold (em_Push fmt) (activity @ take m (drop off ?xs)) em" if "r' = Inr em'" for em'
          using that by fastforce
        with r' run Inr show ?thesis by auto
      qed
    qed
  qed
qed

text \<open>The job for SFTP events ends, whatever the format of times, the maximum and the order of the map are.\<close>

theorem sftp_cron_terminates:
  assumes "faithful S rows sent is_sftp by_event"
  shows "\<exists>y. sftp_Run S fmt order count (mu, w) = Some y"
proof -
  obtain r w1 where r: "as_find_sftp S 0 count w = (r, w1)" by fastforce
  have "\<exists>y. sftp_steps S fmt order count w = Some y"
  proof (cases r)
    case (Inl e)
    with r show ?thesis by (simp add: sftp_steps_def)
  next
    case (Inr as)
    obtain x w2 where "gather S fmt count (no_events count) as (length as) w1 = Some (x, w2)"
      using gather_prefix [OF assms] by blast
    with r Inr show ?thesis by (auto simp: sftp_steps_def split: sum.split prod.split option.split)
  qed
  then show ?thesis by (auto simp: sftp_Run_def SwapIf_def)
qed

text \<open>When the job for SFTP events succeeds, the events it deleted are those accounted for in the grouping of a prefix of
  the stored events, and that grouping is what was sent, once.\<close>

theorem sftp_events_delivered:
  assumes "faithful S rows sent is_sftp by_event" "\<And>xs. length (order xs) = length xs \<and> set (order xs) = set xs"
    "sftp_Run S fmt order count (False, w) = Some (None, mu, w')"
  shows "\<exists>m. let em = grouped fmt count (take m (by_event (filter is_sftp (rows w))))
    in rows w' = filter (\<lambda>a. en_ID a \<notin> set (em_ids em)) (rows w) \<and> sent w' = sent w @ order (Elements em) \<and> \<not> mu"
proof -
  let ?xs = "by_event (filter is_sftp (rows w))"
  from assms(3) have mu: "\<not> mu" and run: "sftp_steps S fmt order count w = Some (None, w')"
    by (auto simp: sftp_Run_def SwapIf_def)
  obtain r w1 where r: "as_find_sftp S 0 count w = (r, w1)" by fastforce
  note f = faithful_sftp [OF assms(1) r]
  from run r obtain as where as: "r = Inr as" by (cases r) (auto simp: sftp_steps_def)
  then have bs: "as = take count ?xs" using f(3) by simp
  obtain x w2 where x: "gather S fmt count (no_events count) as (length as) w1 = Some (x, w2)" "rows w2 = rows w" "sent w2 = sent w"
    "\<And>em'. x = Inr em' \<Longrightarrow> \<exists>m. em' = fold (em_Push fmt) (as @ take m (drop (length as) ?xs)) (no_events count)"
    using gather_prefix [OF assms(1), of fmt count "no_events count" as "length as" w1] f(1,2) by auto
  from run r as x(1) obtain em where em: "x = Inr em" by (cases x) (auto simp: sftp_steps_def)
  with x(4) obtain m where "em = fold (em_Push fmt) (as @ take m (drop (length as) ?xs)) (no_events count)" by blast
  moreover have "as @ take m (drop (length as) ?xs) = take (length as + m) ?xs"
  proof -
    have "take (length as) ?xs = as" using bs by (metis length_take min.commute take_all_iff take_take order_refl)
    then show ?thesis by (simp add: take_add)
  qed
  ultimately have g: "em = grouped fmt count (take (length as + m) ?xs)"
    using fold_Push [of fmt _ count "[]"] by (simp flip: no_events_grouped)
  show ?thesis
  proof (cases "em_m em = []")
    case True
    with run r as x em have "w' = w2" by (simp add: sftp_steps_def)
    moreover have "order [] = []" using assms(2) [of "[]"] by simp
    moreover have ks: "take count (firsts (map (key_of fmt) (take (length as + m) ?xs))) = []"
      using True by (simp add: g grouped_def Let_def del: take_eq_Nil)
    moreover have "em_ids em = []" by (simp add: g grouped_def Let_def ks del: take_eq_Nil)
    ultimately show ?thesis using x mu True g by (intro exI [of _ "length as + m"]) (simp add: Let_def Elements_def)
  next
    case False
    obtain y w3 where y: "as_send S (order (Elements em)) w2 = (y, w3)" by fastforce
    with run r as x em False have del: "y = None" "delete_chunks S (em_ids em) w3 = (None, w')"
      by (cases y; simp add: sftp_steps_def)+
    note s = faithful_send [OF assms(1) y]
    from delete_chunks_spec [OF assms(1) del(2)] s x del(1) mu g show ?thesis
      by (intro exI [of _ "length as + m"]) (simp add: Let_def)
  qed
qed

section \<open>Examples\<close>

text \<open>A store in memory: the rows and what was sent.\<close>

definition sftp_event :: "entry \<Rightarrow> bool" where
  "sftp_event a = HasPrefix (en_Event a) ''server:sftp.''"

definition memory_store :: "(entry list \<times> entry list) activity_store" where
  "memory_store =
     \<lparr>as_find_other = (\<lambda>n w. (Inr (take n (filter (\<lambda>a. \<not> sftp_event a) (fst w))), w)),
      as_find_sftp = (\<lambda>off n w. (Inr (take n (drop off (filter sftp_event (fst w)))), w)),
      as_delete = (\<lambda>ids w. (None, filter (\<lambda>a. en_ID a \<notin> set ids) (fst w), snd w)),
      as_send = (\<lambda>as w. (None, fst w, snd w @ as))\<rparr>"

lemma memory_faithful: "faithful memory_store fst snd sftp_event (\<lambda>xs. xs)"
  by (simp add: faithful_def memory_store_def)

definition example_entry :: "nat \<Rightarrow> string \<Rightarrow> string \<Rightarrow> (string \<rightharpoonup> meta) \<Rightarrow> entry" where
  "example_entry i event ip md =
     \<lparr>en_ID = i, en_User = Some ''u'', en_Server = ''s'', en_Event = event, en_Metadata = Some md, en_IP = ip, en_Timestamp = Some 7\<rparr>"

definition rename_entry :: entry where
  "rename_entry = example_entry 1 ''server:sftp.rename'' ''10.0.0.1'' [''from'' \<mapsto> MText ''a'', ''to'' \<mapsto> MText ''b'']"

theorem activity_cron_exact_witness:
  "\<exists>w'. activity_steps memory_store 5 ([example_entry 1 ''server:power.start'' ''10.0.0.1'' Map.empty, example_entry 2 ''x'' ''10.0'' Map.empty], []) =
      (None, w') \<and> fst w' = [] \<and> map en_ID (snd w') = [1]"
proof -
  let ?r = "[example_entry 1 ''server:power.start'' ''10.0.0.1'' Map.empty, example_entry 2 ''x'' ''10.0'' Map.empty]"
  have ip: "ParseIP ''10.0.0.1''" "\<not> ParseIP ''10.0''" by code_simp+
  have ev: "\<not> sftp_event (example_entry i ''server:power.start'' a m)" "\<not> sftp_event (example_entry i ''x'' a m)" for i a m
    by (simp_all add: sftp_event_def example_entry_def)
  have "\<exists>w'. activity_steps memory_store 5 (?r, []) = (None, w')"
    using ip ev by (simp add: activity_steps_def memory_store_def delete_chunks.simps chunk_def example_entry_def Let_def)
  then obtain w' where run: "activity_steps memory_store 5 (?r, []) = (None, w')" by blast
  have "distinct (map en_ID (fst (?r, [])))" by (simp add: example_entry_def)
  from activity_cron_exact [OF memory_faithful this run] run ip ev show ?thesis
    by (simp add: example_entry_def)
qed

theorem sftp_cron_terminates_witness:
  "\<exists>y. sftp_Run memory_store (\<lambda>_. ''m'') (\<lambda>xs. xs) 5 (False, ([rename_entry], [])) = Some y"
  by (rule sftp_cron_terminates [OF memory_faithful])

theorem sftp_events_delivered_witness:
  "\<exists>mu w'. sftp_Run memory_store (\<lambda>_. ''m'') (\<lambda>xs. xs) 5 (False, ([rename_entry], [])) = Some (None, mu, w') \<and> \<not> mu"
proof -
  have "\<exists>w'. sftp_Run memory_store (\<lambda>_. ''m'') (\<lambda>xs. xs) 5 (False, ([rename_entry], [])) = Some (None, False, w')"
    by (simp add: sftp_Run_def SwapIf_def sftp_steps_def memory_store_def gather.simps no_events_def em_Push_def forActivity_def
        sftp_event_def rename_entry_def example_entry_def delete_chunks.simps chunk_def Let_def)
  then obtain w' where run: "sftp_Run memory_store (\<lambda>_. ''m'') (\<lambda>xs. xs) 5 (False, ([rename_entry], [])) = Some (None, False, w')" by blast
  have "\<not> False" using sftp_events_delivered [OF memory_faithful _ run] by (auto simp: Let_def)
  with run show ?thesis by auto
qed

end
