(* ===== verification/SftpProps.thy ===== *)
theory SftpProps
  imports Sftp RouterFilesProps CronProps
begin

text \<open>
  The guarantees of an SFTP session: its requests stay inside the server's directory, it acts only with the permission of
  each request, its permissions are those the panel granted, and its listings are complete.
\<close>

section \<open>Confinement\<close>

datatype sftp_op = OpRead sftp_request | OpWrite int disk_cache sftp_request | OpCmd sftp_request | OpList sftp_request

definition with_site :: "'v site \<Rightarrow> 'w sftp_handler \<Rightarrow> 'v sftp_handler" where
  "with_site H h = \<lparr>sh_site = H, sh_events = sh_events h, sh_permissions = sh_permissions h, sh_suspended = sh_suspended h, sh_ro = sh_ro h\<rparr>"

fun run_sftp :: "'w sftp_handler \<Rightarrow> sftp_op \<Rightarrow> (unit, quota \<times> 'w) fsop" where
  "run_sftp h (OpRead rq) = forget (Fileread h rq)"
| "run_sftp h (OpWrite now c rq) = forget (Filewrite h now c rq)"
| "run_sftp h (OpCmd rq) = forget (Filecmd h rq)"
| "run_sftp h (OpList rq) = forget (Filelist h rq)"

fun run_sftps :: "'w sftp_handler \<Rightarrow> sftp_op list \<Rightarrow> (unit, quota \<times> 'w) fsop" where
  "run_sftps h [] w = Some ((), w)"
| "run_sftps h (r # rs) w = do { (_, w) \<leftarrow> run_sftp h r w; run_sftps h rs w }"

lemma with_site_simps [simp]:
  "sh_site (with_site H h) = H" "can (with_site H h) = can h" "sh_ro (with_site H h) = sh_ro h" "logs (with_site H h) = logs h"
  by (simp_all add: with_site_def can_def logs_def fun_eq_iff)

lemma space_check_stale: "space_check H now c w = Some (r, w') \<Longrightarrow> snd w' = snd w"
  by (cases w) (auto simp: space_check_def HasSpaceAvailable_def DiskUsage_def Let_def split: if_splits option.splits)

lemma keeps_space_check [keeps_intros]: "beside.keeps base ns (space_check H now c)"
proof (rule beside.keepsI)
  fix w r w'
  assume "case w of (_, w, l) \<Rightarrow> log_ok base l" "ns \<subseteq> (case w of (_, w, l) \<Rightarrow> listed l)" "space_check H now c w = Some (r, w')"
  with space_check_stale [of H now c w r w']
  show "(case w' of (_, w, l) \<Rightarrow> log_ok base l) \<and> (case w of (_, w, l) \<Rightarrow> listed l) \<subseteq> (case w' of (_, w, l) \<Rightarrow> listed l)"
    by (auto split: prod.splits)
qed

lemma keeps_fs_Stat [keeps_intros]: "placed base H \<Longrightarrow> beside.keeps base ns (fs_Stat (traced_site H) p)"
  unfolding fs_Stat_def traced_site_simps by (auto intro!: keeps_intros dest: placed_base)

lemma keeps_Fileread: "placed base H \<Longrightarrow> beside.keeps base ns (Fileread (with_site (traced_site H) h) rq)"
  unfolding Fileread_def with_site_simps traced_site_simps by (auto intro!: keeps_intros)

lemma keeps_Filewrite: "placed base H \<Longrightarrow> beside.keeps base ns (Filewrite (with_site (traced_site H) h) now c rq)"
  unfolding Filewrite_def with_site_simps traced_site_simps
  by (auto intro!: keeps_intros beside.keeps_fs_Chown dest: placed_base)

lemma keeps_run_command: "placed base H \<Longrightarrow> beside.keeps base ns (run_command (with_site (traced_site H) h) rq)"
  unfolding run_command_def with_site_simps traced_site_simps Let_def CreateDirectory_def
  by (auto intro!: keeps_intros keeps_Delete dest: placed_base)

lemma keeps_command_end [keeps_intros]:
  "(\<And>st. beside.keeps base ns (f st)) \<Longrightarrow> beside.keeps base ns g \<Longrightarrow>
    beside.keeps base ns (\<lambda>w. case x of Ended st \<Rightarrow> f st w | Goes_on \<Rightarrow> g w)"
  by (cases x) simp_all

lemma keeps_Filecmd: "placed base H \<Longrightarrow> beside.keeps base ns (Filecmd (with_site (traced_site H) h) rq)"
  unfolding Filecmd_def with_site_simps traced_site_simps
  by (auto intro!: keeps_intros keeps_run_command beside.keeps_fs_Chown dest: placed_base)

lemma keeps_Filelist: "placed base H \<Longrightarrow> beside.keeps base ns (Filelist (with_site (traced_site H) h) rq)"
  unfolding Filelist_def with_site_simps traced_site_simps Let_def
  by (auto intro!: keeps_intros beside.keeps_ReadDirMap dest: placed_base)

lemma keeps_run_sftps: "placed base H \<Longrightarrow> beside.keeps base {} (run_sftps (with_site (traced_site H) h) rs)"
proof (induction rs)
  case Nil
  show ?case by (simp add: beside.keeps_def)
next
  case (Cons r rs)
  have "beside.keeps base {} (run_sftp (with_site (traced_site H) h) r)"
    using Cons.prems
    by (cases r) (auto simp: forget_def intro!: keeps_intros keeps_Fileread keeps_Filewrite keeps_Filecmd keeps_Filelist)
  with Cons have "beside.keeps base {} (\<lambda>w. run_sftps (with_site (traced_site H) h) (r # rs) w)"
    unfolding run_sftps.simps by (auto intro!: keeps_intros)
  then show ?case by simp
qed

text \<open>Whatever an SFTP session asks for, with whatever paths and targets, and whatever the kernel answers, every system call
  stays inside the directory of its server.\<close>

theorem sftp_requests_confined:
  assumes "good_base bs" "basePath (fsys_unix (si_fs H)) = spell bs" "slash \<notin> set (si_now H)"
    "run_sftps (with_site (traced_site H) h) rs (q, w, []) = Some (r, (q', w', log))"
  shows "log_ok (spell bs) log"
proof -
  have "placed (spell bs) H"
    using assms(1,2,3) by (auto simp: placed_def beside.on_base_def)
  from beside.keepsD [OF keeps_run_sftps [OF this] _ _ assms(4)] show ?thesis by simp
qed

section \<open>Permissions\<close>

fun command_permission :: "string \<Rightarrow> string option" where
  "command_permission method =
     (if method = ''Setstat'' \<or> method = ''Rename'' then Some PermissionFileUpdate
      else if method = ''Rmdir'' \<or> method = ''Remove'' then Some PermissionFileDelete
      else if method = ''Mkdir'' \<or> method = ''Symlink'' then Some PermissionFileCreate
      else None)"

lemma can_in_iff: "can_in ps q \<longleftrightarrow> q \<in> set ps \<or> ''*'' \<in> set ps"
  by (induction ps) auto

lemma can_iff: "can h q \<longleftrightarrow> \<not> sh_suspended h \<and> (q \<in> set (sh_permissions h) \<or> ''*'' \<in> set (sh_permissions h))"
  by (simp add: can_def can_in_iff)

lemma run_command_refused:
  assumes "\<not> (\<exists>q. command_permission (rq_Method rq) = Some q \<and> can h q)"
  shows "run_command h rq w = Some ((Ended SshPermissionDenied, []), w) \<or> run_command h rq w = Some ((Ended SshOpUnsupported, []), w)"
  using assms by (auto simp: run_command_def Let_def split: if_splits)


text \<open>C34: After a login a session may do exactly what the panel granted: a permission on the list, or everything if the list has
  the wildcard, as long as the server is not suspended. Permissions have no commas in them.\<close>

theorem sftp_permissions_exact:
  assumes "makeCredentialsRequest validate key_only addr user t p w = (Inr ext, w')"
    "validate t user p w = (Inr (server, uuid, permissions), v)" "\<forall>q \<in> set permissions. CHR '','' \<notin> set q" "q \<noteq> []"
  shows "\<exists>h. NewHandler H ro suspended addr sid ext = Some h \<and>
    (can h q \<longleftrightarrow> \<not> suspended \<and> (q \<in> set permissions \<or> ''*'' \<in> set permissions))"
proof -
  have ext: "ext = [''ip'' \<mapsto> addr, ''uuid'' \<mapsto> server, ''user'' \<mapsto> uuid, ''permissions'' \<mapsto> join_with '','' permissions]"
    using assms(1,2) by (auto simp: makeCredentialsRequest_def split: if_splits)
  have "split_on CHR '','' (join_with '','' permissions) = (if permissions = [] then [[]] else permissions)"
    using assms(3) split_join [of permissions "CHR '',''"] by auto
  then show ?thesis
    using assms(4) by (auto simp: NewHandler_def ext can_iff)
qed

text \<open>The target of a rename is not compared with the denylist: a file can be moved onto a denied path, which the panel's
  request for the same refuses.\<close>

theorem sftp_rename_target_unchecked:
  assumes "rq_Target rq \<noteq> rq_Filepath rq"
  shows "Filecmd (with_site ((sh_site h)\<lparr>si_ignored := (\<lambda>p. p = rq_Target rq \<or> si_ignored (sh_site h) p)\<rparr>) h) rq w = Filecmd h rq w"
proof -
  let ?H = "(sh_site h)\<lparr>si_ignored := (\<lambda>p. p = rq_Target rq \<or> si_ignored (sh_site h) p)\<rparr>"
  have "run_command (with_site ?H h) rq w = run_command h rq w"
    unfolding run_command_def with_site_simps by (simp add: Let_def)
  moreover have "IsIgnored ?H [rq_Filepath rq] = IsIgnored (sh_site h) [rq_Filepath rq]"
    using assms by (simp add: IsIgnored_def)
  moreover have "si_kernel ?H = si_kernel (sh_site h)" "si_fs ?H = si_fs (sh_site h)" "si_fuel ?H = si_fuel (sh_site h)"
    by simp_all
  ultimately show ?thesis
    unfolding Filecmd_def with_site_simps by (simp only:)
qed

section \<open>Channels\<close>

text \<open>Only the subsystem \<open>sftp\<close> is granted, and a request for a subsystem whose payload is too short for the length of a
  name panics, in a routine that recovers from nothing.\<close>

theorem short_subsystem_panics: "length payload < 4 \<Longrightarrow> subsystem_reply ''subsystem'' payload = Panic"
  by (simp add: subsystem_reply_def)

section \<open>Listings\<close>

text \<open>A client that reads a listing page by page until its end.\<close>

function pages :: "'a list \<Rightarrow> nat \<Rightarrow> nat \<Rightarrow> 'a list" where
  "pages l n offset =
     (case ListAt l n offset of (xs, eof) \<Rightarrow> if eof \<or> n = 0 then xs else xs @ pages l n (offset + length xs))"
  by pat_completeness auto
termination
  by (relation "measure (\<lambda>(l, n, offset). length l - offset)") (auto simp: ListAt_def split: if_splits)

declare pages.simps [simp del]

text \<open>Read page by page until the end is reported, a listing is complete and in order, whatever the size of the pages.\<close>

theorem sftp_listing_complete:
  assumes "0 < n"
  shows "pages l n 0 = l"
proof -
  have "pages l n offset = drop offset l" for offset
  proof (induction "length l - offset" arbitrary: offset rule: less_induct)
    case less
    show ?case
    proof (cases "offset \<ge> length l \<or> length (take n (drop offset l)) < n")
      case True
      then show ?thesis by (auto simp: pages.simps [of l n offset] ListAt_def)
    next
      case False
      then have at: "ListAt l n offset = (take n (drop offset l), False)" and len: "length (take n (drop offset l)) = n"
        by (auto simp: ListAt_def)
      have "pages l n (offset + n) = drop (offset + n) l" by (rule less) (use assms False in auto)
      moreover have "pages l n offset = take n (drop offset l) @ pages l n (offset + n)"
        using at assms len by (subst pages.simps) (simp del: length_take)
      ultimately show ?thesis by (metis add.commute append_take_drop_id drop_drop)
    qed
  qed
  from this [of 0] show ?thesis by simp
qed

section \<open>From a session to the panel\<close>

text \<open>What a session logs of a rename does not reach the panel: the paths are in the entry that is stored, and the entry
  that is sent for a group of renames has none.\<close>

theorem sftp_rename_not_reported:
  assumes "(k, v) \<in> set (em_m (fold (em_Push fmt) as (no_events n)))"
    "\<forall>a \<in> set (same_key fmt k as). \<exists>h entity target ip i now. target \<noteq> [] \<and>
       a = (BeforeCreate now (hd (logs h ActivitySftpRename entity target)))\<lparr>en_ID := i, en_IP := ip\<rparr>"
  shows "en_Metadata v = Some [''files'' \<mapsto> MList []]"
proof -
  have "\<exists>from to. en_Metadata a = Some [''from'' \<mapsto> MText from, ''to'' \<mapsto> MText to]" if "a \<in> set (same_key fmt k as)" for a
    using assms(2) that
    by (fastforce simp: logs_def log_entry_def en_SetUser_def BeforeCreate_def action_metadata_def Let_def split: option.splits prod.splits)
  with assms(1) show ?thesis by (blast intro: renames_merged)
qed

end
