(* ===== verification/SftpExamples.thy ===== *)
theory SftpExamples
  imports SftpProps
begin

text \<open>
  Examples: the guarantees of \<open>SftpProps\<close> at concrete requests.
\<close>

section \<open>Examples\<close>

definition example_handler :: "bool \<Rightarrow> string list \<Rightarrow> nat sftp_handler" where
  "example_handler suspended ps =
     \<lparr>sh_site = example_site, sh_events = \<lparr>eh_ip = ''10.0.0.1:22'', eh_user = ''u'', eh_server = ''s''\<rparr>, sh_permissions = ps,
      sh_suspended = suspended, sh_ro = False\<rparr>"

definition example_command :: "string \<Rightarrow> string \<Rightarrow> sftp_request" where
  "example_command method p = \<lparr>rq_Method = method, rq_Filepath = p, rq_Target = [], rq_mode = 0\<rparr>"

definition example_validate :: "auth_type \<Rightarrow> string \<Rightarrow> string \<Rightarrow> nat \<Rightarrow> (string + string \<times> string \<times> string list) \<times> nat" where
  "example_validate t u p w = (Inr (''s'', ''u'', [''file.read'', ''file.update'']), w)"

theorem sftp_permissions_exact_witness:
  "\<exists>h. NewHandler example_site False False ''10.0.0.1:22'' ''s''
      [''ip'' \<mapsto> ''10.0.0.1:22'', ''uuid'' \<mapsto> ''s'', ''user'' \<mapsto> ''u'', ''permissions'' \<mapsto> ''file.read,file.update''] = Some h \<and>
    can h PermissionFileUpdate \<and> \<not> can h PermissionFileDelete"
proof -
  have "valid_username ''bob.0a1b2c3d''" by code_simp
  then have login: "makeCredentialsRequest example_validate False ''10.0.0.1:22'' ''bob.0a1b2c3d'' SftpAuthPassword ''pw'' 0 =
      (Inr [''ip'' \<mapsto> ''10.0.0.1:22'', ''uuid'' \<mapsto> ''s'', ''user'' \<mapsto> ''u'', ''permissions'' \<mapsto> ''file.read,file.update''], 0)"
    by (simp add: makeCredentialsRequest_def example_validate_def)
  have commas: "\<forall>q \<in> set [''file.read'', ''file.update'']. CHR '','' \<notin> set q" by simp
  note exact = sftp_permissions_exact [OF login example_validate_def commas, of _ example_site False False "''s''"]
  from exact [of PermissionFileUpdate] exact [of PermissionFileDelete] show ?thesis by auto
qed

lemmas run_defs = Filecmd_def run_command_def IsIgnored_def can_def Chmod_def fchmodat_def with_path_def safePath_def raw_openat_def
  on_error_def ignoringEINTR.simps do_close_def close_all_def sys_def fs_Chown_def Lchownat_def Lstatat_def do_fstatat_def errno_err_def
  flag_defs ensurePathError_def Let_def

lemmas example_defs = example_handler_def example_command_def example_site_def example_fs_def counting_kernel_def lifted_def lift_call_def
  traced_def record_call_def opened_def

theorem sftp_rename_target_unchecked_witness:
  "Filecmd (with_site (example_site\<lparr>si_ignored := (\<lambda>p. p = ''config/locked'' \<or> si_ignored example_site p)\<rparr>) (example_handler False [''*'']))
     \<lparr>rq_Method = ''Rename'', rq_Filepath = ''a'', rq_Target = ''config/locked'', rq_mode = 0\<rparr> (NewQuota 0, 3) =
   Filecmd (example_handler False [''*'']) \<lparr>rq_Method = ''Rename'', rq_Filepath = ''a'', rq_Target = ''config/locked'', rq_mode = 0\<rparr> (NewQuota 0, 3)"
  using sftp_rename_target_unchecked [of "\<lparr>rq_Method = ''Rename'', rq_Filepath = ''a'', rq_Target = ''config/locked'', rq_mode = 0\<rparr>"
      "example_handler False [''*'']" "(NewQuota 0, 3)"]
  by (simp add: example_handler_def)

theorem sftp_listing_complete_witness: "pages [1, 2, 3, 4, 5 :: nat] 2 0 = [1, 2, 3, 4, 5]"
  by (rule sftp_listing_complete) simp

definition example_rename :: entry where
  "example_rename = (BeforeCreate 9 (hd (logs (example_handler False [''*'']) ActivitySftpRename ''a'' ''b'')))\<lparr>en_ID := 1, en_IP := ''10.0.0.1''\<rparr>"

theorem sftp_rename_not_reported_witness:
  "en_Metadata example_rename = Some [''from'' \<mapsto> MText ''a'', ''to'' \<mapsto> MText ''b''] \<and>
   (\<exists>k v. em_m (fold (em_Push (\<lambda>_. ''m'')) [example_rename] (no_events 5)) = [(k, v)] \<and> en_Metadata v = Some [''files'' \<mapsto> MList []])"
proof
  show "en_Metadata example_rename = Some [''from'' \<mapsto> MText ''a'', ''to'' \<mapsto> MText ''b'']"
    by (auto simp: example_rename_def logs_def log_entry_def en_SetUser_def BeforeCreate_def action_metadata_def Let_def
        split: option.split prod.split)
  have "\<exists>k v. em_m (fold (em_Push (\<lambda>_. ''m'')) [example_rename] (no_events 5)) = [(k, v)]"
    by (simp add: no_events_def em_Push_def forActivity_def)
  then obtain k v where run: "em_m (fold (em_Push (\<lambda>_. ''m'')) [example_rename] (no_events 5)) = [(k, v)]" by blast
  have all: "\<forall>a \<in> set (same_key (\<lambda>_. ''m'') k [example_rename]). \<exists>(h :: nat sftp_handler) entity target ip i now. target \<noteq> [] \<and>
       a = (BeforeCreate now (hd (logs h ActivitySftpRename entity target)))\<lparr>en_ID := i, en_IP := ip\<rparr>"
    using example_rename_def by (auto simp: same_key_def) blast
  have "(k, v) \<in> set (em_m (fold (em_Push (\<lambda>_. ''m'')) [example_rename] (no_events 5)))" using run by simp
  from sftp_rename_not_reported [OF this all] run
  show "\<exists>k v. em_m (fold (em_Push (\<lambda>_. ''m'')) [example_rename] (no_events 5)) = [(k, v)] \<and> en_Metadata v = Some [''files'' \<mapsto> MList []]"
    by blast
qed

theorem sftp_requests_confined_witness:
  "log_ok ''/srv'' [CallClose 4, CallAt 4 ''b'', CallAt 4 ''b'', CallOpen AT_EMPTY_PATH ''/srv'' (O_DIRECTORY OR O_CLOEXEC) (Some 4),
     CallClose 3, CallAt 3 ''b'', CallOpen AT_EMPTY_PATH ''/srv'' (O_DIRECTORY OR O_CLOEXEC) (Some 3)]"
proof -
  have base: "good_base [''srv'']" "spell [''srv''] = ''/srv''"
    by (simp_all add: good_base_def plain_def)
  have path: "unsafePath ''/srv'' ''x/../b'' = Ok ''b''" "Split ''b'' = ([], ''b'')"
    by code_simp+
  have "run_sftps (with_site (traced_site example_site) (example_handler False [''*''])) [OpCmd (example_command ''Setstat'' ''x/../b'')]
      (NewQuota 0, 3, []) = Some ((), (NewQuota 0, 5, [CallClose 4, CallAt 4 ''b'', CallAt 4 ''b'', CallOpen AT_EMPTY_PATH ''/srv'' (O_DIRECTORY OR O_CLOEXEC) (Some 4),
     CallClose 3, CallAt 3 ''b'', CallOpen AT_EMPTY_PATH ''/srv'' (O_DIRECTORY OR O_CLOEXEC) (Some 3)]))"
    by (simp add: path forget_def with_site_def traced_site_def run_defs example_defs)
  from sftp_requests_confined [OF base(1) _ _ this] show ?thesis
    by (simp add: base(2) example_fs_def example_site_def)
qed


end
