(* ===== verification/Addresses.thy ===== *)
theory Addresses
  imports Prelude "HOL-Library.Word"
begin

text \<open>
  The addresses a download may not connect to (\<open>internalRanges\<close> and the check of \<open>DialContext\<close> in
  \<open>wings/router/downloader/downloader.go\<close>), with what the \<open>net\<close> package says of an address.
\<close>

unbundle bit_operations_syntax

section \<open>Addresses\<close>

text \<open>An address has sixteen bytes; one of four is kept in its mapped form. A link-local peer comes with a zone.\<close>

type_synonym ip = "128 word"

record peer =
  pe_ip :: ip
  pe_zone :: string

definition to4 :: "ip \<Rightarrow> 32 word option" where
  "to4 a = (if drop_bit 32 a = 0xFFFF then Some (ucast a) else None)"

definition from4 :: "32 word \<Rightarrow> ip" where
  "from4 a = 0xFFFF00000000 + ucast a"

definition IsLoopback :: "ip \<Rightarrow> bool" where
  "IsLoopback a = (case to4 a of Some v \<Rightarrow> drop_bit 24 v = 127 | None \<Rightarrow> a = 1)"

definition IsLinkLocalUnicast :: "ip \<Rightarrow> bool" where
  "IsLinkLocalUnicast a = (case to4 a of Some v \<Rightarrow> drop_bit 16 v = 0xA9FE | None \<Rightarrow> drop_bit 118 a = 0x3FA)"

definition IsLinkLocalMulticast :: "ip \<Rightarrow> bool" where
  "IsLinkLocalMulticast a = (case to4 a of Some v \<Rightarrow> drop_bit 8 v = 0xE00000 | None \<Rightarrow> drop_bit 120 a = 0xFF \<and> drop_bit 112 a AND 0xF = 2)"

definition IsInterfaceLocalMulticast :: "ip \<Rightarrow> bool" where
  "IsInterfaceLocalMulticast a \<longleftrightarrow> drop_bit 120 a = 0xFF \<and> drop_bit 112 a AND 0xF = 1"

text \<open>A block is a network number with the length of its prefix; it has addresses of its own family only.\<close>

datatype block = Block4 "32 word" nat | Block6 ip nat

fun Contains_ip :: "block \<Rightarrow> ip \<Rightarrow> bool" where
  "Contains_ip (Block4 net n) a = (case to4 a of Some v \<Rightarrow> drop_bit (32 - n) v = drop_bit (32 - n) net | None \<Rightarrow> False)"
| "Contains_ip (Block6 net n) a = (case to4 a of Some _ \<Rightarrow> False | None \<Rightarrow> drop_bit (128 - n) a = drop_bit (128 - n) net)"

definition internalRanges :: "block list" where
  "internalRanges =
     [Block4 0x7F000000 8, Block4 0x0A000000 8, Block4 0xAC100000 12, Block4 0xC0A80000 16, Block4 0xA9FE0000 16,
      Block6 1 128, Block6 0xFE800000000000000000000000000000 10, Block6 0xFC000000000000000000000000000000 7]"

datatype net_error = ErrInternalResolution | ErrInvalidIPAddress | NetFailed string

text \<open>\<open>net.ParseIP\<close> does not read an address with a zone.\<close>

definition check_peer :: "peer \<Rightarrow> net_error option" where
  "check_peer p =
     (if pe_zone p \<noteq> [] then Some ErrInvalidIPAddress
      else let ip = pe_ip p
           in if IsLoopback ip \<or> IsLinkLocalUnicast ip \<or> IsLinkLocalMulticast ip \<or> IsInterfaceLocalMulticast ip
              then Some ErrInternalResolution
              else if \<exists>b \<in> set internalRanges. Contains_ip b ip then Some ErrInternalResolution
              else None)"

section \<open>The addresses by their number\<close>

text \<open>The addresses of the machine and its networks, by their number; those of four bytes are in the mapped range.\<close>

definition internal4 :: "nat \<Rightarrow> bool" where
  "internal4 v \<longleftrightarrow>
     0x7F000000 \<le> v \<and> v \<le> 0x7FFFFFFF \<or> 0x0A000000 \<le> v \<and> v \<le> 0x0AFFFFFF \<or> 0xAC100000 \<le> v \<and> v \<le> 0xAC1FFFFF \<or>
     0xC0A80000 \<le> v \<and> v \<le> 0xC0A8FFFF \<or> 0xA9FE0000 \<le> v \<and> v \<le> 0xA9FEFFFF \<or> 0xE0000000 \<le> v \<and> v \<le> 0xE00000FF"

definition internal6 :: "nat \<Rightarrow> bool" where
  "internal6 a \<longleftrightarrow>
     a = 1 \<or> 0xFE800000000000000000000000000000 \<le> a \<and> a \<le> 0xFEBFFFFFFFFFFFFFFFFFFFFFFFFFFFFF \<or>
     0xFC000000000000000000000000000000 \<le> a \<and> a \<le> 0xFDFFFFFFFFFFFFFFFFFFFFFFFFFFFFFF \<or>
     0xFF000000000000000000000000000000 \<le> a \<and> (a div 2 ^ 112 mod 16 = 1 \<or> a div 2 ^ 112 mod 16 = 2)"

definition internal :: "ip \<Rightarrow> bool" where
  "internal a =
     (let n = unat a
      in if 0xFFFF00000000 \<le> n \<and> n \<le> 0xFFFFFFFFFFFF then internal4 (n - 0xFFFF00000000) else internal6 n)"

definition external :: "peer \<Rightarrow> bool" where
  "external p \<longleftrightarrow> pe_zone p = [] \<and> \<not> internal (pe_ip p)"

lemma div_range: "0 < k \<Longrightarrow> n div k = c \<longleftrightarrow> c * k \<le> n \<and> n \<le> c * k + (k - 1 :: nat)"
proof -
  assume k: "0 < k"
  then have "n div k = c \<longleftrightarrow> c * k \<le> n \<and> n < c * k + k"
    by (metis add.commute div_nat_eqI dividend_less_div_times mult.commute mult_Suc_right times_div_less_eq_dividend)
  with k show ?thesis by linarith
qed

lemma drop_bit_eq_iff: "drop_bit n (a :: 'l::len word) = c \<longleftrightarrow> unat a div 2 ^ n = unat c"
  by (metis drop_bit_eq_div unat_drop_bit_eq word_unat_eq_iff)

lemma to4_number:
  "to4 a = (if 0xFFFF00000000 \<le> unat a \<and> unat a \<le> 0xFFFFFFFFFFFF then Some (ucast a) else None)"
  by (auto simp: to4_def drop_bit_eq_iff div_range)

lemma unat_to4:
  assumes "0xFFFF00000000 \<le> unat (a :: ip)" "unat a \<le> 0xFFFFFFFFFFFF"
  shows "unat (ucast a :: 32 word) = unat a - 0xFFFF00000000"
proof -
  have "unat (ucast a :: 32 word) = unat a mod 2 ^ 32"
    by transfer (simp add: take_bit_eq_mod nat_mod_distrib)
  moreover have "unat a = (unat a - 0xFFFF00000000) + 0xFFFF * 2 ^ 32" using assms by simp
  then have "unat a mod 2 ^ 32 = (unat a - 0xFFFF00000000) mod 2 ^ 32" by (metis mod_mult_self1)
  ultimately show ?thesis using assms by simp
qed

lemma block4_number:
  assumes "to4 a = Some v" "n \<le> 32"
  shows "Contains_ip (Block4 net n) a \<longleftrightarrow> unat v div 2 ^ (32 - n) = unat net div 2 ^ (32 - n)"
  using assms by (simp add: drop_bit_eq_iff) (metis drop_bit_eq_div unat_drop_bit_eq)

lemma block6_number:
  assumes "to4 a = None"
  shows "Contains_ip (Block6 net n) a \<longleftrightarrow> unat a div 2 ^ (128 - n) = unat net div 2 ^ (128 - n)"
  using assms by (simp add: drop_bit_eq_iff) (metis drop_bit_eq_div unat_drop_bit_eq)

lemma low_nibble: "(w :: ip) AND 0xF = c \<longleftrightarrow> unat w mod 16 = unat c"
proof -
  have "w AND 0xF = take_bit 4 w"
    by (simp add: take_bit_eq_mask mask_eq_exp_minus_1)
  then have "unat (w AND 0xF) = take_bit 4 (unat w)" by (simp only: unsigned_take_bit_eq)
  then show ?thesis by (simp add: word_unat_eq_iff take_bit_eq_mod)
qed

lemma multicast_number:
  "(drop_bit 120 (a :: ip) = 0xFF \<and> drop_bit 112 a AND 0xF = c) \<longleftrightarrow>
     0xFF000000000000000000000000000000 \<le> unat a \<and> unat a div 2 ^ 112 mod 16 = unat c"
proof -
  have "unat a < 2 ^ 128" using unsigned_less [of a] by simp
  moreover have "unat (drop_bit 112 a) = unat a div 2 ^ 112" by (metis unat_drop_bit_eq drop_bit_eq_div)
  ultimately show ?thesis by (simp only: drop_bit_eq_iff low_nibble) (simp add: div_range)
qed

lemma refused4:
  assumes "to4 a = Some v"
  shows "(IsLoopback a \<or> IsLinkLocalUnicast a \<or> IsLinkLocalMulticast a \<or> IsInterfaceLocalMulticast a \<or>
    (\<exists>b \<in> set internalRanges. Contains_ip b a)) \<longleftrightarrow> internal4 (unat v)"
proof -
  have "unat a < 2 ^ 48" using assms by (auto simp: to4_number split: if_splits)
  then have "\<not> IsInterfaceLocalMulticast a"
    unfolding IsInterfaceLocalMulticast_def multicast_number by simp
  moreover have "\<not> Contains_ip (Block6 net n) a" for net n using assms by simp
  ultimately show ?thesis
    using assms
    by (simp add: IsLoopback_def IsLinkLocalUnicast_def IsLinkLocalMulticast_def internalRanges_def block4_number
        internal4_def drop_bit_eq_iff div_range del: Contains_ip.simps) blast
qed

lemma refused6:
  assumes "to4 a = None"
  shows "(IsLoopback a \<or> IsLinkLocalUnicast a \<or> IsLinkLocalMulticast a \<or> IsInterfaceLocalMulticast a \<or>
    (\<exists>b \<in> set internalRanges. Contains_ip b a)) \<longleftrightarrow> internal6 (unat a)"
proof -
  have loop: "IsLoopback a \<longleftrightarrow> unat a = 1"
    using assms by (simp add: IsLoopback_def word_unat_eq_iff)
  have multi: "IsLinkLocalMulticast a \<longleftrightarrow> 0xFF000000000000000000000000000000 \<le> unat a \<and> unat a div 2 ^ 112 mod 16 = 2"
    "IsInterfaceLocalMulticast a \<longleftrightarrow> 0xFF000000000000000000000000000000 \<le> unat a \<and> unat a div 2 ^ 112 mod 16 = 1"
    using assms unfolding IsLinkLocalMulticast_def IsInterfaceLocalMulticast_def multicast_number by simp_all
  have "\<not> Contains_ip (Block4 net n) a" for net n using assms by simp
  then show ?thesis
    unfolding loop multi using assms
    by (simp add: IsLinkLocalUnicast_def internalRanges_def block6_number internal6_def drop_bit_eq_iff div_range
        del: Contains_ip.simps) blast
qed

text \<open>C35: A connection is kept exactly if its peer is given without a zone and its address is outside the ranges of the machine
  and its networks: loopback, the private networks, link-local and unique local addresses, and local multicast.\<close>

theorem connections_kept_exact: "check_peer p = None \<longleftrightarrow> external p"
proof (cases "to4 (pe_ip p)")
  case None
  then have "\<not> (0xFFFF00000000 \<le> unat (pe_ip p) \<and> unat (pe_ip p) \<le> 0xFFFFFFFFFFFF)"
    by (auto simp: to4_number split: if_splits)
  with refused6 [OF None] show ?thesis
    by (auto simp: check_peer_def Let_def external_def internal_def)
next
  case (Some v)
  then have "0xFFFF00000000 \<le> unat (pe_ip p) \<and> unat (pe_ip p) \<le> 0xFFFFFFFFFFFF" "v = ucast (pe_ip p)"
    by (auto simp: to4_number split: if_splits)
  with refused4 [OF Some] unat_to4 [of "pe_ip p"] show ?thesis
    by (auto simp: check_peer_def Let_def external_def internal_def)
qed

end
