(* ===== verification/Downloader.thy ===== *)
theory Downloader
  imports Sftp Addresses
begin

text \<open>
  Downloads of remote files (\<open>wings/router/downloader\<close>) and the handlers that start and stop them
  (\<open>router_server_files.go\<close>). What the HTTP library and the network do is a record of functions: parsing and resolving
  URLs, choosing an idle connection, connecting, one exchange on a connection, and reading a media type. A connection is
  the address of its peer.
\<close>

section \<open>Connecting\<close>

record url =
  ur_Scheme :: string
  ur_Path :: string
  ur_String :: string

record answer =
  an_StatusCode :: int
  an_ContentLength :: int
  an_Location :: string
  an_Disposition :: string

record 'w web =
  web_parse :: "string \<Rightarrow> string + url"
  web_resolve :: "url \<Rightarrow> string \<Rightarrow> url option"
  web_valid :: "string \<Rightarrow> bool"
  web_idle :: "string \<Rightarrow> peer list \<Rightarrow> 'w \<Rightarrow> peer option \<times> 'w"
  web_connect :: "string \<Rightarrow> 'w \<Rightarrow> (string + peer) \<times> 'w"
  web_exchange :: "peer \<Rightarrow> string \<Rightarrow> 'w \<Rightarrow> (string + answer) \<times> 'w"
  web_media :: "string \<Rightarrow> (string \<rightharpoonup> string) option"

text \<open>\<open>DialContext\<close> of the transport: the connection is made first, and looked at then.\<close>

definition DialContext :: "'w web \<Rightarrow> string \<Rightarrow> 'w \<Rightarrow> (net_error + peer) \<times> 'w" where
  "DialContext W u w =
     (case web_connect W u w of
        (Inl e, w) \<Rightarrow> (Inl (NetFailed e), w)
      | (Inr p, w) \<Rightarrow> (case check_peer p of Some e \<Rightarrow> (Inl e, w) | None \<Rightarrow> (Inr p, w)))"

text \<open>
  \<open>client.Do\<close>: the transport takes an idle connection or dials one, and keeps what it dialled. It makes one exchange, since
  \<open>CheckRedirect\<close> stops it from following redirects.
\<close>

definition client_Do :: "'w web \<Rightarrow> string \<Rightarrow> peer list \<times> 'w \<Rightarrow> (net_error + answer) \<times> peer list \<times> 'w" where
  "client_Do W u = (\<lambda>(pool, w).
     (case web_idle W u pool w of (idle, w) \<Rightarrow>
     (case (case idle of Some p \<Rightarrow> if p \<in> set pool then (Inr p, w) else DialContext W u w | None \<Rightarrow> DialContext W u w) of
        (Inl e, w) \<Rightarrow> (Inl e, pool, w)
      | (Inr p, w) \<Rightarrow>
          (case web_exchange W p u w of (r, w) \<Rightarrow>
             ((case r of Inl e \<Rightarrow> Inl (NetFailed e) | Inr a \<Rightarrow> Inr a), p # pool, w)))))"

section \<open>Following redirects\<close>

datatype dl_error =
    UrlNil | RedirectLoop | RequestInvalid | RequestFailed net_error | NoLocation | BadLocation | BadScheme
  | TooManyRedirects | BadStatus int | NoContentLength | BadDisposition | WriteFailed fs_error

definition is_redirect :: "answer \<Rightarrow> bool" where
  "is_redirect a \<longleftrightarrow> an_StatusCode a \<ge> 300 \<and> an_StatusCode a < 400"

text \<open>The loop of \<open>Execute\<close>: the last answer and the last address, if there is one, or the error.\<close>

fun follow ::
  "'w web \<Rightarrow> nat \<Rightarrow> url \<Rightarrow> string list \<Rightarrow> (answer \<times> url) option \<Rightarrow> peer list \<times> 'w \<Rightarrow> (dl_error + (answer \<times> url) option) \<times> peer list \<times> 'w" where
  "follow W 0 currentURL visited res s = (Inr res, s)"
| "follow W (Suc n) currentURL visited res s =
     (let urlStr = ur_String currentURL
      in if urlStr \<in> set visited then (Inl RedirectLoop, s)
         else if \<not> web_valid W urlStr then (Inl RequestInvalid, s)
         else (case client_Do W urlStr s of
                 (Inl e, s) \<Rightarrow> (Inl (RequestFailed e), s)
               | (Inr a, s) \<Rightarrow>
                   if is_redirect a
                   then (if an_Location a = [] then (Inl NoLocation, s)
                         else (case web_resolve W currentURL (an_Location a) of
                                 None \<Rightarrow> (Inl BadLocation, s)
                               | Some nextURL \<Rightarrow>
                                   if ur_Scheme nextURL \<noteq> ''http'' \<and> ur_Scheme nextURL \<noteq> ''https'' then (Inl BadScheme, s)
                                   else follow W n nextURL (urlStr # visited) (Some (a, nextURL)) s))
                   else (Inr (Some (a, currentURL)), s)))"

definition maxRedirectAttempts :: "int option \<Rightarrow> nat" where
  "maxRedirectAttempts cfg = (case cfg of Some v \<Rightarrow> if v > 0 then nat v else 10 | None \<Rightarrow> 10)"

section \<open>A download\<close>

record download_request =
  dr_Directory :: string
  dr_URL :: "url option"
  dr_FileName :: string
  dr_UseHeader :: bool

record download =
  dl_Identifier :: string
  dl_req :: download_request
  dl_server :: string

definition dl_Path :: "download_request \<Rightarrow> string \<Rightarrow> string" where
  "dl_Path rq path = Join [dr_Directory rq, path]"

definition check_answer :: "(answer \<times> url) option \<Rightarrow> dl_error + answer \<times> url" where
  "check_answer res =
     (case res of
        None \<Rightarrow> Inl TooManyRedirects
      | Some (a, u) \<Rightarrow>
          if is_redirect a then Inl TooManyRedirects
          else if an_StatusCode a \<noteq> 200 then Inl (BadStatus (an_StatusCode a))
          else if an_ContentLength a < 1 then Inl NoContentLength
          else Inr (a, u))"

text \<open>The name of the file: from the header, from the request, or the last part of the address.\<close>

definition header_name :: "'w web \<Rightarrow> download_request \<Rightarrow> answer \<Rightarrow> dl_error + string" where
  "header_name W rq a =
     (if dr_UseHeader rq \<and> an_Disposition a \<noteq> []
      then (case web_media W (an_Disposition a) of
              None \<Rightarrow> Inl BadDisposition
            | Some params \<Rightarrow> Inr (case params ''filename'' of Some v \<Rightarrow> v | None \<Rightarrow> []))
      else Inr [])"

definition choose_name :: "download_request \<Rightarrow> url \<Rightarrow> string \<Rightarrow> string" where
  "choose_name rq finalURL path =
     (if path = [] then (if dr_FileName rq \<noteq> [] then dr_FileName rq else last (split_on slash (ur_Path finalURL)))
      else path)"

definition on_world :: "(peer list \<times> 'w \<Rightarrow> 'r \<times> peer list \<times> 'w) \<Rightarrow> peer list \<Rightarrow> ('r \<times> peer list, quota \<times> 'w) fsop" where
  "on_world f pool = (\<lambda>(q, w). case f (pool, w) of (r, pool, w) \<Rightarrow> Some ((r, pool), (q, w)))"

text \<open>\<open>Execute\<close> without its deferred \<open>Cancel\<close>: the name that was written to, or the error.\<close>

definition Execute :: "'w web \<Rightarrow> 'w site \<Rightarrow> int option \<Rightarrow> download_request \<Rightarrow> peer list \<Rightarrow> ((dl_error + string) \<times> peer list, quota \<times> 'w) fsop" where
  "Execute W H cfg rq pool w =
     (case dr_URL rq of
        None \<Rightarrow> Some ((Inl UrlNil, pool), w)
      | Some u \<Rightarrow> do {
          ((res, pool), w) \<leftarrow> on_world (follow W (maxRedirectAttempts cfg) u [] None) pool w;
          case (case res of Inl e \<Rightarrow> Inl e | Inr res \<Rightarrow> check_answer res) of
            Inl e \<Rightarrow> Some ((Inl e, pool), w)
          | Inr (a, finalURL) \<Rightarrow>
              (case header_name W rq a of
                 Inl e \<Rightarrow> Some ((Inl e, pool), w)
               | Inr path \<Rightarrow> do {
                   let path = choose_name rq finalURL path;
                   (e, w) \<leftarrow> Write (si_kernel H) (si_io H) (si_fs H) (dl_Path rq path) (an_ContentLength a) 0x1A4 w;
                   Some ((case e of Some e \<Rightarrow> Inl (WriteFailed e) | None \<Rightarrow> Inr path, pool), w) }) })"

section \<open>Tracking\<close>

record downloader =
  downloadCache :: "string \<rightharpoonup> download"
  serverCache :: "string \<rightharpoonup> string list"

definition instance0 :: downloader where
  "instance0 = \<lparr>downloadCache = Map.empty, serverCache = Map.empty\<rparr>"

definition track :: "download \<Rightarrow> downloader \<Rightarrow> downloader" where
  "track dl d =
     (if downloadCache d (dl_Identifier dl) = None
      then let tracked = (case serverCache d (dl_server dl) of None \<Rightarrow> [] | Some ids \<Rightarrow> ids)
           in d\<lparr>downloadCache := (downloadCache d)(dl_Identifier dl \<mapsto> dl),
                serverCache := (serverCache d)(dl_server dl \<mapsto> tracked @ [dl_Identifier dl])\<rparr>
      else d)"

definition remove_download :: "string \<Rightarrow> downloader \<Rightarrow> downloader" where
  "remove_download i d =
     (case downloadCache d i of
        None \<Rightarrow> d
      | Some dl \<Rightarrow>
          let d = d\<lparr>downloadCache := (downloadCache d)(i := None)\<rparr>
          in (case serverCache d (dl_server dl) of
                None \<Rightarrow> d
              | Some tracked \<Rightarrow> d\<lparr>serverCache := (serverCache d)(dl_server dl \<mapsto> filter (\<lambda>k. k \<noteq> i) tracked)\<rparr>))"

definition New_download :: "string \<Rightarrow> string \<Rightarrow> download_request \<Rightarrow> downloader \<Rightarrow> download \<times> downloader" where
  "New_download uuid sid rq d =
     (let dl = \<lparr>dl_Identifier = uuid, dl_req = rq, dl_server = sid\<rparr> in (dl, track dl d))"

definition ByServer :: "string \<Rightarrow> downloader \<Rightarrow> download list" where
  "ByServer sid d =
     (case serverCache d sid of None \<Rightarrow> [] | Some ids \<Rightarrow> List.map_filter (downloadCache d) ids)"

definition ByID :: "string \<Rightarrow> downloader \<Rightarrow> download option" where
  "ByID i d = downloadCache d i"

definition Cancel_download :: "download \<Rightarrow> downloader \<Rightarrow> downloader" where
  "Cancel_download dl d = remove_download (dl_Identifier dl) d"

definition BelongsTo :: "string \<Rightarrow> download \<Rightarrow> bool" where
  "BelongsTo sid dl \<longleftrightarrow> dl_server dl = sid"

section \<open>Handlers\<close>

record pull_body =
  pb_Directory :: string
  pb_RootPath :: string
  pb_URL :: string
  pb_FileName :: string
  pb_UseHeader :: bool
  pb_Foreground :: bool

datatype pull_response =
    PullRefused nat string
  | PullCaptured "fs_error + dl_error"
  | PullAccepted string
  | PullDone entry_stat

definition RemoteDownloadEnabled :: "bool \<Rightarrow> pull_response option" where
  "RemoteDownloadEnabled disabled =
     (if disabled then Some (PullRefused 400 ''This functionality is not currently enabled on this instance.'') else None)"

definition getServerPullingFiles :: "string \<Rightarrow> downloader \<Rightarrow> string list" where
  "getServerPullingFiles sid d = map dl_Identifier (ByServer sid d)"

definition pull_request :: "pull_body \<Rightarrow> url \<Rightarrow> download_request" where
  "pull_request b u =
     \<lparr>dr_Directory = (if pb_Directory b \<noteq> [] \<and> pb_RootPath b = [] then pb_Directory b else pb_RootPath b), dr_URL = Some u,
      dr_FileName = pb_FileName b, dr_UseHeader = pb_UseHeader b\<rparr>"

text \<open>The checks before a download: the body, its URL, the space on the disk and the number of downloads.\<close>

definition check_pull ::
  "'w web \<Rightarrow> 'w site \<Rightarrow> int \<Rightarrow> disk_cache \<Rightarrow> string \<Rightarrow> downloader \<Rightarrow> pull_body \<Rightarrow> ((pull_response + download_request) \<times> disk_cache, quota \<times> 'w) fsop" where
  "check_pull W H now c sid d b w =
     (if pb_Directory b = [] \<and> pb_RootPath b = [] \<or> pb_URL b = [] then Some ((Inl (PullRefused 400 []), c), w)
      else (case web_parse W (pb_URL b) of
              Inl e \<Rightarrow> Some ((Inl (PullRefused 400 (''An error occurred while parsing that URL: '' @ e)), c), w)
            | Inr u \<Rightarrow> do {
                ((ok, c, _), w) \<leftarrow> space_check H now c w;
                Some ((if \<not> ok then Inl (PullCaptured (Inl FsNoDiskSpace))
                       else if length (ByServer sid d) \<ge> 3 then
                         Inl (PullRefused 400 ''This server has reached its limit of 3 simultaneous remote file downloads at once. Please wait for one to complete before trying again.'')
                       else Inr (pull_request b u), c), w) }))"

text \<open>The tracked download, and the check of its path, which has no name of a file yet.\<close>

definition begin_pull :: "'w site \<Rightarrow> string \<Rightarrow> string \<Rightarrow> download_request \<Rightarrow> downloader \<Rightarrow> (pull_response + download) \<times> downloader" where
  "begin_pull H uuid sid rq d =
     (case New_download uuid sid rq d of (dl, d) \<Rightarrow>
        (case IsIgnored H [dl_Path rq []] of
           Some e \<Rightarrow> (Inl (PullCaptured (Inl e)), d)
         | None \<Rightarrow> (Inr dl, d)))"

definition run_download ::
  "'w web \<Rightarrow> 'w site \<Rightarrow> int option \<Rightarrow> download \<Rightarrow> peer list \<Rightarrow> downloader \<Rightarrow> ((dl_error + string) \<times> peer list \<times> downloader, quota \<times> 'w) fsop" where
  "run_download W H cfg dl pool d w = do {
     ((r, pool), w) \<leftarrow> Execute W H cfg (dl_req dl) pool w;
     Some ((r, pool, Cancel_download dl d), w) }"

text \<open>A download in the background is returned, to be run by \<open>run_download\<close> at any later time.\<close>

definition postServerPullRemoteFile ::
  "'w web \<Rightarrow> 'w site \<Rightarrow> int option \<Rightarrow> int \<Rightarrow> string \<Rightarrow> string \<Rightarrow> pull_body \<Rightarrow> disk_cache \<times> peer list \<times> downloader \<Rightarrow>
    ((pull_response \<times> download option) \<times> disk_cache \<times> peer list \<times> downloader, quota \<times> 'w) fsop" where
  "postServerPullRemoteFile W H cfg now uuid sid b = (\<lambda>(c, pool, d) w. do {
     ((rq, c), w) \<leftarrow> check_pull W H now c sid d b w;
     case rq of
       Inl resp \<Rightarrow> Some (((resp, None), (c, pool, d)), w)
     | Inr rq \<Rightarrow>
         (case begin_pull H uuid sid rq d of
            (Inl resp, d) \<Rightarrow> Some (((resp, None), (c, pool, d)), w)
          | (Inr dl, d) \<Rightarrow>
              if \<not> pb_Foreground b then Some (((PullAccepted (dl_Identifier dl), Some dl), (c, pool, d)), w)
              else do {
                ((r, pool, d), w) \<leftarrow> run_download W H cfg dl pool d w;
                case r of
                  Inl e \<Rightarrow> Some (((PullCaptured (Inr e), None), (c, pool, d)), w)
                | Inr path \<Rightarrow> do {
                    (st, w) \<leftarrow> fs_Stat H (dl_Path rq path) w;
                    Some (((case st of Inl e \<Rightarrow> PullCaptured (Inl e) | Inr st \<Rightarrow> PullDone st, None), (c, pool, d)), w) } }) })"

definition deleteServerPullRemoteFile :: "string \<Rightarrow> string \<Rightarrow> downloader \<Rightarrow> downloader" where
  "deleteServerPullRemoteFile sid i d =
     (case ByID i d of
        Some dl \<Rightarrow> if BelongsTo sid dl then Cancel_download dl d else d
      | None \<Rightarrow> d)"

end
