(* ===== verification/DownloaderProps.thy ===== *)
theory DownloaderProps
  imports Downloader SftpProps
begin

text \<open>
  The guarantees of remote downloads: where the requests of a download go and how many there are, that the list of
  downloads is exact and has at most three of a server, and that what is written stays inside the server's directory. The
  denylist sees the directory of a download only.
\<close>

section \<open>Where the requests go\<close>

text \<open>\<open>watched\<close> notes every exchange: its peer and its address.\<close>

definition watched :: "'w web \<Rightarrow> ('w \<times> (peer \<times> string) list) web" where
  "watched W =
     \<lparr>web_parse = web_parse W, web_resolve = web_resolve W, web_valid = web_valid W,
      web_idle = (\<lambda>u pool (w, l). case web_idle W u pool w of (r, w) \<Rightarrow> (r, w, l)),
      web_connect = (\<lambda>u (w, l). case web_connect W u w of (r, w) \<Rightarrow> (r, w, l)),
      web_exchange = (\<lambda>p u (w, l). case web_exchange W p u w of (r, w) \<Rightarrow> (r, w, (p, u) # l)),
      web_media = web_media W\<rparr>"

lemma watched_simps [simp]:
  "web_resolve (watched W) = web_resolve W" "web_valid (watched W) = web_valid W"
  by (simp_all add: watched_def)

lemma client_Do_watched:
  assumes "client_Do (watched W) u (pool, w, l) = (r, pool', w', l')" "\<forall>p \<in> set pool. external p"
  shows "(\<forall>p \<in> set pool'. external p) \<and> (l' = l \<or> (\<exists>p. external p \<and> l' = (p, u) # l))"
  using assms connections_kept_exact
  by (fastforce simp: client_Do_def DialContext_def watched_def split: prod.splits option.splits sum.splits if_splits)

lemma follow_watched:
  assumes "follow (watched W) n u visited res (pool, w, l) = (r, pool', w', l')" "\<forall>p \<in> set pool. external p"
  shows "(\<forall>p \<in> set pool'. external p) \<and>
    (\<exists>new. l' = new @ l \<and> length new \<le> n \<and> (\<forall>(p, u) \<in> set new. external p \<and> u \<notin> set visited) \<and> distinct (map snd new))"
  using assms
proof (induction n arbitrary: u visited res pool w l)
  case 0
  then show ?case by simp
next
  case (Suc n)
  show ?case
  proof (cases "ur_String u \<in> set visited \<or> \<not> web_valid W (ur_String u)")
    case True
    with Suc.prems show ?thesis by (auto simp: Let_def split: if_splits)
  next
    case False
    obtain x pool1 w1 l1 where step: "client_Do (watched W) (ur_String u) (pool, w, l) = (x, pool1, w1, l1)"
      by (metis prod_cases4)
    note one = client_Do_watched [OF step Suc.prems(2)]
    show ?thesis
    proof (cases "\<exists>a v. x = Inr a \<and> is_redirect a \<and> an_Location a \<noteq> [] \<and> web_resolve W u (an_Location a) = Some v \<and>
        (ur_Scheme v = ''http'' \<or> ur_Scheme v = ''https'')")
      case True
      then obtain a v where "x = Inr a" "is_redirect a" "an_Location a \<noteq> []" "web_resolve W u (an_Location a) = Some v"
        "ur_Scheme v = ''http'' \<or> ur_Scheme v = ''https''" by blast
      with Suc.prems(1) False step
      have "follow (watched W) n v (ur_String u # visited) (Some (a, v)) (pool1, w1, l1) = (r, pool', w', l')"
        by (auto simp: Let_def)
      from Suc.IH [OF this] one obtain new where new: "l' = new @ l1" "length new \<le> n" "distinct (map snd new)"
        "\<forall>(p, v) \<in> set new. external p \<and> v \<notin> set (ur_String u # visited)" "\<forall>p \<in> set pool'. external p" by blast
      from one consider "l1 = l" | p where "external p" "l1 = (p, ur_String u) # l" by blast
      then show ?thesis
      proof cases
        case 1
        with new show ?thesis by (intro conjI exI [of _ new]) auto
      next
        case (2 p)
        with new False show ?thesis by (intro conjI exI [of _ "new @ [(p, ur_String u)]"]) auto
      qed
    next
      case no: False
      with Suc.prems(1) False step have "pool' = pool1 \<and> l' = l1"
        by (auto simp: Let_def split: sum.splits if_splits option.splits)
      from one consider "l1 = l" | p where "external p" "l1 = (p, ur_String u) # l" by blast
      then show ?thesis
      proof cases
        case 1
        with one \<open>pool' = pool1 \<and> l' = l1\<close> show ?thesis by (intro conjI exI [of _ "[]"]) auto
      next
        case (2 p)
        with one \<open>pool' = pool1 \<and> l' = l1\<close> False show ?thesis by (intro conjI exI [of _ "[(p, ur_String u)]"]) auto
      qed
    qed
  qed
qed

text \<open>C18: A download, whatever the servers answer and redirect to, makes at most as many requests as redirects are allowed, none
  of them twice to the same address, and each to a peer outside the internal ranges, as long as the idle connections it
  may take come from earlier downloads, whose peers are outside as well.\<close>

theorem downloads_stay_external:
  assumes "follow (watched W) (maxRedirectAttempts cfg) u [] None (pool, w, []) = (r, pool', w', log)" "\<forall>p \<in> set pool. external p"
  shows "(\<forall>(p, _) \<in> set log. external p) \<and> (\<forall>p \<in> set pool'. external p) \<and>
    length log \<le> maxRedirectAttempts cfg \<and> distinct (map snd log)"
  using follow_watched [OF assms] by auto

section \<open>The downloads of a server\<close>

text \<open>What happens to the list: a request of a server whose checks passed begins a download, a download ends, and a client
  stops one. Requests are taken one at a time, so that the number is checked with the list that is written.\<close>

inductive tracked :: "(string \<Rightarrow> 'w site) \<Rightarrow> downloader \<Rightarrow> bool" for H where
  tracked_new: "tracked H instance0"
| tracked_begin: "tracked H d \<Longrightarrow> length (ByServer sid d) < 3 \<Longrightarrow> tracked H (snd (begin_pull (H sid) uuid sid rq d))"
| tracked_end: "tracked H d \<Longrightarrow> tracked H (Cancel_download dl d)"
| tracked_stop: "tracked H d \<Longrightarrow> tracked H (deleteServerPullRemoteFile sid i d)"

definition ids_of :: "string \<Rightarrow> downloader \<Rightarrow> string list" where
  "ids_of sid d = (case serverCache d sid of None \<Rightarrow> [] | Some ids \<Rightarrow> ids)"

definition consistent :: "downloader \<Rightarrow> bool" where
  "consistent d \<longleftrightarrow>
     (\<forall>sid. distinct (ids_of sid d) \<and>
        (\<forall>i. i \<in> set (ids_of sid d) \<longleftrightarrow> (\<exists>dl. downloadCache d i = Some dl \<and> dl_server dl = sid))) \<and>
     (\<forall>i dl. downloadCache d i = Some dl \<longrightarrow> dl_Identifier dl = i)"

lemma ByServer_ids: "consistent d \<Longrightarrow> map dl_Identifier (ByServer sid d) = ids_of sid d"
proof -
  assume d: "consistent d"
  have "map dl_Identifier (List.map_filter (downloadCache d) ids) = ids"
    if "\<forall>i \<in> set ids. \<exists>dl. downloadCache d i = Some dl" for ids
    using that
  proof (induction ids)
    case Nil
    show ?case by (simp add: List.map_filter_def)
  next
    case (Cons i ids)
    then obtain dl where "downloadCache d i = Some dl" by auto
    with d Cons show ?case by (auto simp: List.map_filter_def consistent_def)
  qed
  moreover have "\<forall>i \<in> set (ids_of sid d). \<exists>dl. downloadCache d i = Some dl"
    using d by (auto simp: consistent_def)
  ultimately show ?thesis
    by (auto simp: ByServer_def ids_of_def split: option.splits)
qed

lemma ids_track: "ids_of sid (track dl d) =
    (if downloadCache d (dl_Identifier dl) = None \<and> sid = dl_server dl then ids_of sid d @ [dl_Identifier dl] else ids_of sid d)"
  by (auto simp: track_def ids_of_def Let_def)

lemma consistent_track: "consistent d \<Longrightarrow> consistent (track dl d)"
  unfolding consistent_def ids_track by (auto simp: track_def Let_def)

lemma ids_remove: "consistent d \<Longrightarrow> ids_of sid (remove_download i d) = filter (\<lambda>k. k \<noteq> i) (ids_of sid d)"
proof (cases "downloadCache d i")
  case None
  moreover assume "consistent d"
  ultimately have "i \<notin> set (ids_of sid d)" by (auto simp: consistent_def)
  then have "filter (\<lambda>k. k \<noteq> i) (ids_of sid d) = ids_of sid d" by (rule filter_out_absent)
  with None show ?thesis by (simp add: remove_download_def ids_of_def)
next
  case (Some dl)
  assume d: "consistent d"
  show ?thesis
  proof (cases "sid = dl_server dl")
    case True
    with Some show ?thesis by (auto simp: remove_download_def ids_of_def Let_def split: option.splits)
  next
    case False
    with d Some have "i \<notin> set (ids_of sid d)" by (auto simp: consistent_def)
    then have "filter (\<lambda>k. k \<noteq> i) (ids_of sid d) = ids_of sid d" by (rule filter_out_absent)
    with Some False show ?thesis by (auto simp: remove_download_def ids_of_def Let_def split: option.splits)
  qed
qed

lemma downloadCache_remove: "downloadCache (remove_download i d) = (downloadCache d)(i := None)"
  by (auto simp: remove_download_def Let_def fun_eq_iff split: option.splits)

lemma consistent_remove: "consistent d \<Longrightarrow> consistent (remove_download i d)"
  using ids_remove [of d _ i] by (auto simp: consistent_def downloadCache_remove)

lemma begin_pull_tracks: "snd (begin_pull H uuid sid rq d) = track \<lparr>dl_Identifier = uuid, dl_req = rq, dl_server = sid\<rparr> d"
  by (simp add: begin_pull_def New_download_def Let_def split: option.split)

lemma tracked_consistent: "tracked H d \<Longrightarrow> consistent d \<and> (\<forall>sid. length (ids_of sid d) \<le> 3)"
proof (induction rule: tracked.induct)
  case tracked_new
  show ?case by (simp add: instance0_def consistent_def ids_of_def)
next
  case (tracked_begin d sid uuid rq)
  then have "length (ids_of sid d) < 3" using ByServer_ids [of d sid] by (metis length_map)
  with tracked_begin show ?case by (auto simp: begin_pull_tracks consistent_track ids_track)
next
  case (tracked_end d dl)
  then show ?case
    using consistent_remove [of d] ids_remove [of d] by (auto simp: Cancel_download_def intro: le_trans [OF length_filter_le])
next
  case (tracked_stop d sid i)
  then show ?case
    using consistent_remove [of d] ids_remove [of d]
    by (auto simp: deleteServerPullRemoteFile_def Cancel_download_def intro: le_trans [OF length_filter_le] split: option.splits)
qed


text \<open>A download ends with its list entry gone, whatever its outcome; one refused by the denylist keeps it.\<close>

lemma finished_download_removed:
  "run_download W H cfg dl pool d w = Some ((r, pool', d'), w') \<Longrightarrow> ByID (dl_Identifier dl) d' = None"
  by (auto simp: run_download_def Cancel_download_def ByID_def downloadCache_remove split: Option.bind_splits)

lemma refused_download_stays:
  "IsIgnored H [dl_Path rq []] = Some e \<Longrightarrow> downloadCache d uuid = None \<Longrightarrow>
    fst (begin_pull H uuid sid rq d) = Inl (PullCaptured (Inl e)) \<and> ids_of sid (snd (begin_pull H uuid sid rq d)) = ids_of sid d @ [uuid]"
  by (simp add: begin_pull_tracks ids_track) (simp add: begin_pull_def New_download_def Let_def)

text \<open>The number is checked and the download added in two steps: two requests that check before either adds make four.\<close>

lemma limit_races:
  assumes "length (ids_of sid d) = 2" "downloadCache d u1 = None" "downloadCache d u2 = None" "u1 \<noteq> u2"
  shows "length (ids_of sid (snd (begin_pull H u2 sid rq (snd (begin_pull H u1 sid rq d))))) = 4"
  using assms by (simp add: begin_pull_tracks ids_track) (simp add: track_def Let_def)

section \<open>What is written\<close>

text \<open>The denylist sees the directory of a download and not its file: denying any other path, the target of the
  download included, changes nothing of what the request does.\<close>

theorem download_target_unchecked:
  assumes "\<And>u. ignored (dl_Path (pull_request b u) []) = si_ignored H (dl_Path (pull_request b u) [])"
  shows "postServerPullRemoteFile W (H\<lparr>si_ignored := ignored\<rparr>) cfg now uuid sid b = postServerPullRemoteFile W H cfg now uuid sid b"
proof -
  have first: "begin_pull (H\<lparr>si_ignored := ignored\<rparr>) uuid sid (pull_request b u) d = begin_pull H uuid sid (pull_request b u) d" for u d
    using assms by (simp add: begin_pull_def IsIgnored_def)
  have same: "si_kernel (H\<lparr>si_ignored := ignored\<rparr>) = si_kernel H" "si_io (H\<lparr>si_ignored := ignored\<rparr>) = si_io H"
    "si_fs (H\<lparr>si_ignored := ignored\<rparr>) = si_fs H" "si_fuel (H\<lparr>si_ignored := ignored\<rparr>) = si_fuel H"
    "si_seek (H\<lparr>si_ignored := ignored\<rparr>) = si_seek H"
    by simp_all
  have run: "run_download W (H\<lparr>si_ignored := ignored\<rparr>) = run_download W H"
    and stat: "fs_Stat (H\<lparr>si_ignored := ignored\<rparr>) = fs_Stat H"
    and space: "space_check (H\<lparr>si_ignored := ignored\<rparr>) = space_check H"
    unfolding fun_eq_iff run_download_def Execute_def fs_Stat_def statFromFile_def space_check_def same by simp_all
  have check: "check_pull W (H\<lparr>si_ignored := ignored\<rparr>) = check_pull W H"
    unfolding fun_eq_iff check_pull_def space by simp
  have request: "\<exists>u. rq = pull_request b u" if "check_pull W H now c sid d b w = Some ((Inr rq, c'), w')" for c d w rq c' w'
    using that by (auto simp: check_pull_def split: if_splits sum.splits Option.bind_splits)
  show ?thesis
  proof (rule ext, rule ext)
    fix st :: "disk_cache \<times> peer list \<times> downloader" and w
    obtain c pool d where st: "st = (c, pool, d)" by (cases st)
    show "postServerPullRemoteFile W (H\<lparr>si_ignored := ignored\<rparr>) cfg now uuid sid b st w = postServerPullRemoteFile W H cfg now uuid sid b st w"
    proof (cases "\<exists>rq c' w'. check_pull W H now c sid d b w = Some ((Inr rq, c'), w')")
      case True
      then obtain rq c' w' where checked: "check_pull W H now c sid d b w = Some ((Inr rq, c'), w')" by blast
      from request [OF this] obtain u where "rq = pull_request b u" ..
      with checked show ?thesis
        unfolding postServerPullRemoteFile_def run stat check st by (simp add: first)
    next
      case False
      then have "check_pull W H now c sid d b w = None \<or>
          (\<exists>resp c' w'. check_pull W H now c sid d b w = Some ((Inl resp, c'), w'))"
        by (metis old.sum.exhaust option.exhaust surj_pair)
      then show ?thesis
        unfolding postServerPullRemoteFile_def check st by auto
    qed
  qed
qed

definition beneath_web :: "'w web \<Rightarrow> ('w \<times> call list) web" where
  "beneath_web W =
     \<lparr>web_parse = web_parse W, web_resolve = web_resolve W, web_valid = web_valid W,
      web_idle = (\<lambda>u pool. beneath (web_idle W u pool)), web_connect = (\<lambda>u. beneath (web_connect W u)),
      web_exchange = (\<lambda>p u. beneath (web_exchange W p u)), web_media = web_media W\<rparr>"

lemma client_Do_beneath: "client_Do (beneath_web W) u (pool, w, l) = (r, pool', w', l') \<Longrightarrow> l' = l"
  by (auto simp: client_Do_def DialContext_def beneath_web_def beneath_def split: prod.splits option.splits sum.splits if_splits)

lemma follow_beneath: "follow (beneath_web W) n u visited res (pool, w, l) = (r, pool', w', l') \<Longrightarrow> l' = l"
proof (induction n arbitrary: u visited res pool w l)
  case 0
  then show ?case by simp
next
  case (Suc n)
  obtain x pool1 w1 l1 where step: "client_Do (beneath_web W) (ur_String u) (pool, w, l) = (x, pool1, w1, l1)"
    by (metis prod_cases4)
  with client_Do_beneath [OF step] Suc.prems show ?case
    by (auto simp: Let_def dest: Suc.IH split: if_splits sum.splits option.splits)
qed

lemma keeps_on_follow [keeps_intros]: "beside.keeps base ns (on_world (follow (beneath_web W) n u visited res) pool)"
  by (rule beside.keepsI) (auto simp: on_world_def split: prod.splits dest!: follow_beneath)

lemma keeps_Execute [keeps_intros]:
  "placed base H \<Longrightarrow> beside.keeps base ns (Execute (beneath_web W) (traced_site H) cfg rq pool)"
  unfolding Execute_def traced_site_simps Let_def by (auto intro!: keeps_intros keeps_Write dest: placed_base)

lemma keeps_run_download [keeps_intros]:
  "placed base H \<Longrightarrow> beside.keeps base ns (run_download (beneath_web W) (traced_site H) cfg dl pool d)"
  unfolding run_download_def by (auto intro!: keeps_intros)

lemma keeps_pull:
  "placed base H \<Longrightarrow> beside.keeps base ns (postServerPullRemoteFile (beneath_web W) (traced_site H) cfg now uuid sid b st)"
  unfolding postServerPullRemoteFile_def check_pull_def by (cases st) (auto intro!: keeps_intros)

text \<open>Pulls and downloads in the background, in any order and with the lists and connections of that moment.\<close>

datatype pull_op =
    Requested int string string pull_body "disk_cache \<times> peer list \<times> downloader"
  | InBackground download "peer list" downloader

fun run_pull :: "'w web \<Rightarrow> 'w site \<Rightarrow> int option \<Rightarrow> pull_op \<Rightarrow> (unit, quota \<times> 'w) fsop" where
  "run_pull W H cfg (Requested now uuid sid b st) = forget (postServerPullRemoteFile W H cfg now uuid sid b st)"
| "run_pull W H cfg (InBackground dl pool d) = forget (run_download W H cfg dl pool d)"

fun run_pulls :: "'w web \<Rightarrow> 'w site \<Rightarrow> int option \<Rightarrow> pull_op list \<Rightarrow> (unit, quota \<times> 'w) fsop" where
  "run_pulls W H cfg [] w = Some ((), w)"
| "run_pulls W H cfg (x # xs) w = do { (_, w) \<leftarrow> run_pull W H cfg x w; run_pulls W H cfg xs w }"

lemma keeps_run_pulls: "placed base H \<Longrightarrow> beside.keeps base {} (run_pulls (beneath_web W) (traced_site H) cfg xs)"
proof (induction xs)
  case Nil
  show ?case by (simp add: beside.keeps_def)
next
  case (Cons x xs)
  have "beside.keeps base {} (run_pull (beneath_web W) (traced_site H) cfg x)"
    using Cons.prems by (cases x) (auto simp: forget_def intro!: keeps_intros keeps_pull)
  with Cons have "beside.keeps base {} (\<lambda>w. run_pulls (beneath_web W) (traced_site H) cfg (x # xs) w)"
    unfolding run_pulls.simps by (auto intro!: keeps_intros)
  then show ?case by simp
qed

text \<open>Whatever pulls ask for, in the foreground or in the background, and whatever names the remote servers give the
  files, every system call stays inside the directory of the server.\<close>

theorem downloads_confined:
  assumes "good_base bs" "basePath (fsys_unix (si_fs H)) = spell bs" "slash \<notin> set (si_now H)"
    "run_pulls (beneath_web W) (traced_site H) cfg ops (q, w, []) = Some (r, (q', w', log))"
  shows "log_ok (spell bs) log"
proof -
  have "placed (spell bs) H"
    using assms(1,2,3) by (auto simp: placed_def beside.on_base_def)
  from beside.keepsD [OF keeps_run_pulls [OF this] _ _ assms(4)] show ?thesis by simp
qed

section \<open>Examples\<close>

definition example_peer :: "string \<Rightarrow> peer" where
  "example_peer u = \<lparr>pe_ip = from4 (if u = ''http://b/y'' then 0x0A000001 else 0x08080808), pe_zone = []\<rparr>"

definition example_answer :: "string \<Rightarrow> answer" where
  "example_answer u =
     \<lparr>an_StatusCode = (if u = ''http://a/x'' then 302 else 200), an_ContentLength = 3,
      an_Location = (if u = ''http://a/x'' then ''http://b/y'' else []), an_Disposition = []\<rparr>"

definition example_web :: "nat web" where
  "example_web =
     \<lparr>web_parse = (\<lambda>s. Inr \<lparr>ur_Scheme = ''http'', ur_Path = ''/x'', ur_String = s\<rparr>),
      web_resolve = (\<lambda>_ s. Some \<lparr>ur_Scheme = ''http'', ur_Path = ''/y'', ur_String = s\<rparr>), web_valid = (\<lambda>_. True),
      web_idle = (\<lambda>_ _ w. (None, w)), web_connect = (\<lambda>u w. (Inr (example_peer u), w)),
      web_exchange = (\<lambda>p u w. (Inr (example_answer u), w)), web_media = (\<lambda>_. None)\<rparr>"

lemma example_peers: "check_peer (example_peer ''http://a/x'') = None" "check_peer (example_peer ''http://c/z'') = None"
  "check_peer (example_peer ''http://b/y'') = Some ErrInternalResolution"
  by code_simp+

theorem downloads_stay_external_witness:
  "\<exists>pool w. follow (watched example_web) (maxRedirectAttempts None) \<lparr>ur_Scheme = ''http'', ur_Path = ''/x'', ur_String = ''http://a/x''\<rparr> [] None
     ([], 0, []) = (Inl (RequestFailed ErrInternalResolution), pool, w, [(example_peer ''http://a/x'', ''http://a/x'')]) \<and>
   external (example_peer ''http://a/x'')"
proof -
  have run: "follow (watched example_web) (maxRedirectAttempts None) \<lparr>ur_Scheme = ''http'', ur_Path = ''/x'', ur_String = ''http://a/x''\<rparr> [] None
     ([], 0, []) = (Inl (RequestFailed ErrInternalResolution), [example_peer ''http://a/x''], 0, [(example_peer ''http://a/x'', ''http://a/x'')])"
    by (simp add: maxRedirectAttempts_def numeral_eq_Suc Let_def watched_def example_web_def client_Do_def DialContext_def example_peers
        example_answer_def is_redirect_def)
  from downloads_stay_external [OF this] run show ?thesis by auto
qed

definition example_pull :: download_request where
  "example_pull = \<lparr>dr_Directory = ''x'', dr_URL = Some \<lparr>ur_Scheme = ''http'', ur_Path = ''/z'', ur_String = ''http://c/z''\<rparr>,
     dr_FileName = ''../b'', dr_UseHeader = False\<rparr>"


theorem download_target_unchecked_witness:
  "postServerPullRemoteFile example_web (example_site\<lparr>si_ignored := (\<lambda>p. p = ''config/locked'')\<rparr>) None 0 ''1'' ''s''
     \<lparr>pb_Directory = [], pb_RootPath = ''config'', pb_URL = ''http://c/z'', pb_FileName = ''locked'', pb_UseHeader = False, pb_Foreground = True\<rparr> =
   postServerPullRemoteFile example_web example_site None 0 ''1'' ''s''
     \<lparr>pb_Directory = [], pb_RootPath = ''config'', pb_URL = ''http://c/z'', pb_FileName = ''locked'', pb_UseHeader = False, pb_Foreground = True\<rparr>"
proof (rule download_target_unchecked)
  have "Join [''config'', []] = ''config''" by code_simp
  then show "(dl_Path (pull_request \<lparr>pb_Directory = [], pb_RootPath = ''config'', pb_URL = ''http://c/z'', pb_FileName = ''locked'',
        pb_UseHeader = False, pb_Foreground = True\<rparr> u) [] = ''config/locked'') =
      si_ignored example_site (dl_Path (pull_request \<lparr>pb_Directory = [], pb_RootPath = ''config'', pb_URL = ''http://c/z'',
        pb_FileName = ''locked'', pb_UseHeader = False, pb_Foreground = True\<rparr> u) [])" for u
    by (simp add: dl_Path_def pull_request_def)
qed

theorem downloads_confined_witness:
  "\<exists>r log. run_pulls (beneath_web example_web) (traced_site example_site) None
     [InBackground \<lparr>dl_Identifier = ''1'', dl_req = example_pull, dl_server = ''s''\<rparr> [] instance0] (\<lparr>q_limit = 2, q_usage = 0\<rparr>, 3, []) = Some (r, log) \<and>
   log_ok ''/srv'' (snd (snd log)) \<and> snd (snd log) \<noteq> []"
proof -
  have base: "good_base [''srv'']" "spell [''srv''] = ''/srv''"
    by (simp_all add: good_base_def plain_def)
  have path: "unsafePath ''/srv'' ''b'' = Ok ''b''" "Split ''b'' = ([], ''b'')" "Join [''x'', ''../b''] = ''b''"
    by code_simp+
  let ?u = "\<lparr>ur_Scheme = ''http'', ur_Path = ''/z'', ur_String = ''http://c/z''\<rparr>"
  have loop: "maxRedirectAttempts None = Suc 9" by (simp add: maxRedirectAttempts_def)
  have get: "follow (beneath_web example_web) (maxRedirectAttempts None) ?u [] None ([], 3, []) =
      (Inr (Some (example_answer ''http://c/z'', ?u)), [example_peer ''http://c/z''], 3, [])"
    unfolding loop follow.simps(2)
    by (simp add: Let_def beneath_web_def beneath_def example_web_def client_Do_def DialContext_def example_peers example_answer_def
        is_redirect_def)
  have answer: "check_answer (Some (example_answer ''http://c/z'', ?u)) = Inr (example_answer ''http://c/z'', ?u)"
    "an_ContentLength (example_answer ''http://c/z'') = 3"
    by (simp_all add: check_answer_def example_answer_def is_redirect_def)
  have "\<exists>e q w log. Write (traced counting_kernel) (traced_io still_io) example_fs ''b'' 3 420 (\<lparr>q_limit = 2, q_usage = 0\<rparr>, 3, []) = Some (e, (q, w, log)) \<and> log \<noteq> []"
    by (simp add: example_fs_def path Write_def current_size_def Stat_def do_fstat_def
        with_path_def safePath_def raw_openat_def do_fstatat_def ignoringEINTR.simps do_close_def close_all_def sys_def traced_def lifted_def
        lift_call_def record_call_def opened_def counting_kernel_def errno_err_def flag_defs ensurePathError_def
        use_quota_def update_state_def HasSpaceFor_def CanFit_def Limit_def Usage_def wrap64_def in_i64_def)
  then obtain e q w log where wrote:
    "Write (traced counting_kernel) (traced_io still_io) example_fs ''b'' 3 420 (\<lparr>q_limit = 2, q_usage = 0\<rparr>, 3, []) = Some (e, (q, w, log))" "log \<noteq> []" by blast
  have "\<exists>q w log. run_pulls (beneath_web example_web) (traced_site example_site) None
     [InBackground \<lparr>dl_Identifier = ''1'', dl_req = example_pull, dl_server = ''s''\<rparr> [] instance0] (\<lparr>q_limit = 2, q_usage = 0\<rparr>, 3, []) =
       Some ((), (q, w, log)) \<and> log \<noteq> []"
    using wrote by (simp add: path example_pull_def run_download_def forget_def Execute_def on_world_def get answer header_name_def
        choose_name_def dl_Path_def)
  then obtain q w log where run: "run_pulls (beneath_web example_web) (traced_site example_site) None
     [InBackground \<lparr>dl_Identifier = ''1'', dl_req = example_pull, dl_server = ''s''\<rparr> [] instance0] (\<lparr>q_limit = 2, q_usage = 0\<rparr>, 3, []) =
       Some ((), (q, w, log))" "log \<noteq> []" by blast
  from downloads_confined [OF base(1) _ _ run(1)] run show ?thesis
    by (simp add: base(2) example_fs_def example_site_def)
qed

end
