(* ===== verification/Panel.thy ===== *)
theory Panel
  imports Prelude Strconv "HOL-Library.AList" "HOL-Library.Char_ord"
begin

text \<open>
  The data of the panel (\<open>panel/internal/models\<close>), the tables it keeps them in, and who may ask for them
  (\<open>api/middleware\<close>, \<open>auth\<close>). The database is a record of functions for every table: a condition is a predicate on
  rows, a deleted row is gone for all of them, and an error of the database is a missing row or an update that changes
  nothing. Numbers of rows are natural numbers, and times are seconds.
\<close>

section \<open>Models\<close>

record user =
  us_ID :: nat
  us_UUID :: string
  us_Email :: string
  us_Username :: string
  us_Password :: string
  us_RememberToken :: "string option"
  us_Language :: string
  us_Timezone :: string
  us_ExternalID :: "string option"
  us_IsManagedExternally :: bool
  us_MFAAppSecret :: "string option"
  us_MFAEmailEnabled :: bool

record api_key =
  ak_ID :: nat
  ak_UserID :: "nat option"
  ak_Token :: string
  ak_Identifier :: string
  ak_KeyType :: int
  ak_AllowedIPs :: "string option"
  ak_Permissions :: "string option"
  ak_ExpiresAt :: "int option"

record node =
  nd_ID :: nat
  nd_UUID :: string
  nd_Name :: string
  nd_FQDN :: string
  nd_Scheme :: string
  nd_DaemonBase :: string
  nd_DaemonToken :: string
  nd_DaemonTokenID :: string
  nd_DaemonListen :: int
  nd_DaemonSFTP :: int
  nd_MaintenanceMode :: bool

record allocation =
  al_ID :: nat
  al_NodeID :: nat
  al_ServerID :: "nat option"
  al_IP :: string
  al_Alias :: "string option"
  al_Port :: int

record egg =
  eg_ID :: nat
  eg_UUID :: string
  eg_Name :: string
  eg_ForceOutgoingIP :: bool
  eg_ConfigStop :: "string option"
  eg_ConfigStartup :: "string option"
  eg_ConfigFiles :: "string option"
  eg_ScriptInstall :: "string option"
  eg_ScriptEntry :: string
  eg_ScriptContainer :: string

record egg_variable =
  ev_ID :: nat
  ev_EggID :: nat
  ev_EnvVariable :: string
  ev_DefaultValue :: string

record server_variable =
  vr_ID :: nat
  vr_ServerID :: nat
  vr_VariableID :: nat
  vr_VariableValue :: string

record mount_row =
  mt_ID :: nat
  mt_UUID :: string
  mt_Name :: string
  mt_Source :: string
  mt_Target :: string
  mt_ReadOnly :: bool

record mount_egg =
  me_MountID :: nat
  me_EggID :: nat

record mount_node =
  mn_MountID :: nat
  mn_NodeID :: nat

record backup_row =
  bk_ID :: nat
  bk_UUID :: string
  bk_ServerID :: nat
  bk_IsSuccessful :: "bool option"
  bk_Size :: int
  bk_Checksum :: "string option"
  bk_CompletedAt :: "int option"

record panel_server =
  ps_ID :: nat
  ps_UUID :: string
  ps_UUIDShort :: string
  ps_NodeID :: nat
  ps_OwnerID :: nat
  ps_Name :: string
  ps_Description :: "string option"
  ps_ExternalID :: "string option"
  ps_Memory :: int
  ps_Swap :: int
  ps_Disk :: int
  ps_IO :: int
  ps_CPU :: int
  ps_Threads :: "string option"
  ps_OOMKiller :: bool
  ps_AllocationID :: "nat option"
  ps_EggID :: nat
  ps_Startup :: string
  ps_Image :: string
  ps_SkipScripts :: bool
  ps_DatabaseLimit :: "int option"
  ps_AllocationLimit :: "int option"
  ps_BackupLimit :: int
  ps_Status :: "string option"
  ps_InstalledAt :: "int option"

section \<open>Tables\<close>

record ('r, 'd) table =
  tb_First :: "('r \<Rightarrow> bool) \<Rightarrow> 'd \<Rightarrow> 'r option"
  tb_Find :: "('r \<Rightarrow> bool) \<Rightarrow> 'd \<Rightarrow> 'r list"
  tb_Create :: "'r \<Rightarrow> 'd \<Rightarrow> string option \<times> 'd"
  tb_Update :: "('r \<Rightarrow> bool) \<Rightarrow> ('r \<Rightarrow> 'r) \<Rightarrow> 'd \<Rightarrow> 'd"
  tb_Delete :: "('r \<Rightarrow> bool) \<Rightarrow> 'd \<Rightarrow> 'd"

record 'd panel_db =
  db_users :: "(user, 'd) table"
  db_keys :: "(api_key, 'd) table"
  db_nodes :: "(node, 'd) table"
  db_servers :: "(panel_server, 'd) table"
  db_allocations :: "(allocation, 'd) table"
  db_eggs :: "(egg, 'd) table"
  db_egg_variables :: "(egg_variable, 'd) table"
  db_server_variables :: "(server_variable, 'd) table"
  db_mounts :: "(mount_row, 'd) table"
  db_mount_eggs :: "(mount_egg, 'd) table"
  db_mount_nodes :: "(mount_node, 'd) table"
  db_backups :: "(backup_row, 'd) table"

text \<open>
  What the code relies on, for the rows \<open>rows d\<close> that are not deleted: what is found is among them and matches, a search
  without error finds all that match, and updates and deletions touch the rows that match, or fail and touch nothing.
\<close>

definition lawful :: "('r, 'd) table \<Rightarrow> ('d \<Rightarrow> 'r list) \<Rightarrow> bool" where
  "lawful T rows \<longleftrightarrow>
     (\<forall>P d r. tb_First T P d = Some r \<longrightarrow> r \<in> set (rows d) \<and> P r) \<and>
     (\<forall>P d. tb_Find T P d = [] \<or> tb_Find T P d = filter P (rows d)) \<and>
     (\<forall>P f d. rows (tb_Update T P f d) = rows d \<or> rows (tb_Update T P f d) = map (\<lambda>r. if P r then f r else r) (rows d)) \<and>
     (\<forall>P d. rows (tb_Delete T P d) = rows d \<or> rows (tb_Delete T P d) = filter (\<lambda>r. \<not> P r) (rows d))"

text \<open>Answers: an error has its code and its detail.\<close>

datatype 'a reply = Reply nat 'a | Failed nat string string

section \<open>Who asks\<close>

definition extractBearerToken :: "string \<Rightarrow> string" where
  "extractBearerToken auth = (if auth = [] \<or> \<not> HasPrefix auth ''Bearer '' then [] else TrimPrefix auth ''Bearer '')"

text \<open>The node a request comes from, by its number and its uuid, or the refusal.\<close>

definition NodeAuth :: "'d panel_db \<Rightarrow> string \<Rightarrow> 'd \<Rightarrow> unit reply + nat \<times> string" where
  "NodeAuth D auth d =
     (let token = extractBearerToken auth
      in if token = [] then Inl (Failed 401 ''MissingAuthorizationHeader'' ''Missing authorization header'')
         else (case SplitN2 CHR ''.'' token of
                 [tokenID, tokenSecret] \<Rightarrow>
                   (case tb_First (db_nodes D) (\<lambda>n. nd_DaemonTokenID n = tokenID) d of
                      None \<Rightarrow> Inl (Failed 401 ''InvalidNodeCredentials'' ''Invalid node credentials'')
                    | Some n \<Rightarrow>
                        if nd_DaemonToken n \<noteq> tokenSecret
                        then Inl (Failed 403 ''InvalidNodeCredentials'' ''Invalid node credentials'')
                        else Inr (nd_ID n, nd_UUID n))
               | _ \<Rightarrow> Inl (Failed 401 ''InvalidAuthorizationFormat'' ''Invalid authorization token format'')))"

definition APIKeyTypeAccount :: int where "APIKeyTypeAccount = 1"
definition APIKeyTypeApplication :: int where "APIKeyTypeApplication = 2"

text \<open>The two checks of API keys; \<open>sha\<close> is the hash in hexadecimal digits. They give the key and its user.\<close>

definition key_auth :: "(string \<Rightarrow> string) \<Rightarrow> int \<Rightarrow> 'd panel_db \<Rightarrow> string \<Rightarrow> 'd \<Rightarrow> unit reply + nat \<times> nat option" where
  "key_auth sha kind D auth d =
     (let token = extractBearerToken auth
      in if token = [] then Inl (Failed 401 ''MissingAuthorizationHeader'' ''Missing authorization header'')
         else
           let identifier = (if length token \<ge> 16 then take 16 token else [])
           in (case tb_First (db_keys D) (\<lambda>k. ak_Identifier k = identifier \<and> ak_KeyType k = kind) d of
                 None \<Rightarrow> Inl (Failed 401 ''InvalidApiKey'' ''Invalid API key'')
               | Some k \<Rightarrow>
                   let tokenSecret = (if length token > 16 then drop 16 token else [])
                   in if ak_Token k \<noteq> sha tokenSecret then Inl (Failed 403 ''InvalidApiKey'' ''Invalid API key'')
                      else Inr (ak_ID k, ak_UserID k)))"

definition ApplicationAuth :: "(string \<Rightarrow> string) \<Rightarrow> 'd panel_db \<Rightarrow> string \<Rightarrow> 'd \<Rightarrow> unit reply + nat \<times> nat option" where
  "ApplicationAuth sha = key_auth sha APIKeyTypeApplication"

definition ClientAuth :: "(string \<Rightarrow> string) \<Rightarrow> 'd panel_db \<Rightarrow> string \<Rightarrow> 'd \<Rightarrow> unit reply + nat \<times> nat option" where
  "ClientAuth sha = key_auth sha APIKeyTypeAccount"

text \<open>\<open>GetUint("user_id")\<close> is zero for a key without a user.\<close>

definition user_of :: "nat \<times> nat option \<Rightarrow> nat" where
  "user_of k = (case snd k of Some u \<Rightarrow> u | None \<Rightarrow> 0)"

section \<open>Sessions\<close>

record session =
  se_ID :: string
  se_UserID :: nat
  se_Username :: string
  se_CreatedAt :: int
  se_ExpiresAt :: int

text \<open>The store of the sessions: values under keys, with the seconds they live, and counters.\<close>

record 'c cache =
  ca_Set :: "string \<Rightarrow> session \<Rightarrow> int \<Rightarrow> 'c \<Rightarrow> bool \<times> 'c"
  ca_Get :: "string \<Rightarrow> 'c \<Rightarrow> session option"
  ca_Del :: "string \<Rightarrow> 'c \<Rightarrow> 'c"
  ca_Incr :: "string \<Rightarrow> 'c \<Rightarrow> int option \<times> 'c"
  ca_Expire :: "string \<Rightarrow> int \<Rightarrow> 'c \<Rightarrow> 'c"

definition session_key :: "string \<Rightarrow> string" where
  "session_key i = ''session:'' @ i"

definition Lifetime :: int where "Lifetime = 24 * 60 * 60"

definition se_Create :: "'c cache \<Rightarrow> int \<Rightarrow> string \<Rightarrow> nat \<Rightarrow> string \<Rightarrow> 'c \<Rightarrow> session option \<times> 'c" where
  "se_Create R now uuid userID username c =
     (let session = \<lparr>se_ID = uuid, se_UserID = userID, se_Username = username, se_CreatedAt = now, se_ExpiresAt = now + Lifetime\<rparr>
      in (case ca_Set R (session_key uuid) session Lifetime c of
            (False, c) \<Rightarrow> (None, c)
          | (True, c) \<Rightarrow> (Some session, c)))"

definition se_Get :: "'c cache \<Rightarrow> int \<Rightarrow> string option \<Rightarrow> 'c \<Rightarrow> session option \<times> 'c" where
  "se_Get R now cookie c =
     (case cookie of
        None \<Rightarrow> (None, c)
      | Some i \<Rightarrow>
          (case ca_Get R (session_key i) c of
             None \<Rightarrow> (None, c)
           | Some s \<Rightarrow> if now > se_ExpiresAt s then (None, ca_Del R (session_key i) c) else (Some s, c)))"

definition se_Destroy :: "'c cache \<Rightarrow> string option \<Rightarrow> 'c \<Rightarrow> 'c" where
  "se_Destroy R cookie c = (case cookie of None \<Rightarrow> c | Some i \<Rightarrow> ca_Del R (session_key i) c)"

text \<open>What the two session handlers let through: everybody, with the user if there is one; and whoever has a session.\<close>

definition session_Middleware :: "'c cache \<Rightarrow> int \<Rightarrow> string option \<Rightarrow> 'c \<Rightarrow> (nat \<times> string) option \<times> 'c" where
  "session_Middleware R now cookie c =
     (case se_Get R now cookie c of (s, c) \<Rightarrow> (map_option (\<lambda>s. (se_UserID s, se_Username s)) s, c))"

definition RequireAuth :: "'c cache \<Rightarrow> int \<Rightarrow> string option \<Rightarrow> 'c \<Rightarrow> bool \<times> 'c" where
  "RequireAuth R now cookie c = (case se_Get R now cookie c of (s, c) \<Rightarrow> (s \<noteq> None, c))"

section \<open>Logging in\<close>

datatype login_answer = BadCredentials | NeedsSecondFactor | NoSession | LoggedIn session

definition Login :: "(string \<Rightarrow> string \<Rightarrow> bool) \<Rightarrow> 'd panel_db \<Rightarrow> 'c cache \<Rightarrow> int \<Rightarrow> string \<Rightarrow> string \<Rightarrow> string \<Rightarrow> 'd \<Rightarrow> 'c \<Rightarrow> login_answer \<times> 'c" where
  "Login verify D R now uuid email password d c =
     (case tb_First (db_users D) (\<lambda>u. us_Email u = email) d of
        None \<Rightarrow> (BadCredentials, c)
      | Some u \<Rightarrow>
          if \<not> verify password (us_Password u) then (BadCredentials, c)
          else if us_MFAAppSecret u \<noteq> None \<and> us_MFAAppSecret u \<noteq> Some [] then (NeedsSecondFactor, c)
          else (case se_Create R now uuid (us_ID u) (us_Username u) c of
                  (None, c) \<Rightarrow> (NoSession, c)
                | (Some s, c) \<Rightarrow> (LoggedIn s, c)))"

section \<open>Limits of requests\<close>

text \<open>Without a store, and when it fails, every request passes. The counter of a window expires some time after its first
  request.\<close>

definition rate_Limit :: "'c cache option \<Rightarrow> int \<Rightarrow> int \<Rightarrow> string \<Rightarrow> string \<Rightarrow> 'c \<Rightarrow> bool \<times> 'c" where
  "rate_Limit R maxRequests windowSeconds ip path c =
     (case R of
        None \<Rightarrow> (True, c)
      | Some R \<Rightarrow>
          let key = ''rate:'' @ ip @ '':'' @ path
          in (case ca_Incr R key c of
                (None, c) \<Rightarrow> (True, c)
              | (Some n, c) \<Rightarrow> (n \<le> maxRequests, if n = 1 then ca_Expire R key windowSeconds c else c)))"

section \<open>Tokens of nodes\<close>

text \<open>The claims of a token of a node; signing and verifying are parameters. Verifying looks at the signature alone.\<close>

record node_claims =
  nc_Issuer :: string
  nc_Subject :: string
  nc_IssuedAt :: int
  nc_ExpirationTime :: int
  nc_NodeID :: nat

definition NewNodeToken :: "(node_claims \<Rightarrow> string option) \<Rightarrow> int \<Rightarrow> nat \<Rightarrow> string option" where
  "NewNodeToken sign now nodeID =
     sign \<lparr>nc_Issuer = ''Pelican Panel'', nc_Subject = ''node:'' @ Itoa (int nodeID), nc_IssuedAt = now,
           nc_ExpirationTime = now + 24 * 60 * 60 * 365, nc_NodeID = nodeID\<rparr>"

definition ParseNodeToken :: "(string \<Rightarrow> node_claims option) \<Rightarrow> string \<Rightarrow> node_claims option" where
  "ParseNodeToken verify token = verify token"

text \<open>A parameter of a path that is a number names a row by its number; the database takes anything else as a condition of
  its own language, whose meaning is \<open>sql\<close>.\<close>

definition by_param :: "(string \<Rightarrow> 'r \<Rightarrow> bool) \<Rightarrow> ('r \<Rightarrow> nat) \<Rightarrow> string \<Rightarrow> 'r \<Rightarrow> bool" where
  "by_param sql ident s r = (case Atoi s of Some n \<Rightarrow> int (ident r) = n | None \<Rightarrow> sql s r)"

end
