(* ===== verification/PanelRemote.thy ===== *)
theory PanelRemote
  imports Panel Invocation
begin

text \<open>
  What the panel answers its nodes (\<open>panel/internal/api/remote\<close>) and the jobs it runs (\<open>internal/jobs\<close>): the
  configuration of a server, the reports of an installation or a backup, and the reset of states after a restart. A request
  is decoded already; \<open>None\<close> is a body that does not bind. Reading the JSON of an egg and the order in which Go visits a
  map are parameters.
\<close>

record panel_runtime =
  rt_startup :: "string \<Rightarrow> string list option"
  rt_files :: "string \<Rightarrow> (string \<times> string \<times> string) list option"
  rt_variables :: "(string \<times> string) list \<Rightarrow> (string \<times> string) list"
  rt_mounts :: "nat list \<Rightarrow> nat list"

section \<open>The configuration of a server\<close>

record build_conf =
  bc_memory_limit :: int
  bc_swap :: int
  bc_io_weight :: int
  bc_cpu_limit :: int
  bc_threads :: "string option"
  bc_disk_space :: int
  bc_oom_killer :: bool

record mount_conf =
  mc_source :: string
  mc_target :: string
  mc_read_only :: bool

record server_conf =
  sc_id :: nat
  sc_uuid :: string
  sc_name :: string
  sc_description :: "string option"
  sc_suspended :: bool
  sc_environment :: "(string \<times> string) list"
  sc_invocation :: string
  sc_skip_egg_scripts :: bool
  sc_build :: build_conf
  sc_image :: string
  sc_force_outgoing_ip :: bool
  sc_default :: "(string \<times> int) option"
  sc_mappings :: "(string \<times> int list) list"
  sc_mounts :: "mount_conf list option"
  sc_done :: "string list"
  sc_stop :: "string \<times> string"
  sc_configs :: "(string \<times> string \<times> string) list"

definition filterEggVars :: "egg_variable list \<Rightarrow> nat \<Rightarrow> egg_variable list" where
  "filterEggVars vars eggID = filter (\<lambda>v. ev_EggID v = eggID) vars"

definition filterServerVars :: "server_variable list \<Rightarrow> nat \<Rightarrow> server_variable list" where
  "filterServerVars vars serverID = filter (\<lambda>v. vr_ServerID v = serverID) vars"

definition filterAllocs :: "allocation list \<Rightarrow> nat \<Rightarrow> allocation list" where
  "filterAllocs allocs serverID = filter (\<lambda>a. al_ServerID a = Some serverID) allocs"

definition miBToBytes :: "int \<Rightarrow> int" where
  "miBToBytes mib = wrap64 (mib * 1048576)"

definition variable_value :: "server_variable list \<Rightarrow> egg_variable \<Rightarrow> string" where
  "variable_value serverVars ev =
     (case find (\<lambda>sv. vr_VariableID sv = ev_ID ev) serverVars of Some sv \<Rightarrow> vr_VariableValue sv | None \<Rightarrow> ev_DefaultValue ev)"

definition env_map :: "egg_variable list \<Rightarrow> server_variable list \<Rightarrow> (string \<times> string) list" where
  "env_map eggVars serverVars = fold (\<lambda>ev m. AList.update (ev_EnvVariable ev) (variable_value serverVars ev) m) eggVars []"

definition braced :: "string \<Rightarrow> string" where
  "braced k = ''{{'' @ k @ ''}}''"

definition panel_invocation :: "(string \<times> string) list \<Rightarrow> string \<Rightarrow> string" where
  "panel_invocation env startup = fold (\<lambda>(k, v) s. ReplaceAll s (braced k) v) env startup"

definition alloc_mappings :: "allocation list \<Rightarrow> (string \<times> int list) list" where
  "alloc_mappings allocs =
     fold (\<lambda>a m. AList.update (al_IP a) ((case map_of m (al_IP a) of Some ps \<Rightarrow> ps | None \<Rightarrow> []) @ [al_Port a]) m) allocs []"

definition default_alloc :: "panel_server \<Rightarrow> allocation list \<Rightarrow> (string \<times> int) option" where
  "default_alloc server allocs =
     (case filter (\<lambda>a. ps_AllocationID server = Some (al_ID a)) allocs of
        [] \<Rightarrow> (case allocs of [] \<Rightarrow> None | a # _ \<Rightarrow> Some (al_IP a, al_Port a))
      | as \<Rightarrow> Some (al_IP (last as), al_Port (last as)))"

text \<open>Without \<open>mounts\<close> the key is not there.\<close>

definition buildServerConfig ::
  "panel_runtime \<Rightarrow> panel_server \<Rightarrow> egg \<Rightarrow> egg_variable list \<Rightarrow> server_variable list \<Rightarrow> allocation list \<Rightarrow> server_conf" where
  "buildServerConfig J server egg eggVars serverVars allocs =
     (let env = env_map eggVars serverVars; mappings = alloc_mappings allocs
      in \<lparr>sc_id = ps_ID server, sc_uuid = ps_UUID server, sc_name = ps_Name server, sc_description = ps_Description server,
          sc_suspended = (ps_Status server = Some ''suspended''), sc_environment = env,
          sc_invocation = panel_invocation (rt_variables J env) (ps_Startup server), sc_skip_egg_scripts = ps_SkipScripts server,
          sc_build = \<lparr>bc_memory_limit = miBToBytes (ps_Memory server), bc_swap = ps_Swap server, bc_io_weight = ps_IO server,
                      bc_cpu_limit = ps_CPU server, bc_threads = ps_Threads server, bc_disk_space = miBToBytes (ps_Disk server),
                      bc_oom_killer = ps_OOMKiller server\<rparr>,
          sc_image = ps_Image server, sc_force_outgoing_ip = eg_ForceOutgoingIP egg, sc_default = default_alloc server allocs,
          sc_mappings = (if mappings = [] then [([], [])] else mappings), sc_mounts = None,
          sc_done = (case Option.bind (eg_ConfigStartup egg) (rt_startup J) of Some ls \<Rightarrow> ls | None \<Rightarrow> []),
          sc_stop = (''command'', case eg_ConfigStop egg of Some v \<Rightarrow> if v \<noteq> [] then v else ''stop'' | None \<Rightarrow> ''stop''),
          sc_configs = (case Option.bind (eg_ConfigFiles egg) (rt_files J) of Some fs \<Rightarrow> fs | None \<Rightarrow> [])\<rparr>)"

definition no_egg :: egg where
  "no_egg = \<lparr>eg_ID = 0, eg_UUID = [], eg_Name = [], eg_ForceOutgoingIP = False, eg_ConfigStop = None, eg_ConfigStartup = None,
     eg_ConfigFiles = None, eg_ScriptInstall = None, eg_ScriptEntry = [], eg_ScriptContainer = []\<rparr>"

text \<open>The egg that comes with a server; one that is not found is empty.\<close>

definition egg_of :: "'d panel_db \<Rightarrow> panel_server \<Rightarrow> 'd \<Rightarrow> egg" where
  "egg_of D server d = (case tb_First (db_eggs D) (\<lambda>e. eg_ID e = ps_EggID server) d of Some e \<Rightarrow> e | None \<Rightarrow> no_egg)"

section \<open>Mounts\<close>

definition mount_conf_of :: "mount_row \<Rightarrow> mount_conf" where
  "mount_conf_of m = \<lparr>mc_source = mt_Source m, mc_target = mt_Target m, mc_read_only = mt_ReadOnly m\<rparr>"

text \<open>The mounts that have a node and an egg among the given ones.\<close>

definition mountIDSet :: "mount_node list \<Rightarrow> mount_egg list \<Rightarrow> nat list" where
  "mountIDSet mns mes = remdups (map mn_MountID (filter (\<lambda>mn. mn_MountID mn \<in> me_MountID ` set mes) mns))"

definition load_mounts :: "'d panel_db \<Rightarrow> nat list \<Rightarrow> 'd \<Rightarrow> mount_row list" where
  "load_mounts D ids d = List.map_filter (\<lambda>i. tb_First (db_mounts D) (\<lambda>m. mt_ID m = i) d) ids"

text \<open>The entry of \<open>mountsByEggNode\<close> for an egg and a node.\<close>

definition mounts_at :: "mount_row list \<Rightarrow> mount_egg list \<Rightarrow> mount_node list \<Rightarrow> nat \<Rightarrow> nat \<Rightarrow> mount_conf list" where
  "mounts_at ms mes mns eggID nodeID =
     concat (map (\<lambda>m. concat (map (\<lambda>me. if me_MountID me = mt_ID m \<and> me_EggID me = eggID
        then map (\<lambda>_. mount_conf_of m) (filter (\<lambda>mn. mn_MountID mn = mt_ID m \<and> mn_NodeID mn = nodeID) mns) else []) mes)) ms)"

section \<open>Handlers of servers\<close>

definition remote_List :: "panel_runtime \<Rightarrow> 'd panel_db \<Rightarrow> nat \<Rightarrow> 'd \<Rightarrow> server_conf list" where
  "remote_List J D nodeID d =
     (let servers = tb_Find (db_servers D) (\<lambda>s. ps_NodeID s = nodeID) d;
          eggIDs = map ps_EggID servers; serverIDs = map ps_ID servers; nodeIDs = map ps_NodeID servers;
          allEggVars = (if eggIDs = [] then [] else tb_Find (db_egg_variables D) (\<lambda>v. ev_EggID v \<in> set eggIDs) d);
          allServerVars = (if serverIDs = [] then [] else tb_Find (db_server_variables D) (\<lambda>v. vr_ServerID v \<in> set serverIDs) d);
          allAllocs = (if serverIDs = [] then []
            else tb_Find (db_allocations D) (\<lambda>a. case al_ServerID a of Some i \<Rightarrow> i \<in> set serverIDs | None \<Rightarrow> False) d);
          allMountNodes = (if nodeIDs = [] then [] else tb_Find (db_mount_nodes D) (\<lambda>m. mn_NodeID m \<in> set nodeIDs) d);
          allMountEggs = (if eggIDs = [] then [] else tb_Find (db_mount_eggs D) (\<lambda>m. me_EggID m \<in> set eggIDs) d);
          allMounts = load_mounts D (rt_mounts J (mountIDSet allMountNodes allMountEggs)) d
      in map (\<lambda>s.
           let item = buildServerConfig J s (egg_of D s d) (filterEggVars allEggVars (ps_EggID s))
                        (filterServerVars allServerVars (ps_ID s)) (filterAllocs allAllocs (ps_ID s));
               mnts = mounts_at allMounts allMountEggs allMountNodes (ps_EggID s) (ps_NodeID s)
           in if mnts \<noteq> [] then item\<lparr>sc_mounts := Some mnts\<rparr> else item) servers)"

definition not_found :: "string \<Rightarrow> 'a reply" where
  "not_found what = Failed 404 ''HttpNotFoundException'' (what @ '' not found'')"

definition server_config :: "panel_runtime \<Rightarrow> 'd panel_db \<Rightarrow> panel_server \<Rightarrow> 'd \<Rightarrow> server_conf" where
  "server_config J D server d =
     (let eggVars = tb_Find (db_egg_variables D) (\<lambda>v. ev_EggID v = ps_EggID server) d;
          serverVars = tb_Find (db_server_variables D) (\<lambda>v. vr_ServerID v = ps_ID server) d;
          allocations = tb_Find (db_allocations D) (\<lambda>a. al_ServerID a = Some (ps_ID server)) d;
          mountNodes = tb_Find (db_mount_nodes D) (\<lambda>m. mn_NodeID m = ps_NodeID server) d;
          mountEggs = tb_Find (db_mount_eggs D) (\<lambda>m. me_EggID m = ps_EggID server) d;
          mounts = map mount_conf_of (load_mounts D (rt_mounts J (mountIDSet mountNodes mountEggs)) d)
      in (buildServerConfig J server (egg_of D server d) eggVars serverVars allocations)\<lparr>sc_mounts := Some mounts\<rparr>)"

text \<open>The node that asks is known to the handlers, and looked at by those of the list and the reset only.\<close>

definition remote_Get :: "panel_runtime \<Rightarrow> 'd panel_db \<Rightarrow> nat \<Rightarrow> string \<Rightarrow> 'd \<Rightarrow> server_conf reply" where
  "remote_Get J D nodeID uuid d =
     (case tb_First (db_servers D) (\<lambda>s. ps_UUID s = uuid) d of
        None \<Rightarrow> not_found ''Server''
      | Some server \<Rightarrow> Reply 200 (server_config J D server d))"

definition ResetState :: "'d panel_db \<Rightarrow> nat \<Rightarrow> 'd \<Rightarrow> 'd" where
  "ResetState D nodeID d =
     tb_Update (db_servers D) (\<lambda>s. ps_NodeID s = nodeID \<and> ps_Status s \<in> {Some ''installing'', Some ''restoring_backup''})
       (\<lambda>s. s\<lparr>ps_Status := None\<rparr>) d"

section \<open>Installations\<close>

definition install_Index :: "'d panel_db \<Rightarrow> string \<Rightarrow> 'd \<Rightarrow> (string \<times> string \<times> string option) reply" where
  "install_Index D uuid d =
     (case tb_First (db_servers D) (\<lambda>s. ps_UUID s = uuid) d of
        None \<Rightarrow> not_found ''Server''
      | Some server \<Rightarrow>
          let egg = egg_of D server d in Reply 200 (eg_ScriptContainer egg, eg_ScriptEntry egg, eg_ScriptInstall egg))"

record install_report =
  ir_Successful :: bool
  ir_Reinstall :: bool

definition after_install :: "int \<Rightarrow> install_report \<Rightarrow> panel_server \<Rightarrow> panel_server" where
  "after_install now req server =
     (if ir_Successful req then server\<lparr>ps_Status := None, ps_InstalledAt := Some now\<rparr>
      else server\<lparr>ps_Status := Some (if ir_Reinstall req then ''reinstall_failed'' else ''install_failed'')\<rparr>)"

definition invalid :: "'a reply" where
  "invalid = Failed 400 ''ValidationError'' []"

definition install_Store :: "'d panel_db \<Rightarrow> int \<Rightarrow> nat \<Rightarrow> string \<Rightarrow> install_report option \<Rightarrow> 'd \<Rightarrow> unit reply \<times> 'd" where
  "install_Store D now nodeID uuid body d =
     (case body of
        None \<Rightarrow> (invalid, d)
      | Some req \<Rightarrow>
          (case tb_First (db_servers D) (\<lambda>s. ps_UUID s = uuid) d of
             None \<Rightarrow> (not_found ''Server'', d)
           | Some server \<Rightarrow>
               (Reply 204 (), tb_Update (db_servers D) (\<lambda>s. ps_ID s = ps_ID server) (\<lambda>_. after_install now req server) d)))"

section \<open>Backups, transfers, activity and credentials\<close>

record backup_report =
  br_Successful :: bool
  br_Size :: int
  br_Checksum :: string

definition backup_Upload :: "'d panel_db \<Rightarrow> string \<Rightarrow> 'd \<Rightarrow> (string list \<times> int) reply" where
  "backup_Upload D uuid d =
     (case tb_First (db_backups D) (\<lambda>b. bk_UUID b = uuid) d of None \<Rightarrow> not_found ''Backup'' | Some _ \<Rightarrow> Reply 200 ([], 0))"

definition backup_Status :: "'d panel_db \<Rightarrow> int \<Rightarrow> nat \<Rightarrow> string \<Rightarrow> backup_report option \<Rightarrow> 'd \<Rightarrow> unit reply \<times> 'd" where
  "backup_Status D now nodeID uuid body d =
     (case body of
        None \<Rightarrow> (invalid, d)
      | Some req \<Rightarrow>
          (case tb_First (db_backups D) (\<lambda>b. bk_UUID b = uuid) d of
             None \<Rightarrow> (not_found ''Backup'', d)
           | Some b \<Rightarrow>
               (Reply 204 (), tb_Update (db_backups D) (\<lambda>x. bk_ID x = bk_ID b)
                  (\<lambda>_. b\<lparr>bk_IsSuccessful := Some (br_Successful req), bk_Size := br_Size req, bk_Checksum := Some (br_Checksum req),
                         bk_CompletedAt := Some now\<rparr>) d)))"

definition sftp_Auth :: "string \<Rightarrow> string \<Rightarrow> (string \<times> string \<times> string list) reply" where
  "sftp_Auth username password = (if username = [] \<or> password = [] then invalid else Reply 200 ([], [], []))"

definition activity_Store :: "'e list option \<Rightarrow> 'd \<Rightarrow> unit reply \<times> 'd" where
  "activity_Store body d = (case body of None \<Rightarrow> (invalid, d) | Some _ \<Rightarrow> (Reply 200 (), d))"

text \<open>The reports of a transfer and of a state, and the end of a restoration, are accepted and change nothing.\<close>

definition transfer_Failure :: "string \<Rightarrow> 'd \<Rightarrow> unit reply \<times> 'd" where
  "transfer_Failure uuid d = (Reply 204 (), d)"

definition transfer_Success :: "string \<Rightarrow> 'd \<Rightarrow> unit reply \<times> 'd" where
  "transfer_Success uuid d = (Reply 204 (), d)"

definition transfer_Status :: "string \<Rightarrow> 'd \<Rightarrow> unit reply \<times> 'd" where
  "transfer_Status uuid d = (Reply 200 (), d)"

definition backup_Restore :: "string \<Rightarrow> 'd \<Rightarrow> unit reply \<times> 'd" where
  "backup_Restore uuid d = (Reply 204 (), d)"

section \<open>Jobs\<close>

text \<open>\<open>None\<close> is a payload that does not decode.\<close>

definition HandleServerInstall :: "'d panel_db \<Rightarrow> int \<Rightarrow> nat option \<Rightarrow> 'd \<Rightarrow> bool \<times> 'd" where
  "HandleServerInstall D now payload d =
     (case payload of
        None \<Rightarrow> (False, d)
      | Some i \<Rightarrow> (True, tb_Update (db_servers D) (\<lambda>s. ps_ID s = i) (\<lambda>s. s\<lparr>ps_Status := None, ps_InstalledAt := Some now\<rparr>) d))"

definition HandleBackupProcess :: "'d panel_db \<Rightarrow> int \<Rightarrow> nat option \<Rightarrow> 'd \<Rightarrow> bool \<times> 'd" where
  "HandleBackupProcess D now payload d =
     (case payload of
        None \<Rightarrow> (False, d)
      | Some i \<Rightarrow> (True, tb_Update (db_backups D) (\<lambda>b. bk_ID b = i)
                    (\<lambda>b. b\<lparr>bk_IsSuccessful := Some True, bk_CompletedAt := Some now\<rparr>) d))"

definition HandleWebhookDispatch :: "'p option \<Rightarrow> bool" where
  "HandleWebhookDispatch payload = (payload \<noteq> None)"

end
