(* ===== verification/PanelApi.thy ===== *)
theory PanelApi
  imports PanelRemote
begin

text \<open>
  The two interfaces of the panel for people and programs (\<open>panel/internal/api/application\<close>, \<open>api/client\<close>), the pages of
  \<open>api/web\<close> and the rooms of \<open>internal/websockets\<close>. \<open>sql\<close> is what the database makes of a path parameter that is
  not a number, and \<open>same\<close> its comparison of a number with such a parameter.
\<close>

section \<open>Servers\<close>

definition page_number :: "string \<Rightarrow> int" where
  "page_number q = (let n = (case Atoi q of Some n \<Rightarrow> n | None \<Rightarrow> 0) in if n < 1 then 1 else n)"

definition page_size :: "string \<Rightarrow> int" where
  "page_size q = (let n = (case Atoi q of Some n \<Rightarrow> n | None \<Rightarrow> 0) in if n < 1 then 50 else n)"

record 'r page =
  pg_data :: "'r list"
  pg_total :: int
  pg_per_page :: int
  pg_current :: int
  pg_total_pages :: int

text \<open>The offset and the limit of a page; the database takes an offset that is not positive as none.\<close>

definition server_Index :: "'d panel_db \<Rightarrow> string \<Rightarrow> string \<Rightarrow> 'd \<Rightarrow> panel_server page" where
  "server_Index D page_query size_query d =
     (let page = page_number page_query; perPage = page_size size_query;
          all = tb_Find (db_servers D) (\<lambda>_. True) d; total = int (length all);
          servers = take (nat perPage) (drop (nat (wrap64 ((page - 1) * perPage))) all)
      in \<lparr>pg_data = servers, pg_total = total, pg_per_page = perPage, pg_current = page,
          pg_total_pages = (let n = wrap64 (total + perPage - 1) in sgn n * (\<bar>n\<bar> div perPage))\<rparr>)"

definition server_View :: "(string \<Rightarrow> panel_server \<Rightarrow> bool) \<Rightarrow> 'd panel_db \<Rightarrow> string \<Rightarrow> 'd \<Rightarrow> panel_server reply" where
  "server_View sql D ident d =
     (case tb_First (db_servers D) (by_param sql ps_ID ident) d of
        None \<Rightarrow> Failed 404 ''Error'' [] | Some s \<Rightarrow> Reply 200 s)"

record create_server =
  cs_Name :: string
  cs_UserID :: nat
  cs_NodeID :: nat
  cs_EggID :: nat
  cs_Memory :: int
  cs_Swap :: int
  cs_Disk :: int
  cs_IO :: int
  cs_CPU :: int
  cs_Image :: string
  cs_Startup :: string
  cs_Threads :: "string option"
  cs_OOMKiller :: bool
  cs_DatabaseLimit :: "int option"
  cs_AllocationLimit :: "int option"
  cs_BackupLimit :: int
  cs_AllocationID :: "nat option"
  cs_SkipScripts :: bool

definition create_bound :: "create_server \<Rightarrow> bool" where
  "create_bound r \<longleftrightarrow> cs_Name r \<noteq> [] \<and> cs_UserID r \<noteq> 0 \<and> cs_NodeID r \<noteq> 0 \<and> cs_EggID r \<noteq> 0 \<and> cs_Memory r \<noteq> 0 \<and>
     cs_Disk r \<noteq> 0 \<and> cs_CPU r \<noteq> 0 \<and> cs_Image r \<noteq> [] \<and> cs_Startup r \<noteq> []"

text \<open>A number of zero is left to the database, which also has a default for the weight of the disk.\<close>

definition new_server :: "string \<Rightarrow> string \<Rightarrow> create_server \<Rightarrow> panel_server" where
  "new_server uuid uuid2 r =
     \<lparr>ps_ID = 0, ps_UUID = uuid, ps_UUIDShort = take 8 uuid2, ps_NodeID = cs_NodeID r, ps_OwnerID = cs_UserID r, ps_Name = cs_Name r,
      ps_Description = None, ps_ExternalID = None, ps_Memory = cs_Memory r, ps_Swap = cs_Swap r, ps_Disk = cs_Disk r, ps_IO = cs_IO r,
      ps_CPU = cs_CPU r, ps_Threads = cs_Threads r, ps_OOMKiller = cs_OOMKiller r, ps_AllocationID = cs_AllocationID r,
      ps_EggID = cs_EggID r, ps_Startup = cs_Startup r, ps_Image = cs_Image r, ps_SkipScripts = cs_SkipScripts r,
      ps_DatabaseLimit = cs_DatabaseLimit r, ps_AllocationLimit = cs_AllocationLimit r, ps_BackupLimit = cs_BackupLimit r,
      ps_Status = None, ps_InstalledAt = None\<rparr>"

definition server_Store :: "'d panel_db \<Rightarrow> string \<Rightarrow> string \<Rightarrow> create_server option \<Rightarrow> 'd \<Rightarrow> panel_server reply \<times> 'd" where
  "server_Store D uuid uuid2 body d =
     (case body of
        None \<Rightarrow> (invalid, d)
      | Some r \<Rightarrow>
          if \<not> create_bound r then (invalid, d)
          else (case tb_Create (db_servers D) (new_server uuid uuid2 r) d of
                  (Some e, d) \<Rightarrow> (Failed 500 ''Error'' e, d)
                | (None, d) \<Rightarrow> (Reply 201 (new_server uuid uuid2 r), d)))"

definition server_Delete :: "(string \<Rightarrow> panel_server \<Rightarrow> bool) \<Rightarrow> 'd panel_db \<Rightarrow> string \<Rightarrow> 'd \<Rightarrow> 'd" where
  "server_Delete sql D ident d = tb_Delete (db_servers D) (by_param sql ps_ID ident) d"

definition server_change :: "(string \<Rightarrow> nat \<Rightarrow> bool) \<Rightarrow> 'd panel_db \<Rightarrow> string \<Rightarrow> (panel_server \<Rightarrow> panel_server) \<Rightarrow> 'd \<Rightarrow> 'd" where
  "server_change same D ident f d = tb_Update (db_servers D) (\<lambda>s. same ident (ps_ID s)) f d"

definition server_Suspend :: "(string \<Rightarrow> nat \<Rightarrow> bool) \<Rightarrow> 'd panel_db \<Rightarrow> string \<Rightarrow> 'd \<Rightarrow> 'd" where
  "server_Suspend same D ident = server_change same D ident (\<lambda>s. s\<lparr>ps_Status := Some ''suspended''\<rparr>)"

definition server_Unsuspend :: "(string \<Rightarrow> nat \<Rightarrow> bool) \<Rightarrow> 'd panel_db \<Rightarrow> string \<Rightarrow> 'd \<Rightarrow> 'd" where
  "server_Unsuspend same D ident = server_change same D ident (\<lambda>s. s\<lparr>ps_Status := None\<rparr>)"

definition server_Reinstall :: "(string \<Rightarrow> nat \<Rightarrow> bool) \<Rightarrow> 'd panel_db \<Rightarrow> string \<Rightarrow> 'd \<Rightarrow> 'd" where
  "server_Reinstall same D ident = server_change same D ident (\<lambda>s. s\<lparr>ps_Status := None, ps_InstalledAt := None\<rparr>)"

text \<open>\<open>given\<close>: a field of a request that is there replaces the value of the row.\<close>

definition given :: "'a option \<Rightarrow> 'a \<Rightarrow> 'a" where
  "given new old = (case new of Some x \<Rightarrow> x | None \<Rightarrow> old)"

definition given_opt :: "'a option \<Rightarrow> 'a option \<Rightarrow> 'a option" where
  "given_opt new old = (case new of Some x \<Rightarrow> Some x | None \<Rightarrow> old)"

record server_details =
  sd_Name :: "string option"
  sd_Description :: "string option"
  sd_OwnerID :: "nat option"
  sd_ExternalID :: "string option"

definition with_details :: "server_details \<Rightarrow> panel_server \<Rightarrow> panel_server" where
  "with_details r s =
     s\<lparr>ps_Name := given (sd_Name r) (ps_Name s), ps_Description := given_opt (sd_Description r) (ps_Description s),
       ps_OwnerID := given (sd_OwnerID r) (ps_OwnerID s), ps_ExternalID := given_opt (sd_ExternalID r) (ps_ExternalID s)\<rparr>"

definition UpdateDetails :: "(string \<Rightarrow> nat \<Rightarrow> bool) \<Rightarrow> 'd panel_db \<Rightarrow> string \<Rightarrow> server_details option \<Rightarrow> 'd \<Rightarrow> unit reply \<times> 'd" where
  "UpdateDetails same D ident body d =
     (case body of None \<Rightarrow> (invalid, d) | Some r \<Rightarrow> (Reply 200 (), server_change same D ident (with_details r) d))"

record server_build =
  sb_Memory :: "int option"
  sb_Swap :: "int option"
  sb_Disk :: "int option"
  sb_IO :: "int option"
  sb_CPU :: "int option"
  sb_Threads :: "string option"
  sb_OOMKiller :: "bool option"
  sb_DatabaseLimit :: "int option"
  sb_AllocationLimit :: "int option"
  sb_BackupLimit :: "int option"
  sb_AllocationID :: "nat option"

definition with_build :: "server_build \<Rightarrow> panel_server \<Rightarrow> panel_server" where
  "with_build r s =
     s\<lparr>ps_Memory := given (sb_Memory r) (ps_Memory s), ps_Swap := given (sb_Swap r) (ps_Swap s),
       ps_Disk := given (sb_Disk r) (ps_Disk s), ps_IO := given (sb_IO r) (ps_IO s), ps_CPU := given (sb_CPU r) (ps_CPU s),
       ps_Threads := given_opt (sb_Threads r) (ps_Threads s), ps_OOMKiller := given (sb_OOMKiller r) (ps_OOMKiller s),
       ps_DatabaseLimit := given_opt (sb_DatabaseLimit r) (ps_DatabaseLimit s),
       ps_AllocationLimit := given_opt (sb_AllocationLimit r) (ps_AllocationLimit s),
       ps_BackupLimit := given (sb_BackupLimit r) (ps_BackupLimit s),
       ps_AllocationID := given_opt (sb_AllocationID r) (ps_AllocationID s)\<rparr>"

definition UpdateBuild :: "(string \<Rightarrow> nat \<Rightarrow> bool) \<Rightarrow> 'd panel_db \<Rightarrow> string \<Rightarrow> server_build option \<Rightarrow> 'd \<Rightarrow> unit reply \<times> 'd" where
  "UpdateBuild same D ident body d =
     (case body of None \<Rightarrow> (invalid, d) | Some r \<Rightarrow> (Reply 200 (), server_change same D ident (with_build r) d))"

record server_startup =
  su_Startup :: "string option"
  su_Image :: "string option"
  su_SkipScripts :: "bool option"

definition with_startup :: "server_startup \<Rightarrow> panel_server \<Rightarrow> panel_server" where
  "with_startup r s =
     s\<lparr>ps_Startup := given (su_Startup r) (ps_Startup s), ps_Image := given (su_Image r) (ps_Image s),
       ps_SkipScripts := given (su_SkipScripts r) (ps_SkipScripts s)\<rparr>"

definition UpdateStartup :: "(string \<Rightarrow> nat \<Rightarrow> bool) \<Rightarrow> 'd panel_db \<Rightarrow> string \<Rightarrow> server_startup option \<Rightarrow> 'd \<Rightarrow> unit reply \<times> 'd" where
  "UpdateStartup same D ident body d =
     (case body of None \<Rightarrow> (invalid, d) | Some r \<Rightarrow> (Reply 200 (), server_change same D ident (with_startup r) d))"

section \<open>Users, nodes and allocations\<close>

definition user_View :: "(string \<Rightarrow> user \<Rightarrow> bool) \<Rightarrow> 'd panel_db \<Rightarrow> string \<Rightarrow> 'd \<Rightarrow> user reply" where
  "user_View sql D ident d =
     (case tb_First (db_users D) (by_param sql us_ID ident) d of None \<Rightarrow> Failed 404 ''Error'' [] | Some u \<Rightarrow> Reply 200 u)"

text \<open>The body of a user has no password, no remember token and no second factor: JSON does not reach them.\<close>

definition from_json :: "user \<Rightarrow> user" where
  "from_json u = u\<lparr>us_Password := [], us_RememberToken := None, us_MFAAppSecret := None\<rparr>"

definition user_Store :: "'d panel_db \<Rightarrow> string \<Rightarrow> user option \<Rightarrow> 'd \<Rightarrow> user reply \<times> 'd" where
  "user_Store D uuid body d =
     (case body of
        None \<Rightarrow> (invalid, d)
      | Some u \<Rightarrow>
          let u = (from_json u)\<lparr>us_UUID := uuid\<rparr>
          in (case tb_Create (db_users D) u d of (Some e, d) \<Rightarrow> (Failed 500 ''Error'' e, d) | (None, d) \<Rightarrow> (Reply 201 u, d)))"

definition user_Delete :: "(string \<Rightarrow> user \<Rightarrow> bool) \<Rightarrow> 'd panel_db \<Rightarrow> string \<Rightarrow> 'd \<Rightarrow> 'd" where
  "user_Delete sql D ident d = tb_Delete (db_users D) (by_param sql us_ID ident) d"

definition node_View :: "(string \<Rightarrow> node \<Rightarrow> bool) \<Rightarrow> 'd panel_db \<Rightarrow> string \<Rightarrow> 'd \<Rightarrow> node reply" where
  "node_View sql D ident d =
     (case tb_First (db_nodes D) (by_param sql nd_ID ident) d of None \<Rightarrow> Failed 404 ''Error'' [] | Some n \<Rightarrow> Reply 200 n)"

definition node_Store :: "'d panel_db \<Rightarrow> string \<Rightarrow> string \<Rightarrow> string \<Rightarrow> node option \<Rightarrow> 'd \<Rightarrow> node reply \<times> 'd" where
  "node_Store D uuid token tokenID body d =
     (case body of
        None \<Rightarrow> (invalid, d)
      | Some n \<Rightarrow>
          let n = n\<lparr>nd_UUID := uuid, nd_DaemonToken := token, nd_DaemonTokenID := tokenID\<rparr>
          in (case tb_Create (db_nodes D) n d of (Some e, d) \<Rightarrow> (Failed 500 ''Error'' e, d) | (None, d) \<Rightarrow> (Reply 201 n, d)))"

definition node_Delete :: "(string \<Rightarrow> node \<Rightarrow> bool) \<Rightarrow> 'd panel_db \<Rightarrow> string \<Rightarrow> 'd \<Rightarrow> 'd" where
  "node_Delete sql D ident d = tb_Delete (db_nodes D) (by_param sql nd_ID ident) d"

record node_conf =
  nf_uuid :: string
  nf_token_id :: string
  nf_token :: string
  nf_host :: string
  nf_port :: int
  nf_ssl :: bool
  nf_data :: string
  nf_sftp_port :: int

definition node_Configuration :: "(string \<Rightarrow> node \<Rightarrow> bool) \<Rightarrow> 'd panel_db \<Rightarrow> string \<Rightarrow> 'd \<Rightarrow> node_conf reply" where
  "node_Configuration sql D ident d =
     (case tb_First (db_nodes D) (by_param sql nd_ID ident) d of
        None \<Rightarrow> Failed 404 ''Error'' []
      | Some n \<Rightarrow> Reply 200 \<lparr>nf_uuid = nd_UUID n, nf_token_id = nd_DaemonTokenID n, nf_token = nd_DaemonToken n, nf_host = ''0.0.0.0'',
          nf_port = nd_DaemonListen n, nf_ssl = (nd_Scheme n = ''https''), nf_data = nd_DaemonBase n, nf_sftp_port = nd_DaemonSFTP n\<rparr>)"

record alloc_request =
  ar_IP :: string
  ar_Alias :: string
  ar_Ports :: "int list option"

text \<open>\<open>Sscanf\<close> reads the digits a text starts with; the number of the node is zero without any.\<close>

definition parseUint :: "string \<Rightarrow> nat" where
  "parseUint s = (case digits_val (takeWhile (\<lambda>c. digit_val c \<noteq> None) s) 0 of Some n \<Rightarrow> n | None \<Rightarrow> 0)"

definition alloc_Store :: "'d panel_db \<Rightarrow> string \<Rightarrow> alloc_request option \<Rightarrow> 'd \<Rightarrow> unit reply \<times> 'd" where
  "alloc_Store D nodeID body d =
     (case body of
        None \<Rightarrow> (invalid, d)
      | Some r \<Rightarrow>
          (case ar_Ports r of
             None \<Rightarrow> (invalid, d)
           | Some ports \<Rightarrow>
               if ar_IP r = [] then (invalid, d)
               else (Reply 201 (), fold (\<lambda>port d. snd (tb_Create (db_allocations D)
                       \<lparr>al_ID = 0, al_NodeID = parseUint nodeID, al_ServerID = None, al_IP = ar_IP r,
                        al_Alias = (if ar_Alias r \<noteq> [] then Some (ar_Alias r) else None), al_Port = port\<rparr> d)) ports d)))"

definition alloc_Delete :: "(string \<Rightarrow> allocation \<Rightarrow> bool) \<Rightarrow> 'd panel_db \<Rightarrow> string \<Rightarrow> 'd \<Rightarrow> 'd" where
  "alloc_Delete sql D ident d = tb_Delete (db_allocations D) (by_param sql al_ID ident) d"

section \<open>Eggs and mounts\<close>

definition egg_Store :: "'d panel_db \<Rightarrow> string \<Rightarrow> egg option \<Rightarrow> 'd \<Rightarrow> egg reply \<times> 'd" where
  "egg_Store D uuid body d =
     (case body of
        None \<Rightarrow> (invalid, d)
      | Some g \<Rightarrow>
          let g = g\<lparr>eg_UUID := uuid\<rparr>
          in (case tb_Create (db_eggs D) g d of (Some e, d) \<Rightarrow> (Failed 500 ''Error'' e, d) | (None, d) \<Rightarrow> (Reply 201 g, d)))"

definition egg_Delete :: "(string \<Rightarrow> egg \<Rightarrow> bool) \<Rightarrow> 'd panel_db \<Rightarrow> string \<Rightarrow> 'd \<Rightarrow> 'd" where
  "egg_Delete sql D ident d = tb_Delete (db_eggs D) (by_param sql eg_ID ident) d"

definition mount_Store :: "'d panel_db \<Rightarrow> string \<Rightarrow> mount_row option \<Rightarrow> 'd \<Rightarrow> mount_row reply \<times> 'd" where
  "mount_Store D uuid body d =
     (case body of
        None \<Rightarrow> (invalid, d)
      | Some m \<Rightarrow>
          let m = m\<lparr>mt_UUID := uuid\<rparr>
          in (case tb_Create (db_mounts D) m d of (Some e, d) \<Rightarrow> (Failed 500 ''Error'' e, d) | (None, d) \<Rightarrow> (Reply 201 m, d)))"

definition mount_Delete :: "(string \<Rightarrow> mount_row \<Rightarrow> bool) \<Rightarrow> 'd panel_db \<Rightarrow> string \<Rightarrow> 'd \<Rightarrow> 'd" where
  "mount_Delete sql D ident d = tb_Delete (db_mounts D) (by_param sql mt_ID ident) d"

section \<open>Clients\<close>

text \<open>The handlers get the number of the user of the key; those of servers and backups do not look at it.\<close>

definition account_Index :: "'d panel_db \<Rightarrow> nat \<Rightarrow> 'd \<Rightarrow> user option" where
  "account_Index D userID d = tb_First (db_users D) (\<lambda>u. us_ID u = userID) d"

definition UpdateEmail :: "(string \<Rightarrow> bool) \<Rightarrow> 'd panel_db \<Rightarrow> nat \<Rightarrow> string option \<Rightarrow> 'd \<Rightarrow> unit reply \<times> 'd" where
  "UpdateEmail is_email D userID body d =
     (case body of
        None \<Rightarrow> (invalid, d)
      | Some email \<Rightarrow>
          if email = [] \<or> \<not> is_email email then (invalid, d)
          else (Reply 200 (), tb_Update (db_users D) (\<lambda>u. us_ID u = userID) (\<lambda>u. u\<lparr>us_Email := email\<rparr>) d))"

definition UpdateUsername :: "'d panel_db \<Rightarrow> nat \<Rightarrow> string option \<Rightarrow> 'd \<Rightarrow> unit reply \<times> 'd" where
  "UpdateUsername D userID body d =
     (case body of
        None \<Rightarrow> (invalid, d)
      | Some name \<Rightarrow>
          if name = [] then (invalid, d)
          else (Reply 200 (), tb_Update (db_users D) (\<lambda>u. us_ID u = userID) (\<lambda>u. u\<lparr>us_Username := name\<rparr>) d))"

text \<open>The current password and the new one; the length is counted in characters, which are bytes here.\<close>

definition UpdatePassword :: "(string \<times> string) option \<Rightarrow> 'd \<Rightarrow> unit reply \<times> 'd" where
  "UpdatePassword body d =
     (case body of
        None \<Rightarrow> (invalid, d)
      | Some (current, new) \<Rightarrow> if current = [] \<or> length new < 8 then (invalid, d) else (Reply 200 (), d))"

definition client_Index :: "'d panel_db \<Rightarrow> nat \<Rightarrow> string \<Rightarrow> 'd \<Rightarrow> panel_server reply" where
  "client_Index D userID uuid d =
     (case tb_First (db_servers D) (\<lambda>s. ps_UUID s = uuid) d of
        None \<Rightarrow> Failed 404 ''ValidationError'' ''Server not found'' | Some s \<Rightarrow> Reply 200 s)"

definition client_Power :: "string option \<Rightarrow> 'd \<Rightarrow> unit reply \<times> 'd" where
  "client_Power signal d = (case signal of None \<Rightarrow> (invalid, d) | Some s \<Rightarrow> if s = [] then (invalid, d) else (Reply 204 (), d))"

definition client_Rename :: "'d panel_db \<Rightarrow> nat \<Rightarrow> string \<Rightarrow> string option \<Rightarrow> 'd \<Rightarrow> unit reply \<times> 'd" where
  "client_Rename D userID uuid body d =
     (case body of
        None \<Rightarrow> (invalid, d)
      | Some name \<Rightarrow>
          if name = [] then (invalid, d)
          else (Reply 200 (), tb_Update (db_servers D) (\<lambda>s. ps_UUID s = uuid) (\<lambda>s. s\<lparr>ps_Name := name\<rparr>) d))"

text \<open>A server that is not found has the number zero.\<close>

definition client_backups :: "'d panel_db \<Rightarrow> nat \<Rightarrow> string \<Rightarrow> 'd \<Rightarrow> backup_row list" where
  "client_backups D userID uuid d =
     (let i = (case tb_First (db_servers D) (\<lambda>s. ps_UUID s = uuid) d of Some s \<Rightarrow> ps_ID s | None \<Rightarrow> 0)
      in tb_Find (db_backups D) (\<lambda>b. bk_ServerID b = i) d)"

definition client_backup_Delete :: "'d panel_db \<Rightarrow> nat \<Rightarrow> string \<Rightarrow> string \<Rightarrow> 'd \<Rightarrow> 'd" where
  "client_backup_Delete D userID uuid backup d = tb_Delete (db_backups D) (\<lambda>b. bk_UUID b = backup) d"

section \<open>Pages\<close>

text \<open>A page of a server, for whoever has a session.\<close>

datatype page_answer = ToLogin | PageMissing | PageOf panel_server

definition server_Console :: "'c cache \<Rightarrow> 'd panel_db \<Rightarrow> int \<Rightarrow> string option \<Rightarrow> string \<Rightarrow> 'd \<Rightarrow> 'c \<Rightarrow> page_answer \<times> 'c" where
  "server_Console R D now cookie uuid d c =
     (case RequireAuth R now cookie c of
        (False, c) \<Rightarrow> (ToLogin, c)
      | (True, c) \<Rightarrow>
          (case tb_First (db_servers D) (\<lambda>s. ps_UUID s = uuid) d of None \<Rightarrow> (PageMissing, c) | Some s \<Rightarrow> (PageOf s, c)))"

definition admin_ServersList :: "'c cache \<Rightarrow> 'd panel_db \<Rightarrow> int \<Rightarrow> string option \<Rightarrow> 'd \<Rightarrow> 'c \<Rightarrow> panel_server list option \<times> 'c" where
  "admin_ServersList R D now cookie d c =
     (case RequireAuth R now cookie c of
        (False, c) \<Rightarrow> (None, c) | (True, c) \<Rightarrow> (Some (tb_Find (db_servers D) (\<lambda>_. True) d), c))"

section \<open>Rooms\<close>

text \<open>The connections of every server; a request with any origin joins the room it names.\<close>

type_synonym hub = "string \<rightharpoonup> nat set"

definition GetOrCreate :: "string \<Rightarrow> hub \<Rightarrow> hub" where
  "GetOrCreate uuid h = (case h uuid of Some _ \<Rightarrow> h | None \<Rightarrow> h(uuid \<mapsto> {}))"

definition AddDownstream :: "string \<Rightarrow> nat \<Rightarrow> hub \<Rightarrow> hub" where
  "AddDownstream uuid conn h = (case h uuid of Some cs \<Rightarrow> h(uuid \<mapsto> insert conn cs) | None \<Rightarrow> h)"

definition RemoveDownstream :: "string \<Rightarrow> nat \<Rightarrow> hub \<Rightarrow> hub" where
  "RemoveDownstream uuid conn h = (case h uuid of Some cs \<Rightarrow> h(uuid \<mapsto> cs - {conn}) | None \<Rightarrow> h)"

definition ws_Handle :: "string \<Rightarrow> string \<Rightarrow> nat \<Rightarrow> hub \<Rightarrow> bool \<times> hub" where
  "ws_Handle origin uuid conn h =
     (if origin = [] then (False, h) else (True, AddDownstream uuid conn (GetOrCreate uuid h)))"

end
