(* ===== verification/PanelProps.thy ===== *)
theory PanelProps
  imports PanelApi Remote Allocations "HOL-Library.Multiset"
begin

text \<open>
  The guarantees of the panel, and how it and its nodes fit together: who is taken for a node, where sessions come from,
  that the two ways to ask for a configuration agree, what a startup command becomes, which states a restart resets, and
  where the panel and the daemon differ on units.
\<close>

lemma lawful_Update: "lawful T rows \<Longrightarrow> rows (tb_Update T P f d) = rows d \<or> rows (tb_Update T P f d) = map (\<lambda>r. if P r then f r else r) (rows d)"
  and lawful_Delete: "lawful T rows \<Longrightarrow> rows (tb_Delete T P d) = rows d \<or> rows (tb_Delete T P d) = filter (\<lambda>r. \<not> P r) (rows d)"
  by (simp_all add: lawful_def)

section \<open>Nodes\<close>

lemma SplitN2_two: "SplitN2 c s = [a, b] \<Longrightarrow> s = a @ c # b"
  by (cases "c \<in> set s") (auto intro: SplitN2_join simp: SplitN2_def)

text \<open>C17: Who is taken for a node has sent the token of that very node: its identifier and its secret, in one header.\<close>

theorem nodes_show_their_token:
  assumes "lawful (db_nodes D) nodes" "NodeAuth D auth d = Inr (i, u)"
  shows "\<exists>n \<in> set (nodes d). nd_ID n = i \<and> nd_UUID n = u \<and> auth = ''Bearer '' @ nd_DaemonTokenID n @ ''.'' @ nd_DaemonToken n"
proof -
  let ?token = "extractBearerToken auth"
  obtain tokenID secret n where split: "SplitN2 CHR ''.'' ?token = [tokenID, secret]"
    and found: "tb_First (db_nodes D) (\<lambda>n. nd_DaemonTokenID n = tokenID) d = Some n"
    and n: "nd_DaemonToken n = secret" "nd_ID n = i" "nd_UUID n = u" and some: "?token \<noteq> []"
    using assms(2) by (auto simp: NodeAuth_def Let_def split: if_splits list.splits option.splits)
  have "n \<in> set (nodes d) \<and> nd_DaemonTokenID n = tokenID"
    using assms(1) found by (auto simp: lawful_def)
  moreover have "auth = ''Bearer '' @ ?token"
    using some by (auto simp: extractBearerToken_def TrimPrefix_def prefix_def split: if_splits)
  ultimately show ?thesis using SplitN2_two [OF split] n by auto
qed

text \<open>C37: A daemon configured with the credentials of a node is taken for that node by the panel: the header its client sends is
  what the panel reads. Identifiers of tokens have no dot and belong to one node.\<close>

theorem daemon_is_recognised:
  assumes "lawful (db_nodes D) nodes" "n \<in> set (nodes d)" "CHR ''.'' \<notin> set (nd_DaemonTokenID n)"
    "\<And>m. m \<in> set (nodes d) \<Longrightarrow> nd_DaemonTokenID m = nd_DaemonTokenID n \<Longrightarrow> m = n"
    "tb_First (db_nodes D) (\<lambda>m. nd_DaemonTokenID m = nd_DaemonTokenID n) d \<noteq> None"
    "request_headers (NewClient base (nd_DaemonTokenID n) (nd_DaemonToken n) version []) ''Authorization'' = Some auth"
  shows "NodeAuth D auth d = Inr (nd_ID n, nd_UUID n)"
proof -
  have "canonical ''Authorization'' = ''Authorization''" "canonical ''Content-Type'' \<noteq> ''Authorization''"
    "canonical ''Accept'' \<noteq> ''Authorization''" "canonical ''User-Agent'' \<noteq> ''Authorization''"
    by code_simp+
  with assms(6) have auth: "auth = ''Bearer '' @ nd_DaemonTokenID n @ ''.'' @ nd_DaemonToken n"
    by (auto simp: request_headers_def own_headers_def header_Set_def NewClient_def)
  then have token: "extractBearerToken auth = nd_DaemonTokenID n @ ''.'' @ nd_DaemonToken n"
    by (simp add: extractBearerToken_def TrimPrefix_def)
  then have split: "SplitN2 CHR ''.'' (extractBearerToken auth) = [nd_DaemonTokenID n, nd_DaemonToken n]"
    using assms(3) by (simp add: SplitN2_def takeWhile_to_sep dropWhile_to_sep)
  obtain m where m: "tb_First (db_nodes D) (\<lambda>m. nd_DaemonTokenID m = nd_DaemonTokenID n) d = Some m" using assms(5) by auto
  with assms(1) have "m \<in> set (nodes d)" "nd_DaemonTokenID m = nd_DaemonTokenID n" by (auto simp: lawful_def)
  with assms(4) have "m = n" by blast
  with m split token show ?thesis by (simp add: NodeAuth_def)
qed

section \<open>Sessions\<close>

text \<open>What the code relies on of the store, whose contents are \<open>look\<close>: reading finds what is there, and writing and deleting
  do what they say or nothing.\<close>

definition lawful_cache :: "'c cache \<Rightarrow> ('c \<Rightarrow> string \<Rightarrow> session option) \<Rightarrow> bool" where
  "lawful_cache R look \<longleftrightarrow>
     (\<forall>k c s. ca_Get R k c = Some s \<longrightarrow> look c k = Some s) \<and>
     (\<forall>k s t c ok c'. ca_Set R k s t c = (ok, c') \<longrightarrow> look c' = look c \<or> look c' = (look c)(k \<mapsto> s)) \<and>
     (\<forall>k c. look (ca_Del R k c) = look c \<or> look (ca_Del R k c) = (look c)(k := None))"

lemma lawful_Del: "lawful_cache R look \<Longrightarrow> look (ca_Del R k c) = look c \<or> look (ca_Del R k c) = (look c)(k := None)"
  by (simp add: lawful_cache_def)

text \<open>The sessions an attempt to log in may make: of a user with this address and this password, without a second factor.\<close>

definition logins :: "(string \<Rightarrow> string \<Rightarrow> bool) \<Rightarrow> user list \<Rightarrow> string \<Rightarrow> string \<Rightarrow> string \<Rightarrow> (session \<times> user \<times> string) set" where
  "logins verify us uuid email password =
     {(s, u, p). u \<in> set us \<and> p = password \<and> us_Email u = email \<and> verify password (us_Password u) \<and>
        (us_MFAAppSecret u = None \<or> us_MFAAppSecret u = Some []) \<and> se_ID s = uuid \<and> se_UserID s = us_ID u}"

text \<open>A run of the panel: people log in, are looked up by their cookie, and log out, at any time. The second argument has the
  sessions that logging in made, each with the user and the password.\<close>

inductive panel_run ::
  "(string \<Rightarrow> string \<Rightarrow> bool) \<Rightarrow> 'd panel_db \<Rightarrow> 'c cache \<Rightarrow> ('c \<Rightarrow> string \<Rightarrow> session option) \<Rightarrow> ('d \<Rightarrow> user list) \<Rightarrow>
    'c \<Rightarrow> (session \<times> user \<times> string) set \<Rightarrow> bool"
  for verify D R look users where
  run_new: "look c = Map.empty \<Longrightarrow> panel_run verify D R look users c {}"
| run_login: "panel_run verify D R look users c S \<Longrightarrow> Login verify D R now uuid email password d c = (answer, c') \<Longrightarrow>
    panel_run verify D R look users c' (S \<union> logins verify (users d) uuid email password)"
| run_get: "panel_run verify D R look users c S \<Longrightarrow> se_Get R now cookie c = (s, c') \<Longrightarrow> panel_run verify D R look users c' S"
| run_logout: "panel_run verify D R look users c S \<Longrightarrow> panel_run verify D R look users (se_Destroy R cookie c) S"

lemma Login_look:
  assumes "lawful_cache R look" "lawful (db_users D) users" "Login verify D R now uuid email password d c = (answer, c')"
  shows "look c' = look c \<or>
    (\<exists>s u. look c' = (look c)(session_key uuid \<mapsto> s) \<and> se_ID s = uuid \<and> (s, u, password) \<in> logins verify (users d) uuid email password)"
proof (cases "\<exists>u. tb_First (db_users D) (\<lambda>u. us_Email u = email) d = Some u \<and> verify password (us_Password u) \<and>
    (us_MFAAppSecret u = None \<or> us_MFAAppSecret u = Some [])")
  case True
  then obtain u where u: "tb_First (db_users D) (\<lambda>u. us_Email u = email) d = Some u" "verify password (us_Password u)"
    "us_MFAAppSecret u = None \<or> us_MFAAppSecret u = Some []" by blast
  let ?s = "\<lparr>se_ID = uuid, se_UserID = us_ID u, se_Username = us_Username u, se_CreatedAt = now, se_ExpiresAt = now + Lifetime\<rparr>"
  obtain ok c1 where put: "ca_Set R (session_key uuid) ?s Lifetime c = (ok, c1)" by force
  then have "look c1 = look c \<or> look c1 = (look c)(session_key uuid \<mapsto> ?s)"
    using assms(1) unfolding lawful_cache_def by blast
  moreover have "c' = c1"
    using assms(3) u put by (auto simp: Login_def se_Create_def Let_def split: prod.splits bool.splits option.splits if_splits)
  moreover have "u \<in> set (users d) \<and> us_Email u = email"
    using assms(2) u(1) by (auto simp: lawful_def)
  with u have "(?s, u, password) \<in> logins verify (users d) uuid email password" by (auto simp: logins_def)
  ultimately show ?thesis by (metis session.select_convs(1))
next
  case False
  with assms(3) show ?thesis by (auto simp: Login_def split: option.splits if_splits)
qed

definition backed :: "('c \<Rightarrow> string \<Rightarrow> session option) \<Rightarrow> 'c \<Rightarrow> (session \<times> user \<times> string) set \<Rightarrow> bool" where
  "backed look c S \<longleftrightarrow> (\<forall>i s. look c (session_key i) = Some s \<longrightarrow> se_ID s = i \<and> (\<exists>u p. (s, u, p) \<in> S))"

lemma session_key_inj [simp]: "session_key i = session_key j \<longleftrightarrow> i = j"
  by (simp add: session_key_def)

lemma backed_less: "backed look c S \<Longrightarrow> look c' = look c \<or> look c' = (look c)(k := None) \<Longrightarrow> backed look c' S"
  by (auto simp: backed_def split: if_splits)

lemma backed_more: "backed look c S \<Longrightarrow> S \<subseteq> T \<Longrightarrow> backed look c T"
  by (fastforce simp: backed_def)

lemma backed_put:
  "backed look c S \<Longrightarrow> look c' = (look c)(session_key i \<mapsto> s) \<Longrightarrow> se_ID s = i \<Longrightarrow> (s, u, p) \<in> S \<Longrightarrow> backed look c' S"
  by (auto simp: backed_def split: if_splits)

lemma panel_run_backed:
  assumes "panel_run verify D R look users c S" "lawful_cache R look" "lawful (db_users D) users"
  shows "backed look c S \<and> (\<forall>(s, u, p) \<in> S. verify p (us_Password u) \<and> (us_MFAAppSecret u = None \<or> us_MFAAppSecret u = Some []) \<and>
    se_UserID s = us_ID u)"
  using assms
proof (induction rule: panel_run.induct)
  case (run_new c)
  then show ?case by (simp add: backed_def)
next
  case (run_login c S now uuid email password d answer c')
  let ?T = "S \<union> logins verify (users d) uuid email password"
  note IH = run_login.IH [OF run_login.prems]
  then have "backed look c ?T" by (blast intro: backed_more)
  with Login_look [OF run_login.prems run_login.hyps(2)] have "backed look c' ?T"
    by (elim disjE exE conjE) (auto intro: backed_put backed_less)
  with IH show ?case by (auto simp: logins_def)
next
  case (run_get c S now cookie s c')
  have "look c' = look c \<or> (\<exists>k. look c' = (look c)(k := None))"
    using run_get.hyps(2) lawful_Del [OF run_get.prems(1)]
    by (fastforce simp: se_Get_def split: option.splits if_splits)
  with run_get.IH [OF run_get.prems] show ?case by (auto intro: backed_less)
next
  case (run_logout c S cookie)
  have "look (se_Destroy R cookie c) = look c \<or> (\<exists>k. look (se_Destroy R cookie c) = (look c)(k := None))"
    using lawful_Del [OF run_logout.prems(1)] by (fastforce simp: se_Destroy_def split: option.splits)
  with run_logout.IH [OF run_logout.prems] show ?case by (auto intro: backed_less)
qed

text \<open>C16: Whoever passes for logged in, at any time of a run, has the cookie of a session that has not expired and was made when
  somebody gave the password of its user, who has no second factor.\<close>

theorem sessions_need_passwords:
  assumes "lawful_cache R look" "lawful (db_users D) users" "panel_run verify D R look users c S"
    "RequireAuth R now cookie c = (True, c')"
  shows "\<exists>s u p. cookie = Some (se_ID s) \<and> now \<le> se_ExpiresAt s \<and> (s, u, p) \<in> S \<and> se_UserID s = us_ID u \<and>
    verify p (us_Password u) \<and> (us_MFAAppSecret u = None \<or> us_MFAAppSecret u = Some [])"
proof -
  obtain i s where s: "cookie = Some i" "ca_Get R (session_key i) c = Some s" "now \<le> se_ExpiresAt s"
    using assms(4) by (auto simp: RequireAuth_def se_Get_def split: option.splits if_splits)
  then have "look c (session_key i) = Some s"
    using assms(1) unfolding lawful_cache_def by blast
  with panel_run_backed [OF assms(3,1,2)] s show ?thesis by (fastforce simp: backed_def)
qed

section \<open>The configuration of a server\<close>

text \<open>A database without errors that gives its rows in one order.\<close>

definition steady :: "('r, 'd) table \<Rightarrow> ('d \<Rightarrow> 'r list) \<Rightarrow> bool" where
  "steady T rows \<longleftrightarrow> (\<forall>P d. tb_Find T P d = filter P (rows d) \<and> tb_First T P d = find P (rows d))"

lemma find_unique: "distinct (map f xs) \<Longrightarrow> x \<in> set xs \<Longrightarrow> find (\<lambda>y. f y = f x) xs = Some x"
  by (induction xs) (auto simp: rev_image_eqI)

lemma filter_once: "distinct xs \<Longrightarrow> (\<And>x. P x \<longleftrightarrow> x = y) \<Longrightarrow> filter P xs = (if y \<in> set xs then [y] else [])"
  by (induction xs) auto

lemma filter_mount_node:
  "distinct mns \<Longrightarrow> filter (\<lambda>mn. mn_MountID mn = i \<and> mn_NodeID mn = n) mns =
    (if \<lparr>mn_MountID = i, mn_NodeID = n\<rparr> \<in> set mns then [\<lparr>mn_MountID = i, mn_NodeID = n\<rparr>] else [])"
  by (rule filter_once) auto

lemma concat_once:
  "distinct xs \<Longrightarrow> (\<And>x. x \<in> set xs \<Longrightarrow> P x \<longleftrightarrow> x = y) \<Longrightarrow> concat (map (\<lambda>x. if P x then zs else []) xs) = (if y \<in> set xs then zs else [])"
  by (induction xs) auto

lemma mounts_at_rows:
  assumes "distinct mes" "distinct mns"
  shows "mounts_at ms mes mns e n = map mount_conf_of (filter (\<lambda>m. \<lparr>me_MountID = mt_ID m, me_EggID = e\<rparr> \<in> set mes \<and>
    \<lparr>mn_MountID = mt_ID m, mn_NodeID = n\<rparr> \<in> set mns) ms)"
proof -
  have "concat (map (\<lambda>me. if me_MountID me = mt_ID m \<and> me_EggID me = e then zs else []) mes) =
      (if \<lparr>me_MountID = mt_ID m, me_EggID = e\<rparr> \<in> set mes then zs else [])" for m :: mount_row and zs :: "mount_conf list"
    using assms(1) by (rule concat_once) auto
  then show ?thesis
    using filter_mount_node [OF assms(2)] by (induction ms) (simp_all add: mounts_at_def)
qed

lemma mount_node_pair: "(\<exists>mn \<in> set mns. mn_MountID mn = i \<and> mn_NodeID mn = n) \<longleftrightarrow> \<lparr>mn_MountID = i, mn_NodeID = n\<rparr> \<in> set mns"
proof
  assume "\<exists>mn \<in> set mns. mn_MountID mn = i \<and> mn_NodeID mn = n"
  then obtain mn where mn: "mn \<in> set mns" "mn_MountID mn = i" "mn_NodeID mn = n" by blast
  then have "mn = \<lparr>mn_MountID = i, mn_NodeID = n\<rparr>" by (intro mount_node.equality) simp_all
  with mn(1) show "\<lparr>mn_MountID = i, mn_NodeID = n\<rparr> \<in> set mns" by simp
qed force

lemma mount_egg_pair: "(\<exists>me \<in> set mes. me_MountID me = i \<and> me_EggID me = e) \<longleftrightarrow> \<lparr>me_MountID = i, me_EggID = e\<rparr> \<in> set mes"
proof
  assume "\<exists>me \<in> set mes. me_MountID me = i \<and> me_EggID me = e"
  then obtain me where me: "me \<in> set mes" "me_MountID me = i" "me_EggID me = e" by blast
  then have "me = \<lparr>me_MountID = i, me_EggID = e\<rparr>" by (intro mount_egg.equality) simp_all
  with me(1) show "\<lparr>me_MountID = i, me_EggID = e\<rparr> \<in> set mes" by simp
qed force

lemma mountIDSet_iff: "i \<in> set (mountIDSet mns mes) \<longleftrightarrow> i \<in> mn_MountID ` set mns \<and> i \<in> me_MountID ` set mes"
  by (auto simp: mountIDSet_def)

lemma mountIDSet_at:
  "i \<in> set (mountIDSet (filter (\<lambda>m. mn_NodeID m = n) mns) (filter (\<lambda>m. me_EggID m = e) mes)) \<longleftrightarrow>
    \<lparr>me_MountID = i, me_EggID = e\<rparr> \<in> set mes \<and> \<lparr>mn_MountID = i, mn_NodeID = n\<rparr> \<in> set mns"
  unfolding mount_node_pair [symmetric] mount_egg_pair [symmetric] mountIDSet_iff by (auto simp: image_iff)

lemma load_mounts_rows:
  assumes "steady (db_mounts D) mounts" "distinct (map mt_ID (mounts d))" "distinct ids"
  shows "distinct (load_mounts D ids d) \<and> set (load_mounts D ids d) = {m \<in> set (mounts d). mt_ID m \<in> set ids}"
  using assms(3)
proof (induction ids)
  case Nil
  show ?case by (simp add: load_mounts_def List.map_filter_def)
next
  case (Cons i ids)
  have "tb_First (db_mounts D) (\<lambda>m. mt_ID m = i) d = find (\<lambda>m. mt_ID m = i) (mounts d)"
    using assms(1) by (simp add: steady_def)
  moreover have "find (\<lambda>m. mt_ID m = i) (mounts d) = Some m" if "m \<in> set (mounts d)" "mt_ID m = i" for m
    using find_unique [OF assms(2) that(1)] that(2) by simp
  moreover have "find (\<lambda>m. mt_ID m = i) (mounts d) = None" if "\<forall>m \<in> set (mounts d). mt_ID m \<noteq> i"
    using that by (simp add: find_None_iff)
  moreover have "x = m" if "x \<in> set (mounts d)" "m \<in> set (mounts d)" "mt_ID x = mt_ID m" for x m
    using assms(2) that by (auto simp: distinct_map dest: inj_onD)
  ultimately show ?case
    using Cons by (cases "\<exists>m \<in> set (mounts d). mt_ID m = i") (auto simp: load_mounts_def List.map_filter_def)
qed

definition sent_mounts :: "server_conf \<Rightarrow> mount_conf list" where
  "sent_mounts c = (case sc_mounts c of Some ms \<Rightarrow> ms | None \<Rightarrow> [])"

lemma permuted_distinct: "mset xs = mset ys \<Longrightarrow> distinct xs \<longleftrightarrow> distinct ys"
  by (metis mset_eq_imp_distinct_iff)

lemma mounts_agree:
  assumes "steady (db_mounts D) mounts" "distinct (map mt_ID (mounts d))" "distinct mes" "distinct mns"
    "\<And>ids. mset (rt_mounts J ids) = mset ids" "e \<in> E" "n \<in> N"
  shows "mset (mounts_at (load_mounts D (rt_mounts J (mountIDSet (filter (\<lambda>m. mn_NodeID m \<in> N) mns) (filter (\<lambda>m. me_EggID m \<in> E) mes))) d)
      (filter (\<lambda>m. me_EggID m \<in> E) mes) (filter (\<lambda>m. mn_NodeID m \<in> N) mns) e n) =
    mset (map mount_conf_of (load_mounts D (rt_mounts J (mountIDSet (filter (\<lambda>m. mn_NodeID m = n) mns) (filter (\<lambda>m. me_EggID m = e) mes))) d))"
proof -
  let ?many = "mountIDSet (filter (\<lambda>m. mn_NodeID m \<in> N) mns) (filter (\<lambda>m. me_EggID m \<in> E) mes)"
  let ?one = "mountIDSet (filter (\<lambda>m. mn_NodeID m = n) mns) (filter (\<lambda>m. me_EggID m = e) mes)"
  have ids: "distinct (rt_mounts J (mountIDSet a b))" "set (rt_mounts J (mountIDSet a b)) = set (mountIDSet a b)" for a b
    using permuted_distinct [OF assms(5)] mset_eq_setD [OF assms(5)] by (auto simp: mountIDSet_def)
  note load = load_mounts_rows [OF assms(1,2) ids(1)]
  let ?P = "\<lambda>m. \<lparr>me_MountID = mt_ID m, me_EggID = e\<rparr> \<in> set mes \<and> \<lparr>mn_MountID = mt_ID m, mn_NodeID = n\<rparr> \<in> set mns"
  have many: "mt_ID m \<in> set ?many" if "?P m" for m
    using that assms(6,7) unfolding mount_node_pair [symmetric] mount_egg_pair [symmetric] mountIDSet_iff by (auto simp: image_iff)
  have "mset (filter ?P (load_mounts D (rt_mounts J ?many) d)) = mset (load_mounts D (rt_mounts J ?one) d)"
  proof (subst set_eq_iff_mset_eq_distinct [symmetric])
    have "set (filter ?P (load_mounts D (rt_mounts J ?many) d)) = {m \<in> set (mounts d). mt_ID m \<in> set ?many \<and> ?P m}"
      using load by (auto simp: ids)
    also have "\<dots> = {m \<in> set (mounts d). ?P m}"
      using many by blast
    also have "\<dots> = {m \<in> set (mounts d). mt_ID m \<in> set ?one}"
      by (simp only: mountIDSet_at)
    also have "\<dots> = set (load_mounts D (rt_mounts J ?one) d)"
      using load by (auto simp: ids)
    finally show "set (filter ?P (load_mounts D (rt_mounts J ?many) d)) = set (load_mounts D (rt_mounts J ?one) d)" .
  qed (use load in auto)
  moreover have "mounts_at ms (filter (\<lambda>m. me_EggID m \<in> E) mes) (filter (\<lambda>m. mn_NodeID m \<in> N) mns) e n = map mount_conf_of (filter ?P ms)" for ms
    unfolding mounts_at_rows [OF distinct_filter [OF assms(3)] distinct_filter [OF assms(4)]] by (simp add: assms(6,7))
  ultimately show ?thesis by (simp only: mset_map)
qed


section \<open>The startup command\<close>

text \<open>What the panel makes of a part of a startup command: a known variable in double braces becomes its value.\<close>

fun panel_text :: "(string \<Rightarrow> string option) \<Rightarrow> piece \<Rightarrow> string" where
  "panel_text m (Braces n) = (case m n of Some v \<Rightarrow> v | None \<Rightarrow> braced n)"
| "panel_text m p = source_text p"

definition settle :: "string \<Rightarrow> string \<Rightarrow> piece \<Rightarrow> piece" where
  "settle k v p = (if p = Braces k then Plain v else p)"

lemma braced_start: "braced k = CHR ''{'' # CHR ''{'' # k @ [CHR ''}'', CHR ''}'']"
  by (simp add: braced_def)

lemma braced_prefix:
  assumes "CHR ''}'' \<notin> set k" "CHR ''}'' \<notin> set n"
  shows "prefix (braced k) (braced n @ s) \<longleftrightarrow> k = n"
proof
  assume "prefix (braced k) (braced n @ s)"
  then obtain z where z: "k @ CHR ''}'' # CHR ''}'' # z = n @ CHR ''}'' # CHR ''}'' # s"
    by (auto simp: braced_def prefix_def)
  have "takeWhile (\<lambda>x. x \<noteq> CHR ''}'') (k @ CHR ''}'' # CHR ''}'' # z) = k"
    "takeWhile (\<lambda>x. x \<noteq> CHR ''}'') (n @ CHR ''}'' # CHR ''}'' # s) = n"
    using assms by (simp_all add: takeWhile_to_sep)
  with z show "k = n" by metis
qed simp

lemma braced_later: "set w \<inter> special = {} \<Longrightarrow> \<not> prefix (braced k) (CHR ''{'' # w @ CHR ''}'' # s)"
  by (cases w) (auto simp: braced_def special_def)

lemma settle_piece:
  assumes "set k \<inter> special = {}" "piece_ok p"
  shows "ReplaceAll (source_text p @ s) (braced k) v = source_text (settle k v p) @ ReplaceAll s (braced k) v"
proof (cases p)
  case (Plain t)
  with assms show ?thesis
    using ReplaceAll_skip [OF braced_start, of t s k v] by (auto simp: settle_def special_def)
next
  case (Dollar n)
  have skip: "ReplaceAll (n @ CHR ''}'' # s) (braced k) v = (n @ [CHR ''}'']) @ ReplaceAll s (braced k) v"
    using ReplaceAll_skip [OF braced_start, of "n @ [CHR ''}'']" s k v] assms Dollar by (auto simp: special_def)
  have "\<not> prefix (braced k) (CHR ''{'' # n @ CHR ''}'' # s)"
    using braced_later [of n k s] assms(2) Dollar by simp
  then have "ReplaceAll (CHR ''{'' # n @ CHR ''}'' # s) (braced k) v = CHR ''{'' # ReplaceAll (n @ CHR ''}'' # s) (braced k) v"
    by simp
  with skip Dollar show ?thesis by (simp add: settle_def placeholder_def braced_start)
next
  case (Braces n)
  have n: "CHR ''{'' \<notin> set n" "CHR ''}'' \<notin> set n" "CHR ''}'' \<notin> set k"
    using assms Braces by (auto simp: special_def)
  show ?thesis
  proof (cases "n = k")
    case True
    with Braces show ?thesis
      using ReplaceAll_hit [of "braced k" s v] by (simp add: settle_def braced_def)
  next
    case False
    have skip: "ReplaceAll (n @ CHR ''}'' # CHR ''}'' # s) (braced k) v = (n @ ''}}'') @ ReplaceAll s (braced k) v"
      using ReplaceAll_skip [OF braced_start, of "n @ ''}}''" s k v] n by auto
    have "\<not> prefix (braced k) (CHR ''{'' # n @ CHR ''}'' # (CHR ''}'' # s))"
        using braced_later [of n k "CHR ''}'' # s"] assms(2) Braces by simp
    then have second: "ReplaceAll (CHR ''{'' # n @ CHR ''}'' # CHR ''}'' # s) (braced k) v =
        CHR ''{'' # ReplaceAll (n @ CHR ''}'' # CHR ''}'' # s) (braced k) v" by simp
    have "\<not> prefix (braced k) (CHR ''{'' # CHR ''{'' # n @ CHR ''}'' # CHR ''}'' # s)"
      using braced_prefix [OF n(3,2), of s] False by (auto simp: braced_def)
    with second skip False Braces show ?thesis by (simp add: settle_def)
  qed
qed

lemma settle_all:
  assumes "set k \<inter> special = {}" "\<forall>p \<in> set ps. piece_ok p"
  shows "ReplaceAll (concat (map source_text ps)) (braced k) v = concat (map source_text (map (settle k v) ps))"
  using concat_ReplaceAll [of ps source_text "braced k" v "\<lambda>p. source_text (settle k v p)"] settle_piece [OF assms(1)] assms(2)
  by (simp add: comp_def)

lemma panel_text_settle:
  "m k = None \<Longrightarrow> panel_text m (settle k v p) = panel_text (m(k \<mapsto> v)) p"
  by (cases p) (auto simp: settle_def)

lemma panel_text_none: "panel_text Map.empty p = source_text p"
  by (cases p) (simp_all add: braced_def)

lemma panel_invocation_pieces:
  assumes "distinct (map fst env)" "\<forall>(k, v) \<in> set env. set k \<inter> special = {} \<and> set v \<inter> special = {}" "\<forall>p \<in> set ps. piece_ok p"
  shows "panel_invocation env (concat (map source_text ps)) = concat (map (panel_text (map_of env)) ps)"
  using assms
proof (induction env arbitrary: ps)
  case Nil
  have "map source_text ps = map (panel_text Map.empty) ps" by (simp add: panel_text_none)
  then show ?case by (simp add: panel_invocation_def del: map_eq_conv)
next
  case (Cons kv env)
  obtain k v where kv: "kv = (k, v)" by force
  have "\<forall>p \<in> set (map (settle k v) ps). piece_ok p"
    using Cons.prems kv by (auto simp: settle_def)
  with Cons.prems
  have "panel_invocation env (concat (map source_text (map (settle k v) ps))) = concat (map (panel_text (map_of env)) (map (settle k v) ps))"
    by (intro Cons.IH) auto
  moreover have "map_of env k = None"
    using Cons.prems(1) kv by (simp add: map_of_eq_None_iff)
  ultimately show ?case
    using Cons.prems kv panel_text_settle [of "map_of env" k v] by (simp add: panel_invocation_def settle_all comp_def fun_upd_def)
qed

lemma map_of_permuted: "mset xs = mset ys \<Longrightarrow> distinct (map fst xs) \<Longrightarrow> map_of xs = map_of ys"
  by (metis map_of_eqI mset_eq_imp_distinct_iff mset_eq_setD mset_map map_of_inject_set)


section \<open>Units\<close>

text \<open>How a daemon reads the build of a configuration (\<open>Limits\<close>).\<close>

definition daemon_limits :: "build_conf \<Rightarrow> limits" where
  "daemon_limits b =
     \<lparr>MemoryLimit = bc_memory_limit b, Swap = bc_swap b, IoWeight = nat (bc_io_weight b), CpuLimit = bc_cpu_limit b,
      limit_DiskSpace = bc_disk_space b, Threads = (case bc_threads b of Some t \<Rightarrow> t | None \<Rightarrow> []), OOMKiller = bc_oom_killer b\<rparr>"

text \<open>C39: The panel sends memory and disk space in bytes, and the daemon takes them for mebibytes: what a server is given is a
  million times what was set for it.\<close>

theorem limits_scaled_twice:
  assumes "0 \<le> ps_Memory s" "ps_Memory s < 2 ^ 22" "0 \<le> ps_Disk s" "ps_Disk s < 2 ^ 22"
  shows "res_MemoryReservation (AsContainerResources bounded pids (daemon_limits (sc_build (buildServerConfig J s g vs ws as)))) =
      1048576 * (1048576 * ps_Memory s) \<and>
    DiskSpace (daemon_limits (sc_build (buildServerConfig J s g vs ws as))) = 1048576 * (1048576 * ps_Disk s)"
proof -
  have "wrap64 (m * 1048576) = m * 1048576" "wrap64 (m * 1048576 * 1024 * 1024) = m * 1048576 * 1024 * 1024"
    if "0 \<le> m" "m < 2 ^ 22" for m
    using that by (auto intro!: wrap64_id simp: in_i64_def)
  with assms show ?thesis
    by (simp add: buildServerConfig_def Let_def daemon_limits_def AsContainerResources_def DiskSpace_def miBToBytes_def)
qed

section \<open>Reports\<close>

text \<open>C40: A report of a successful installation, by any node, lifts the suspension of a server, whichever node it is on.\<close>

theorem report_lifts_suspension:
  assumes "steady (db_servers D) servers" "lawful (db_servers D) servers" "distinct (map ps_UUID (servers d))" "s \<in> set (servers d)"
    "ps_Status s = Some ''suspended''" "install_Store D now nodeID (ps_UUID s) (Some \<lparr>ir_Successful = True, ir_Reinstall = again\<rparr>) d = (reply, d')"
    "servers d' \<noteq> servers d"
  shows "reply = Reply 204 () \<and> s\<lparr>ps_Status := None, ps_InstalledAt := Some now\<rparr> \<in> set (servers d')"
proof -
  have "tb_First (db_servers D) (\<lambda>x. ps_UUID x = ps_UUID s) d = Some s"
    using assms(1) find_unique [OF assms(3,4)] by (simp add: steady_def)
  with assms(6) have d': "reply = Reply 204 ()"
    "d' = tb_Update (db_servers D) (\<lambda>x. ps_ID x = ps_ID s) (\<lambda>_. s\<lparr>ps_Status := None, ps_InstalledAt := Some now\<rparr>) d"
    by (auto simp: install_Store_def after_install_def)
  then have "servers d' = map (\<lambda>x. if ps_ID x = ps_ID s then s\<lparr>ps_Status := None, ps_InstalledAt := Some now\<rparr> else x) (servers d)"
    using lawful_Update [OF assms(2)] assms(7) by auto
  with assms(4) d' show ?thesis by (auto simp: rev_image_eqI)
qed

text \<open>A user made by the application interface has no password, and an expired key is as good as any other.\<close>

lemma created_user_has_no_password:
  "user_Store D uuid (Some u) d = (Reply 201 u', d') \<Longrightarrow> us_Password u' = [] \<and> us_MFAAppSecret u' = None"
  by (auto simp: user_Store_def from_json_def Let_def split: prod.splits option.splits)

lemma expired_keys_accepted:
  assumes "tb_First (db_keys D) (\<lambda>k. ak_Identifier k = take 16 token \<and> ak_KeyType k = kind) d = Some k" "length token \<ge> 16"
    "ak_Token k = sha (drop 16 token)" "token \<noteq> []"
  shows "key_auth sha kind D (''Bearer '' @ token) d = Inr (ak_ID k, ak_UserID k)"
  using assms by (auto simp: key_auth_def extractBearerToken_def TrimPrefix_def Let_def)

text \<open>A path parameter that is not a number is a condition of the database's language: what it says decides what is deleted.\<close>

lemma deletion_takes_conditions:
  assumes "lawful (db_servers D) servers" "Atoi ident = None" "servers (server_Delete sql D ident d) \<noteq> servers d"
  shows "servers (server_Delete sql D ident d) = filter (\<lambda>s. \<not> sql ident s) (servers d)"
  using lawful_Delete [OF assms(1), of "by_param sql ps_ID ident" d] assms(2,3) by (auto simp: server_Delete_def by_param_def)

end
