(* ===== verification/PanelExamples.thy ===== *)
theory PanelExamples
  imports PanelProps
begin

text \<open>
  Examples: a database and a store of sessions in memory that keep the laws the panel relies on, and the guarantees of
  \<open>PanelProps\<close> at concrete rows.
\<close>

section \<open>A database in memory\<close>

definition memory :: "('d \<Rightarrow> 'r list) \<Rightarrow> ('r list \<Rightarrow> 'd \<Rightarrow> 'd) \<Rightarrow> ('r, 'd) table" where
  "memory get put =
     \<lparr>tb_First = (\<lambda>P d. find P (get d)), tb_Find = (\<lambda>P d. filter P (get d)), tb_Create = (\<lambda>r d. (None, put (get d @ [r]) d)),
      tb_Update = (\<lambda>P f d. put (map (\<lambda>r. if P r then f r else r) (get d)) d), tb_Delete = (\<lambda>P d. put (filter (\<lambda>r. \<not> P r) (get d)) d)\<rparr>"

lemma memory_lawful: "(\<And>x d. get (put x d) = x) \<Longrightarrow> lawful (memory get put) get"
  by (auto simp: lawful_def memory_def find_Some_iff)

lemma memory_steady: "steady (memory get put) get"
  by (simp add: steady_def memory_def)

record panel_rows =
  ro_users :: "user list"
  ro_keys :: "api_key list"
  ro_nodes :: "node list"
  ro_servers :: "panel_server list"
  ro_allocations :: "allocation list"
  ro_eggs :: "egg list"
  ro_egg_variables :: "egg_variable list"
  ro_server_variables :: "server_variable list"
  ro_mounts :: "mount_row list"
  ro_mount_eggs :: "mount_egg list"
  ro_mount_nodes :: "mount_node list"
  ro_backups :: "backup_row list"

definition example_db :: "panel_rows panel_db" where
  "example_db =
     \<lparr>db_users = memory ro_users (\<lambda>x. ro_users_update (\<lambda>_. x)), db_keys = memory ro_keys (\<lambda>x. ro_keys_update (\<lambda>_. x)),
      db_nodes = memory ro_nodes (\<lambda>x. ro_nodes_update (\<lambda>_. x)), db_servers = memory ro_servers (\<lambda>x. ro_servers_update (\<lambda>_. x)),
      db_allocations = memory ro_allocations (\<lambda>x. ro_allocations_update (\<lambda>_. x)), db_eggs = memory ro_eggs (\<lambda>x. ro_eggs_update (\<lambda>_. x)),
      db_egg_variables = memory ro_egg_variables (\<lambda>x. ro_egg_variables_update (\<lambda>_. x)),
      db_server_variables = memory ro_server_variables (\<lambda>x. ro_server_variables_update (\<lambda>_. x)),
      db_mounts = memory ro_mounts (\<lambda>x. ro_mounts_update (\<lambda>_. x)), db_mount_eggs = memory ro_mount_eggs (\<lambda>x. ro_mount_eggs_update (\<lambda>_. x)),
      db_mount_nodes = memory ro_mount_nodes (\<lambda>x. ro_mount_nodes_update (\<lambda>_. x)), db_backups = memory ro_backups (\<lambda>x. ro_backups_update (\<lambda>_. x))\<rparr>"

lemma example_lawful: "lawful (db_users example_db) ro_users" "lawful (db_nodes example_db) ro_nodes" "lawful (db_servers example_db) ro_servers"
  by (simp_all add: example_db_def memory_lawful)

lemma example_steady: "steady (db_servers example_db) ro_servers" "steady (db_egg_variables example_db) ro_egg_variables"
  "steady (db_server_variables example_db) ro_server_variables" "steady (db_allocations example_db) ro_allocations"
  "steady (db_mounts example_db) ro_mounts" "steady (db_mount_eggs example_db) ro_mount_eggs" "steady (db_mount_nodes example_db) ro_mount_nodes"
  by (simp_all add: example_db_def memory_steady)

definition example_cache :: "(string \<rightharpoonup> session) cache" where
  "example_cache =
     \<lparr>ca_Set = (\<lambda>k s t c. (True, c(k \<mapsto> s))), ca_Get = (\<lambda>k c. c k), ca_Del = (\<lambda>k c. c(k := None)), ca_Incr = (\<lambda>k c. (None, c)),
      ca_Expire = (\<lambda>k t c. c)\<rparr>"

lemma example_cache_lawful: "lawful_cache example_cache (\<lambda>c. c)"
  by (simp add: lawful_cache_def example_cache_def)

section \<open>Rows\<close>

definition example_node :: node where
  "example_node = \<lparr>nd_ID = 1, nd_UUID = ''n'', nd_Name = [], nd_FQDN = [], nd_Scheme = ''https'', nd_DaemonBase = [], nd_DaemonToken = ''s.x'',
     nd_DaemonTokenID = ''id'', nd_DaemonListen = 8080, nd_DaemonSFTP = 2022, nd_MaintenanceMode = False\<rparr>"

definition example_user :: user where
  "example_user = \<lparr>us_ID = 7, us_UUID = ''u'', us_Email = ''a@b'', us_Username = ''a'', us_Password = ''hash'', us_RememberToken = None,
     us_Language = ''en'', us_Timezone = ''UTC'', us_ExternalID = None, us_IsManagedExternally = False, us_MFAAppSecret = None,
     us_MFAEmailEnabled = False\<rparr>"

definition example_row :: panel_server where
  "example_row = \<lparr>ps_ID = 3, ps_UUID = ''s'', ps_UUIDShort = ''s'', ps_NodeID = 1, ps_OwnerID = 7, ps_Name = ''mc'', ps_Description = None,
     ps_ExternalID = None, ps_Memory = 1024, ps_Swap = 0, ps_Disk = 2048, ps_IO = 500, ps_CPU = 100, ps_Threads = None, ps_OOMKiller = True,
     ps_AllocationID = None, ps_EggID = 5, ps_Startup = ''java {{JAR}}'', ps_Image = ''java'', ps_SkipScripts = False, ps_DatabaseLimit = None,
     ps_AllocationLimit = None, ps_BackupLimit = 0, ps_Status = Some ''suspended'', ps_InstalledAt = None\<rparr>"

definition example_rows :: panel_rows where
  "example_rows = \<lparr>ro_users = [example_user], ro_keys = [], ro_nodes = [example_node], ro_servers = [example_row], ro_allocations = [],
     ro_eggs = [], ro_egg_variables = [\<lparr>ev_ID = 9, ev_EggID = 5, ev_EnvVariable = ''JAR'', ev_DefaultValue = ''server.jar''\<rparr>],
     ro_server_variables = [], ro_mounts = [\<lparr>mt_ID = 2, mt_UUID = [], mt_Name = [], mt_Source = ''/maps'', mt_Target = ''/m'', mt_ReadOnly = True\<rparr>],
     ro_mount_eggs = [\<lparr>me_MountID = 2, me_EggID = 5\<rparr>], ro_mount_nodes = [\<lparr>mn_MountID = 2, mn_NodeID = 1\<rparr>], ro_backups = []\<rparr>"

definition example_runtime :: panel_runtime where
  "example_runtime = \<lparr>rt_startup = (\<lambda>_. None), rt_files = (\<lambda>_. None), rt_variables = rev, rt_mounts = (\<lambda>is. is)\<rparr>"

section \<open>Examples\<close>

theorem nodes_show_their_token_witness: "NodeAuth example_db ''Bearer id.s.x'' example_rows = Inr (1, ''n'') \<and> (\<exists>n \<in> set (ro_nodes example_rows). nd_ID n = 1)"
proof -
  have auth: "NodeAuth example_db ''Bearer id.s.x'' example_rows = Inr (1, ''n'')"
    by (simp add: NodeAuth_def extractBearerToken_def TrimPrefix_def SplitN2_def example_db_def memory_def example_rows_def example_node_def)
  from nodes_show_their_token [OF example_lawful(2) this] auth show ?thesis by auto
qed

theorem daemon_is_recognised_witness: "NodeAuth example_db ''Bearer id.s.x'' example_rows = Inr (nd_ID example_node, nd_UUID example_node)"
proof (rule daemon_is_recognised [OF example_lawful(2)])
  show "example_node \<in> set (ro_nodes example_rows)" by (simp add: example_rows_def)
  show "CHR ''.'' \<notin> set (nd_DaemonTokenID example_node)" by (simp add: example_node_def)
  show "m = example_node" if "m \<in> set (ro_nodes example_rows)" for m using that by (simp add: example_rows_def)
  show "tb_First (db_nodes example_db) (\<lambda>m. nd_DaemonTokenID m = nd_DaemonTokenID example_node) example_rows \<noteq> None"
    by (simp add: example_db_def memory_def example_rows_def)
  show "request_headers (NewClient ''https://panel'' (nd_DaemonTokenID example_node) (nd_DaemonToken example_node) ''1'' []) ''Authorization'' =
      Some ''Bearer id.s.x''"
    by code_simp
qed

definition example_verify :: "string \<Rightarrow> string \<Rightarrow> bool" where
  "example_verify p h \<longleftrightarrow> p = ''secret'' \<and> h = ''hash''"

theorem sessions_need_passwords_witness:
  "\<exists>c. Login example_verify example_db example_cache 100 ''i'' ''a@b'' ''secret'' example_rows Map.empty =
      (LoggedIn \<lparr>se_ID = ''i'', se_UserID = 7, se_Username = ''a'', se_CreatedAt = 100, se_ExpiresAt = 86500\<rparr>, c) \<and>
    RequireAuth example_cache 200 (Some ''i'') c = (True, c) \<and> (\<exists>(u :: user) p. se_UserID (the (c (session_key ''i''))) = us_ID u \<and> example_verify p (us_Password u))"
proof -
  let ?s = "\<lparr>se_ID = ''i'', se_UserID = 7, se_Username = ''a'', se_CreatedAt = 100, se_ExpiresAt = 86500\<rparr>"
  let ?c = "[session_key ''i'' \<mapsto> ?s]"
  have login: "Login example_verify example_db example_cache 100 ''i'' ''a@b'' ''secret'' example_rows Map.empty = (LoggedIn ?s, ?c)"
    by (simp add: Login_def example_db_def memory_def example_rows_def example_user_def example_verify_def se_Create_def example_cache_def
        Lifetime_def Let_def)
  have auth: "RequireAuth example_cache 200 (Some ''i'') ?c = (True, ?c)"
    by (simp add: RequireAuth_def se_Get_def example_cache_def)
  have "panel_run example_verify example_db example_cache (\<lambda>c. c) ro_users ?c ({} \<union> logins example_verify (ro_users example_rows) ''i'' ''a@b'' ''secret'')"
    by (rule run_login [OF run_new login]) simp
  from sessions_need_passwords [OF example_cache_lawful example_lawful(1) this auth]
  obtain s u p where "(s, u, p) \<in> logins example_verify (ro_users example_rows) ''i'' ''a@b'' ''secret''" "example_verify p (us_Password u)" by auto
  then have "us_ID u = 7" "example_verify p (us_Password u)" by (auto simp: logins_def example_rows_def example_user_def)
  with login auth show ?thesis by (intro exI [of _ ?c] conjI exI [of _ u] exI [of _ p]) simp_all
qed

lemma list_uuids: "map sc_uuid (remote_List J D n d) = map ps_UUID (tb_Find (db_servers D) (\<lambda>s. ps_NodeID s = n) d)"
  by (simp add: remote_List_def Let_def buildServerConfig_def)



theorem limits_scaled_twice_witness:
  "DiskSpace (daemon_limits (sc_build (buildServerConfig example_runtime example_row no_egg [] [] []))) = 2251799813685248"
  using limits_scaled_twice [of example_row 0 0 example_runtime no_egg "[]" "[]" "[]"] by (simp add: example_row_def)

theorem report_lifts_suspension_witness:
  "\<exists>d. install_Store example_db 50 99 ''s'' (Some \<lparr>ir_Successful = True, ir_Reinstall = False\<rparr>) example_rows = (Reply 204 (), d) \<and>
    example_row\<lparr>ps_Status := None, ps_InstalledAt := Some 50\<rparr> \<in> set (ro_servers d) \<and> ps_NodeID example_row \<noteq> 99"
proof -
  obtain r d where run: "install_Store example_db 50 99 (ps_UUID example_row) (Some \<lparr>ir_Successful = True, ir_Reinstall = False\<rparr>) example_rows = (r, d)"
    by force
  moreover from run have "ro_servers d \<noteq> ro_servers example_rows"
    by (auto simp: install_Store_def example_db_def memory_def example_rows_def example_row_def after_install_def)
  ultimately show ?thesis
    using report_lifts_suspension [OF example_steady(1) example_lawful(3) _ _ _ run]
    by (simp add: example_rows_def example_row_def)
qed

end
