(* ===== verification/Spec2Isabelle.thy ===== *)
theory Spec2Isabelle
  imports Throttle Sinks Bags UfsQuota UfsDescriptors DockerPower FsFilesConfined ServerCrash ParserProps WebsocketExamples RouterFilesProps RemoteProps ManagerProps SftpExamples DownloaderProps PanelExamples
begin

text \<open>Skeleton.\<close>

end
